(* ===== verification/Prelude.thy ===== *)
theory Prelude
  imports Main "HOL-Library.Word"
begin

unbundle bit_operations_syntax

text \<open>
  What every component of the emulator shares: the exceptions the C++ code can raise, the
  type of a computation that reads and writes a state and may throw, the sequencing
  operators, and the notion of a \<^emph>\<open>frame\<close> (what a computation is certain not to disturb).

  A C++ member function that takes the object by reference becomes a value of type
  \<open>'s \<Rightarrow> (exn + 'a) \<times> 's\<close>: the state is returned even when the function throws, because
  the writes made before a C++ \<open>throw\<close> stay visible to whoever catches the exception.
  Undefined behaviour of C++ is an outcome of its own, never a made-up value.
\<close>

named_theorems exec_simps "evaluation of the sequencing operators"
named_theorems bits "definitions that unfold to operations on the bits of a word"

section \<open>Outcomes\<close>

datatype exn =
    Length_error          \<comment> \<open>std::length_error\<close>
  | Out_of_range          \<comment> \<open>std::out_of_range\<close>
  | Invalid_argument      \<comment> \<open>std::invalid_argument\<close>
  | Runtime_error string  \<comment> \<open>std::runtime_error, with its message\<close>
  | Assertion_failed      \<comment> \<open>a failed assert(...)\<close>
  | Undefined_behaviour   \<comment> \<open>C++ gives the operation no meaning\<close>

type_synonym ('s, 'a) exec = "'s \<Rightarrow> (exn + 'a) \<times> 's"

definition returnE :: "'a \<Rightarrow> ('s, 'a) exec" where
  "returnE x = (\<lambda>s. (Inr x, s))"

definition throwE :: "exn \<Rightarrow> ('s, 'a) exec" where
  "throwE e = (\<lambda>s. (Inl e, s))"

definition bindE :: "('s, 'a) exec \<Rightarrow> ('a \<Rightarrow> ('s, 'b) exec) \<Rightarrow> ('s, 'b) exec" where
  "bindE m f = (\<lambda>s. case m s of (Inl e, s') \<Rightarrow> (Inl e, s') | (Inr x, s') \<Rightarrow> f x s')"

definition getsE :: "('s \<Rightarrow> 'a) \<Rightarrow> ('s, 'a) exec" where
  "getsE f = (\<lambda>s. (Inr (f s), s))"

definition modifyE :: "('s \<Rightarrow> 's) \<Rightarrow> ('s, unit) exec" where
  "modifyE f = (\<lambda>s. (Inr (), f s))"

definition liftE :: "exn + 'a \<Rightarrow> ('s, 'a) exec" where
  "liftE r = (\<lambda>s. (r, s))"

definition whenE :: "bool \<Rightarrow> ('s, unit) exec \<Rightarrow> ('s, unit) exec" where
  "whenE c m = (if c then m else returnE ())"

fun seqE :: "('s, unit) exec list \<Rightarrow> ('s, unit) exec" where
  "seqE [] = returnE ()"
| "seqE (m # ms) = bindE m (\<lambda>_. seqE ms)"

lemma returnE_apply [simp, exec_simps]: "returnE x s = (Inr x, s)"
  by (simp add: returnE_def)

lemma throwE_apply [simp, exec_simps]: "throwE e s = (Inl e, s)"
  by (simp add: throwE_def)

lemma getsE_apply [simp, exec_simps]: "getsE f s = (Inr (f s), s)"
  by (simp add: getsE_def)

lemma modifyE_apply [simp, exec_simps]: "modifyE f s = (Inr (), f s)"
  by (simp add: modifyE_def)

lemma liftE_apply [simp, exec_simps]: "liftE r s = (r, s)"
  by (simp add: liftE_def)

lemma whenE_apply [simp, exec_simps]:
  "whenE c m s = (if c then m s else (Inr (), s))"
  by (simp add: whenE_def)

lemma bindE_apply:
  "bindE m f s = (case m s of (Inl e, s') \<Rightarrow> (Inl e, s') | (Inr x, s') \<Rightarrow> f x s')"
  by (simp add: bindE_def)

lemma bindE_Inr [simp, exec_simps]: "m s = (Inr x, s') \<Longrightarrow> bindE m f s = f x s'"
  by (simp add: bindE_def)

lemma bindE_Inl [simp, exec_simps]: "m s = (Inl e, s') \<Longrightarrow> bindE m f s = (Inl e, s')"
  by (simp add: bindE_def)

text \<open>A sequence that ends normally ran both its parts normally.\<close>

lemma bindE_InrE:
  assumes "bindE m f s = (Inr y, t)"
  obtains x s' where "m s = (Inr x, s')" and "f x s' = (Inr y, t)"
proof (cases "m s")
  case (Pair r s')
  with assms show ?thesis by (cases r) (auto simp: bindE_def intro: that)
qed

lemma bindE_return [simp]: "bindE (returnE x) f = f x"
  by (simp add: bindE_def returnE_def fun_eq_iff)

lemma bindE_throw [simp]: "bindE (throwE e) f = throwE e"
  by (simp add: bindE_def throwE_def fun_eq_iff)

lemma bindE_assoc: "bindE (bindE m f) g = bindE m (\<lambda>x. bindE (f x) g)"
  by (auto simp: bindE_def fun_eq_iff split: prod.splits sum.splits)

lemma seqE_append: "seqE (ms @ ns) = bindE (seqE ms) (\<lambda>_. seqE ns)"
  by (induction ms) (simp_all add: bindE_assoc)

section \<open>Text on a stream\<close>

text \<open>What \<open>std::ostream\<close> makes of an unsigned number in its default format, of \<open>std::endl\<close>, and a tab.\<close>

definition digit :: "nat \<Rightarrow> char" where
  "digit d = ''0123456789'' ! d"

fun decimal :: "nat \<Rightarrow> string" where
  "decimal n = (if n < 10 then [digit n] else decimal (n div 10) @ [digit (n mod 10)])"

declare decimal.simps [simp del]

definition tab :: string where
  "tab = [CHR 0x09]"

definition endl :: string where
  "endl = [CHR 0x0A]"

lemma pad_numeral: "replicate (numeral k) x = x # replicate (pred_numeral k) x"
  by (simp add: numeral_eq_Suc)

text \<open>The digits read back are the number, so the text determines it.\<close>

definition read_decimal :: "string \<Rightarrow> nat" where
  "read_decimal = foldl (\<lambda>v ch. 10 * v + (of_char ch - 48)) 0"

lemma of_char_digit: "d < 10 \<Longrightarrow> of_char (digit d) = (48 + d :: nat)"
  by (auto simp: digit_def eval_nat_numeral less_Suc_eq)

lemma read_decimal [simp]: "read_decimal (decimal n) = n"
proof (induction n rule: decimal.induct)
  case (1 n)
  then show ?case
    by (subst decimal.simps) (auto simp: read_decimal_def of_char_digit)
qed

lemma decimal_exact: "decimal m = decimal n \<longleftrightarrow> m = n"
  by (metis read_decimal)

section \<open>Frames: what a computation leaves alone\<close>

text \<open>
  A frame is a preorder between the state before and the state after.  A computation keeps
  a frame when its final state is related to its initial one, whether it returns or throws.
  Reflexivity and transitivity of the relation are all that is needed for the sequencing
  operators to keep every frame their parts keep; the locale proves this once.
\<close>

definition keeps :: "('s \<Rightarrow> 's \<Rightarrow> bool) \<Rightarrow> ('s, 'a) exec \<Rightarrow> bool" where
  "keeps R m \<longleftrightarrow> (\<forall>s. R s (snd (m s)))"

lemma keepsD: "keeps R m \<Longrightarrow> m s = (r, s') \<Longrightarrow> R s s'"
  by (metis keeps_def snd_conv)

lemma keepsI: "(\<And>s. R s (snd (m s))) \<Longrightarrow> keeps R m"
  by (simp add: keeps_def)

named_theorems keeps_intros "rules that a frame is kept"

locale frame =
  fixes R :: "'s \<Rightarrow> 's \<Rightarrow> bool"
  assumes frame_refl: "R s s"
    and frame_trans: "R s t \<Longrightarrow> R t u \<Longrightarrow> R s u"
begin

lemma keeps_return [keeps_intros]: "keeps R (returnE x)"
  by (simp add: keeps_def frame_refl)

lemma keeps_throw [keeps_intros]: "keeps R (throwE e)"
  by (simp add: keeps_def frame_refl)

lemma keeps_gets [keeps_intros]: "keeps R (getsE f)"
  by (simp add: keeps_def frame_refl)

lemma keeps_lift [keeps_intros]: "keeps R (liftE r)"
  by (simp add: keeps_def frame_refl)

lemma keeps_bind [keeps_intros]:
  assumes "keeps R m" and "\<And>x. keeps R (f x)"
  shows "keeps R (bindE m f)"
proof (rule keepsI)
  fix s
  obtain r s' where ms: "m s = (r, s')" by (cases "m s") auto
  from assms(1) ms have 1: "R s s'" by (rule keepsD)
  show "R s (snd (bindE m f s))"
  proof (cases r)
    case (Inl e)
    with ms 1 show ?thesis by simp
  next
    case (Inr x)
    have "R s' (snd (f x s'))" using assms(2) by (simp add: keeps_def)
    with ms 1 Inr show ?thesis by (auto intro: frame_trans)
  qed
qed

lemma keeps_when [keeps_intros]: "keeps R m \<Longrightarrow> keeps R (whenE c m)"
  by (simp add: whenE_def keeps_return)

lemma keeps_if [keeps_intros]:
  "(c \<Longrightarrow> keeps R m) \<Longrightarrow> (\<not> c \<Longrightarrow> keeps R n) \<Longrightarrow> keeps R (if c then m else n)"
  by simp

lemma keeps_Let [keeps_intros]: "(\<And>x. keeps R (f x)) \<Longrightarrow> keeps R (Let v f)"
  by (simp add: Let_def)

lemma keeps_seq [keeps_intros]: "(\<And>m. m \<in> set ms \<Longrightarrow> keeps R m) \<Longrightarrow> keeps R (seqE ms)"
  by (induction ms) (auto intro: keeps_return keeps_bind)

end

text \<open>The strongest frame is equality: a computation that keeps it has no side effect.\<close>

interpretation pure_frame: frame "(=) :: 's \<Rightarrow> 's \<Rightarrow> bool"
  by unfold_locales auto

definition pureE :: "('s, 'a) exec \<Rightarrow> bool" where
  "pureE m \<longleftrightarrow> keeps (=) m"

end
