(* ===== verification/Defines.thy ===== *)
theory Defines
  imports Prelude
begin

text \<open>
  The enumerations and the constant of \<open>include/defines.hpp\<close>, and the enumerations of
  \<open>include/registers.hpp\<close>.

  An object of a C++ enumeration type can hold a value that is no enumerator: an
  uninitialised field, or the result of a \<open>static_cast\<close>.  Where the code has a
  \<open>default\<close> branch for that case the datatype has a constructor for it
  (\<open>SIZE_OTHER\<close>, \<open>REG_OTHER\<close>), so that the branch is modelled.
\<close>

datatype DataSize = SIZE_BYTE | SIZE_WORD | SIZE_LONG | SIZE_OTHER nat

text \<open>The number behind a \<open>DataSize\<close>, as it enters address arithmetic (\<open>addr += size\<close>).\<close>

fun size_val :: "DataSize \<Rightarrow> nat" where
  "size_val SIZE_BYTE = 1"
| "size_val SIZE_WORD = 2"
| "size_val SIZE_LONG = 4"
| "size_val (SIZE_OTHER n) = n"

text \<open>The sizes an instruction can have: the three enumerators.\<close>

fun proper_size :: "DataSize \<Rightarrow> bool" where
  "proper_size (SIZE_OTHER n) = False"
| "proper_size _ = True"

text \<open>\<open>(DataSize)sizeof(T)\<close>, for the template members that take the size from a C++ type.\<close>

definition size_of_nat :: "nat \<Rightarrow> DataSize" where
  "size_of_nat n =
     (if n = 1 then SIZE_BYTE else if n = 2 then SIZE_WORD
      else if n = 4 then SIZE_LONG else SIZE_OTHER n)"

text \<open>Width in bits of an operand.\<close>

definition bits_of :: "DataSize \<Rightarrow> nat" where
  "bits_of sz = 8 * size_val sz"

lemma bits_of_simps [simp]:
  "bits_of SIZE_BYTE = 8" "bits_of SIZE_WORD = 16" "bits_of SIZE_LONG = 32"
  by (simp_all add: bits_of_def)

lemma proper_size_cases [consumes 1, case_names BYTE WORD LONG]:
  assumes "proper_size sz"
  obtains "sz = SIZE_BYTE" | "sz = SIZE_WORD" | "sz = SIZE_LONG"
  using assms by (cases sz) auto

datatype AddressingMode =
    ADDR_MODE_DIRECT_DATA | ADDR_MODE_DIRECT_ADDR | ADDR_MODE_INDIRECT
  | ADDR_MODE_INDIRECT_POSTINCREMENT | ADDR_MODE_INDIRECT_PREDECREMENT
  | ADDR_MODE_INDIRECT_DISPLACEMENT | ADDR_MODE_INDIRECT_INDEX
  | ADDR_MODE_PC_DISPLACEMENT | ADDR_MODE_PC_INDEX
  | ADDR_MODE_ABS_WORD | ADDR_MODE_ABS_LONG | ADDR_MODE_IMMEDIATE
  | ADDR_MODE_UNKNOWN

datatype Condition =
    COND_TRUE | COND_FALSE | COND_HIGHER | COND_LOWER_SAME
  | COND_CARRY_CLEAR | COND_CARRY_SET | COND_NOT_EQUAL | COND_EQUAL
  | COND_OVERFLOW_CLEAR | COND_OVERFLOW_SET | COND_PLUS | COND_MINUS
  | COND_GREATER_EQUAL | COND_LESS_THAN | COND_GREATER_THAN | COND_LESS_EQUAL

definition MEMORY_SIZE :: "32 word" where
  "MEMORY_SIZE = 0x01000000"

datatype RegisterType =
    REG_D0 | REG_D1 | REG_D2 | REG_D3 | REG_D4 | REG_D5 | REG_D6 | REG_D7
  | REG_A0 | REG_A1 | REG_A2 | REG_A3 | REG_A4 | REG_A5 | REG_A6 | REG_A7
  | REG_SSP | REG_PC | REG_SR | REGS_COUNT | REG_OTHER nat

text \<open>\<open>REG_USP\<close> and \<open>REG_A7\<close> are two names of the enumerator 15.\<close>

abbreviation REG_USP :: RegisterType where
  "REG_USP \<equiv> REG_A7"

text \<open>The number of an enumerator: the index into \<open>reg_buffer\<close>.\<close>

fun reg_index :: "RegisterType \<Rightarrow> nat" where
  "reg_index REG_D0 = 0" | "reg_index REG_D1 = 1" | "reg_index REG_D2 = 2"
| "reg_index REG_D3 = 3" | "reg_index REG_D4 = 4" | "reg_index REG_D5 = 5"
| "reg_index REG_D6 = 6" | "reg_index REG_D7 = 7" | "reg_index REG_A0 = 8"
| "reg_index REG_A1 = 9" | "reg_index REG_A2 = 10" | "reg_index REG_A3 = 11"
| "reg_index REG_A4 = 12" | "reg_index REG_A5 = 13" | "reg_index REG_A6 = 14"
| "reg_index REG_A7 = 15" | "reg_index REG_SSP = 16" | "reg_index REG_PC = 17"
| "reg_index REG_SR = 18" | "reg_index REGS_COUNT = 19"
| "reg_index (REG_OTHER n) = 20 + n"

definition reg_table :: "RegisterType list" where
  "reg_table =
     [REG_D0, REG_D1, REG_D2, REG_D3, REG_D4, REG_D5, REG_D6, REG_D7,
      REG_A0, REG_A1, REG_A2, REG_A3, REG_A4, REG_A5, REG_A6, REG_A7,
      REG_SSP, REG_PC, REG_SR, REGS_COUNT]"

text \<open>\<open>static_cast<RegisterType>(n)\<close>.\<close>

definition reg_of_nat :: "nat \<Rightarrow> RegisterType" where
  "reg_of_nat n = (if n < 20 then reg_table ! n else REG_OTHER (n - 20))"

lemma reg_index_of_nat: "reg_index (reg_of_nat n) = n"
proof (cases "n < 20")
  case True
  then have "n \<in> {0..<20}" by simp
  moreover have "\<forall>k\<in>{0..<20}. reg_index (reg_table ! k) = k"
    by (simp add: reg_table_def numeral_eq_Suc atLeastLessThanSuc)
  ultimately show ?thesis using True by (simp add: reg_of_nat_def)
qed (simp add: reg_of_nat_def)

lemma reg_of_nat_index: "reg_of_nat (reg_index r) = r"
  by (cases r) (simp_all add: reg_of_nat_def reg_table_def)

lemma reg_index_inject: "reg_index r = reg_index r' \<longleftrightarrow> r = r'"
  by (metis reg_of_nat_index)

text \<open>The registers an instruction can name: the data and the address registers.\<close>

definition general_reg :: "RegisterType \<Rightarrow> bool" where
  "general_reg r \<longleftrightarrow> reg_index r < 16"

lemma general_reg_neq:
  "general_reg r \<Longrightarrow> r \<noteq> REG_SSP" "general_reg r \<Longrightarrow> r \<noteq> REG_PC" "general_reg r \<Longrightarrow> r \<noteq> REG_SR"
  by (auto simp: general_reg_def)

datatype StatusRegisterFlag =
    SR_FLAG_CARRY | SR_FLAG_OVERFLOW | SR_FLAG_ZERO | SR_FLAG_NEGATIVE
  | SR_FLAG_EXTEND | SR_FLAG_SUPERVISOR | SR_FLAG_TRACE

fun flag_bit :: "StatusRegisterFlag \<Rightarrow> nat" where
  "flag_bit SR_FLAG_CARRY = 0"
| "flag_bit SR_FLAG_OVERFLOW = 1"
| "flag_bit SR_FLAG_ZERO = 2"
| "flag_bit SR_FLAG_NEGATIVE = 3"
| "flag_bit SR_FLAG_EXTEND = 4"
| "flag_bit SR_FLAG_SUPERVISOR = 13"
| "flag_bit SR_FLAG_TRACE = 15"

lemma flag_bit_inject: "flag_bit f = flag_bit g \<longleftrightarrow> f = g"
  by (cases f; cases g; simp)

lemma flag_bit_less: "flag_bit f < 16"
  by (cases f) simp_all

end
