(* ===== verification/Helpers.thy ===== *)
theory Helpers
  imports Defines
begin

text \<open>
  The inline functions of \<open>include/helpers.hpp\<close>: bit masks, shifts and rotates, the tests on
  addressing modes, and the condition-code tests.  The C++ functions are templates over an
  unsigned type \<open>T\<close>; here they are polymorphic in the width of the word.  The masks are
  literals of type \<open>int\<close> or \<open>unsigned int\<close> that C++ converts to \<open>T\<close>, which is what a literal
  of the type \<open>'a word\<close> is; the one mask for which this is not so is \<open>MASK_ABOVE_32\<close>, whose
  complement is taken at 32 bits, before the conversion.

  The second half of the theory says what the condition-code tests mean in terms of the
  unsigned and the signed number an operand of a given size stands for.
\<close>

section \<open>Masks\<close>

definition MSB_8 :: "'a::len word \<Rightarrow> 'a word" where [bits]: "MSB_8 v = v AND 0x80"
definition MSB_16 :: "'a::len word \<Rightarrow> 'a word" where [bits]: "MSB_16 v = v AND 0x8000"
definition MSB_32 :: "'a::len word \<Rightarrow> 'a word" where [bits]: "MSB_32 v = v AND 0x80000000"

definition MASK_8 :: "'a::len word \<Rightarrow> 'a word" where [bits]: "MASK_8 v = v AND 0xff"
definition MASK_9 :: "'a::len word \<Rightarrow> 'a word" where [bits]: "MASK_9 v = v AND 0x1ff"
definition MASK_16 :: "'a::len word \<Rightarrow> 'a word" where [bits]: "MASK_16 v = v AND 0xffff"
definition MASK_17 :: "'a::len word \<Rightarrow> 'a word" where [bits]: "MASK_17 v = v AND 0x1ffff"
definition MASK_32 :: "'a::len word \<Rightarrow> 'a word" where [bits]: "MASK_32 v = v AND 0xffffffff"
definition MASK_33 :: "'a::len word \<Rightarrow> 'a word" where [bits]: "MASK_33 v = v AND 0x1ffffffff"

definition MASK_ABOVE_8 :: "'a::len word \<Rightarrow> 'a word" where
  [bits]: "MASK_ABOVE_8 v = v AND NOT 0xff"
definition MASK_ABOVE_16 :: "'a::len word \<Rightarrow> 'a word" where
  [bits]: "MASK_ABOVE_16 v = v AND NOT 0xffff"
definition MASK_ABOVE_32 :: "'a::len word \<Rightarrow> 'a word" where
  [bits]: "MASK_ABOVE_32 v = v AND ucast (NOT 0xffffffff :: 32 word)"

definition MASK_LOW_BYTE :: "'a::len word \<Rightarrow> 'a word" where [bits]: "MASK_LOW_BYTE v = v AND 0x0f"
definition MASK_HIGH_BYTE :: "'a::len word \<Rightarrow> 'a word" where [bits]: "MASK_HIGH_BYTE v = v AND 0xf0"

definition MASK_ADDR :: "'a::len word \<Rightarrow> 'a word" where [bits]: "MASK_ADDR v = v AND 0x00ffffff"

section \<open>Shifts and rotates\<close>

text \<open>
  Only the instance at \<open>uint64_t\<close> is used.  Shifting a 64-bit value by 64 or more is undefined
  behaviour, and the rotates reach it: \<open>9 - b\<close> wraps around when \<open>b > 9\<close>.
\<close>

definition LSL :: "64 word \<Rightarrow> 64 word \<Rightarrow> ('s, 64 word) exec" where
  "LSL a b = (if b < 64 then returnE (push_bit (unat b) a) else throwE Undefined_behaviour)"

definition LSR :: "64 word \<Rightarrow> 64 word \<Rightarrow> ('s, 64 word) exec" where
  "LSR a b = (if b < 64 then returnE (drop_bit (unat b) a) else throwE Undefined_behaviour)"

definition ROL_8 :: "64 word \<Rightarrow> 64 word \<Rightarrow> ('s, 64 word) exec" where
  "ROL_8 a b = bindE (LSL a b) (\<lambda>x. bindE (LSR a (8 - b)) (\<lambda>y. returnE (MASK_8 (x OR y))))"
definition ROL_9 :: "64 word \<Rightarrow> 64 word \<Rightarrow> ('s, 64 word) exec" where
  "ROL_9 a b = bindE (LSL a b) (\<lambda>x. bindE (LSR a (9 - b)) (\<lambda>y. returnE (MASK_9 (x OR y))))"
definition ROL_16 :: "64 word \<Rightarrow> 64 word \<Rightarrow> ('s, 64 word) exec" where
  "ROL_16 a b = bindE (LSL a b) (\<lambda>x. bindE (LSR a (16 - b)) (\<lambda>y. returnE (MASK_16 (x OR y))))"
definition ROL_17 :: "64 word \<Rightarrow> 64 word \<Rightarrow> ('s, 64 word) exec" where
  "ROL_17 a b = bindE (LSL a b) (\<lambda>x. bindE (LSR a (17 - b)) (\<lambda>y. returnE (MASK_17 (x OR y))))"
definition ROL_32 :: "64 word \<Rightarrow> 64 word \<Rightarrow> ('s, 64 word) exec" where
  "ROL_32 a b = bindE (LSL a b) (\<lambda>x. bindE (LSR a (32 - b)) (\<lambda>y. returnE (MASK_32 (x OR y))))"
definition ROL_33 :: "64 word \<Rightarrow> 64 word \<Rightarrow> ('s, 64 word) exec" where
  "ROL_33 a b = bindE (LSL a b) (\<lambda>x. bindE (LSR a (33 - b)) (\<lambda>y. returnE (MASK_33 (x OR y))))"

definition ROR_8 :: "64 word \<Rightarrow> 64 word \<Rightarrow> ('s, 64 word) exec" where
  "ROR_8 a b = bindE (LSR a b) (\<lambda>x. bindE (LSL a (8 - b)) (\<lambda>y. returnE (MASK_8 (x OR y))))"
definition ROR_9 :: "64 word \<Rightarrow> 64 word \<Rightarrow> ('s, 64 word) exec" where
  "ROR_9 a b = bindE (LSR a b) (\<lambda>x. bindE (LSL a (9 - b)) (\<lambda>y. returnE (MASK_9 (x OR y))))"
definition ROR_16 :: "64 word \<Rightarrow> 64 word \<Rightarrow> ('s, 64 word) exec" where
  "ROR_16 a b = bindE (LSR a b) (\<lambda>x. bindE (LSL a (16 - b)) (\<lambda>y. returnE (MASK_16 (x OR y))))"
definition ROR_17 :: "64 word \<Rightarrow> 64 word \<Rightarrow> ('s, 64 word) exec" where
  "ROR_17 a b = bindE (LSR a b) (\<lambda>x. bindE (LSL a (17 - b)) (\<lambda>y. returnE (MASK_17 (x OR y))))"
definition ROR_32 :: "64 word \<Rightarrow> 64 word \<Rightarrow> ('s, 64 word) exec" where
  "ROR_32 a b = bindE (LSR a b) (\<lambda>x. bindE (LSL a (32 - b)) (\<lambda>y. returnE (MASK_32 (x OR y))))"
definition ROR_33 :: "64 word \<Rightarrow> 64 word \<Rightarrow> ('s, 64 word) exec" where
  "ROR_33 a b = bindE (LSR a b) (\<lambda>x. bindE (LSL a (33 - b)) (\<lambda>y. returnE (MASK_33 (x OR y))))"

text \<open>
  The next four functions are declared with result type \<open>bool\<close>, so what they return is only
  whether the masked or rotated value is non-zero.
\<close>

fun MASK_sized :: "'a::len word \<Rightarrow> DataSize \<Rightarrow> bool" where
  "MASK_sized v SIZE_BYTE = (MASK_8 v \<noteq> 0)"
| "MASK_sized v SIZE_WORD = (MASK_16 v \<noteq> 0)"
| "MASK_sized v SIZE_LONG = (MASK_32 v \<noteq> 0)"
| "MASK_sized v (SIZE_OTHER _) = False"

fun MASK_ABOVE_sized :: "'a::len word \<Rightarrow> DataSize \<Rightarrow> bool" where
  "MASK_ABOVE_sized v SIZE_BYTE = (MASK_ABOVE_8 v \<noteq> 0)"
| "MASK_ABOVE_sized v SIZE_WORD = (MASK_ABOVE_16 v \<noteq> 0)"
| "MASK_ABOVE_sized v SIZE_LONG = (MASK_ABOVE_32 v \<noteq> 0)"
| "MASK_ABOVE_sized v (SIZE_OTHER _) = False"

fun ROL :: "64 word \<Rightarrow> 64 word \<Rightarrow> DataSize \<Rightarrow> ('s, bool) exec" where
  "ROL a b SIZE_BYTE = bindE (ROL_8 a b) (\<lambda>r. returnE (r \<noteq> 0))"
| "ROL a b SIZE_WORD = bindE (ROL_16 a b) (\<lambda>r. returnE (r \<noteq> 0))"
| "ROL a b SIZE_LONG = bindE (ROL_32 a b) (\<lambda>r. returnE (r \<noteq> 0))"
| "ROL a b (SIZE_OTHER _) = returnE False"

fun ROR :: "64 word \<Rightarrow> 64 word \<Rightarrow> DataSize \<Rightarrow> ('s, bool) exec" where
  "ROR a b SIZE_BYTE = bindE (ROR_8 a b) (\<lambda>r. returnE (r \<noteq> 0))"
| "ROR a b SIZE_WORD = bindE (ROR_16 a b) (\<lambda>r. returnE (r \<noteq> 0))"
| "ROR a b SIZE_LONG = bindE (ROR_32 a b) (\<lambda>r. returnE (r \<noteq> 0))"
| "ROR a b (SIZE_OTHER _) = returnE False"

section \<open>Classes of addressing modes\<close>

definition IS_MEMORY_ALTERABLE :: "AddressingMode \<Rightarrow> bool" where
  "IS_MEMORY_ALTERABLE m \<longleftrightarrow> \<not> (
     m = ADDR_MODE_UNKNOWN \<or>
     m = ADDR_MODE_PC_DISPLACEMENT \<or>
     m = ADDR_MODE_PC_INDEX \<or>
     m = ADDR_MODE_IMMEDIATE)"

definition IS_DATA_ALTERABLE :: "AddressingMode \<Rightarrow> bool" where
  "IS_DATA_ALTERABLE m \<longleftrightarrow> \<not> (
     m = ADDR_MODE_UNKNOWN \<or>
     m = ADDR_MODE_DIRECT_ADDR \<or>
     m = ADDR_MODE_PC_DISPLACEMENT \<or>
     m = ADDR_MODE_PC_INDEX \<or>
     m = ADDR_MODE_IMMEDIATE)"

definition IS_CONTROL_ADDR :: "AddressingMode \<Rightarrow> bool" where
  "IS_CONTROL_ADDR m \<longleftrightarrow> \<not> (
     m = ADDR_MODE_UNKNOWN \<or>
     m = ADDR_MODE_DIRECT_DATA \<or>
     m = ADDR_MODE_DIRECT_ADDR \<or>
     m = ADDR_MODE_INDIRECT_POSTINCREMENT \<or>
     m = ADDR_MODE_INDIRECT_PREDECREMENT \<or>
     m = ADDR_MODE_IMMEDIATE)"

section \<open>Condition-code tests\<close>

fun IS_NEGATIVE :: "'a::len word \<Rightarrow> DataSize \<Rightarrow> bool" where
  "IS_NEGATIVE v SIZE_BYTE = (MSB_8 v \<noteq> 0)"
| "IS_NEGATIVE v SIZE_WORD = (MSB_16 v \<noteq> 0)"
| "IS_NEGATIVE v SIZE_LONG = (MSB_32 v \<noteq> 0)"
| "IS_NEGATIVE v (SIZE_OTHER _) = False"

fun IS_ZERO :: "'a::len word \<Rightarrow> DataSize \<Rightarrow> bool" where
  "IS_ZERO v SIZE_BYTE = (MASK_8 v = 0)"
| "IS_ZERO v SIZE_WORD = (MASK_16 v = 0)"
| "IS_ZERO v SIZE_LONG = (MASK_32 v = 0)"
| "IS_ZERO v (SIZE_OTHER _) = False"

fun IS_OVERFLOW :: "32 word \<Rightarrow> 32 word \<Rightarrow> DataSize \<Rightarrow> bool" where
  "IS_OVERFLOW a b SIZE_BYTE = (MSB_8 a = MSB_8 b \<and> MSB_8 a \<noteq> MSB_8 (a + b))"
| "IS_OVERFLOW a b SIZE_WORD = (MSB_16 a = MSB_16 b \<and> MSB_16 a \<noteq> MSB_16 (a + b))"
| "IS_OVERFLOW a b SIZE_LONG = (MSB_32 a = MSB_32 b \<and> MSB_32 a \<noteq> MSB_32 (a + b))"
| "IS_OVERFLOW a b (SIZE_OTHER _) = False"

fun IS_CARRY :: "'a::len word \<Rightarrow> DataSize \<Rightarrow> bool" where
  "IS_CARRY v SIZE_BYTE = (v > MASK_8 v)"
| "IS_CARRY v SIZE_WORD = (v > MASK_16 v)"
| "IS_CARRY v SIZE_LONG = (v > MASK_32 v)"
| "IS_CARRY v (SIZE_OTHER _) = False"

section \<open>What the tests mean\<close>

text \<open>
  \<open>uval sz v\<close> and \<open>sval sz v\<close> are the unsigned and the two's complement number that the low
  \<open>bits_of sz\<close> bits of \<open>v\<close> stand for.
\<close>

definition uval :: "DataSize \<Rightarrow> 'a::len word \<Rightarrow> int" where
  "uval sz v = take_bit (bits_of sz) (uint v)"

definition sval :: "DataSize \<Rightarrow> 'a::len word \<Rightarrow> int" where
  "sval sz v = signed_take_bit (bits_of sz - 1) (uint v)"

lemma mask_eq_take_bit:
  fixes v :: "'a::len word"
  shows "MASK_8 v = take_bit 8 v" "MASK_9 v = take_bit 9 v" "MASK_16 v = take_bit 16 v"
    "MASK_17 v = take_bit 17 v" "MASK_32 v = take_bit 32 v" "MASK_33 v = take_bit 33 v"
    "MASK_ADDR v = take_bit 24 v"
  by (simp_all add: MASK_8_def MASK_9_def MASK_16_def MASK_17_def MASK_32_def MASK_33_def
      MASK_ADDR_def take_bit_eq_mask mask_eq_exp_minus_1)

lemma msb_eq_bit:
  fixes v :: "'a::len word"
  shows "MSB_8 v \<noteq> 0 \<longleftrightarrow> bit v 7" "MSB_16 v \<noteq> 0 \<longleftrightarrow> bit v 15" "MSB_32 v \<noteq> 0 \<longleftrightarrow> bit v 31"
  by (simp_all add: MSB_8_def MSB_16_def MSB_32_def bit_iff_and_push_bit_not_eq_0 push_bit_eq_mult)

lemma and_exp_eq:
  fixes v :: "'a::len word"
  shows "v AND push_bit n 1 = (if bit v n then push_bit n 1 else 0)"
  by (rule bit_word_eqI) (auto simp: bit_simps dest: bit_imp_le_length)

lemma msb_32:
  fixes v :: "32 word"
  shows "MSB_8 v = (if bit v 7 then 0x80 else 0)" "MSB_16 v = (if bit v 15 then 0x8000 else 0)"
    "MSB_32 v = (if bit v 31 then 0x80000000 else 0)"
  using and_exp_eq [of v 7] and_exp_eq [of v 15] and_exp_eq [of v 31]
  by (simp_all add: MSB_8_def MSB_16_def MSB_32_def push_bit_eq_mult)

lemma IS_NEGATIVE_bit:
  "proper_size sz \<Longrightarrow> IS_NEGATIVE v sz \<longleftrightarrow> bit v (bits_of sz - 1)"
  by (cases sz) (simp_all add: msb_eq_bit)

lemma IS_ZERO_uval: "proper_size sz \<Longrightarrow> IS_ZERO v sz \<longleftrightarrow> uval sz v = 0"
  by (cases sz) (simp_all add: mask_eq_take_bit uval_def uint_0_iff flip: unsigned_take_bit_eq)

lemma sval_neg: "proper_size sz \<Longrightarrow> IS_NEGATIVE v sz \<longleftrightarrow> sval sz v < 0"
  by (cases sz) (auto simp: msb_eq_bit sval_def bit_uint_iff dest: bit_imp_le_length)

lemma IS_CARRY_uint:
  fixes v :: "64 word"
  assumes "proper_size sz"
  shows "IS_CARRY v sz \<longleftrightarrow> 2 ^ bits_of sz \<le> uint v"
proof -
  have *: "take_bit n (uint v) < uint v \<longleftrightarrow> 2 ^ n \<le> uint v" for n
  proof (cases "2 ^ n \<le> uint v")
    case True
    moreover have "take_bit n (uint v) < 2 ^ n" by simp
    ultimately show ?thesis by linarith
  next
    case False
    then have "take_bit n (uint v) = uint v" by (simp add: take_bit_int_eq_self)
    with False show ?thesis by simp
  qed
  show ?thesis using assms *
    by (cases sz) (simp_all add: mask_eq_take_bit word_less_def unsigned_take_bit_eq)
qed

lemma bit_uval:
  fixes v :: "32 word"
  assumes "proper_size sz"
  shows "bit v (bits_of sz - 1) \<longleftrightarrow> 2 ^ (bits_of sz - 1) \<le> uval sz v"
proof -
  have *: "bit x n \<longleftrightarrow> 2 ^ n \<le> take_bit (Suc n) x" for x :: int and n
    using take_bit_int_less_exp [of n x] take_bit_nonnegative [of n x] by (auto simp: take_bit_Suc_from_most not_le)
  show ?thesis using assms * [of "uint v" "bits_of sz - 1"]
    by (cases sz) (simp_all add: uval_def bit_uint_iff)
qed

lemma sval_uval:
  fixes v :: "32 word"
  assumes "proper_size sz"
  shows "sval sz v = (if 2 ^ (bits_of sz - 1) \<le> uval sz v then uval sz v - 2 ^ bits_of sz else uval sz v)"
  using assms bit_uval [OF assms, of v]
  by (cases sz) (auto simp: sval_def uval_def signed_take_bit_eq_take_bit_minus bit_uint_iff)

lemma uval_bounds: "0 \<le> uval sz v" "uval sz v < 2 ^ bits_of sz"
  by (simp_all add: uval_def)

lemma uval_add:
  fixes v w :: "32 word"
  assumes "proper_size sz"
  shows "uval sz (v + w) = (uval sz v + uval sz w) mod 2 ^ bits_of sz"
    and "uval sz (v - w) = (uval sz v - uval sz w) mod 2 ^ bits_of sz"
  using assms
  by (cases sz; simp add: uval_def uint_word_ariths take_bit_eq_mod mod_simps mod_mod_cancel)+

lemma overflow_int:
  fixes x y M :: int
  assumes "0 \<le> x" "x < 2 * M" "0 \<le> y" "y < 2 * M" "z = (x + y) mod (2 * M)"
  shows "((M \<le> x) = (M \<le> y) \<and> (M \<le> x) \<noteq> (M \<le> z)) \<longleftrightarrow>
    (if M \<le> z then z - 2 * M else z) \<noteq>
    (if M \<le> x then x - 2 * M else x) + (if M \<le> y then y - 2 * M else y)"
proof -
  have "(x + y) mod (2 * M) = x + y - 2 * M" if "2 * M \<le> x + y"
    using that assms minus_mod_self2 [of "x + y" "2 * M"]
    by (simp add: mod_pos_pos_trivial del: minus_mod_self2)
  then have "z = x + y \<and> x + y < 2 * M \<or> z = x + y - 2 * M \<and> 2 * M \<le> x + y"
    using assms by (cases "x + y < 2 * M") (auto simp: mod_pos_pos_trivial)
  then show ?thesis using assms by (auto split: if_splits)
qed

lemma IS_OVERFLOW_sval:
  assumes "proper_size sz"
  shows "IS_OVERFLOW a b sz \<longleftrightarrow> sval sz (a + b) \<noteq> sval sz a + sval sz b"
proof -
  let ?M = "2 ^ (bits_of sz - 1) :: int"
  have M: "2 ^ bits_of sz = 2 * ?M" using assms by (cases sz) simp_all
  have "IS_OVERFLOW a b sz \<longleftrightarrow>
    (bit a (bits_of sz - 1) = bit b (bits_of sz - 1) \<and>
     bit a (bits_of sz - 1) \<noteq> bit (a + b) (bits_of sz - 1))"
    using assms by (cases sz) (simp_all add: msb_32)
  then show ?thesis
    using overflow_int [of "uval sz a" ?M "uval sz b" "uval sz (a + b)"] uval_bounds [of sz a]
      uval_bounds [of sz b] uval_add(1) [OF assms, of a b]
    unfolding bit_uval [OF assms] sval_uval [OF assms] M by simp
qed

text \<open>The carry test on a 64-bit copy of a 32-bit sum or difference of two operands.\<close>

definition fits :: "DataSize \<Rightarrow> 32 word \<Rightarrow> bool" where
  "fits sz v \<longleftrightarrow> uint v < 2 ^ bits_of sz"

lemma fits_uval: "fits sz v \<Longrightarrow> uval sz v = uint v"
  by (simp add: fits_def uval_def take_bit_int_eq_self)

lemma IS_CARRY_add:
  assumes "sz = SIZE_BYTE \<or> sz = SIZE_WORD" and "fits sz a" and "fits sz b"
  shows "IS_CARRY (ucast (a + b) :: 64 word) sz \<longleftrightarrow> 2 ^ bits_of sz \<le> uval sz a + uval sz b"
  using assms unfolding fits_uval [OF assms(2)] fits_uval [OF assms(3)] fits_def
  by (auto simp: IS_CARRY_uint uint_up_ucast is_up uint_word_ariths simp del: IS_CARRY.simps)

lemma borrow_int:
  fixes x y d P :: int
  assumes "d = (if x \<le> y then y - x else y - x + 2 ^ 32)"
    and "0 \<le> x" "0 \<le> y" "x < P" "y < P" "P \<le> 2 ^ 16"
  shows "P \<le> d \<longleftrightarrow> y < x"
  using assms by (cases "x \<le> y") simp_all

lemma IS_CARRY_sub:
  assumes "sz = SIZE_BYTE \<or> sz = SIZE_WORD" and "fits sz a" and "fits sz b"
  shows "IS_CARRY (ucast (b - a) :: 64 word) sz \<longleftrightarrow> uval sz b < uval sz a"
proof -
  have "uint (b - a) = (if uint a \<le> uint b then uint b - uint a else uint b - uint a + 2 ^ 32)"
    by (simp add: uint_sub_if')
  moreover have "0 \<le> uint a" "0 \<le> uint b" by simp_all
  moreover have "uint a < 2 ^ bits_of sz" "uint b < 2 ^ bits_of sz" "bits_of sz \<le> 16" "proper_size sz"
    using assms by (auto simp: fits_def)
  moreover have "(2::int) ^ bits_of sz \<le> 2 ^ 16"
    using \<open>bits_of sz \<le> 16\<close> by (intro power_increasing) auto
  ultimately have "2 ^ bits_of sz \<le> uint (b - a) \<longleftrightarrow> uint b < uint a"
    by (intro borrow_int)
  with \<open>proper_size sz\<close> show ?thesis
    by (simp add: IS_CARRY_uint uint_up_ucast is_up fits_uval [OF assms(2)] fits_uval [OF assms(3)]
        del: IS_CARRY.simps)
qed

lemma IS_CARRY_long: "\<not> IS_CARRY (ucast (v :: 32 word) :: 64 word) SIZE_LONG"
  using uint_lt2p [of v] by (simp add: IS_CARRY_uint uint_up_ucast is_up del: IS_CARRY.simps)


end
