(* ===== verification/Registers.thy ===== *)
theory Registers
  imports Helpers
begin

text \<open>
  \<open>include/registers.hpp\<close> and \<open>src/registers.cpp\<close>: the register file.  The class keeps one array
  \<open>reg_buffer\<close> of 19 words, overlaid by a union with named fields; the array is a function
  from the enumerators to words, and the overlaid views are functions of it.  The bit fields
  of the status register are laid out from the least significant bit, as on the little-endian
  hosts the library is built for, so that \<open>sr.supervisor\<close> is bit 13.
\<close>

record Registers =
  reg_buffer :: "RegisterType \<Rightarrow> 32 word"

definition Registers_new :: Registers where
  "Registers_new = \<lparr>reg_buffer = (\<lambda>_. 0)\<rparr>"

definition supervisor :: "Registers \<Rightarrow> bool" where
  "supervisor rs = bit (reg_buffer rs REG_SR) 13"

text \<open>Which word of the array an access to a register reaches.\<close>

definition bank :: "Registers \<Rightarrow> RegisterType \<Rightarrow> RegisterType" where
  "bank rs reg_ind = (if reg_ind = REG_A7 \<and> supervisor rs then REG_SSP else reg_ind)"

definition Registers_get :: "Registers \<Rightarrow> RegisterType \<Rightarrow> DataSize \<Rightarrow> exn + 32 word" where
  "Registers_get rs reg_ind sz =
     (if \<not> reg_index reg_ind < reg_index REGS_COUNT then Inl Assertion_failed
      else let output_data = reg_buffer rs (bank rs reg_ind) in
        case sz of
          SIZE_BYTE \<Rightarrow> Inr (MASK_8 output_data)
        | SIZE_WORD \<Rightarrow> Inr (MASK_16 output_data)
        | SIZE_LONG \<Rightarrow> Inr output_data
        | SIZE_OTHER _ \<Rightarrow> Inl Length_error)"

definition Registers_set ::
  "Registers \<Rightarrow> RegisterType \<Rightarrow> DataSize \<Rightarrow> 32 word \<Rightarrow> exn + Registers" where
  "Registers_set rs reg_ind sz data =
     (if \<not> reg_index reg_ind < reg_index REGS_COUNT then Inl Assertion_failed
      else let reg_ind = bank rs reg_ind;
               reg_value = reg_buffer rs reg_ind;
               store = (\<lambda>v. let v = (if reg_ind = REG_SR then MASK_16 v else v)
                            in Inr (rs\<lparr>reg_buffer := (reg_buffer rs)(reg_ind := v)\<rparr>)) in
        case sz of
          SIZE_BYTE \<Rightarrow> store (MASK_ABOVE_8 reg_value OR MASK_8 data)
        | SIZE_WORD \<Rightarrow> store (MASK_ABOVE_16 reg_value OR MASK_16 data)
        | SIZE_LONG \<Rightarrow> store (MASK_ABOVE_32 reg_value OR MASK_32 data)
        | SIZE_OTHER _ \<Rightarrow> Inl Length_error)"

definition flag_mask :: "StatusRegisterFlag \<Rightarrow> 32 word" where
  "flag_mask f = push_bit (flag_bit f) 1"

definition Registers_get_flag :: "Registers \<Rightarrow> StatusRegisterFlag \<Rightarrow> bool" where
  "Registers_get_flag rs flag = (reg_buffer rs REG_SR AND flag_mask flag \<noteq> 0)"

definition Registers_set_flag :: "Registers \<Rightarrow> StatusRegisterFlag \<Rightarrow> bool \<Rightarrow> Registers" where
  "Registers_set_flag rs flag b =
     (let sr_value = reg_buffer rs REG_SR AND NOT (flag_mask flag);
          sr_value = (if b then sr_value OR flag_mask flag else sr_value)
      in rs\<lparr>reg_buffer := (reg_buffer rs)(REG_SR := sr_value)\<rparr>)"

text \<open>\<open>stack_ptr()\<close> returns a reference; the model returns which word it refers to.\<close>

definition stack_ptr :: "Registers \<Rightarrow> RegisterType" where
  "stack_ptr rs = (if supervisor rs then REG_SSP else REG_USP)"

text \<open>The template \<open>set_<T>\<close>; \<open>n\<close> is \<open>sizeof(T)\<close>.\<close>

definition Registers_set_T :: "Registers \<Rightarrow> RegisterType \<Rightarrow> nat \<Rightarrow> 32 word \<Rightarrow> exn + Registers" where
  "Registers_set_T rs reg_ind n val = Registers_set rs reg_ind (size_of_nat n) val"

section \<open>Reading back what was written\<close>

lemma flag_get_bit: "Registers_get_flag rs f = bit (reg_buffer rs REG_SR) (flag_bit f)"
  by (simp add: Registers_get_flag_def flag_mask_def bit_iff_and_push_bit_not_eq_0)

lemma flag_set_bit:
  "bit (reg_buffer (Registers_set_flag rs f b) REG_SR) n =
   (if n = flag_bit f then b else bit (reg_buffer rs REG_SR) n)"
proof (cases "n < 32")
  case True
  then show ?thesis
    using flag_bit_less [of f]
    by (auto simp: Registers_set_flag_def flag_mask_def Let_def bit_simps)
next
  case False
  then show ?thesis
    using flag_bit_less [of f] by (auto dest: bit_imp_le_length)
qed

lemma flag_set_other [simp]:
  "r \<noteq> REG_SR \<Longrightarrow> reg_buffer (Registers_set_flag rs f b) r = reg_buffer rs r"
  by (simp add: Registers_set_flag_def Let_def)

lemma supervisor_flag: "supervisor rs = Registers_get_flag rs SR_FLAG_SUPERVISOR"
  by (simp add: supervisor_def flag_get_bit)

lemma flag_get_set [simp]:
  "Registers_get_flag (Registers_set_flag rs f b) g = (if f = g then b else Registers_get_flag rs g)"
  by (simp add: flag_get_bit flag_set_bit flag_bit_inject)

lemma supervisor_set_flag [simp]:
  "f \<noteq> SR_FLAG_SUPERVISOR \<Longrightarrow> supervisor (Registers_set_flag rs f b) = supervisor rs"
  by (simp add: supervisor_flag)

lemma take_bit_long [simp]: "take_bit 32 (v :: 32 word) = v"
  by (simp add: take_bit_word_eq_self)

lemma Registers_get_eq:
  "proper_size sz \<Longrightarrow> reg_index r < 19 \<Longrightarrow>
   Registers_get rs r sz = Inr (take_bit (bits_of sz) (reg_buffer rs (bank rs r)))"
  by (cases sz) (simp_all add: Registers_get_def Let_def mask_eq_take_bit)

text \<open>The word a register holds after a partial write.\<close>

definition merge :: "DataSize \<Rightarrow> 32 word \<Rightarrow> 32 word \<Rightarrow> 32 word" where
  "merge sz old v = (old AND NOT (mask (bits_of sz))) OR take_bit (bits_of sz) v"

lemma bit_merge: "bit (merge sz old v) n \<longleftrightarrow> (if n < bits_of sz then bit v n else bit old n)"
  by (auto simp: merge_def bit_simps dest: bit_imp_le_length)

lemma merge_long [simp]: "merge SIZE_LONG old v = v"
  by (rule bit_word_eqI) (simp add: bit_merge)

lemma take_merge [simp]: "take_bit (bits_of sz) (merge sz old v) = take_bit (bits_of sz) v"
  by (rule bit_word_eqI) (auto simp: bit_simps bit_merge)

lemma Registers_set_eq:
  assumes "proper_size sz" and "reg_index r < 19"
  shows "Registers_set rs r sz v =
    Inr (rs\<lparr>reg_buffer := (reg_buffer rs)(bank rs r :=
      (if bank rs r = REG_SR then take_bit 16 else id) (merge sz (reg_buffer rs (bank rs r)) v))\<rparr>)"
proof -
  have m: "mask 8 = (0xff :: 32 word)" "mask 16 = (0xffff :: 32 word)" "mask 32 = (- 1 :: 32 word)"
      "(- 4294967296 :: 32 word) = 0"
    by (simp_all add: mask_eq_exp_minus_1)
  have n: "bank rs r = REG_SR \<Longrightarrow> reg_index REG_SR < 19" by simp
  show ?thesis using assms
    by (cases sz) (simp_all add: Registers_set_def Let_def mask_eq_take_bit merge_def m
        MASK_ABOVE_8_def MASK_ABOVE_16_def MASK_ABOVE_32_def)
qed

lemma Registers_set_improper:
  "\<not> proper_size sz \<or> \<not> reg_index r < 19 \<Longrightarrow> \<exists>e. Registers_set rs r sz v = Inl e"
  by (cases sz) (auto simp: Registers_set_def Let_def)

lemma Registers_set_cases:
  assumes "Registers_set rs r sz v = Inr rs'"
  obtains "proper_size sz" and "reg_index r < 19"
    and "rs' = rs\<lparr>reg_buffer := (reg_buffer rs)(bank rs r :=
      (if bank rs r = REG_SR then take_bit 16 else id) (merge sz (reg_buffer rs (bank rs r)) v))\<rparr>"
proof -
  have p: "proper_size sz" and r: "reg_index r < 19"
    using assms Registers_set_improper [of sz r rs v] by fastforce+
  with assms show ?thesis by (auto simp: Registers_set_eq intro: that)
qed

lemma bank_simps [simp]:
  "bank rs REG_PC = REG_PC" "bank rs REG_SR = REG_SR" "bank rs REG_SSP = REG_SSP"
  by (simp_all add: bank_def)

lemma bank_not [simp]: "general_reg r \<Longrightarrow> bank rs r \<noteq> REG_PC" "general_reg r \<Longrightarrow> bank rs r \<noteq> REG_SR"
  "general_reg r \<Longrightarrow> REG_PC \<noteq> bank rs r" "general_reg r \<Longrightarrow> REG_SR \<noteq> bank rs r"
  by (auto simp: bank_def general_reg_def)

lemma bank_SR_iff: "bank rs r = REG_SR \<longleftrightarrow> r = REG_SR" "REG_SR = bank rs r \<longleftrightarrow> r = REG_SR"
  by (auto simp: bank_def)

lemma bank_idem [simp]: "bank rs (bank rs r) = bank rs r"
  by (auto simp: bank_def)

lemma supervisor_set:
  "Registers_set rs r sz v = Inr rs' \<Longrightarrow> r \<noteq> REG_SR \<Longrightarrow> supervisor rs' = supervisor rs"
  by (erule Registers_set_cases) (auto simp: supervisor_def bank_SR_iff)

lemma bank_set: "Registers_set rs r sz v = Inr rs' \<Longrightarrow> r \<noteq> REG_SR \<Longrightarrow> bank rs' q = bank rs q"
  by (simp add: bank_def supervisor_set)

text \<open>Bits 16 and up of the status register are never set: the class invariant.\<close>

definition sr_clean :: "Registers \<Rightarrow> bool" where
  "sr_clean rs \<longleftrightarrow> reg_buffer rs REG_SR < 2 ^ 16"

lemma sr_clean_bits: "sr_clean rs \<longleftrightarrow> take_bit 16 (reg_buffer rs REG_SR) = reg_buffer rs REG_SR"
  by (simp add: sr_clean_def word_less_nat_alt word_unat_eq_iff unsigned_take_bit_eq
      take_bit_nat_eq_self_iff)

lemma sr_clean_new: "sr_clean Registers_new"
  by (simp add: sr_clean_def Registers_new_def)

lemma sr_clean_set: "Registers_set rs r sz v = Inr rs' \<Longrightarrow> sr_clean rs \<Longrightarrow> sr_clean rs'"
  by (erule Registers_set_cases) (auto simp: sr_clean_bits)

lemma sr_clean_set_flag: "sr_clean rs \<Longrightarrow> sr_clean (Registers_set_flag rs f b)"
  unfolding sr_clean_bits
  by (rule bit_word_eqI) (metis bit_take_bit_iff flag_bit_less flag_set_bit)

section \<open>Properties\<close>

text \<open>
  C30. A successful Registers::set is read back truncated to its size (the status register to 16
  bits). Each bit of the register below the size is that of the value written and each bit from
  the size up is kept, except that bits 16 and up of the status register are cleared; no other
  word of the register file changes.
\<close>

theorem register_write:
  assumes "Registers_set rs r sz v = Inr rs'"
  shows "Registers_get rs' r sz = Inr (take_bit (min (bits_of sz) (if r = REG_SR then 16 else 32)) v) \<and>
    (\<forall>n. bit (reg_buffer rs' (bank rs r)) n \<longleftrightarrow>
       (if n < bits_of sz then bit v n else bit (reg_buffer rs (bank rs r)) n) \<and> \<not> (r = REG_SR \<and> 16 \<le> n)) \<and>
    (\<forall>q. q \<noteq> bank rs r \<longrightarrow> reg_buffer rs' q = reg_buffer rs q)"
proof -
  from assms obtain p: "proper_size sz" and r: "reg_index r < 19"
    and rs': "rs' = rs\<lparr>reg_buffer := (reg_buffer rs)(bank rs r :=
      (if bank rs r = REG_SR then take_bit 16 else id) (merge sz (reg_buffer rs (bank rs r)) v))\<rparr>"
    by (rule Registers_set_cases)
  have b: "bank rs' r = bank rs r"
    using assms bank_set by (cases "r = REG_SR") auto
  have "take_bit (bits_of sz) (reg_buffer rs' (bank rs r)) =
      take_bit (min (bits_of sz) (if r = REG_SR then 16 else 32)) v"
    unfolding rs' by (rule bit_word_eqI) (auto simp: bit_simps bit_merge bank_SR_iff)
  then show ?thesis using p r b
    by (simp add: Registers_get_eq) (auto simp: rs' bit_merge bank_SR_iff bit_simps)
qed

theorem register_write_witness:
  "\<exists>rs' rs''. Registers_set Registers_new REG_A7 SIZE_WORD 0x12345 = Inr rs' \<and>
     Registers_get rs' REG_A7 SIZE_WORD = Inr 0x2345 \<and>
     Registers_set (Registers_set_flag rs' SR_FLAG_SUPERVISOR True) REG_SR SIZE_BYTE 0x1F = Inr rs'' \<and> supervisor rs''"
proof -
  obtain rs' where r: "Registers_set Registers_new REG_A7 SIZE_WORD 0x12345 = Inr rs'"
    by (simp add: Registers_set_eq)
  let ?rs = "Registers_set_flag rs' SR_FLAG_SUPERVISOR True"
  obtain rs'' where q: "Registers_set ?rs REG_SR SIZE_BYTE 0x1F = Inr rs''"
    by (simp add: Registers_set_eq)
  have "bit (reg_buffer ?rs REG_SR) 13" using supervisor_flag [of ?rs] by (simp add: supervisor_def)
  with r q register_write [OF r] register_write [OF q] show ?thesis
    by (auto simp: take_bit_eq_mod supervisor_def)
qed

text \<open>
  C31. A write to A7 goes to the supervisor stack pointer in supervisor mode and to the user stack
  pointer otherwise: its bits below the size become those of the value, the others stay, every
  other word of the register file (the stack pointer of the other mode among them) and the mode
  stay as they are, stack_ptr() refers to the word that was written, and reading A7 gives it.
\<close>

theorem stack_pointer_banking:
  assumes "Registers_set rs REG_A7 sz v = Inr rs'"
  defines "active \<equiv> if supervisor rs then REG_SSP else REG_USP"
    and "idle \<equiv> if supervisor rs then REG_USP else REG_SSP"
  shows "(\<forall>n. bit (reg_buffer rs' active) n \<longleftrightarrow> (if n < bits_of sz then bit v n else bit (reg_buffer rs active) n)) \<and>
    (\<forall>q. q \<noteq> active \<longrightarrow> reg_buffer rs' q = reg_buffer rs q) \<and> idle \<noteq> active \<and>
    supervisor rs' = supervisor rs \<and> stack_ptr rs' = active \<and>
    Registers_get rs' REG_A7 SIZE_LONG = Inr (reg_buffer rs' active)"
proof -
  have act: "bank rs REG_A7 = active" by (simp add: active_def bank_def)
  have s: "supervisor rs' = supervisor rs" using assms(1) by (rule supervisor_set) simp
  with act have b: "bank rs' REG_A7 = active" "stack_ptr rs' = active"
    by (simp_all add: bank_def stack_ptr_def active_def)
  have "active \<noteq> REG_SR" "idle \<noteq> active" by (simp_all add: active_def idle_def)
  then show ?thesis
    using assms(1) act s b by (auto elim!: Registers_set_cases simp: bit_merge Registers_get_eq)
qed

text \<open>Setting a flag changes that flag only.\<close>

theorem flags_independent:
  "Registers_get_flag (Registers_set_flag rs f b) g = (if f = g then b else Registers_get_flag rs g) \<and>
   (\<forall>r. r \<noteq> REG_SR \<longrightarrow> reg_buffer (Registers_set_flag rs f b) r = reg_buffer rs r) \<and>
   (\<forall>n. n \<noteq> flag_bit f \<longrightarrow>
     bit (reg_buffer (Registers_set_flag rs f b) REG_SR) n = bit (reg_buffer rs REG_SR) n)"
  by (simp add: flag_set_bit)

end
