(* ===== verification/Instruction.thy ===== *)
theory Instruction
  imports Registers
begin

text \<open>
  \<open>include/instructions/instruction.hpp\<close> and \<open>src/instructions/instruction.cpp\<close>: the base class of
  all instructions and the three static functions that decode fields of an opcode.  The
  classes derived from it extend the record; classes with the same fields share a record.
\<close>

record Instruction =
  opcode :: "16 word"
  is_valid :: bool

definition mode_table :: "AddressingMode list" where
  "mode_table =
     [ADDR_MODE_DIRECT_DATA, ADDR_MODE_DIRECT_ADDR, ADDR_MODE_INDIRECT,
      ADDR_MODE_INDIRECT_POSTINCREMENT, ADDR_MODE_INDIRECT_PREDECREMENT,
      ADDR_MODE_INDIRECT_DISPLACEMENT, ADDR_MODE_INDIRECT_INDEX]"

text \<open>\<open>static_cast<AddressingMode>(part_mode)\<close> is the enumerator of that number.\<close>

definition getAddressingMode :: "16 word \<Rightarrow> 16 word \<Rightarrow> AddressingMode" where
  "getAddressingMode part_mode part_reg =
     (if part_mode < 0x07 then mode_table ! unat part_mode
      else if part_reg = 0x00 then ADDR_MODE_ABS_WORD
      else if part_reg = 0x01 then ADDR_MODE_ABS_LONG
      else if part_reg = 0x02 then ADDR_MODE_PC_DISPLACEMENT
      else if part_reg = 0x03 then ADDR_MODE_PC_INDEX
      else if part_reg = 0x04 then ADDR_MODE_IMMEDIATE
      else ADDR_MODE_UNKNOWN)"

definition getRegisterType :: "16 word \<Rightarrow> 16 word \<Rightarrow> RegisterType" where
  "getRegisterType part_mode part_reg =
     (if part_mode = 0 then reg_of_nat (unat part_reg) else reg_of_nat (unat part_reg + 8))"

definition condition_table :: "Condition list" where
  "condition_table =
     [COND_TRUE, COND_FALSE, COND_HIGHER, COND_LOWER_SAME,
      COND_CARRY_CLEAR, COND_CARRY_SET, COND_NOT_EQUAL, COND_EQUAL,
      COND_OVERFLOW_CLEAR, COND_OVERFLOW_SET, COND_PLUS, COND_MINUS,
      COND_GREATER_EQUAL, COND_LESS_THAN, COND_GREATER_THAN, COND_LESS_EQUAL]"

definition getCondition :: "16 word \<Rightarrow> Condition" where
  "getCondition cond_part = condition_table ! unat (cond_part AND 0xF)"

section \<open>Fields of an opcode\<close>

lemma and_7_less: "unat (w AND 7 :: 16 word) < 8"
proof -
  have "w AND 7 = take_bit 3 w" by (simp add: take_bit_eq_mask mask_eq_exp_minus_1)
  then show ?thesis using take_bit_nat_less_exp [of 3 "unat w"] by (simp add: unsigned_take_bit_eq)
qed

lemma and_1_cases: "(w AND 1 :: 16 word) = 0 \<or> (w AND 1 :: 16 word) = 1"
  by (metis and_one_eq odd_iff_mod_2_eq_one even_iff_mod_2_eq_zero)

text \<open>A three-bit register field names a data or an address register, never a special one.\<close>

lemma general_getRegisterType [simp]: "general_reg (getRegisterType m (w AND 7))"
  using and_7_less [of w] by (simp add: getRegisterType_def general_reg_def reg_index_of_nat)

lemma general_reg_simps [simp]:
  "general_reg REG_D0" "general_reg REG_D1" "general_reg REG_A0" "general_reg REG_A7" "\<not> general_reg REG_PC"
  "\<not> general_reg REG_SR" "\<not> general_reg REG_SSP"
  by (simp_all add: general_reg_def)

lemma general_reg_index: "general_reg r \<Longrightarrow> reg_index r < 19"
  by (simp add: general_reg_def)

end
