(* ===== verification/Memory.thy ===== *)
theory Memory
  imports Helpers
begin

text \<open>
  \<open>include/memory.hpp\<close>, \<open>src/memory.cpp\<close> and \<open>include/aligned_memory.hpp\<close>: a flat buffer of bytes
  behind the interface \<open>IMemory\<close>, read and written big-endian in units of one, two or four bytes.

  The buffer a \<open>uint8_t*\<close> points to is a function from offsets to bytes; every access of the
  code is guarded by a bounds check against \<open>memSize\<close>, which the model keeps.  The interface
  is the locale \<open>imemory\<close>, with the laws a client such as the stack relies on; the last section
  interprets it on \<open>BaseMemory\<close>.
\<close>

section \<open>Raw big-endian access\<close>

type_synonym bytes = "nat \<Rightarrow> 8 word"

fun read_real_mem :: "bytes \<Rightarrow> nat \<Rightarrow> DataSize \<Rightarrow> exn + 32 word" where
  "read_real_mem m a SIZE_BYTE = Inr (ucast (m a))"
| "read_real_mem m a SIZE_WORD =
     (let output_data = ucast (m a);
          output_data = push_bit 8 output_data OR ucast (m (a + 1))
      in Inr output_data)"
| "read_real_mem m a SIZE_LONG =
     (let output_data = ucast (m a);
          output_data = push_bit 8 output_data OR ucast (m (a + 1));
          output_data = push_bit 8 output_data OR ucast (m (a + 2));
          output_data = push_bit 8 output_data OR ucast (m (a + 3))
      in Inr output_data)"
| "read_real_mem m a (SIZE_OTHER _) = Inl Length_error"

fun write_real_mem :: "bytes \<Rightarrow> nat \<Rightarrow> DataSize \<Rightarrow> 32 word \<Rightarrow> exn + bytes" where
  "write_real_mem m a SIZE_BYTE d = Inr (m(a := ucast (MASK_8 d)))"
| "write_real_mem m a SIZE_WORD d =
     Inr (m(a := ucast (MASK_8 (drop_bit 8 d)),
            a + 1 := ucast (MASK_8 d)))"
| "write_real_mem m a SIZE_LONG d =
     Inr (m(a := ucast (MASK_8 (drop_bit 24 d)),
            a + 1 := ucast (MASK_8 (drop_bit 16 d)),
            a + 2 := ucast (MASK_8 (drop_bit 8 d)),
            a + 3 := ucast (MASK_8 d)))"
| "write_real_mem m a (SIZE_OTHER _) d = Inl Length_error"

section \<open>BaseMemory\<close>

record BaseMemory =
  baseAddr :: bytes
  memSize :: "32 word"

text \<open>
  The constructor touches the last byte of the buffer.  \<open>None\<close> is a null pointer; writing
  through it, or to offset \<open>0xFFFFFFFF\<close> when the size is zero, is undefined behaviour.
\<close>

definition BaseMemory_new :: "bytes option \<Rightarrow> 32 word \<Rightarrow> exn + BaseMemory" where
  "BaseMemory_new base sz =
     (case base of
        None \<Rightarrow> if sz \<noteq> 0 then Inl Undefined_behaviour
                else Inr \<lparr>baseAddr = (\<lambda>_. 0), memSize = sz\<rparr>
      | Some m \<Rightarrow> if sz = 0 then Inl Undefined_behaviour
                  else Inr \<lparr>baseAddr = m(unat (sz - 1) := 0), memSize = sz\<rparr>)"

text \<open>
  \<open>SimpleMemory\<close> allocates with \<open>new uint8_t[MEMORY_SIZE]\<close>, which leaves the bytes as it finds
  them (the argument); \<open>AlignedMemory\<close> calls \<open>aligned_alloc\<close>, which may fail and return null.
\<close>

definition SimpleMemory_new :: "bytes \<Rightarrow> exn + BaseMemory" where
  "SimpleMemory_new fresh = BaseMemory_new (Some fresh) MEMORY_SIZE"

definition AlignedMemory_new :: "(32 word \<Rightarrow> 32 word \<Rightarrow> bytes option) \<Rightarrow> exn + BaseMemory" where
  "AlignedMemory_new aligned_alloc = BaseMemory_new (aligned_alloc MEMORY_SIZE MEMORY_SIZE) MEMORY_SIZE"

definition BaseMemory_get :: "BaseMemory \<Rightarrow> 64 word \<Rightarrow> DataSize \<Rightarrow> exn + 32 word" where
  "BaseMemory_get m address sz =
     (let address = MASK_ADDR address in
      if sz \<noteq> SIZE_BYTE \<and> address mod 2 \<noteq> 0 then Inl Length_error
      else if address + of_nat (size_val sz) > ucast (memSize m) then Inl Out_of_range
      else read_real_mem (baseAddr m) (unat address) sz)"

definition BaseMemory_set ::
  "BaseMemory \<Rightarrow> 64 word \<Rightarrow> DataSize \<Rightarrow> 32 word \<Rightarrow> exn + BaseMemory" where
  "BaseMemory_set m address sz data =
     (let address = MASK_ADDR address in
      if sz \<noteq> SIZE_BYTE \<and> address mod 2 \<noteq> 0 then Inl Length_error
      else if address + of_nat (size_val sz) > ucast (memSize m) then Inl Out_of_range
      else map_sum id (\<lambda>b. m\<lparr>baseAddr := b\<rparr>)
             (write_real_mem (baseAddr m) (unat address) sz data))"

text \<open>\<open>IMemory::set_<T>\<close> takes the size from the C++ type; \<open>n\<close> is \<open>sizeof(T)\<close>.\<close>

definition IMemory_set_T ::
  "BaseMemory \<Rightarrow> 64 word \<Rightarrow> nat \<Rightarrow> 32 word \<Rightarrow> exn + BaseMemory" where
  "IMemory_set_T m address n val = BaseMemory_set m address (size_of_nat n) val"

section \<open>Physical addresses\<close>

text \<open>The 24 address lines, and what it means for two accesses not to overlap.\<close>

definition phys :: "64 word \<Rightarrow> nat" where
  "phys a = unat (MASK_ADDR a)"

definition separate :: "64 word \<Rightarrow> DataSize \<Rightarrow> 64 word \<Rightarrow> DataSize \<Rightarrow> bool" where
  "separate a sz b sz' \<longleftrightarrow> phys a + size_val sz \<le> phys b \<or> phys b + size_val sz' \<le> phys a"

lemma phys_mod: "phys a = unat a mod 2 ^ 24"
  by (simp add: phys_def mask_eq_take_bit unsigned_take_bit_eq) (simp add: take_bit_eq_mod)

lemma phys_less: "phys a < 2 ^ 24"
  by (simp add: phys_mod)

lemma odd_address: "MASK_ADDR (a :: 64 word) mod 2 \<noteq> 0 \<longleftrightarrow> odd (phys a)"
  by (simp add: phys_def flip: bit_0) (simp add: bit_simps flip: odd_iff_mod_2_eq_one bit_0)

lemma past_end:
  assumes "size_val sz < 2 ^ 32"
  shows "ucast (n :: 32 word) < MASK_ADDR a + (of_nat (size_val sz) :: 64 word) \<longleftrightarrow>
    unat n < phys a + size_val sz"
proof -
  have "unat (MASK_ADDR a + (of_nat (size_val sz) :: 64 word)) = phys a + size_val sz"
    using phys_less [of a] assms by (simp add: phys_def unat_word_ariths unat_of_nat)
  moreover have "unat (ucast n :: 64 word) = unat n"
    using unsigned_less [of n, where 'a = nat] by (simp add: unsigned_ucast_eq take_bit_nat_eq_self_iff)
  ultimately show ?thesis by (simp add: word_less_nat_alt)
qed

lemma proper_size_less: "proper_size sz \<Longrightarrow> size_val sz < 2 ^ 32"
  by (cases sz) simp_all

lemma BaseMemory_get_eq:
  assumes "proper_size sz"
  shows "BaseMemory_get m a sz =
    (if sz \<noteq> SIZE_BYTE \<and> odd (phys a) then Inl Length_error
     else if unat (memSize m) < phys a + size_val sz then Inl Out_of_range
     else read_real_mem (baseAddr m) (phys a) sz)"
  unfolding BaseMemory_get_def Let_def odd_address past_end [OF proper_size_less [OF assms]]
  by (simp add: phys_def)

lemma BaseMemory_set_eq:
  assumes "proper_size sz"
  shows "BaseMemory_set m a sz d =
    (if sz \<noteq> SIZE_BYTE \<and> odd (phys a) then Inl Length_error
     else if unat (memSize m) < phys a + size_val sz then Inl Out_of_range
     else map_sum id (\<lambda>b. m\<lparr>baseAddr := b\<rparr>) (write_real_mem (baseAddr m) (phys a) sz d))"
  unfolding BaseMemory_set_def Let_def odd_address past_end [OF proper_size_less [OF assms]]
  by (simp add: phys_def)

lemma bytes_of_long:
  fixes d :: "32 word"
  shows "((push_bit 24 (take_bit 8 (drop_bit 24 d)) OR push_bit 16 (take_bit 8 (drop_bit 16 d)))
    OR push_bit 8 (take_bit 8 (drop_bit 8 d))) OR take_bit 8 d = take_bit 32 d" (is "?l = ?r")
proof (rule bit_word_eqI)
  fix n assume "n < LENGTH(32)"
  then consider "n < 8" | "8 \<le> n" "n < 16" | "16 \<le> n" "n < 24" | "24 \<le> n" "n < 32"
    by fastforce
  then show "bit ?l n \<longleftrightarrow> bit ?r n" by cases (auto simp: bit_simps)
qed

lemma bytes_of_word:
  fixes d :: "32 word"
  shows "push_bit 8 (take_bit 8 (drop_bit 8 d)) OR take_bit 8 d = take_bit 16 d"
  by (rule bit_word_eqI) (auto simp: bit_simps)

lemma ucast_ucast_byte: "ucast (ucast (take_bit 8 d) :: 8 word) = take_bit 8 (d :: 32 word)"
  by (rule bit_word_eqI) (auto simp: bit_simps)

lemma read_write_same:
  "proper_size sz \<Longrightarrow> write_real_mem m a sz d = Inr m' \<Longrightarrow>
   read_real_mem m' a sz = Inr (take_bit (bits_of sz) d)"
  by (cases sz) (auto simp: mask_eq_take_bit ucast_ucast_byte bytes_of_long bytes_of_word Let_def)

lemma read_write_other:
  "write_real_mem m a sz d = Inr m' \<Longrightarrow> a + size_val sz \<le> b \<or> b + size_val sz' \<le> a \<Longrightarrow>
   read_real_mem m' b sz' = read_real_mem m b sz'"
  by (cases sz; cases sz') (auto)

lemma write_real_mem_frame:
  "write_real_mem m a sz d = Inr m' \<Longrightarrow> k < a \<or> a + size_val sz \<le> k \<Longrightarrow> m' k = m k"
  by (cases sz) auto

lemma BaseMemory_set_improper: "\<not> proper_size sz \<Longrightarrow> \<exists>e. BaseMemory_set m a sz d = Inl e"
  by (cases sz) (auto simp: BaseMemory_set_def Let_def)

lemma BaseMemory_set_cases:
  assumes "BaseMemory_set m a sz d = Inr m'"
  obtains b where "proper_size sz" and "m' = m\<lparr>baseAddr := b\<rparr>"
    and "write_real_mem (baseAddr m) (phys a) sz d = Inr b"
    and "sz = SIZE_BYTE \<or> even (phys a)" and "phys a + size_val sz \<le> unat (memSize m)"
proof -
  have p: "proper_size sz" using assms BaseMemory_set_improper [of sz m a d] by fastforce
  with assms show ?thesis
    unfolding BaseMemory_set_eq [OF p]
    by (cases "write_real_mem (baseAddr m) (phys a) sz d")
      (auto split: if_splits intro!: that [OF p])
qed

lemma BaseMemory_set_memSize: "BaseMemory_set m a sz d = Inr m' \<Longrightarrow> memSize m' = memSize m"
  by (elim BaseMemory_set_cases) simp

lemma read_real_mem_total: "proper_size sz \<Longrightarrow> \<exists>w. read_real_mem m a sz = Inr w"
  by (cases sz) (simp_all add: Let_def)

lemma write_real_mem_total: "proper_size sz \<Longrightarrow> \<exists>w. write_real_mem m a sz d = Inr w"
  by (cases sz) simp_all

lemma read_real_mem_not_Inl [simp]: "proper_size sz \<Longrightarrow> read_real_mem m a sz \<noteq> Inl e"
  by (cases sz) (simp_all add: Let_def)

lemma write_real_mem_not_Inl [simp]: "proper_size sz \<Longrightarrow> map_sum id f (write_real_mem m a sz d) \<noteq> Inl e"
  by (cases sz) simp_all

lemma size_not_proper: "\<not> proper_size sz \<Longrightarrow> sz \<noteq> SIZE_BYTE"
  by (cases sz) auto

section \<open>The interface IMemory\<close>

text \<open>
  What a client of the abstract class \<open>IMemory\<close> relies on: a read sees the last write to the
  same place, does not see a write elsewhere, and whether an access throws depends on the
  address and the size only, in the same way for reads and writes.
\<close>

locale imemory =
  fixes rd :: "'m \<Rightarrow> 64 word \<Rightarrow> DataSize \<Rightarrow> exn + 32 word"
    and wr :: "'m \<Rightarrow> 64 word \<Rightarrow> DataSize \<Rightarrow> 32 word \<Rightarrow> exn + 'm"
  assumes rd_wr_same: "proper_size sz \<Longrightarrow> wr m a sz d = Inr m' \<Longrightarrow>
      rd m' a sz = Inr (take_bit (bits_of sz) d)"
    and rd_wr_separate: "wr m a sz d = Inr m' \<Longrightarrow> separate a sz b sz' \<Longrightarrow> rd m' b sz' = rd m b sz'"
    and fail_alike: "wr m a sz d = Inl e \<longleftrightarrow> rd m a sz = Inl e"
    and fail_stable: "wr m a sz d = Inr m' \<Longrightarrow> rd m' b sz' = Inl e \<longleftrightarrow> rd m b sz' = Inl e"
    and wr_proper: "wr m a sz d = Inr m' \<Longrightarrow> proper_size sz"
begin

lemma wr_total_if_rd: "rd m a sz = Inr v \<Longrightarrow> \<exists>m'. wr m a sz d = Inr m'"
  using fail_alike [of m a sz d] by (cases "wr m a sz d") auto

lemma rd_total_if_wr: "wr m a sz d = Inr m' \<Longrightarrow> \<exists>v. rd m a sz = Inr v"
  using fail_alike [of m a sz d] by (cases "rd m a sz") auto

lemma wr_stable: "wr m a sz d = Inr m' \<Longrightarrow> wr m b sz' d' = Inr n \<Longrightarrow> \<exists>n'. wr m' b sz' d' = Inr n'"
  by (metis fail_alike fail_stable obj_sumE sum.distinct(1))

lemma read_back: "wr m a sz d = Inr m' \<Longrightarrow> rd m' a sz = Inr (take_bit (bits_of sz) d)"
  by (blast intro: rd_wr_same wr_proper)

lemma read_past_write:
  "wr m a sz d = Inr m1 \<Longrightarrow> wr m1 b sz' d' = Inr m2 \<Longrightarrow> separate b sz' a sz \<Longrightarrow>
   rd m2 a sz = Inr (take_bit (bits_of sz) d)"
  by (simp add: read_back rd_wr_separate)

end

section \<open>BaseMemory implements the interface\<close>

lemma BaseMemory_upd:
  "memSize (m\<lparr>baseAddr := b\<rparr>) = memSize m" "baseAddr (m\<lparr>baseAddr := b\<rparr>) = b"
  by simp_all

interpretation base: imemory BaseMemory_get BaseMemory_set
proof
  fix m m' :: BaseMemory and a b sz sz' d e
  show "proper_size sz \<Longrightarrow> BaseMemory_set m a sz d = Inr m' \<Longrightarrow>
      BaseMemory_get m' a sz = Inr (take_bit (bits_of sz) d)"
    by (erule BaseMemory_set_cases) (auto simp: BaseMemory_get_eq read_write_same)
  show "BaseMemory_get m' b sz' = BaseMemory_get m b sz'"
    if "BaseMemory_set m a sz d = Inr m'" and "separate a sz b sz'"
  proof -
    obtain c where "m' = m\<lparr>baseAddr := c\<rparr>"
      and "write_real_mem (baseAddr m) (phys a) sz d = Inr c"
      using \<open>BaseMemory_set m a sz d = Inr m'\<close> by (rule BaseMemory_set_cases)
    moreover from this that(2) have "read_real_mem c (phys b) sz' = read_real_mem (baseAddr m) (phys b) sz'"
      by (auto simp: separate_def intro: read_write_other)
    ultimately show ?thesis
      unfolding BaseMemory_get_def Let_def phys_def
      by (simp only: BaseMemory.select_convs BaseMemory_upd cong: if_cong)
  qed
  show "BaseMemory_set m a sz d = Inl e \<longleftrightarrow> BaseMemory_get m a sz = Inl e"
  proof (cases "proper_size sz")
    case True
    then show ?thesis by (simp add: BaseMemory_set_eq BaseMemory_get_eq)
  next
    case False
    then show ?thesis by (cases sz) (simp_all add: BaseMemory_set_def BaseMemory_get_def Let_def)
  qed
  show "BaseMemory_set m a sz d = Inr m' \<Longrightarrow>
      BaseMemory_get m' b sz' = Inl e \<longleftrightarrow> BaseMemory_get m b sz' = Inl e"
    by (erule BaseMemory_set_cases, cases sz') (auto simp: BaseMemory_get_def Let_def)
  show "BaseMemory_set m a sz d = Inr m' \<Longrightarrow> proper_size sz"
    by (elim BaseMemory_set_cases)
qed

section \<open>Big-endian decomposition\<close>

lemma phys_add:
  assumes "phys a + k < 2 ^ 24"
  shows "phys (a + of_nat k) = phys a + k"
proof -
  have "k < 2 ^ 64" using assms by simp
  then have "unat (a + of_nat k) mod 2 ^ 24 = (unat a + k) mod 2 ^ 64 mod 2 ^ 24"
    by (simp add: unat_word_ariths unat_of_nat)
  also have "\<dots> = (unat a mod 2 ^ 24 + k) mod 2 ^ 24"
    by (simp add: mod_mod_cancel mod_simps)
  finally show ?thesis using assms by (simp add: phys_mod)
qed

lemma even_less_even: "even p \<Longrightarrow> even N \<Longrightarrow> p < N \<Longrightarrow> Suc p < N" for p N :: nat
  by presburger

lemma phys_Suc: "even (phys a) \<Longrightarrow> phys (a + 1) = phys a + 1"
  using phys_add [of a 1] even_less_even [of "phys a" "2 ^ 24"] phys_less [of a] by simp

lemma byte_bit_bound: "bit (b :: 8 word) n \<Longrightarrow> n < 8"
  using bit_imp_le_length [of b n] by auto

lemma byte_in_long [simp]:
  fixes b :: "8 word"
  shows "drop_bit 8 (push_bit 8 (ucast b)) = (ucast b :: 32 word)"
    "drop_bit 8 (ucast b :: 32 word) = 0"
    "take_bit 8 (push_bit 8 (x :: 32 word)) = 0"
    "take_bit 8 (ucast b) = (ucast b :: 32 word)"
  by (auto intro!: bit_word_eqI simp: bit_simps dest!: byte_bit_bound)

lemma get_word_bytes:
  assumes "BaseMemory_get m a SIZE_WORD = Inr w"
  shows "BaseMemory_get m a SIZE_BYTE = Inr (drop_bit 8 w)"
    and "BaseMemory_get m (a + 1) SIZE_BYTE = Inr (take_bit 8 w)"
  using assms phys_Suc [of a] 
  by (auto simp: BaseMemory_get_eq Let_def split: if_splits)

lemma words_in_long [simp]:
  fixes b :: "8 word" and x :: "32 word"
  shows "drop_bit 16 (push_bit 24 (ucast b)) = push_bit 8 (ucast b :: 32 word)"
    "drop_bit 16 (push_bit 16 (ucast b)) = (ucast b :: 32 word)"
    "drop_bit 16 (push_bit 8 (ucast b :: 32 word)) = 0"
    "drop_bit 16 (ucast b :: 32 word) = 0"
    "take_bit 16 (push_bit 24 x) = 0" "take_bit 16 (push_bit 16 x) = 0"
    "take_bit 16 (push_bit 8 (ucast b)) = push_bit 8 (ucast b :: 32 word)"
    "take_bit 16 (ucast b) = (ucast b :: 32 word)"
  by (rule bit_word_eqI; (simp add: bit_simps not_le)?; (use byte_bit_bound [of b] in fastforce)?)+

lemma phys_Suc2: "even (phys a) \<Longrightarrow> phys a + 4 \<le> 2 ^ 24 \<Longrightarrow> phys (a + 2) = phys a + 2"
  using phys_add [of a 2] by simp

lemma add_3_Suc: "n + 3 = Suc (Suc (Suc n))"
  by simp

lemma get_long_words:
  assumes "BaseMemory_get m a SIZE_LONG = Inr w" and "unat (memSize m) \<le> 2 ^ 24"
  shows "BaseMemory_get m a SIZE_WORD = Inr (drop_bit 16 w)"
    and "BaseMemory_get m (a + 2) SIZE_WORD = Inr (take_bit 16 w)"
  using assms phys_Suc2 [of a] 
    by (auto simp: BaseMemory_get_eq Let_def add_3_Suc split: if_splits)

section \<open>Properties\<close>

text \<open>
  C28. A successful BaseMemory::set of any size is read back by BaseMemory::get, truncated to that
  size, and leaves every access that does not overlap it, of any size and with addresses wrapped
  to 24 bits, unchanged.
\<close>

theorem memory_read_after_write:
  assumes "BaseMemory_set m a sz d = Inr m'"
  shows "BaseMemory_get m' a sz = Inr (take_bit (bits_of sz) d) \<and>
    memSize m' = memSize m \<and>
    (\<forall>b sz'. separate a sz b sz' \<longrightarrow> BaseMemory_get m' b sz' = BaseMemory_get m b sz')"
  using assms base.read_back base.rd_wr_separate BaseMemory_set_memSize by blast

theorem memory_read_after_write_witness:
  "\<exists>m m'. BaseMemory_set m 0x1000 SIZE_LONG 0x12345678 = Inr m' \<and>
     BaseMemory_get m' 0x1000 SIZE_LONG = Inr 0x12345678"
proof -
  let ?m = "\<lparr>baseAddr = \<lambda>_. 0, memSize = 0x2000\<rparr>"
  obtain m' where "BaseMemory_set ?m 0x1000 SIZE_LONG 0x12345678 = Inr m'"
    by (simp add: BaseMemory_set_def MASK_ADDR_def)
  with memory_read_after_write [OF this] show ?thesis by (auto simp: take_bit_eq_mod)
qed

text \<open>
  C29. BaseMemory::get fails exactly for an odd address with a word or long access (length_error)
  and for an access that ends beyond the size of the memory (out_of_range), in that order of
  precedence, and BaseMemory::set fails on exactly the same accesses with the same exception.
\<close>

theorem memory_errors:
  assumes "proper_size sz"
  shows "(BaseMemory_get m a sz = Inl Length_error \<longleftrightarrow> sz \<noteq> SIZE_BYTE \<and> odd (phys a)) \<and>
    (BaseMemory_get m a sz = Inl Out_of_range \<longleftrightarrow>
       (sz = SIZE_BYTE \<or> even (phys a)) \<and> unat (memSize m) < phys a + size_val sz) \<and>
    (\<forall>e. BaseMemory_get m a sz = Inl e \<longrightarrow> e = Length_error \<or> e = Out_of_range) \<and>
    (\<forall>d e. BaseMemory_set m a sz d = Inl e \<longleftrightarrow> BaseMemory_get m a sz = Inl e)"
  using assms base.fail_alike by (auto simp: BaseMemory_get_eq)

theorem memory_aliasing:
  "BaseMemory_get m (a + 0x1000000 * k) sz = BaseMemory_get m a sz \<and>
   BaseMemory_set m (a + 0x1000000 * k) sz d = BaseMemory_set m a sz d"
proof -
  have "MASK_ADDR (a + 0x1000000 * k) = MASK_ADDR a"
    by (simp add: mask_eq_take_bit take_bit_eq_mod word_mod_def uint_word_ariths mod_simps mod_mod_cancel)
  then show ?thesis by (simp add: BaseMemory_get_def BaseMemory_set_def)
qed

lemma MEMORY_SIZE_nat: "unat MEMORY_SIZE = 2 ^ 24"
  by (simp add: MEMORY_SIZE_def)

lemma last_long: "even p \<Longrightarrow> p < 16777216 \<Longrightarrow> 16777216 < p + 4 \<longleftrightarrow> p = 16777214" for p :: nat
  by presburger

text \<open>In a full memory only a long word at the last word is out of range.\<close>

theorem full_memory_bounds:
  assumes "memSize m = MEMORY_SIZE"
  shows "(\<exists>v. BaseMemory_get m a SIZE_BYTE = Inr v) \<and>
    (even (phys a) \<longrightarrow> (\<exists>v. BaseMemory_get m a SIZE_WORD = Inr v)) \<and>
    (BaseMemory_get m a SIZE_LONG = Inl Out_of_range \<longleftrightarrow> phys a = 0xFFFFFE)"
  using phys_less [of a] even_less_even [of "phys a" "2 ^ 24"] last_long [of "phys a"]
  by (auto simp: BaseMemory_get_eq assms MEMORY_SIZE_nat Let_def)

text \<open>A long word that can be read is made of its four bytes, the most significant first.\<close>

theorem memory_big_endian:
  assumes "BaseMemory_get m a SIZE_LONG = Inr w" and "unat (memSize m) \<le> 2 ^ 24"
  shows "BaseMemory_get m a SIZE_BYTE = Inr (drop_bit 24 w) \<and>
    BaseMemory_get m (a + 1) SIZE_BYTE = Inr (take_bit 8 (drop_bit 16 w)) \<and>
    BaseMemory_get m (a + 2) SIZE_BYTE = Inr (take_bit 8 (drop_bit 8 w)) \<and>
    BaseMemory_get m (a + 3) SIZE_BYTE = Inr (take_bit 8 w)"
  using get_word_bytes [OF get_long_words(1) [OF assms]] get_word_bytes [OF get_long_words(2) [OF assms]]
  by (simp add: drop_bit_take_bit add.assoc)

theorem memory_big_endian_witness:
  "\<exists>m w. unat (memSize m) \<le> 2 ^ 24 \<and> BaseMemory_get m 0x10 SIZE_LONG = Inr w \<and> w = 0x01020304 \<and>
     BaseMemory_get m 0x12 SIZE_BYTE = Inr 3"
proof -
  let ?m = "\<lparr>baseAddr = \<lambda>k. of_nat k - 15, memSize = 0x2000\<rparr>"
  have g: "BaseMemory_get ?m 0x10 SIZE_LONG = Inr 0x01020304"
    by (simp add: BaseMemory_get_def MASK_ADDR_def push_bit_eq_mult)
  from memory_big_endian [OF g] have "BaseMemory_get ?m 0x12 SIZE_BYTE = Inr 3"
    by (simp add: drop_bit_eq_div take_bit_eq_mod)
  with g show ?thesis by (intro exI [of _ ?m]) simp
qed

theorem memory_errors_witness:
  "BaseMemory_get \<lparr>baseAddr = \<lambda>_. 0, memSize = 0x2000\<rparr> 0x1001 SIZE_WORD = Inl Length_error"
proof -
  have "odd (phys 0x1001)" by (simp add: phys_mod)
  then show ?thesis using memory_errors [of SIZE_WORD] by simp
qed

theorem full_memory_bounds_witness:
  "BaseMemory_get \<lparr>baseAddr = \<lambda>_. 0, memSize = MEMORY_SIZE\<rparr> 0xFFFFFE SIZE_LONG = Inl Out_of_range"
proof -
  have "phys 0xFFFFFE = 0xFFFFFE" by (simp add: phys_mod)
  then show ?thesis
    using full_memory_bounds [of "\<lparr>baseAddr = \<lambda>_. 0, memSize = MEMORY_SIZE\<rparr>" "0xFFFFFE"] by simp
qed

end
