(* ===== verification/Cpu_State.thy ===== *)
theory Cpu_State
  imports Instruction Memory
begin

text \<open>
  \<open>include/cpu_state.hpp\<close> and \<open>src/cpu_state.cpp\<close>: registers and memory together, the stack, the
  addressing modes and the branch conditions.  The order of register updates and memory
  accesses is the code's, since an access that throws leaves the updates before it in place.
  The memory is the \<open>BaseMemory\<close> object the reference \<open>memory\<close> is bound to.
\<close>

record CPUState =
  memory :: BaseMemory
  registers :: Registers

text \<open>
  \<open>operator=\<close> copies the registers and the pointer \<open>memoryPtr\<close>, which nothing reads after construction;
  the reference \<open>memory\<close> stays bound to the memory the state was constructed with.
\<close>

definition CPUState_assign :: "CPUState \<Rightarrow> CPUState \<Rightarrow> CPUState" where
  "CPUState_assign lh rh = lh\<lparr>registers := registers rh\<rparr>"

section \<open>Calls on the two members\<close>

definition regs_get :: "RegisterType \<Rightarrow> DataSize \<Rightarrow> (CPUState, 32 word) exec" where
  "regs_get r sz = (\<lambda>s. (Registers_get (registers s) r sz, s))"

definition regs_set :: "RegisterType \<Rightarrow> DataSize \<Rightarrow> 32 word \<Rightarrow> (CPUState, unit) exec" where
  "regs_set r sz v = (\<lambda>s. case Registers_set (registers s) r sz v of
     Inl e \<Rightarrow> (Inl e, s) | Inr rs \<Rightarrow> (Inr (), s\<lparr>registers := rs\<rparr>))"

definition flag_get :: "StatusRegisterFlag \<Rightarrow> (CPUState, bool) exec" where
  "flag_get f = getsE (\<lambda>s. Registers_get_flag (registers s) f)"

definition flag_set :: "StatusRegisterFlag \<Rightarrow> bool \<Rightarrow> (CPUState, unit) exec" where
  "flag_set f b = modifyE (\<lambda>s. s\<lparr>registers := Registers_set_flag (registers s) f b\<rparr>)"

definition mem_get :: "32 word \<Rightarrow> DataSize \<Rightarrow> (CPUState, 32 word) exec" where
  "mem_get a sz = (\<lambda>s. (BaseMemory_get (memory s) (ucast a) sz, s))"

definition mem_set :: "32 word \<Rightarrow> DataSize \<Rightarrow> 32 word \<Rightarrow> (CPUState, unit) exec" where
  "mem_set a sz v = (\<lambda>s. case BaseMemory_set (memory s) (ucast a) sz v of
     Inl e \<Rightarrow> (Inl e, s) | Inr m \<Rightarrow> (Inr (), s\<lparr>memory := m\<rparr>))"

text \<open>A \<open>DataSize\<close> in 32-bit arithmetic, and the integer conversions of the C++ code.\<close>

definition size_w :: "DataSize \<Rightarrow> 32 word" where
  "size_w sz = of_nat (size_val sz)"

definition sext16 :: "32 word \<Rightarrow> 32 word" where
  "sext16 v = scast (ucast v :: 16 word)"

definition sext8 :: "32 word \<Rightarrow> 32 word" where
  "sext8 v = scast (ucast v :: 8 word)"

text \<open>Addition of two \<open>int32_t\<close> values: undefined behaviour when the sum does not fit.\<close>

definition int_add :: "32 word \<Rightarrow> 32 word \<Rightarrow> (CPUState, 32 word) exec" where
  "int_add a b = (if sint (a + b) = sint a + sint b then returnE (a + b)
                  else throwE Undefined_behaviour)"

section \<open>Stack\<close>

definition stackPop :: "DataSize \<Rightarrow> (CPUState, 32 word) exec" where
  "stackPop sz =
     bindE (regs_get REG_USP SIZE_LONG) (\<lambda>stack_ptr.
     bindE (mem_get stack_ptr sz) (\<lambda>data.
     bindE (regs_set REG_USP SIZE_LONG (stack_ptr + size_w sz)) (\<lambda>_.
     returnE data)))"

definition stackPush :: "DataSize \<Rightarrow> 32 word \<Rightarrow> (CPUState, unit) exec" where
  "stackPush sz data =
     bindE (regs_get REG_USP SIZE_LONG) (\<lambda>stack_ptr.
     let stack_ptr = stack_ptr - size_w sz in
     bindE (regs_set REG_USP SIZE_LONG stack_ptr) (\<lambda>_.
     mem_set stack_ptr sz data))"

section \<open>Addressing modes\<close>

text \<open>
  The extension word of the indexed modes: the offset from the index register and the 8-bit
  displacement.  The code repeats these lines in every indexed case.
\<close>

definition index_extension :: "32 word \<Rightarrow> (CPUState, 32 word \<times> 32 word) exec" where
  "index_extension pc =
     bindE (mem_get pc SIZE_WORD) (\<lambda>w.
     let ext_word = ucast w :: 16 word;
         ext_reg = getRegisterType (ext_word AND 0x8000) (drop_bit 12 ext_word AND 0x7);
         ext_reg_size = (if drop_bit 11 ext_word AND 0x1 \<noteq> 0 then SIZE_LONG else SIZE_WORD);
         ext_offset = sext8 (ucast (ext_word AND 0xFF)) in
     bindE (regs_get ext_reg ext_reg_size) (\<lambda>ext_reg_offset.
     let ext_reg_offset =
           (if ext_reg_size = SIZE_WORD then sext16 ext_reg_offset else ext_reg_offset) in
     returnE (ext_reg_offset, ext_offset)))"

fun getControlAddress ::
  "AddressingMode \<Rightarrow> RegisterType \<Rightarrow> DataSize \<Rightarrow> (CPUState, 32 word) exec" where
  "getControlAddress ADDR_MODE_INDIRECT reg _ = regs_get reg SIZE_LONG"
| "getControlAddress ADDR_MODE_INDIRECT_DISPLACEMENT reg _ =
     bindE (regs_get reg SIZE_LONG) (\<lambda>addr.
     bindE (regs_get REG_PC SIZE_LONG) (\<lambda>pc.
     bindE (mem_get pc SIZE_WORD) (\<lambda>offset.
     bindE (regs_set REG_PC SIZE_LONG (pc + size_w SIZE_WORD)) (\<lambda>_.
     returnE (addr + sext16 offset)))))"
| "getControlAddress ADDR_MODE_INDIRECT_INDEX reg _ =
     bindE (regs_get reg SIZE_LONG) (\<lambda>addr.
     bindE (regs_get REG_PC SIZE_LONG) (\<lambda>pc.
     bindE (index_extension pc) (\<lambda>(ext_reg_offset, ext_offset).
     bindE (regs_set REG_PC SIZE_LONG (pc + size_w SIZE_WORD)) (\<lambda>_.
     bindE (int_add ext_reg_offset ext_offset) (\<lambda>offset.
     returnE (addr + offset))))))"
| "getControlAddress ADDR_MODE_PC_DISPLACEMENT reg _ =
     bindE (regs_get REG_PC SIZE_LONG) (\<lambda>pc.
     bindE (mem_get pc SIZE_WORD) (\<lambda>offset.
     bindE (regs_set REG_PC SIZE_LONG (pc + size_w SIZE_WORD)) (\<lambda>_.
     returnE (pc + sext16 offset))))"
| "getControlAddress ADDR_MODE_PC_INDEX reg _ =
     bindE (regs_get REG_PC SIZE_LONG) (\<lambda>pc.
     bindE (index_extension pc) (\<lambda>(ext_reg_offset, ext_offset).
     bindE (regs_set REG_PC SIZE_LONG (pc + size_w SIZE_WORD)) (\<lambda>_.
     returnE (pc + ext_reg_offset + ext_offset))))"
| "getControlAddress ADDR_MODE_ABS_WORD reg _ =
     bindE (regs_get REG_PC SIZE_LONG) (\<lambda>pc.
     bindE (regs_set REG_PC SIZE_LONG (pc + size_w SIZE_WORD)) (\<lambda>_.
     mem_get pc SIZE_WORD))"
| "getControlAddress ADDR_MODE_ABS_LONG reg _ =
     bindE (regs_get REG_PC SIZE_LONG) (\<lambda>pc.
     bindE (regs_set REG_PC SIZE_LONG (pc + size_w SIZE_LONG)) (\<lambda>_.
     mem_get pc SIZE_LONG))"
| "getControlAddress _ reg _ = returnE 0"

text \<open>The step of the increment modes: the stack pointer stays on a word boundary.\<close>

definition inc_step :: "RegisterType \<Rightarrow> DataSize \<Rightarrow> 32 word" where
  "inc_step reg sz = (if reg = REG_A7 \<and> odd (size_val sz) then size_w sz + 1 else size_w sz)"

fun getData :: "AddressingMode \<Rightarrow> RegisterType \<Rightarrow> DataSize \<Rightarrow> (CPUState, 32 word) exec" where
  "getData ADDR_MODE_DIRECT_ADDR reg sz = regs_get reg sz"
| "getData ADDR_MODE_DIRECT_DATA reg sz = regs_get reg sz"
| "getData ADDR_MODE_INDIRECT reg sz =
     bindE (regs_get reg SIZE_LONG) (\<lambda>addr. mem_get addr sz)"
| "getData ADDR_MODE_INDIRECT_POSTINCREMENT reg sz =
     bindE (regs_get reg SIZE_LONG) (\<lambda>addr.
     bindE (mem_get addr sz) (\<lambda>data.
     bindE (regs_set reg SIZE_LONG (addr + inc_step reg sz)) (\<lambda>_.
     returnE data)))"
| "getData ADDR_MODE_INDIRECT_PREDECREMENT reg sz =
     bindE (regs_get reg SIZE_LONG) (\<lambda>addr.
     let addr = addr - inc_step reg sz in
     bindE (mem_get addr sz) (\<lambda>data.
     bindE (regs_set reg SIZE_LONG addr) (\<lambda>_.
     returnE data)))"
| "getData ADDR_MODE_INDIRECT_DISPLACEMENT reg sz =
     bindE (regs_get reg SIZE_LONG) (\<lambda>addr.
     bindE (regs_get REG_PC SIZE_LONG) (\<lambda>pc.
     bindE (mem_get pc SIZE_WORD) (\<lambda>offset.
     bindE (regs_set REG_PC SIZE_LONG (pc + size_w SIZE_WORD)) (\<lambda>_.
     mem_get (addr + sext16 offset) sz))))"
| "getData ADDR_MODE_INDIRECT_INDEX reg sz =
     bindE (regs_get reg SIZE_LONG) (\<lambda>addr.
     bindE (regs_get REG_PC SIZE_LONG) (\<lambda>pc.
     bindE (index_extension pc) (\<lambda>(ext_reg_offset, ext_offset).
     bindE (regs_set REG_PC SIZE_LONG (pc + size_w SIZE_WORD)) (\<lambda>_.
     mem_get (addr + ext_reg_offset + ext_offset) sz))))"
| "getData ADDR_MODE_PC_DISPLACEMENT reg sz =
     bindE (regs_get REG_PC SIZE_LONG) (\<lambda>pc.
     bindE (mem_get pc SIZE_WORD) (\<lambda>offset.
     bindE (regs_set REG_PC SIZE_LONG (pc + size_w SIZE_WORD)) (\<lambda>_.
     mem_get (pc + sext16 offset) sz)))"
| "getData ADDR_MODE_PC_INDEX reg sz =
     bindE (regs_get REG_PC SIZE_LONG) (\<lambda>pc.
     bindE (index_extension pc) (\<lambda>(ext_reg_offset, ext_offset).
     bindE (regs_set REG_PC SIZE_LONG (pc + size_w SIZE_WORD)) (\<lambda>_.
     mem_get (pc + ext_reg_offset + ext_offset) sz)))"
| "getData ADDR_MODE_ABS_WORD reg sz =
     bindE (regs_get REG_PC SIZE_LONG) (\<lambda>pc.
     bindE (mem_get pc SIZE_WORD) (\<lambda>addr.
     bindE (regs_set REG_PC SIZE_LONG (pc + size_w SIZE_WORD)) (\<lambda>_.
     mem_get addr sz)))"
| "getData ADDR_MODE_ABS_LONG reg sz =
     bindE (regs_get REG_PC SIZE_LONG) (\<lambda>pc.
     bindE (mem_get pc SIZE_LONG) (\<lambda>addr.
     bindE (regs_set REG_PC SIZE_LONG (pc + size_w SIZE_LONG)) (\<lambda>_.
     mem_get addr sz)))"
| "getData ADDR_MODE_IMMEDIATE reg sz =
     (let memory_size = (if sz = SIZE_LONG then SIZE_LONG else SIZE_WORD) in
     bindE (regs_get REG_PC SIZE_LONG) (\<lambda>pc.
     bindE (mem_get pc memory_size) (\<lambda>v.
     bindE (regs_set REG_PC SIZE_LONG (pc + size_w memory_size)) (\<lambda>_.
     returnE (if sz = SIZE_BYTE then MASK_8 v else v)))))"
| "getData ADDR_MODE_UNKNOWN reg sz = returnE 0"

fun getDataSilent ::
  "AddressingMode \<Rightarrow> RegisterType \<Rightarrow> DataSize \<Rightarrow> (CPUState, 32 word) exec" where
  "getDataSilent ADDR_MODE_DIRECT_ADDR reg sz = regs_get reg sz"
| "getDataSilent ADDR_MODE_DIRECT_DATA reg sz = regs_get reg sz"
| "getDataSilent ADDR_MODE_INDIRECT reg sz =
     bindE (regs_get reg SIZE_LONG) (\<lambda>addr. mem_get addr sz)"
| "getDataSilent ADDR_MODE_INDIRECT_POSTINCREMENT reg sz =
     bindE (regs_get reg SIZE_LONG) (\<lambda>addr. mem_get addr sz)"
| "getDataSilent ADDR_MODE_INDIRECT_PREDECREMENT reg sz =
     bindE (regs_get reg SIZE_LONG) (\<lambda>addr. mem_get (addr - inc_step reg sz) sz)"
| "getDataSilent ADDR_MODE_INDIRECT_DISPLACEMENT reg sz =
     bindE (regs_get reg SIZE_LONG) (\<lambda>addr.
     bindE (regs_get REG_PC SIZE_LONG) (\<lambda>pc.
     bindE (mem_get pc SIZE_WORD) (\<lambda>offset.
     mem_get (addr + sext16 offset) sz)))"
| "getDataSilent ADDR_MODE_INDIRECT_INDEX reg sz =
     bindE (regs_get reg SIZE_LONG) (\<lambda>addr.
     bindE (regs_get REG_PC SIZE_LONG) (\<lambda>pc.
     bindE (index_extension pc) (\<lambda>(ext_reg_offset, ext_offset).
     mem_get (addr + ext_reg_offset + ext_offset) sz)))"
| "getDataSilent ADDR_MODE_PC_DISPLACEMENT reg sz =
     bindE (regs_get REG_PC SIZE_LONG) (\<lambda>pc.
     bindE (mem_get pc SIZE_WORD) (\<lambda>offset.
     mem_get (pc + sext16 offset) sz))"
| "getDataSilent ADDR_MODE_PC_INDEX reg sz =
     bindE (regs_get REG_PC SIZE_LONG) (\<lambda>pc.
     bindE (index_extension pc) (\<lambda>(ext_reg_offset, ext_offset).
     mem_get (pc + ext_reg_offset + ext_offset) sz))"
| "getDataSilent ADDR_MODE_ABS_WORD reg sz =
     bindE (regs_get REG_PC SIZE_LONG) (\<lambda>pc.
     bindE (mem_get pc SIZE_WORD) (\<lambda>w.
     mem_get (sext16 w) sz))"
| "getDataSilent ADDR_MODE_ABS_LONG reg sz =
     bindE (regs_get REG_PC SIZE_LONG) (\<lambda>pc.
     bindE (mem_get pc SIZE_LONG) (\<lambda>addr.
     mem_get addr sz))"
| "getDataSilent ADDR_MODE_IMMEDIATE reg sz =
     (let memory_size = (if sz = SIZE_LONG then SIZE_LONG else SIZE_WORD) in
     bindE (regs_get REG_PC SIZE_LONG) (\<lambda>pc.
     bindE (mem_get pc memory_size) (\<lambda>v.
     returnE (if sz = SIZE_BYTE then MASK_8 v else v))))"
| "getDataSilent ADDR_MODE_UNKNOWN reg sz = returnE 0"

fun setData ::
  "AddressingMode \<Rightarrow> RegisterType \<Rightarrow> DataSize \<Rightarrow> 32 word \<Rightarrow> (CPUState, unit) exec" where
  "setData ADDR_MODE_DIRECT_ADDR reg sz data = regs_set reg sz data"
| "setData ADDR_MODE_DIRECT_DATA reg sz data = regs_set reg sz data"
| "setData ADDR_MODE_INDIRECT reg sz data =
     bindE (regs_get reg SIZE_LONG) (\<lambda>addr. mem_set addr sz data)"
| "setData ADDR_MODE_INDIRECT_POSTINCREMENT reg sz data =
     bindE (regs_get reg SIZE_LONG) (\<lambda>addr.
     bindE (mem_set addr sz data) (\<lambda>_.
     regs_set reg SIZE_LONG (addr + inc_step reg sz)))"
| "setData ADDR_MODE_INDIRECT_PREDECREMENT reg sz data =
     bindE (regs_get reg SIZE_LONG) (\<lambda>addr.
     let addr = addr - inc_step reg sz in
     bindE (mem_set addr sz data) (\<lambda>_.
     regs_set reg SIZE_LONG addr))"
| "setData ADDR_MODE_INDIRECT_DISPLACEMENT reg sz data =
     bindE (regs_get reg SIZE_LONG) (\<lambda>addr.
     bindE (regs_get REG_PC SIZE_LONG) (\<lambda>pc.
     bindE (mem_get pc SIZE_WORD) (\<lambda>offset.
     bindE (regs_set REG_PC SIZE_LONG (pc + size_w SIZE_WORD)) (\<lambda>_.
     mem_set (addr + sext16 offset) sz data))))"
| "setData ADDR_MODE_INDIRECT_INDEX reg sz data =
     bindE (regs_get reg SIZE_LONG) (\<lambda>addr.
     bindE (regs_get REG_PC SIZE_LONG) (\<lambda>pc.
     bindE (index_extension pc) (\<lambda>(ext_reg_offset, ext_offset).
     bindE (regs_set REG_PC SIZE_LONG (pc + size_w SIZE_WORD)) (\<lambda>_.
     mem_set (addr + ext_reg_offset + ext_offset) sz data))))"
| "setData ADDR_MODE_ABS_WORD reg sz data =
     bindE (regs_get REG_PC SIZE_LONG) (\<lambda>pc.
     bindE (mem_get pc SIZE_WORD) (\<lambda>w.
     bindE (mem_set (sext16 w) sz data) (\<lambda>_.
     regs_set REG_PC SIZE_LONG (pc + size_w SIZE_WORD))))"
| "setData ADDR_MODE_ABS_LONG reg sz data =
     bindE (regs_get REG_PC SIZE_LONG) (\<lambda>pc.
     bindE (mem_get pc SIZE_LONG) (\<lambda>addr.
     bindE (regs_set REG_PC SIZE_LONG (pc + size_w SIZE_LONG)) (\<lambda>_.
     mem_set addr sz data)))"
| "setData ADDR_MODE_PC_DISPLACEMENT reg sz data = returnE ()"
| "setData ADDR_MODE_PC_INDEX reg sz data = returnE ()"
| "setData ADDR_MODE_IMMEDIATE reg sz data = returnE ()"
| "setData ADDR_MODE_UNKNOWN reg sz data = returnE ()"

section \<open>Branch conditions\<close>

definition checkCondition :: "Condition \<Rightarrow> (CPUState, bool) exec" where
  "checkCondition cond =
     bindE (flag_get SR_FLAG_NEGATIVE) (\<lambda>flag_negative.
     bindE (flag_get SR_FLAG_ZERO) (\<lambda>flag_zero.
     bindE (flag_get SR_FLAG_OVERFLOW) (\<lambda>flag_overflow.
     bindE (flag_get SR_FLAG_CARRY) (\<lambda>flag_carry.
     returnE (case cond of
       COND_TRUE \<Rightarrow> True
     | COND_FALSE \<Rightarrow> False
     | COND_HIGHER \<Rightarrow> \<not> flag_carry \<and> \<not> flag_zero
     | COND_LOWER_SAME \<Rightarrow> flag_carry \<or> flag_zero
     | COND_CARRY_CLEAR \<Rightarrow> \<not> flag_carry
     | COND_CARRY_SET \<Rightarrow> flag_carry
     | COND_NOT_EQUAL \<Rightarrow> \<not> flag_zero
     | COND_EQUAL \<Rightarrow> flag_zero
     | COND_OVERFLOW_CLEAR \<Rightarrow> \<not> flag_overflow
     | COND_OVERFLOW_SET \<Rightarrow> flag_overflow
     | COND_PLUS \<Rightarrow> \<not> flag_negative
     | COND_MINUS \<Rightarrow> flag_negative
     | COND_GREATER_EQUAL \<Rightarrow> (flag_negative \<and> flag_overflow) \<or> (\<not> flag_negative \<and> \<not> flag_overflow)
     | COND_LESS_THAN \<Rightarrow> (flag_negative \<and> \<not> flag_overflow) \<or> (\<not> flag_negative \<and> flag_overflow)
     | COND_GREATER_THAN \<Rightarrow> (flag_negative \<and> flag_overflow \<and> \<not> flag_zero)
         \<or> (\<not> flag_negative \<and> \<not> flag_overflow \<and> \<not> flag_zero)
     | COND_LESS_EQUAL \<Rightarrow> (flag_negative \<and> \<not> flag_overflow)
         \<or> ((\<not> flag_negative \<and> flag_overflow) \<or> flag_zero))))))"

end
