(* ===== verification/Cpu_Frame.thy ===== *)
theory Cpu_Frame
  imports Cpu_State
begin

text \<open>
  What the operations of \<open>CPUState\<close> leave alone: the interface \<open>cpu_frame\<close> and its instances.
\<close>


section \<open>What the operations leave alone\<close>

text \<open>
  A frame of the whole machine: a preorder on states that writes to a general register, to
  the program counter, to the five condition codes and to memory respect.  Every
  addressing-mode operation and, in the theories of the instructions, every instruction keeps
  every such frame.
\<close>

definition user_flag :: "StatusRegisterFlag \<Rightarrow> bool" where
  "user_flag f \<longleftrightarrow> flag_bit f < 5"

lemma user_flag_simps [simp]:
  "user_flag SR_FLAG_CARRY" "user_flag SR_FLAG_OVERFLOW" "user_flag SR_FLAG_ZERO"
  "user_flag SR_FLAG_NEGATIVE" "user_flag SR_FLAG_EXTEND"
  by (simp_all add: user_flag_def)

text \<open>
  The contract in steps: reading keeps every frame on states (\<open>read_frame\<close>); \<open>data_frame\<close> covers the
  writes to registers and memory, and suffices for the addressing modes; \<open>flag_frame\<close> covers the
  condition codes; \<open>cpu_frame\<close> is both.
\<close>

locale read_frame = frame R for R :: "CPUState \<Rightarrow> CPUState \<Rightarrow> bool"
begin

lemma keeps_regs_get [keeps_intros]: "keeps R (regs_get r sz)"
  by (simp add: keeps_def regs_get_def frame_refl)

lemma keeps_mem_get [keeps_intros]: "keeps R (mem_get a sz)"
  by (simp add: keeps_def mem_get_def frame_refl)

lemma keeps_flag_get [keeps_intros]: "keeps R (flag_get f)"
  by (simp add: flag_get_def keeps_gets)

lemma keeps_int_add [keeps_intros]: "keeps R (int_add a b)"
  by (simp add: int_add_def keeps_return keeps_throw)

lemma keeps_index_extension [keeps_intros]: "keeps R (index_extension pc)"
  unfolding index_extension_def by (intro keeps_intros)

lemma keeps_pair [keeps_intros]: "(\<And>a b. keeps R (f a b)) \<Longrightarrow> keeps R (case p of (a, b) \<Rightarrow> f a b)"
  by (cases p) simp

lemma keeps_checkCondition [keeps_intros]: "keeps R (checkCondition c)"
  unfolding checkCondition_def by (intro keeps_intros)

lemma keeps_getDataSilent [keeps_intros]: "keeps R (getDataSilent m r sz)"
  by (cases m) (auto intro!: keeps_intros)

end

locale data_frame = read_frame +
  assumes frame_general: "general_reg r \<Longrightarrow> keeps R (regs_set r sz v)"
    and frame_pc: "keeps R (regs_set REG_PC sz v)"
    and frame_mem: "keeps R (mem_set a sz v)"
begin

lemmas frame_writes [keeps_intros] = frame_general frame_pc frame_mem

lemma keeps_stackPop [keeps_intros]: "keeps R (stackPop sz)"
  unfolding stackPop_def by (intro keeps_intros) simp

lemma keeps_stackPush [keeps_intros]: "keeps R (stackPush sz v)"
  unfolding stackPush_def by (intro keeps_intros) simp

lemma keeps_getControlAddress [keeps_intros]: "keeps R (getControlAddress m r sz)"
  by (cases m) (auto intro!: keeps_intros)

lemma keeps_getData [keeps_intros]: "general_reg r \<Longrightarrow> keeps R (getData m r sz)"
  by (cases m) (auto intro!: keeps_intros)

lemma keeps_setData [keeps_intros]: "general_reg r \<Longrightarrow> keeps R (setData m r sz v)"
  by (cases m) (auto intro!: keeps_intros)

end

locale flag_frame = read_frame +
  assumes frame_flag: "user_flag f \<Longrightarrow> keeps R (flag_set f b)"
begin

lemmas flag_writes [keeps_intros] = frame_flag

end

locale cpu_frame = data_frame + flag_frame

text \<open>Reading without side effects keeps equality.\<close>

lemma pure_regs_get [keeps_intros]: "keeps (=) (regs_get r sz)"
  by (simp add: keeps_def regs_get_def)

lemma pure_mem_get [keeps_intros]: "keeps (=) (mem_get a sz)"
  by (simp add: keeps_def mem_get_def)

lemma pure_pair [keeps_intros]: "(\<And>a b. keeps (=) (f a b)) \<Longrightarrow> keeps (=) (case p of (a, b) \<Rightarrow> f a b)"
  by (cases p) simp

lemma pure_index_extension [keeps_intros]: "keeps (=) (index_extension pc)"
  unfolding index_extension_def by (intro keeps_intros)

lemma pure_getDataSilent: "keeps (=) (getDataSilent m r sz)"
  by (cases m) (auto intro!: keeps_intros)

end
