(* ===== verification/Cpu_View.thy ===== *)
theory Cpu_View
  imports Cpu_Frame
begin

text \<open>
  The state of the machine as a program sees it: banked registers, the program counter, the
  flags; the calls on the members of \<open>CPUState\<close> as updates of these, and the stack.
\<close>


section \<open>The registers as a program sees them\<close>

definition rval :: "CPUState \<Rightarrow> RegisterType \<Rightarrow> 32 word" where
  "rval s r = reg_buffer (registers s) (bank (registers s) r)"

definition rput :: "CPUState \<Rightarrow> RegisterType \<Rightarrow> 32 word \<Rightarrow> CPUState" where
  "rput s r v = s\<lparr>registers := (registers s)\<lparr>reg_buffer :=
     (reg_buffer (registers s))(bank (registers s) r := v)\<rparr>\<rparr>"

definition pc_of :: "CPUState \<Rightarrow> 32 word" where
  "pc_of s = reg_buffer (registers s) REG_PC"

definition flag :: "CPUState \<Rightarrow> StatusRegisterFlag \<Rightarrow> bool" where
  "flag s f = Registers_get_flag (registers s) f"

definition fput :: "CPUState \<Rightarrow> StatusRegisterFlag \<Rightarrow> bool \<Rightarrow> CPUState" where
  "fput s f b = s\<lparr>registers := Registers_set_flag (registers s) f b\<rparr>"

named_theorems view "registers, flags and memory after an update"

lemma memory_rput [simp, view]: "memory (rput s r v) = memory s"
  by (simp add: rput_def)

lemma memory_fput [simp, view]: "memory (fput s f b) = memory s"
  by (simp add: fput_def)

lemma supervisor_rput [simp]: "r \<noteq> REG_SR \<Longrightarrow> supervisor (registers (rput s r v)) = supervisor (registers s)"
  by (auto simp: rput_def supervisor_def bank_SR_iff)

lemma bank_rput [simp]: "r \<noteq> REG_SR \<Longrightarrow> bank (registers (rput s r v)) q = bank (registers s) q"
  by (simp add: bank_def)

lemma bank_fput [simp]: "f \<noteq> SR_FLAG_SUPERVISOR \<Longrightarrow> bank (registers (fput s f b)) q = bank (registers s) q"
  by (simp add: bank_def fput_def)

lemma rval_rput [view]:
  "r \<noteq> REG_SR \<Longrightarrow>
   rval (rput s r v) q = (if bank (registers s) q = bank (registers s) r then v else rval s q)"
  by (simp add: rval_def) (simp add: rput_def)

lemma bank_eq_general:
  "general_reg q \<Longrightarrow> general_reg r \<Longrightarrow> bank (registers s) q = bank (registers s) r \<longleftrightarrow> q = r"
  by (auto simp: bank_def general_reg_def split: if_splits)

lemma rval_rput_general [simp, view]:
  "general_reg q \<Longrightarrow> general_reg r \<Longrightarrow> rval (rput s r v) q = (if q = r then v else rval s q)"
  using bank_eq_general [of q r s] general_reg_neq(3) [of r] by (simp add: rval_rput)

lemma rval_rput_pc [simp, view]: "general_reg q \<Longrightarrow> rval (rput s REG_PC v) q = rval s q"
  by (auto simp: rval_rput dest: bank_not)

lemma pc_rput [simp, view]:
  "pc_of (rput s REG_PC v) = v"
  "general_reg r \<Longrightarrow> pc_of (rput s r v) = pc_of s"
  by (simp_all add: pc_of_def rput_def)

lemma flag_rput [simp, view]: "r \<noteq> REG_SR \<Longrightarrow> flag (rput s r v) f = flag s f"
  by (auto simp: flag_def rput_def flag_get_bit bank_SR_iff)

lemma rval_fput [simp, view]: "f \<noteq> SR_FLAG_SUPERVISOR \<Longrightarrow> general_reg q \<Longrightarrow> rval (fput s f b) q = rval s q"
  by (simp add: rval_def) (simp add: fput_def)

lemma pc_fput [simp, view]: "pc_of (fput s f b) = pc_of s"
  by (simp add: pc_of_def fput_def)

lemma flag_fput [simp, view]: "flag (fput s f b) g = (if f = g then b else flag s g)"
  by (simp add: flag_def fput_def)

lemma rval_PC [simp]: "rval s REG_PC = pc_of s"
  by (simp add: rval_def pc_of_def)

lemma rput_rput [simp]: "r \<noteq> REG_SR \<Longrightarrow> rput (rput s r v) r w = rput s r w"
proof -
  assume r: "r \<noteq> REG_SR"
  have "bank (registers (rput s r v)) r = bank (registers s) r" using r by simp
  then show ?thesis by (simp add: rput_def)
qed

lemma general_not_SR: "general_reg r \<Longrightarrow> r \<noteq> REG_SR" by auto

text \<open>An assigned state is the other one on its own memory.\<close>

lemma assign_view:
  "memory (CPUState_assign lh rh) = memory lh" "rval (CPUState_assign lh rh) r = rval rh r"
  "pc_of (CPUState_assign lh rh) = pc_of rh" "flag (CPUState_assign lh rh) f = flag rh f"
  by (simp_all add: CPUState_assign_def rval_def pc_of_def flag_def)

text \<open>The calls on the members in terms of these views.\<close>

lemma regs_get_rval [exec_simps]:
  "proper_size sz \<Longrightarrow> reg_index r < 19 \<Longrightarrow>
   regs_get r sz s = (Inr (take_bit (bits_of sz) (rval s r)), s)"
  by (simp add: regs_get_def rval_def Registers_get_eq)

lemma regs_get_long [simp, exec_simps]:
  "general_reg r \<Longrightarrow> regs_get r SIZE_LONG s = (Inr (rval s r), s)"
  "regs_get REG_PC SIZE_LONG s = (Inr (pc_of s), s)"
  by (simp_all add: regs_get_rval general_reg_index)

lemma regs_set_rput [exec_simps]:
  "proper_size sz \<Longrightarrow> reg_index r < 19 \<Longrightarrow> r \<noteq> REG_SR \<Longrightarrow>
   regs_set r sz v s = (Inr (), rput s r (merge sz (rval s r) v))"
  by (simp add: regs_set_def rput_def rval_def Registers_set_eq bank_SR_iff)

lemma regs_set_long [simp, exec_simps]:
  "general_reg r \<Longrightarrow> regs_set r SIZE_LONG v s = (Inr (), rput s r v)"
  "regs_set REG_PC SIZE_LONG v s = (Inr (), rput s REG_PC v)"
  by (simp_all add: regs_set_rput general_reg_index general_reg_neq)

lemma flag_get_flag [simp, exec_simps]: "flag_get f s = (Inr (flag s f), s)"
  by (simp add: flag_get_def flag_def)

lemma flag_set_fput [simp, exec_simps]: "flag_set f b s = (Inr (), fput s f b)"
  by (simp add: flag_set_def fput_def)

lemma mem_get_apply: "mem_get a sz s = (BaseMemory_get (memory s) (ucast a) sz, s)"
  by (simp add: mem_get_def)

lemma mem_set_Inr: "mem_set a sz v s = (Inr (), s') \<longleftrightarrow>
  (\<exists>m. BaseMemory_set (memory s) (ucast a) sz v = Inr m \<and> s' = s\<lparr>memory := m\<rparr>)"
  by (auto simp: mem_set_def split: sum.splits)

lemma view_memory [simp, view]:
  "rval (s\<lparr>memory := m\<rparr>) r = rval s r" "pc_of (s\<lparr>memory := m\<rparr>) = pc_of s"
  "flag (s\<lparr>memory := m\<rparr>) f = flag s f" "memory (s\<lparr>memory := m\<rparr>) = m"
  "supervisor (registers (s\<lparr>memory := m\<rparr>)) = supervisor (registers s)"
  by (simp_all add: rval_def pc_of_def flag_def)

lemma size_w_simps [simp]: "size_w SIZE_BYTE = 1" "size_w SIZE_WORD = 2" "size_w SIZE_LONG = 4"
  by (simp_all add: size_w_def)

section \<open>Stack\<close>

lemma stackPush_Inr:
  "stackPush sz d s = (Inr (), s') \<longleftrightarrow>
   (\<exists>m. BaseMemory_set (memory s) (ucast (rval s REG_USP - size_w sz)) sz d = Inr m \<and>
        s' = (rput s REG_USP (rval s REG_USP - size_w sz))\<lparr>memory := m\<rparr>)"
  by (simp add: stackPush_def mem_set_Inr Let_def)

lemma stackPop_eq:
  "stackPop sz s =
   (case BaseMemory_get (memory s) (ucast (rval s REG_USP)) sz of
      Inl e \<Rightarrow> (Inl e, s)
    | Inr v \<Rightarrow> (Inr v, rput s REG_USP (rval s REG_USP + size_w sz)))"
  by (simp add: stackPop_def mem_get_apply bindE_apply split: sum.splits)

text \<open>
  C32. A successful CPUState::stackPush lowers the stack pointer by the size, and stackPop after
  it returns the value pushed, truncated to its size, and restores the whole register file, every
  word and flag of it; the pop writes no memory, and the pair changes none outside the pushed
  cell.
\<close>

theorem stack_push_pop:
  assumes "stackPush sz d s = (Inr (), s')"
  shows "rval s' REG_USP = rval s REG_USP - size_w sz \<and>
    (\<exists>s''. stackPop sz s' = (Inr (take_bit (bits_of sz) d), s'') \<and> registers s'' = registers s \<and>
       memory s'' = memory s' \<and> memSize (memory s'') = memSize (memory s) \<and>
       (\<forall>a sz'. separate (ucast (rval s REG_USP - size_w sz)) sz a sz' \<longrightarrow>
          BaseMemory_get (memory s'') a sz' = BaseMemory_get (memory s) a sz'))"
proof -
  from assms obtain m where m: "BaseMemory_set (memory s) (ucast (rval s REG_USP - size_w sz)) sz d = Inr m"
    and s': "s' = (rput s REG_USP (rval s REG_USP - size_w sz))\<lparr>memory := m\<rparr>"
    by (auto simp: stackPush_Inr)
  have "BaseMemory_get m (ucast (rval s REG_USP - size_w sz)) sz = Inr (take_bit (bits_of sz) d)"
    using m by (rule base.read_back)
  moreover have "registers (rput s' REG_USP (rval s REG_USP)) = registers s"
    by (simp add: s' rput_def rval_def bank_def supervisor_def)
  ultimately show ?thesis
    using m base.rd_wr_separate [OF m] BaseMemory_set_memSize [OF m]
    by (auto simp: stackPop_eq s')
qed

end
