(* ===== verification/Cpu_Modes.thy ===== *)
theory Cpu_Modes
  imports Cpu_View
begin

text \<open>
  The addressing modes of \<open>CPUState\<close> against one account of effective addresses.
\<close>


section \<open>The effective address\<close>

text \<open>
  An abstract account of the memory modes: the address of the operand, computed from the state
  without changing it.  A 16-bit absolute address is sign-extended, as the M68000 does.
\<close>

fun memory_mode :: "AddressingMode \<Rightarrow> bool" where
  "memory_mode ADDR_MODE_DIRECT_DATA = False"
| "memory_mode ADDR_MODE_DIRECT_ADDR = False"
| "memory_mode ADDR_MODE_IMMEDIATE = False"
| "memory_mode ADDR_MODE_UNKNOWN = False"
| "memory_mode _ = True"

fun operand_address :: "AddressingMode \<Rightarrow> RegisterType \<Rightarrow> DataSize \<Rightarrow> (CPUState, 32 word) exec" where
  "operand_address ADDR_MODE_INDIRECT_PREDECREMENT r sz =
     getsE (\<lambda>s. rval s r - inc_step r sz)"
| "operand_address ADDR_MODE_INDIRECT_DISPLACEMENT r sz =
     (\<lambda>s. bindE (mem_get (pc_of s) SIZE_WORD) (\<lambda>d. returnE (rval s r + sext16 d)) s)"
| "operand_address ADDR_MODE_INDIRECT_INDEX r sz =
     (\<lambda>s. bindE (index_extension (pc_of s)) (\<lambda>(i, d). returnE (rval s r + i + d)) s)"
| "operand_address ADDR_MODE_PC_DISPLACEMENT r sz =
     (\<lambda>s. bindE (mem_get (pc_of s) SIZE_WORD) (\<lambda>d. returnE (pc_of s + sext16 d)) s)"
| "operand_address ADDR_MODE_PC_INDEX r sz =
     (\<lambda>s. bindE (index_extension (pc_of s)) (\<lambda>(i, d). returnE (pc_of s + i + d)) s)"
| "operand_address ADDR_MODE_ABS_WORD r sz =
     (\<lambda>s. bindE (mem_get (pc_of s) SIZE_WORD) (\<lambda>w. returnE (sext16 w)) s)"
| "operand_address ADDR_MODE_ABS_LONG r sz = (\<lambda>s. mem_get (pc_of s) SIZE_LONG s)"
| "operand_address _ r sz = getsE (\<lambda>s. rval s r)"

text \<open>Bytes of extension words an operand takes from the instruction stream.\<close>

fun ext_bytes :: "AddressingMode \<Rightarrow> DataSize \<Rightarrow> 32 word" where
  "ext_bytes ADDR_MODE_INDIRECT_DISPLACEMENT sz = 2"
| "ext_bytes ADDR_MODE_INDIRECT_INDEX sz = 2"
| "ext_bytes ADDR_MODE_PC_DISPLACEMENT sz = 2"
| "ext_bytes ADDR_MODE_PC_INDEX sz = 2"
| "ext_bytes ADDR_MODE_ABS_WORD sz = 2"
| "ext_bytes ADDR_MODE_ABS_LONG sz = 4"
| "ext_bytes ADDR_MODE_IMMEDIATE sz = (if sz = SIZE_LONG then 4 else 2)"
| "ext_bytes _ sz = 0"

text \<open>The register update of the increment modes.\<close>

fun inc_reg :: "AddressingMode \<Rightarrow> RegisterType \<Rightarrow> DataSize \<Rightarrow> CPUState \<Rightarrow> CPUState" where
  "inc_reg ADDR_MODE_INDIRECT_POSTINCREMENT r sz s = rput s r (rval s r + inc_step r sz)"
| "inc_reg ADDR_MODE_INDIRECT_PREDECREMENT r sz s = rput s r (rval s r - inc_step r sz)"
| "inc_reg _ r sz s = s"

lemma index_extension_state: "index_extension pc s = (v, s') \<Longrightarrow> s' = s"
  using pure_index_extension [of pc] by (metis keepsD)

lemma index_extension_iff:
  "index_extension pc s = (v, s') \<longleftrightarrow> fst (index_extension pc s) = v \<and> s' = s"
  by (metis index_extension_state prod.collapse fst_conv)

lemma regs_get_iff: "regs_get r sz s = (v, s') \<longleftrightarrow> Registers_get (registers s) r sz = v \<and> s' = s"
  by (auto simp: regs_get_def)

lemma mem_get_iff: "mem_get a sz s = (v, s') \<longleftrightarrow> BaseMemory_get (memory s) (ucast a) sz = v \<and> s' = s"
  by (auto simp: mem_get_def)

lemmas read_iffs = index_extension_iff regs_get_iff mem_get_iff

lemma silent_read_at_address:
  assumes "memory_mode m" and "general_reg r"
  shows "getDataSilent m r sz s =
    bindE (operand_address m r sz) (\<lambda>a. mem_get a sz) s"
  using assms by (cases m) (auto simp: bindE_apply mem_get_apply split: sum.splits prod.splits)

lemma getDataSilent_state [simp]: "snd (getDataSilent m r sz s) = s"
  using pure_getDataSilent [of m r sz] by (simp add: keeps_def)

lemma operand_address_state: "operand_address m r sz s = (v, s') \<Longrightarrow> s' = s"
  by (cases m) (auto simp: bindE_apply read_iffs split: sum.splits prod.splits)

lemma rput_pc_id [simp]: "rput s REG_PC (pc_of s) = s"
  by (simp add: rput_def pc_of_def)

lemma rput_memory [simp]: "rput (s\<lparr>memory := mem\<rparr>) r v = (rput s r v)\<lparr>memory := mem\<rparr>"
  by (simp add: rput_def)

lemma write_at_address:
  assumes "memory_mode m" and "IS_MEMORY_ALTERABLE m" and "general_reg r" and "setData m r sz d s = (Inr (), s')"
  shows "\<exists>a mem. operand_address m r sz s = (Inr a, s) \<and>
    BaseMemory_set (memory s) (ucast a) sz d = Inr mem \<and>
    s' = (inc_reg m r sz (rput s REG_PC (pc_of s + ext_bytes m sz)))\<lparr>memory := mem\<rparr>"
  using assms
  by (cases m) (auto simp: IS_MEMORY_ALTERABLE_def Let_def mem_set_def read_iffs bindE_apply
      split: sum.splits prod.splits)

lemma sext16_small:
  assumes "w < 0x8000"
  shows "sext16 w = w"
proof -
  have "w < 2 ^ 15" using assms by simp
  then have *: "take_bit 15 w = w"
    by (simp add: word_less_nat_alt word_unat_eq_iff unsigned_take_bit_eq take_bit_nat_eq_self_iff)
  have "sext16 (take_bit 15 w) = take_bit 15 w"
    by (rule bit_word_eqI) (auto simp: sext16_def bit_simps)
  then show ?thesis by (simp only: *)
qed

text \<open>Reading with and without side effects.\<close>

text \<open>
  C18. CPUState::getData and CPUState::getDataSilent give the same value or the same error for
  every addressing mode, the silent one without changing the state and the other with exactly the
  documented side effects: the program counter past the extension words and the address register
  stepped. For absolute short addresses this holds for addresses below 0x8000 only, because one of
  the two sign-extends and the other does not.
\<close>

theorem getData_agrees_with_silent:
  assumes "general_reg r"
    and "m = ADDR_MODE_ABS_WORD \<Longrightarrow>
      \<forall>w. BaseMemory_get (memory s) (ucast (pc_of s)) SIZE_WORD = Inr w \<longrightarrow> w < 0x8000"
  shows "fst (getData m r sz s) = fst (getDataSilent m r sz s) \<and>
    snd (getDataSilent m r sz s) = s \<and>
    (\<forall>v s'. getData m r sz s = (Inr v, s') \<longrightarrow>
       s' = inc_reg m r sz (rput s REG_PC (pc_of s + ext_bytes m sz)))"
proof -
  have "fst (getData m r sz s) = fst (getDataSilent m r sz s)"
    using assms by (cases m) (auto simp: bindE_apply read_iffs mem_get_apply sext16_small Let_def
        split: sum.splits prod.splits)
  moreover have "getData m r sz s = (Inr v, s') \<Longrightarrow>
       s' = inc_reg m r sz (rput s REG_PC (pc_of s + ext_bytes m sz))" for v s'
    using assms(1) by (cases m) (auto simp: read_iffs Let_def bindE_apply
        split: sum.splits prod.splits if_splits)
  ultimately show ?thesis by simp
qed

text \<open>
  C19. For an alterable memory operand, reading with getDataSilent and then writing with setData,
  as every read-modify-write instruction does, read and write the same address, later reads of it
  give the value written, and the pair consumes the extension words once.
\<close>

theorem read_modify_write_same_cell:
  assumes "memory_mode m" and "IS_MEMORY_ALTERABLE m" and "general_reg r"
    and "getDataSilent m r sz s = (Inr v, s1)" and "setData m r sz d s1 = (Inr (), s2)"
  shows "\<exists>a. BaseMemory_get (memory s) a sz = Inr v \<and>
    BaseMemory_set (memory s) a sz d = Inr (memory s2) \<and>
    BaseMemory_get (memory s2) a sz = Inr (take_bit (bits_of sz) d) \<and>
    pc_of s2 = pc_of s + ext_bytes m sz"
proof -
  have s1: "s1 = s" using getDataSilent_state [of m r sz s] assms(4) by simp
  with assms(5) have "setData m r sz d s = (Inr (), s2)" by simp
  from write_at_address [OF assms(1,2,3) this] obtain a mem where
    a: "operand_address m r sz s = (Inr a, s)"
    and w: "BaseMemory_set (memory s) (ucast a) sz d = Inr mem"
    and s2: "s2 = (inc_reg m r sz (rput s REG_PC (pc_of s + ext_bytes m sz)))\<lparr>memory := mem\<rparr>"
    by blast
  have "getDataSilent m r sz s = mem_get a sz s"
    using silent_read_at_address [OF assms(1,3)] a by simp
  moreover have "pc_of s2 = pc_of s + ext_bytes m sz" and "memory s2 = mem"
    using assms(3) by (cases m; simp add: s2)+
  ultimately show ?thesis
    using assms(4) w base.read_back [OF w] by (auto simp: mem_get_apply)
qed

text \<open>
  C20. The address CPUState::getControlAddress computes for a control addressing mode is the
  address getData reads from in that mode, and both leave the program counter behind the extension
  words: JMP, JSR, LEA and PEA name the location a data instruction would access.
\<close>

theorem control_address_is_operand_address:
  assumes "IS_CONTROL_ADDR m" and "general_reg r" and "getControlAddress m r sz s = (Inr a, s')"
  shows "getData m r sz' s = mem_get a sz' s' \<and>
    s' = rput s REG_PC (pc_of s + ext_bytes m sz')"
  using assms
  by (cases m) (auto simp: IS_CONTROL_ADDR_def Let_def read_iffs bindE_apply int_add_def algebra_simps
      split: sum.splits prod.splits if_splits)

end
