(* ===== verification/Cpu_Conditions.thy ===== *)
theory Cpu_Conditions
  imports Cpu_Modes
begin

text \<open>
  What \<open>CPUState::checkCondition\<close> decides after a comparison, against relations between numbers.
\<close>

section \<open>What a branch condition decides\<close>

text \<open>
  The meaning of a condition after a comparison of \<open>d\<close> with \<open>c\<close> (the flags of \<open>d - c\<close>), as
  relations between numbers.
\<close>

fun compare_spec :: "Condition \<Rightarrow> DataSize \<Rightarrow> 32 word \<Rightarrow> 32 word \<Rightarrow> bool" where
  "compare_spec COND_TRUE sz d c = True"
| "compare_spec COND_FALSE sz d c = False"
| "compare_spec COND_HIGHER sz d c = (uval sz c < uval sz d)"
| "compare_spec COND_LOWER_SAME sz d c = (uval sz d \<le> uval sz c)"
| "compare_spec COND_CARRY_CLEAR sz d c = (uval sz c \<le> uval sz d)"
| "compare_spec COND_CARRY_SET sz d c = (uval sz d < uval sz c)"
| "compare_spec COND_NOT_EQUAL sz d c = (uval sz d \<noteq> uval sz c)"
| "compare_spec COND_EQUAL sz d c = (uval sz d = uval sz c)"
| "compare_spec COND_OVERFLOW_CLEAR sz d c = (sval sz (d - c) = sval sz d - sval sz c)"
| "compare_spec COND_OVERFLOW_SET sz d c = (sval sz (d - c) \<noteq> sval sz d - sval sz c)"
| "compare_spec COND_PLUS sz d c = (0 \<le> sval sz (d - c))"
| "compare_spec COND_MINUS sz d c = (sval sz (d - c) < 0)"
| "compare_spec COND_GREATER_EQUAL sz d c = (sval sz c \<le> sval sz d)"
| "compare_spec COND_LESS_THAN sz d c = (sval sz d < sval sz c)"
| "compare_spec COND_GREATER_THAN sz d c = (sval sz c < sval sz d)"
| "compare_spec COND_LESS_EQUAL sz d c = (sval sz d \<le> sval sz c)"

definition compare_flags :: "DataSize \<Rightarrow> 32 word \<Rightarrow> 32 word \<Rightarrow> CPUState \<Rightarrow> bool" where
  "compare_flags sz d c s \<longleftrightarrow>
     flag s SR_FLAG_NEGATIVE = (sval sz (d - c) < 0) \<and>
     flag s SR_FLAG_ZERO = (uval sz d = uval sz c) \<and>
     flag s SR_FLAG_OVERFLOW = (sval sz (d - c) \<noteq> sval sz d - sval sz c) \<and>
     flag s SR_FLAG_CARRY = (uval sz d < uval sz c)"

lemma signed_less_int:
  fixes x y z M :: int
  assumes "0 \<le> x" "x < 2 * M" "0 \<le> y" "y < 2 * M" "z = (x - y) mod (2 * M)"
    and "X = (if M \<le> x then x - 2 * M else x)" "Y = (if M \<le> y then y - 2 * M else y)"
    and "Z = (if M \<le> z then z - 2 * M else z)"
  shows "(Z < 0) \<noteq> (Z \<noteq> X - Y) \<longleftrightarrow> X < Y"
proof -
  have "(x - y) mod (2 * M) = x - y + 2 * M" if "x < y"
    using that assms mod_add_self2 [of "x - y" "2 * M"]
    by (simp add: mod_pos_pos_trivial del: mod_add_self2)
  then have "z = x - y \<and> y \<le> x \<or> z = x - y + 2 * M \<and> x < y"
    using assms by (cases "x < y") (auto simp: mod_pos_pos_trivial)
  then show ?thesis using assms by (auto split: if_splits)
qed

lemma signed_less_flags:
  fixes d c :: "32 word"
  assumes "proper_size sz"
  shows "(sval sz (d - c) < 0) \<noteq> (sval sz (d - c) \<noteq> sval sz d - sval sz c) \<longleftrightarrow> sval sz d < sval sz c"
proof -
  have M: "2 ^ bits_of sz = 2 * (2 ^ (bits_of sz - 1) :: int)" using assms by (cases sz) simp_all
  show ?thesis
    by (rule signed_less_int [of "uval sz d" "2 ^ (bits_of sz - 1)" "uval sz c" "uval sz (d - c)"])
      (use uval_bounds [of sz d] uval_bounds [of sz c] in
        \<open>simp_all only: sval_uval [OF assms] uval_add [OF assms] M\<close>)
qed

lemma sval_eq_iff:
  fixes d c :: "32 word"
  assumes "proper_size sz" shows "sval sz d = sval sz c \<longleftrightarrow> uval sz d = uval sz c"
  using assms by (cases sz) (simp_all add: sval_def uval_def signed_take_bit_eq_iff_take_bit_eq)

text \<open>The decision as a function of the flags.\<close>

lemma checkCondition_flags:
  "checkCondition cond s = (Inr (case cond of
       COND_TRUE \<Rightarrow> True
     | COND_FALSE \<Rightarrow> False
     | COND_HIGHER \<Rightarrow> \<not> flag s SR_FLAG_CARRY \<and> \<not> flag s SR_FLAG_ZERO
     | COND_LOWER_SAME \<Rightarrow> flag s SR_FLAG_CARRY \<or> flag s SR_FLAG_ZERO
     | COND_CARRY_CLEAR \<Rightarrow> \<not> flag s SR_FLAG_CARRY
     | COND_CARRY_SET \<Rightarrow> flag s SR_FLAG_CARRY
     | COND_NOT_EQUAL \<Rightarrow> \<not> flag s SR_FLAG_ZERO
     | COND_EQUAL \<Rightarrow> flag s SR_FLAG_ZERO
     | COND_OVERFLOW_CLEAR \<Rightarrow> \<not> flag s SR_FLAG_OVERFLOW
     | COND_OVERFLOW_SET \<Rightarrow> flag s SR_FLAG_OVERFLOW
     | COND_PLUS \<Rightarrow> \<not> flag s SR_FLAG_NEGATIVE
     | COND_MINUS \<Rightarrow> flag s SR_FLAG_NEGATIVE
     | COND_GREATER_EQUAL \<Rightarrow> (flag s SR_FLAG_NEGATIVE \<and> flag s SR_FLAG_OVERFLOW) \<or> (\<not> flag s SR_FLAG_NEGATIVE \<and> \<not> flag s SR_FLAG_OVERFLOW)
     | COND_LESS_THAN \<Rightarrow> (flag s SR_FLAG_NEGATIVE \<and> \<not> flag s SR_FLAG_OVERFLOW) \<or> (\<not> flag s SR_FLAG_NEGATIVE \<and> flag s SR_FLAG_OVERFLOW)
     | COND_GREATER_THAN \<Rightarrow> (flag s SR_FLAG_NEGATIVE \<and> flag s SR_FLAG_OVERFLOW \<and> \<not> flag s SR_FLAG_ZERO)
         \<or> (\<not> flag s SR_FLAG_NEGATIVE \<and> \<not> flag s SR_FLAG_OVERFLOW \<and> \<not> flag s SR_FLAG_ZERO)
     | COND_LESS_EQUAL \<Rightarrow> (flag s SR_FLAG_NEGATIVE \<and> \<not> flag s SR_FLAG_OVERFLOW)
         \<or> ((\<not> flag s SR_FLAG_NEGATIVE \<and> flag s SR_FLAG_OVERFLOW) \<or> flag s SR_FLAG_ZERO)), s)"
  by (simp add: checkCondition_def)

text \<open>
  C22. When the flags are those of the difference of two operands, CPUState::checkCondition
  decides all sixteen conditions as the relations between the unsigned or signed numbers they
  stand for, for every operand size.
\<close>

theorem condition_after_compare:
  assumes "proper_size sz" and "compare_flags sz d c s"
  shows "checkCondition cond s = (Inr (compare_spec cond sz d c), s)"
proof -
  from assms(2) have f: "flag s SR_FLAG_NEGATIVE = (sval sz (d - c) < 0)"
    "flag s SR_FLAG_ZERO = (uval sz d = uval sz c)"
    "flag s SR_FLAG_OVERFLOW = (sval sz (d - c) \<noteq> sval sz d - sval sz c)"
    "flag s SR_FLAG_CARRY = (uval sz d < uval sz c)"
    by (simp_all add: compare_flags_def)
  show ?thesis
    using signed_less_flags [OF assms(1), of d c] sval_eq_iff [OF assms(1), of d c]
    by (cases cond) (auto simp: checkCondition_def f)
qed

end
