(* ===== verification/Cpu_Safety.thy ===== *)
theory Cpu_Safety
  imports Cpu_View
begin

text \<open>
  Three frames that every operation of the machine keeps: the bytes past the end of the memory,
  the privileged part of the registers, and the class invariant of the status register.  Each is
  an interpretation of \<open>cpu_frame\<close>; the theories of the instructions and of the machine read
  their safety properties off these interpretations.
\<close>

section \<open>Memory outside the buffer\<close>

definition in_bounds :: "CPUState \<Rightarrow> CPUState \<Rightarrow> bool" where
  "in_bounds s t \<longleftrightarrow> memSize (memory t) = memSize (memory s) \<and>
     (\<forall>k \<ge> unat (memSize (memory s)). baseAddr (memory t) k = baseAddr (memory s) k)"

lemma in_bounds_same_memory: "memory t = memory s \<Longrightarrow> in_bounds s t"
  by (simp add: in_bounds_def)

lemma regs_set_memory: "memory (snd (regs_set r sz v s)) = memory s"
  by (auto simp: regs_set_def split: sum.splits)

lemma flag_set_memory: "memory (snd (flag_set f b s)) = memory s"
  by simp

lemma mem_set_registers: "registers (snd (mem_set a sz v s)) = registers s"
  by (auto simp: mem_set_def split: sum.splits)

lemma BaseMemory_set_in_bounds:
  "BaseMemory_set m a sz v = Inr m' \<Longrightarrow>
   memSize m' = memSize m \<and> (\<forall>k \<ge> unat (memSize m). baseAddr m' k = baseAddr m k)"
  by (elim BaseMemory_set_cases) (auto simp: write_real_mem_frame)

interpretation bounds: cpu_frame in_bounds
proof
  fix s t u :: CPUState and r sz v a f b
  show "in_bounds s s" by (simp add: in_bounds_def)
  show "in_bounds s t \<Longrightarrow> in_bounds t u \<Longrightarrow> in_bounds s u" by (simp add: in_bounds_def)
  show "keeps in_bounds (regs_set r sz v)" "keeps in_bounds (regs_set REG_PC sz v)"
    "keeps in_bounds (flag_set f b)"
    by (simp_all add: keeps_def in_bounds_same_memory regs_set_memory flag_set_memory)
  show "keeps in_bounds (mem_set a sz v)"
    by (auto simp: keeps_def mem_set_def in_bounds_def dest: BaseMemory_set_in_bounds split: sum.splits)
qed

section \<open>Privileged registers\<close>

text \<open>
  The bits of the status register above the five condition codes, and the stack pointer of the
  mode the machine is not in.
\<close>

definition idle_stack :: "Registers \<Rightarrow> RegisterType" where
  "idle_stack rs = (if supervisor rs then REG_USP else REG_SSP)"

definition unprivileged :: "CPUState \<Rightarrow> CPUState \<Rightarrow> bool" where
  "unprivileged s t \<longleftrightarrow>
     (\<forall>n \<ge> 5. bit (reg_buffer (registers t) REG_SR) n = bit (reg_buffer (registers s) REG_SR) n) \<and>
     reg_buffer (registers t) (idle_stack (registers s)) = reg_buffer (registers s) (idle_stack (registers s))"

lemma unprivileged_supervisor:
  "unprivileged s t \<Longrightarrow> supervisor (registers t) = supervisor (registers s)"
  by (simp add: unprivileged_def supervisor_def)

lemma idle_not_bank:
  "general_reg r \<Longrightarrow> bank rs r \<noteq> idle_stack rs" "idle_stack rs \<noteq> REG_SR" "idle_stack rs \<noteq> REG_PC"
  by (auto simp: bank_def idle_stack_def general_reg_def)

lemma Registers_set_unprivileged:
  assumes "Registers_set rs r sz v = Inr rs'" and "general_reg r \<or> r = REG_PC"
  shows "reg_buffer rs' REG_SR = reg_buffer rs REG_SR \<and> reg_buffer rs' (idle_stack rs) = reg_buffer rs (idle_stack rs)"
  using assms idle_not_bank(1) [of r rs] idle_not_bank(2,3) [of rs]
  by (elim Registers_set_cases) (auto simp: bank_SR_iff)

lemma flag_set_unprivileged:
  "user_flag f \<Longrightarrow> unprivileged s (snd (flag_set f b s))"
  by (auto simp: unprivileged_def fput_def flag_set_bit user_flag_def idle_not_bank)

interpretation privilege: cpu_frame unprivileged
proof
  fix s t u :: CPUState and r sz v a f b
  show "unprivileged s s" by (simp add: unprivileged_def)
  show "unprivileged s t \<Longrightarrow> unprivileged t u \<Longrightarrow> unprivileged s u"
    using unprivileged_supervisor [of s t] by (simp add: unprivileged_def idle_stack_def)
  show "general_reg r \<Longrightarrow> keeps unprivileged (regs_set r sz v)" "keeps unprivileged (regs_set REG_PC sz v)"
    using Registers_set_unprivileged
    by (auto simp: keeps_def unprivileged_def regs_set_def split: sum.splits)
  show "user_flag f \<Longrightarrow> keeps unprivileged (flag_set f b)"
    by (rule keepsI) (rule flag_set_unprivileged)
  show "keeps unprivileged (mem_set a sz v)"
    by (simp add: keeps_def unprivileged_def mem_set_registers)
qed

section \<open>The status register stays clean\<close>

definition clean_step :: "CPUState \<Rightarrow> CPUState \<Rightarrow> bool" where
  "clean_step s t \<longleftrightarrow> (sr_clean (registers s) \<longrightarrow> sr_clean (registers t))"

interpretation clean: cpu_frame clean_step
  by unfold_locales
    (auto simp: clean_step_def keeps_def regs_set_def fput_def mem_set_registers
      intro: sr_clean_set sr_clean_set_flag split: sum.splits)

section \<open>Data movement leaves the status register alone\<close>

definition same_sr :: "CPUState \<Rightarrow> CPUState \<Rightarrow> bool" where
  "same_sr s t \<longleftrightarrow> reg_buffer (registers t) REG_SR = reg_buffer (registers s) REG_SR"

interpretation status: data_frame same_sr
  using Registers_set_unprivileged
  by unfold_locales
    (auto simp: same_sr_def keeps_def regs_set_def mem_set_registers split: sum.splits)

lemma same_sr_flag: "same_sr s t \<Longrightarrow> flag t f = flag s f"
  by (simp add: same_sr_def flag_def flag_get_bit)

end
