(* ===== verification/Disassembler.thy ===== *)
theory Disassembler
  imports Cpu_Modes
begin

text \<open>
  \<open>include/disassembler.hpp\<close> and \<open>src/disassembler.cpp\<close>: the text of registers, sizes, conditions
  and effective addresses.  A \<open>std::string\<close> is a HOL string.  What the code uses of
  \<open>std::ostringstream\<close> is concatenation and the manipulator \<open>std::hex\<close>: an unsigned number is
  written in lower-case base 16 without leading zeros, and a negative number of a signed type
  as the unsigned number of the same width (16 bits for \<open>int16_t\<close>, 32 bits for \<open>int\<close>).
\<close>

section \<open>Numbers in base 16\<close>

definition hex_digit :: "nat \<Rightarrow> char" where
  "hex_digit d = ''0123456789abcdef'' ! d"

fun hex_nat :: "nat \<Rightarrow> string" where
  "hex_nat n = (if n < 16 then [hex_digit n] else hex_nat (n div 16) @ [hex_digit (n mod 16)])"

declare hex_nat.simps [simp del]

definition hex :: "'a::len word \<Rightarrow> string" where
  "hex w = hex_nat (unat w)"

section \<open>Names\<close>

fun disasm_reg :: "RegisterType \<Rightarrow> string" where
  "disasm_reg REG_D0 = ''d0''"
| "disasm_reg REG_D1 = ''d1''"
| "disasm_reg REG_D2 = ''d2''"
| "disasm_reg REG_D3 = ''d3''"
| "disasm_reg REG_D4 = ''d4''"
| "disasm_reg REG_D5 = ''d5''"
| "disasm_reg REG_D6 = ''d6''"
| "disasm_reg REG_D7 = ''d7''"
| "disasm_reg REG_A0 = ''a0''"
| "disasm_reg REG_A1 = ''a1''"
| "disasm_reg REG_A2 = ''a2''"
| "disasm_reg REG_A3 = ''a3''"
| "disasm_reg REG_A4 = ''a4''"
| "disasm_reg REG_A5 = ''a5''"
| "disasm_reg REG_A6 = ''a6''"
| "disasm_reg REG_A7 = ''a7''"
| "disasm_reg REG_PC = ''pc''"
| "disasm_reg REG_SR = ''sr''"
| "disasm_reg _ = ''unknown reg''"

fun sizeSuffix :: "DataSize \<Rightarrow> string" where
  "sizeSuffix SIZE_BYTE = ''.b''"
| "sizeSuffix SIZE_WORD = ''.w''"
| "sizeSuffix SIZE_LONG = ''.l''"
| "sizeSuffix (SIZE_OTHER _) = ''''"

fun conditionSuffix :: "Condition \<Rightarrow> string" where
  "conditionSuffix COND_TRUE = ''t''"
| "conditionSuffix COND_FALSE = ''f''"
| "conditionSuffix COND_HIGHER = ''hi''"
| "conditionSuffix COND_LOWER_SAME = ''ls''"
| "conditionSuffix COND_CARRY_CLEAR = ''cc''"
| "conditionSuffix COND_CARRY_SET = ''cs''"
| "conditionSuffix COND_NOT_EQUAL = ''ne''"
| "conditionSuffix COND_EQUAL = ''eq''"
| "conditionSuffix COND_OVERFLOW_CLEAR = ''vc''"
| "conditionSuffix COND_OVERFLOW_SET = ''vs''"
| "conditionSuffix COND_PLUS = ''pl''"
| "conditionSuffix COND_MINUS = ''mi''"
| "conditionSuffix COND_GREATER_EQUAL = ''ge''"
| "conditionSuffix COND_LESS_THAN = ''lt''"
| "conditionSuffix COND_GREATER_THAN = ''gt''"
| "conditionSuffix COND_LESS_EQUAL = ''le''"

section \<open>Effective addresses\<close>

text \<open>
  The index register and the displacement in an extension word; the text leaves out the size of
  the index register.
\<close>

definition index_text :: "16 word \<Rightarrow> string" where
  "index_text ext_word =
     disasm_reg (getRegisterType (ext_word AND 0x8000) (drop_bit 12 ext_word AND 0x7))"

definition index_disp :: "16 word \<Rightarrow> 16 word" where
  "index_disp ext_word = scast (ucast (ext_word AND 0xFF) :: 8 word)"

fun effectiveAddress ::
  "AddressingMode \<Rightarrow> RegisterType \<Rightarrow> DataSize \<Rightarrow> (CPUState, string) exec" where
  "effectiveAddress ADDR_MODE_DIRECT_ADDR reg sz = returnE (disasm_reg reg)"
| "effectiveAddress ADDR_MODE_DIRECT_DATA reg sz = returnE (disasm_reg reg)"
| "effectiveAddress ADDR_MODE_INDIRECT reg sz = returnE (''('' @ disasm_reg reg @ '')'')"
| "effectiveAddress ADDR_MODE_INDIRECT_POSTINCREMENT reg sz =
     returnE (''('' @ disasm_reg reg @ '')+'')"
| "effectiveAddress ADDR_MODE_INDIRECT_PREDECREMENT reg sz =
     returnE (''-('' @ disasm_reg reg @ '')'')"
| "effectiveAddress ADDR_MODE_INDIRECT_DISPLACEMENT reg sz =
     bindE (regs_get REG_PC SIZE_LONG) (\<lambda>pc.
     bindE (mem_get pc SIZE_WORD) (\<lambda>w.
     bindE (regs_set REG_PC SIZE_LONG (pc + size_w SIZE_WORD)) (\<lambda>_.
     returnE (''($'' @ hex (ucast w :: 16 word) @ '','' @ disasm_reg reg @ '')''))))"
| "effectiveAddress ADDR_MODE_INDIRECT_INDEX reg sz =
     bindE (regs_get REG_PC SIZE_LONG) (\<lambda>pc.
     bindE (mem_get pc SIZE_WORD) (\<lambda>w.
     bindE (regs_set REG_PC SIZE_LONG (pc + size_w SIZE_WORD)) (\<lambda>_.
     returnE (''($'' @ hex (index_disp (ucast w)) @ '','' @ disasm_reg reg @ '','' @
              index_text (ucast w) @ '')''))))"
| "effectiveAddress ADDR_MODE_PC_DISPLACEMENT reg sz =
     bindE (regs_get REG_PC SIZE_LONG) (\<lambda>pc.
     bindE (mem_get pc SIZE_WORD) (\<lambda>w.
     bindE (regs_set REG_PC SIZE_LONG (pc + size_w SIZE_WORD)) (\<lambda>_.
     returnE (''($'' @ hex (sext16 w + 2) @ '','' @ disasm_reg REG_PC @ '')''))))"
| "effectiveAddress ADDR_MODE_PC_INDEX reg sz =
     bindE (regs_get REG_PC SIZE_LONG) (\<lambda>pc.
     bindE (mem_get pc SIZE_WORD) (\<lambda>w.
     bindE (regs_set REG_PC SIZE_LONG (pc + size_w SIZE_WORD)) (\<lambda>_.
     returnE (''($'' @ hex (scast (index_disp (ucast w)) + 2 :: 32 word) @ '','' @
              disasm_reg REG_PC @ '','' @ index_text (ucast w) @ '')''))))"
| "effectiveAddress ADDR_MODE_ABS_WORD reg sz =
     bindE (regs_get REG_PC SIZE_LONG) (\<lambda>pc.
     bindE (mem_get pc SIZE_WORD) (\<lambda>addr.
     bindE (regs_set REG_PC SIZE_LONG (pc + size_w SIZE_WORD)) (\<lambda>_.
     returnE (''($'' @ hex addr @ '').w''))))"
| "effectiveAddress ADDR_MODE_ABS_LONG reg sz =
     bindE (regs_get REG_PC SIZE_LONG) (\<lambda>pc.
     bindE (mem_get pc SIZE_LONG) (\<lambda>addr.
     bindE (regs_set REG_PC SIZE_LONG (pc + size_w SIZE_LONG)) (\<lambda>_.
     returnE (''($'' @ hex addr @ '').l''))))"
| "effectiveAddress ADDR_MODE_IMMEDIATE reg sz =
     (let memory_size = (if sz = SIZE_LONG then SIZE_LONG else SIZE_WORD) in
     bindE (regs_get REG_PC SIZE_LONG) (\<lambda>pc.
     bindE (mem_get pc memory_size) (\<lambda>value.
     let data = (if sz = SIZE_BYTE then MASK_8 value else value) in
     bindE (regs_set REG_PC SIZE_LONG (pc + size_w memory_size)) (\<lambda>_.
     returnE (''#$'' @ hex data)))))"
| "effectiveAddress ADDR_MODE_UNKNOWN reg sz = returnE ''addreass mode unknown''"

section \<open>Reading the text back\<close>

definition hex_val :: "char \<Rightarrow> nat" where
  "hex_val c = (if of_char c < (58 :: nat) then of_char c - 48 else of_char c - 87)"

definition hex_read :: "string \<Rightarrow> nat" where
  "hex_read str = foldl (\<lambda>n c. 16 * n + hex_val c) 0 str"

lemma hex_val_digit_all: "\<forall>d\<in>set [0..<16]. hex_val (hex_digit d) = d"
  by code_simp

lemma hex_val_digit: "d < 16 \<Longrightarrow> hex_val (hex_digit d) = d"
  using hex_val_digit_all by simp

lemma hex_read_nat: "hex_read (hex_nat n) = n"
proof (induction n rule: hex_nat.induct)
  case (1 n)
  then show ?case
    by (subst hex_nat.simps) (auto simp: hex_read_def hex_val_digit)
qed

theorem hex_roundtrip: "hex_read (hex (w :: 'a::len word)) = unat w"
  by (simp add: hex_def hex_read_nat)

lemma hex_inject: "hex v = hex w \<longleftrightarrow> v = w" for v w :: "'a::len word"
  by (metis hex_def hex_read_nat word_unat_eq_iff)

section \<open>The text costs as much as the operand\<close>

text \<open>Disassembling changes the program counter and nothing else.\<close>

definition only_pc :: "CPUState \<Rightarrow> CPUState \<Rightarrow> bool" where
  "only_pc s t \<longleftrightarrow> t = rput s REG_PC (pc_of t)"

lemma only_pc_rput [simp]: "only_pc s (rput s REG_PC v)"
  by (simp add: only_pc_def)

lemma PC_not_SR: "REG_PC \<noteq> REG_SR"
  by simp

interpretation pc_frame: frame only_pc
proof
  fix s t u :: CPUState
  show "only_pc s s" by (simp add: only_pc_def)
  assume "only_pc s t" "only_pc t u"
  then show "only_pc s u" unfolding only_pc_def by (metis rput_rput PC_not_SR)
qed

lemma pc_frame_get [keeps_intros]: "keeps only_pc (regs_get r sz)" "keeps only_pc (mem_get a sz)"
  by (simp_all add: keeps_def regs_get_def mem_get_def pc_frame.frame_refl)

lemma pc_frame_set [keeps_intros]: "keeps only_pc (regs_set REG_PC SIZE_LONG v)"
  by (simp add: keeps_def)

lemma effectiveAddress_only_pc [keeps_intros]: "keeps only_pc (effectiveAddress m r sz)"
  by (cases m) (auto intro!: keeps_intros)

lemma effectiveAddress_pc:
  "effectiveAddress m r sz s = (Inr str, t) \<Longrightarrow> t = rput s REG_PC (pc_of s + ext_bytes m sz)"
  by (cases m) (auto simp: read_iffs Let_def bindE_apply split: sum.splits prod.splits)

text \<open>
  An operand that can be read can be written as text, and the text takes the same extension
  words from the instruction stream as the operand.
\<close>

theorem operand_text_same_length:
  assumes "general_reg r" and "getData m r sz s = (Inr v, s')"
  shows "\<exists>str. effectiveAddress m r sz s = (Inr str, rput s REG_PC (pc_of s + ext_bytes m sz)) \<and>
    pc_of s' = pc_of s + ext_bytes m sz"
proof -
  have "\<exists>str t. effectiveAddress m r sz s = (Inr str, t)"
    using assms(2) by (cases m; cases "sz = SIZE_LONG") (auto simp: read_iffs Let_def bindE_apply
        index_extension_def split: sum.splits prod.splits)
  moreover have "pc_of s' = pc_of s + ext_bytes m sz"
    using assms by (cases m) (auto simp: read_iffs Let_def bindE_apply
        split: sum.splits prod.splits if_splits)
  ultimately show ?thesis using effectiveAddress_pc by blast
qed

end
