(* ===== verification/Ins_Common.thy ===== *)
theory Ins_Common
  imports Cpu_Conditions Cpu_Safety Disassembler
begin

text \<open>
  What the instruction classes share: the lines every \<open>execute\<close> and \<open>disassembly\<close> begins with,
  the decoding of the two-bit size field, and the abstract shape of a read-modify-write
  instruction, against which the arithmetic and logical instructions are proved once.
\<close>

section \<open>Lines that every class repeats\<close>

text \<open>\<open>pc += SIZE_WORD\<close>: step over the opcode.\<close>

definition skip_opcode :: "(CPUState, unit) exec" where
  "skip_opcode =
     bindE (regs_get REG_PC SIZE_LONG) (\<lambda>pc.
     let pc = pc + size_w SIZE_WORD in
     regs_set REG_PC SIZE_LONG pc)"

text \<open>
  The \<open>switch\<close> over a two-bit size field.  Its \<open>default\<close> clears \<open>is_valid\<close> and leaves \<open>data_size\<close>
  uninitialised, for which the model uses \<open>SIZE_OTHER 0\<close>; an instruction that is not valid is
  never executed.
\<close>

definition size_part :: "16 word \<Rightarrow> DataSize" where
  "size_part data_size_part =
     (if data_size_part = 0 then SIZE_BYTE
      else if data_size_part = 1 then SIZE_WORD
      else if data_size_part = 2 then SIZE_LONG
      else SIZE_OTHER 0)"

definition size_part_ok :: "16 word \<Rightarrow> bool" where
  "size_part_ok data_size_part \<longleftrightarrow> data_size_part = 0 \<or> data_size_part = 1 \<or> data_size_part = 2"

text \<open>The \<open>switch\<close> over a one-bit size field.\<close>

definition size_bit :: "16 word \<Rightarrow> DataSize" where
  "size_bit data_size_part =
     (if data_size_part = 0 then SIZE_WORD
      else if data_size_part = 1 then SIZE_LONG
      else SIZE_OTHER 0)"

definition size_bit_ok :: "16 word \<Rightarrow> bool" where
  "size_bit_ok data_size_part \<longleftrightarrow> data_size_part = 0 \<or> data_size_part = 1"

text \<open>\<open>uint64_t result = ...\<close> of a 32-bit expression, and \<open>(uint32_t)result\<close>.\<close>

definition wide :: "32 word \<Rightarrow> 64 word" where
  "wide v = ucast v"

definition narrow :: "64 word \<Rightarrow> 32 word" where
  "narrow v = ucast v"

lemma narrow_wide [simp]: "narrow (wide v) = v"
  unfolding narrow_def wide_def by (rule bit_word_eqI) (auto simp: bit_simps)

lemma proper_size_part [simp]: "size_part_ok p \<Longrightarrow> proper_size (size_part p)"
  by (auto simp: size_part_ok_def size_part_def)

lemma size_bit_cases: "size_bit (w AND 1) = SIZE_WORD \<or> size_bit (w AND 1) = SIZE_LONG"
  using and_1_cases [of w] by (auto simp: size_bit_def)

lemma size_bit_not_byte [simp]: "size_bit p \<noteq> SIZE_BYTE"
  by (simp add: size_bit_def)

lemma size_bit_ok_and [simp]: "size_bit_ok (w AND 1)"
  using and_1_cases [of w] by (auto simp: size_bit_ok_def)

lemma proper_size_bit [simp]: "proper_size (size_bit (w AND 1))"
  using size_bit_cases [of w] by auto

lemma skip_opcode_apply [simp]: "skip_opcode s = (Inr (), rput s REG_PC (pc_of s + 2))"
  by (simp add: skip_opcode_def)

lemma pc_frame_skip [keeps_intros]: "keeps only_pc skip_opcode"
  by (simp add: keeps_def)

context data_frame
begin

lemma keeps_skip [keeps_intros]: "keeps R skip_opcode"
  unfolding skip_opcode_def by (intro keeps_intros)

end

section \<open>Operands fit their size\<close>

lemma fits_take_bit [simp]: "fits sz (take_bit (bits_of sz) v)"
  by (simp add: fits_def unsigned_take_bit_eq)

lemma fits_MASK_8 [simp]: "fits SIZE_BYTE (MASK_8 v)"
  using fits_take_bit [of SIZE_BYTE v] by (simp add: mask_eq_take_bit)

lemma fits_long [simp]: "fits SIZE_LONG v"
  using uint_lt2p [of v] by (simp add: fits_def)

lemma fits_0 [simp]: "fits sz 0"
  by (simp add: fits_def)

lemma fits_word_pair: "fits SIZE_WORD (push_bit 8 (ucast (x :: 8 word)) OR ucast (y :: 8 word))"
proof -
  have "take_bit 16 (push_bit 8 (ucast x) OR ucast y) = (push_bit 8 (ucast x) OR ucast y :: 32 word)"
    by (rule bit_word_eqI) (auto simp: bit_simps dest!: byte_bit_bound)
  then show ?thesis using fits_take_bit [of SIZE_WORD] by (metis bits_of_simps(2))
qed

lemma fits_byte: "fits SIZE_BYTE (ucast (x :: 8 word))"
  using uint_lt2p [of x] by (simp add: fits_def uint_up_ucast is_up)

lemma fits_mem: "BaseMemory_get m a sz = Inr v \<Longrightarrow> fits sz v"
  by (cases sz) (auto simp: BaseMemory_get_def Let_def fits_word_pair fits_byte split: if_splits)

lemma fits_reg: "Registers_get rs r sz = Inr v \<Longrightarrow> fits sz v"
  using fits_take_bit [of SIZE_WORD] fits_take_bit [of SIZE_BYTE]
  by (cases sz) (auto simp: Registers_get_def Let_def mask_eq_take_bit split: if_splits)

lemma fits_getData: "proper_size sz \<Longrightarrow> getData m r sz s = (Inr v, s') \<Longrightarrow> fits sz v"
  by (cases m; cases sz) (auto simp: read_iffs Let_def bindE_apply intro: fits_mem fits_reg
      split: sum.splits prod.splits if_splits)

lemma fits_getDataSilent: "proper_size sz \<Longrightarrow> getDataSilent m r sz s = (Inr v, s') \<Longrightarrow> fits sz v"
  by (cases m; cases sz) (auto simp: read_iffs Let_def bindE_apply intro: fits_mem fits_reg
      split: sum.splits prod.splits if_splits)

section \<open>The shape of a read-modify-write instruction\<close>

text \<open>
  The specification most of the arithmetic and logical instructions implement: step over the
  opcode, take the source operand, look at the destination, write it, set condition codes.
\<close>

definition rmw ::
  "(CPUState, 32 word) exec \<Rightarrow> AddressingMode \<Rightarrow> RegisterType \<Rightarrow> DataSize \<Rightarrow>
   (32 word \<Rightarrow> 32 word \<Rightarrow> 32 word) \<Rightarrow> (32 word \<Rightarrow> 32 word \<Rightarrow> (CPUState, unit) exec) \<Rightarrow>
   (CPUState, unit) exec" where
  "rmw src dm dr sz f fl =
     bindE skip_opcode (\<lambda>_.
     bindE src (\<lambda>a.
     bindE (getDataSilent dm dr sz) (\<lambda>b.
     bindE (setData dm dr sz (f a b)) (\<lambda>_.
     fl a b))))"

text \<open>Writing condition codes changes condition codes only.\<close>

definition ccr_only :: "CPUState \<Rightarrow> CPUState \<Rightarrow> bool" where
  "ccr_only s t \<longleftrightarrow> memory t = memory s \<and>
     (\<forall>r. r \<noteq> REG_SR \<longrightarrow> reg_buffer (registers t) r = reg_buffer (registers s) r) \<and>
     (\<forall>n \<ge> 5. bit (reg_buffer (registers t) REG_SR) n = bit (reg_buffer (registers s) REG_SR) n)"

interpretation ccr_frame: flag_frame ccr_only
  by unfold_locales (auto simp: ccr_only_def keeps_def fput_def flag_set_bit user_flag_def)

lemma ccr_only_view:
  assumes "ccr_only s t"
  shows "memory t = memory s" and "pc_of t = pc_of s" and "general_reg r \<Longrightarrow> rval t r = rval s r"
proof -
  show "memory t = memory s" "pc_of t = pc_of s" using assms by (simp_all add: ccr_only_def pc_of_def)
  have "supervisor (registers t) = supervisor (registers s)"
    using assms by (simp add: ccr_only_def supervisor_def)
  then have "bank (registers t) r = bank (registers s) r" by (simp add: bank_def)
  then show "general_reg r \<Longrightarrow> rval t r = rval s r"
    using assms by (simp add: ccr_only_def rval_def)
qed

text \<open>The five condition codes in the order X N Z V C.\<close>

definition ccr_of :: "CPUState \<Rightarrow> bool \<times> bool \<times> bool \<times> bool \<times> bool" where
  "ccr_of s = (flag s SR_FLAG_EXTEND, flag s SR_FLAG_NEGATIVE, flag s SR_FLAG_ZERO,
     flag s SR_FLAG_OVERFLOW, flag s SR_FLAG_CARRY)"

lemma rmw_cases:
  assumes "rmw src dm dr sz f fl s = (Inr u, t)"
  obtains a b s1 s2 where "src (rput s REG_PC (pc_of s + 2)) = (Inr a, s1)"
    and "getDataSilent dm dr sz s1 = (Inr b, s1)"
    and "setData dm dr sz (f a b) s1 = (Inr (), s2)" and "fl a b s2 = (Inr u, t)"
proof -
  let ?rest = "\<lambda>a. bindE (getDataSilent dm dr sz) (\<lambda>b. bindE (setData dm dr sz (f a b)) (\<lambda>_. fl a b))"
  from assms have "bindE src ?rest (rput s REG_PC (pc_of s + 2)) = (Inr u, t)"
    by (simp add: rmw_def)
  then obtain a s1 where 1: "src (rput s REG_PC (pc_of s + 2)) = (Inr a, s1)"
    and "?rest a s1 = (Inr u, t)" by (rule bindE_InrE)
  from this(2) obtain b s1' where 2: "getDataSilent dm dr sz s1 = (Inr b, s1')"
    and "bindE (setData dm dr sz (f a b)) (\<lambda>_. fl a b) s1' = (Inr u, t)" by (rule bindE_InrE)
  from this(2) obtain v s2 where 3: "setData dm dr sz (f a b) s1' = (Inr v, s2)"
    and 4: "fl a b s2 = (Inr u, t)" by (rule bindE_InrE)
  have "s1' = s1" using getDataSilent_state [of dm dr sz s1] 2 by simp
  with 1 2 3 4 show ?thesis by (auto intro: that)
qed

context cpu_frame
begin

lemma keeps_rmw:
  "keeps R src \<Longrightarrow> general_reg dr \<Longrightarrow> (\<And>a b. keeps R (fl a b)) \<Longrightarrow> keeps R (rmw src dm dr sz f fl)"
  unfolding rmw_def by (intro keeps_intros)

end

end
