(* ===== verification/Ins_Add.thy ===== *)
theory Ins_Add
  imports Ins_Common
begin

text \<open>
  \<open>src/instructions/add.cpp\<close>, \<open>adda.cpp\<close>, \<open>addi.cpp\<close>, \<open>addq.cpp\<close> and \<open>addx.cpp\<close> with their headers.
  A constructor \<open>X::X(opcode)\<close> is \<open>X_new\<close>; the methods are \<open>X_execute\<close> and \<open>X_disassembly\<close>;
  \<open>X_create\<close> is the factory function in the decoder's table.  The sum is computed in 32 bits and
  then widened, as \<open>uint64_t result = src_data + dest_data\<close> does for \<open>uint32_t\<close> operands.
\<close>

section \<open>ADD\<close>

record Add = Instruction +
  dest_mode :: AddressingMode
  src_mode :: AddressingMode
  src_reg :: RegisterType
  dest_reg :: RegisterType
  op_mode :: "8 word"
  data_size :: DataSize

definition Add_new :: "16 word \<Rightarrow> Add" where
  "Add_new opc =
     (let data_reg_part = drop_bit 9 opc AND 0x7;
          ea_mode_part = drop_bit 3 opc AND 0x7;
          ea_reg_part = drop_bit 0 opc AND 0x7;
          data_size_part = drop_bit 6 opc AND 0x3;
          op_mode = ucast (drop_bit 8 opc AND 0x1) in
      if op_mode \<noteq> 0 then
        \<lparr>opcode = opc,
         is_valid = (IS_MEMORY_ALTERABLE (getAddressingMode ea_mode_part ea_reg_part)
                     \<and> size_part_ok data_size_part),
         dest_mode = getAddressingMode ea_mode_part ea_reg_part,
         src_mode = ADDR_MODE_DIRECT_DATA,
         src_reg = getRegisterType 0 data_reg_part,
         dest_reg = getRegisterType ea_mode_part ea_reg_part,
         op_mode = op_mode,
         data_size = size_part data_size_part\<rparr>
      else
        \<lparr>opcode = opc,
         is_valid = size_part_ok data_size_part,
         dest_mode = ADDR_MODE_DIRECT_DATA,
         src_mode = getAddressingMode ea_mode_part ea_reg_part,
         src_reg = getRegisterType ea_mode_part ea_reg_part,
         dest_reg = getRegisterType 0 data_reg_part,
         op_mode = op_mode,
         data_size = size_part data_size_part\<rparr>)"

definition Add_execute :: "Add \<Rightarrow> (CPUState, unit) exec" where
  "Add_execute i =
     bindE skip_opcode (\<lambda>_.
     bindE (getData (src_mode i) (src_reg i) (data_size i)) (\<lambda>src_data.
     bindE (getDataSilent (dest_mode i) (dest_reg i) (data_size i)) (\<lambda>dest_data.
     let result = wide (src_data + dest_data) in
     bindE (setData (dest_mode i) (dest_reg i) (data_size i) (narrow result)) (\<lambda>_.
     seqE [flag_set SR_FLAG_EXTEND (IS_CARRY result (data_size i)),
           flag_set SR_FLAG_NEGATIVE (IS_NEGATIVE result (data_size i)),
           flag_set SR_FLAG_ZERO (IS_ZERO result (data_size i)),
           flag_set SR_FLAG_OVERFLOW (IS_OVERFLOW src_data dest_data (data_size i)),
           flag_set SR_FLAG_CARRY (IS_CARRY result (data_size i))]))))"

definition Add_disassembly :: "Add \<Rightarrow> (CPUState, string) exec" where
  "Add_disassembly i =
     bindE skip_opcode (\<lambda>_.
     bindE (effectiveAddress (src_mode i) (src_reg i) (data_size i)) (\<lambda>src.
     bindE (effectiveAddress (dest_mode i) (dest_reg i) (data_size i)) (\<lambda>dest.
     returnE (''add'' @ sizeSuffix (data_size i) @ '' '' @ src @ '', '' @ dest))))"

section \<open>ADDA\<close>

record Adda = Instruction +
  dest_mode :: AddressingMode
  src_mode :: AddressingMode
  src_reg :: RegisterType
  dest_reg :: RegisterType
  data_size :: DataSize

definition Adda_new :: "16 word \<Rightarrow> Adda" where
  "Adda_new opc =
     (let addr_reg_part = drop_bit 9 opc AND 0x7;
          ea_mode_mode = drop_bit 3 opc AND 0x7;
          ea_reg_part = drop_bit 0 opc AND 0x7;
          data_size_part = drop_bit 8 opc AND 0x1 in
      \<lparr>opcode = opc,
       is_valid = size_bit_ok data_size_part,
       dest_mode = ADDR_MODE_DIRECT_ADDR,
       src_mode = getAddressingMode ea_mode_mode ea_reg_part,
       src_reg = getRegisterType ea_mode_mode ea_reg_part,
       dest_reg = getRegisterType 1 addr_reg_part,
       data_size = size_bit data_size_part\<rparr>)"

definition Adda_execute :: "Adda \<Rightarrow> (CPUState, unit) exec" where
  "Adda_execute i =
     bindE skip_opcode (\<lambda>_.
     bindE (getData (src_mode i) (src_reg i) (data_size i)) (\<lambda>src_data.
     bindE (getDataSilent (dest_mode i) (dest_reg i) (data_size i)) (\<lambda>dest_data.
     let result = wide (src_data + dest_data) in
     setData (dest_mode i) (dest_reg i) (data_size i) (narrow result))))"

definition Adda_disassembly :: "Adda \<Rightarrow> (CPUState, string) exec" where
  "Adda_disassembly i =
     bindE skip_opcode (\<lambda>_.
     bindE (effectiveAddress (src_mode i) (src_reg i) (data_size i)) (\<lambda>src.
     bindE (effectiveAddress (dest_mode i) (dest_reg i) (data_size i)) (\<lambda>dest.
     returnE (''adda'' @ sizeSuffix (data_size i) @ '' '' @ src @ '', '' @ dest))))"

section \<open>ADDI\<close>

record Addi = Instruction +
  dest_mode :: AddressingMode
  dest_reg :: RegisterType
  data_size :: DataSize

definition Addi_new :: "16 word \<Rightarrow> Addi" where
  "Addi_new opc =
     (let ea_mode_part = drop_bit 3 opc AND 0x7;
          ea_reg_part = drop_bit 0 opc AND 0x7;
          data_size_part = drop_bit 6 opc AND 0x3 in
      \<lparr>opcode = opc,
       is_valid = (IS_MEMORY_ALTERABLE (getAddressingMode ea_mode_part ea_reg_part)
                   \<and> size_part_ok data_size_part),
       dest_mode = getAddressingMode ea_mode_part ea_reg_part,
       dest_reg = getRegisterType ea_mode_part ea_reg_part,
       data_size = size_part data_size_part\<rparr>)"

definition Addi_execute :: "Addi \<Rightarrow> (CPUState, unit) exec" where
  "Addi_execute i =
     bindE skip_opcode (\<lambda>_.
     bindE (getData ADDR_MODE_IMMEDIATE REG_D0 (data_size i)) (\<lambda>src_data.
     bindE (getDataSilent (dest_mode i) (dest_reg i) (data_size i)) (\<lambda>dest_data.
     let result = wide (src_data + dest_data) in
     bindE (setData (dest_mode i) (dest_reg i) (data_size i) (narrow result)) (\<lambda>_.
     seqE [flag_set SR_FLAG_EXTEND (IS_CARRY result (data_size i)),
           flag_set SR_FLAG_NEGATIVE (IS_NEGATIVE result (data_size i)),
           flag_set SR_FLAG_ZERO (IS_ZERO result (data_size i)),
           flag_set SR_FLAG_OVERFLOW (IS_OVERFLOW src_data dest_data (data_size i)),
           flag_set SR_FLAG_CARRY (IS_CARRY result (data_size i))]))))"

definition Addi_disassembly :: "Addi \<Rightarrow> (CPUState, string) exec" where
  "Addi_disassembly i =
     bindE skip_opcode (\<lambda>_.
     bindE (effectiveAddress ADDR_MODE_IMMEDIATE REG_D0 (data_size i)) (\<lambda>src.
     bindE (effectiveAddress (dest_mode i) (dest_reg i) (data_size i)) (\<lambda>dest.
     returnE (''addi'' @ sizeSuffix (data_size i) @ '' '' @ src @ '', '' @ dest))))"

section \<open>ADDQ\<close>

record Addq = Instruction +
  dest_mode :: AddressingMode
  dest_reg :: RegisterType
  imm_data :: "8 word"
  data_size :: DataSize

definition Addq_new :: "16 word \<Rightarrow> Addq" where
  "Addq_new opc =
     (let ea_mode_part = drop_bit 3 opc AND 0x7;
          ea_reg_part = drop_bit 0 opc AND 0x7;
          data_size_part = drop_bit 6 opc AND 0x3;
          imm = ucast (drop_bit 9 opc AND 0x7) in
      \<lparr>opcode = opc,
       is_valid = (IS_MEMORY_ALTERABLE (getAddressingMode ea_mode_part ea_reg_part)
                   \<and> size_part_ok data_size_part),
       dest_mode = getAddressingMode ea_mode_part ea_reg_part,
       dest_reg = getRegisterType ea_mode_part ea_reg_part,
       imm_data = (if imm = 0 then 8 else imm),
       data_size = size_part data_size_part\<rparr>)"

definition Addq_execute :: "Addq \<Rightarrow> (CPUState, unit) exec" where
  "Addq_execute i =
     bindE skip_opcode (\<lambda>_.
     let src_data = ucast (imm_data i) in
     bindE (getDataSilent (dest_mode i) (dest_reg i) (data_size i)) (\<lambda>dest_data.
     let result = wide (src_data + dest_data) in
     bindE (setData (dest_mode i) (dest_reg i) (data_size i) (narrow result)) (\<lambda>_.
     whenE (dest_mode i \<noteq> ADDR_MODE_DIRECT_ADDR)
       (seqE [flag_set SR_FLAG_EXTEND (IS_CARRY result (data_size i)),
             flag_set SR_FLAG_NEGATIVE (IS_NEGATIVE result (data_size i)),
             flag_set SR_FLAG_ZERO (IS_ZERO result (data_size i)),
             flag_set SR_FLAG_OVERFLOW (IS_OVERFLOW src_data dest_data (data_size i)),
             flag_set SR_FLAG_CARRY (IS_CARRY result (data_size i))]))))"

definition Addq_disassembly :: "Addq \<Rightarrow> (CPUState, string) exec" where
  "Addq_disassembly i =
     bindE skip_opcode (\<lambda>_.
     bindE (effectiveAddress (dest_mode i) (dest_reg i) (data_size i)) (\<lambda>dest.
     returnE (''addq'' @ sizeSuffix (data_size i) @ '' #$'' @ hex (ucast (imm_data i) :: 32 word) @
              '', '' @ dest)))"

section \<open>ADDX\<close>

record Addx = Instruction +
  dest_mode :: AddressingMode
  src_mode :: AddressingMode
  src_reg :: RegisterType
  dest_reg :: RegisterType
  data_size :: DataSize

definition Addx_new :: "16 word \<Rightarrow> Addx" where
  "Addx_new opc =
     (let dest_reg_part = drop_bit 9 opc AND 0x7;
          src_reg_part = drop_bit 0 opc AND 0x7;
          mode_part = drop_bit 3 opc AND 0x1;
          data_size_part = drop_bit 6 opc AND 0x3;
          mode = (if mode_part = 0 then ADDR_MODE_DIRECT_DATA else ADDR_MODE_INDIRECT_PREDECREMENT) in
      \<lparr>opcode = opc,
       is_valid = size_part_ok data_size_part,
       dest_mode = mode,
       src_mode = mode,
       src_reg = getRegisterType mode_part src_reg_part,
       dest_reg = getRegisterType mode_part dest_reg_part,
       data_size = size_part data_size_part\<rparr>)"

definition Addx_execute :: "Addx \<Rightarrow> (CPUState, unit) exec" where
  "Addx_execute i =
     bindE skip_opcode (\<lambda>_.
     bindE (flag_get SR_FLAG_EXTEND) (\<lambda>extend.
     let extend_data = (if extend then 1 else 0) in
     bindE (getData (src_mode i) (src_reg i) (data_size i)) (\<lambda>src_data.
     bindE (getDataSilent (dest_mode i) (dest_reg i) (data_size i)) (\<lambda>dest_data.
     let result = wide (src_data + dest_data + extend_data) in
     bindE (setData (dest_mode i) (dest_reg i) (data_size i) (narrow result)) (\<lambda>_.
     bindE (whenE (\<not> IS_ZERO result (data_size i)) (flag_set SR_FLAG_ZERO False)) (\<lambda>_.
     seqE [flag_set SR_FLAG_EXTEND (IS_CARRY result (data_size i)),
           flag_set SR_FLAG_NEGATIVE (IS_NEGATIVE result (data_size i)),
           flag_set SR_FLAG_OVERFLOW (IS_OVERFLOW src_data dest_data (data_size i)),
           flag_set SR_FLAG_CARRY (IS_CARRY result (data_size i))]))))))"

definition Addx_disassembly :: "Addx \<Rightarrow> (CPUState, string) exec" where
  "Addx_disassembly i =
     bindE skip_opcode (\<lambda>_.
     bindE (effectiveAddress (src_mode i) (src_reg i) (data_size i)) (\<lambda>src.
     bindE (effectiveAddress (dest_mode i) (dest_reg i) (data_size i)) (\<lambda>dest.
     returnE (''addx'' @ sizeSuffix (data_size i) @ '' '' @ src @ '', '' @ dest))))"

end
