(* ===== verification/Ins_Sub.thy ===== *)
theory Ins_Sub
  imports Ins_Common
begin

text \<open>
  \<open>src/instructions/sub.cpp\<close>, \<open>suba.cpp\<close>, \<open>subi.cpp\<close>, \<open>subq.cpp\<close> and \<open>subx.cpp\<close> with their headers.
  The names follow \<open>Ins_Add\<close>.  The overflow flag comes from \<open>IS_OVERFLOW(src_data, dest_data, ...)\<close>,
  the overflow of the sum of the operands, although the result is their difference.
\<close>

section \<open>SUB\<close>

record Sub = Instruction +
  dest_mode :: AddressingMode
  src_mode :: AddressingMode
  src_reg :: RegisterType
  dest_reg :: RegisterType
  op_mode :: "8 word"
  data_size :: DataSize

definition Sub_new :: "16 word \<Rightarrow> Sub" where
  "Sub_new opc =
     (let data_reg_part = drop_bit 9 opc AND 0x7;
          ea_mode_part = drop_bit 3 opc AND 0x7;
          ea_reg_part = drop_bit 0 opc AND 0x7;
          data_size_part = drop_bit 6 opc AND 0x3;
          op_mode = ucast (drop_bit 8 opc AND 0x1) in
      if op_mode \<noteq> 0 then
        \<lparr>opcode = opc,
         is_valid = (IS_MEMORY_ALTERABLE (getAddressingMode ea_mode_part ea_reg_part)
                     \<and> size_part_ok data_size_part),
         dest_mode = getAddressingMode ea_mode_part ea_reg_part,
         src_mode = ADDR_MODE_DIRECT_DATA,
         src_reg = getRegisterType 0 data_reg_part,
         dest_reg = getRegisterType ea_mode_part ea_reg_part,
         op_mode = op_mode,
         data_size = size_part data_size_part\<rparr>
      else
        \<lparr>opcode = opc,
         is_valid = size_part_ok data_size_part,
         dest_mode = ADDR_MODE_DIRECT_DATA,
         src_mode = getAddressingMode ea_mode_part ea_reg_part,
         src_reg = getRegisterType ea_mode_part ea_reg_part,
         dest_reg = getRegisterType 0 data_reg_part,
         op_mode = op_mode,
         data_size = size_part data_size_part\<rparr>)"

definition Sub_execute :: "Sub \<Rightarrow> (CPUState, unit) exec" where
  "Sub_execute i =
     bindE skip_opcode (\<lambda>_.
     bindE (getData (src_mode i) (src_reg i) (data_size i)) (\<lambda>src_data.
     bindE (getDataSilent (dest_mode i) (dest_reg i) (data_size i)) (\<lambda>dest_data.
     let result = wide (dest_data - src_data) in
     bindE (setData (dest_mode i) (dest_reg i) (data_size i) (narrow result)) (\<lambda>_.
     seqE [flag_set SR_FLAG_EXTEND (IS_CARRY result (data_size i)),
           flag_set SR_FLAG_NEGATIVE (IS_NEGATIVE result (data_size i)),
           flag_set SR_FLAG_ZERO (IS_ZERO result (data_size i)),
           flag_set SR_FLAG_OVERFLOW (IS_OVERFLOW src_data dest_data (data_size i)),
           flag_set SR_FLAG_CARRY (IS_CARRY result (data_size i))]))))"

definition Sub_disassembly :: "Sub \<Rightarrow> (CPUState, string) exec" where
  "Sub_disassembly i =
     bindE skip_opcode (\<lambda>_.
     bindE (effectiveAddress (src_mode i) (src_reg i) (data_size i)) (\<lambda>src.
     bindE (effectiveAddress (dest_mode i) (dest_reg i) (data_size i)) (\<lambda>dest.
     returnE (''sub'' @ sizeSuffix (data_size i) @ '' '' @ src @ '', '' @ dest))))"

section \<open>SUBA\<close>

record Suba = Instruction +
  dest_mode :: AddressingMode
  src_mode :: AddressingMode
  src_reg :: RegisterType
  dest_reg :: RegisterType
  data_size :: DataSize

definition Suba_new :: "16 word \<Rightarrow> Suba" where
  "Suba_new opc =
     (let addr_reg_part = drop_bit 9 opc AND 0x7;
          ea_mode_mode = drop_bit 3 opc AND 0x7;
          ea_reg_part = drop_bit 0 opc AND 0x7;
          data_size_part = drop_bit 8 opc AND 0x1 in
      \<lparr>opcode = opc,
       is_valid = size_bit_ok data_size_part,
       dest_mode = ADDR_MODE_DIRECT_ADDR,
       src_mode = getAddressingMode ea_mode_mode ea_reg_part,
       src_reg = getRegisterType ea_mode_mode ea_reg_part,
       dest_reg = getRegisterType 1 addr_reg_part,
       data_size = size_bit data_size_part\<rparr>)"

definition Suba_execute :: "Suba \<Rightarrow> (CPUState, unit) exec" where
  "Suba_execute i =
     bindE skip_opcode (\<lambda>_.
     bindE (getData (src_mode i) (src_reg i) (data_size i)) (\<lambda>src_data.
     bindE (getDataSilent (dest_mode i) (dest_reg i) (data_size i)) (\<lambda>dest_data.
     let result = wide (dest_data - src_data) in
     setData (dest_mode i) (dest_reg i) (data_size i) (narrow result))))"

definition Suba_disassembly :: "Suba \<Rightarrow> (CPUState, string) exec" where
  "Suba_disassembly i =
     bindE skip_opcode (\<lambda>_.
     bindE (effectiveAddress (src_mode i) (src_reg i) (data_size i)) (\<lambda>src.
     bindE (effectiveAddress (dest_mode i) (dest_reg i) (data_size i)) (\<lambda>dest.
     returnE (''suba'' @ sizeSuffix (data_size i) @ '' '' @ src @ '', '' @ dest))))"

section \<open>SUBI\<close>

record Subi = Instruction +
  dest_mode :: AddressingMode
  dest_reg :: RegisterType
  data_size :: DataSize

definition Subi_new :: "16 word \<Rightarrow> Subi" where
  "Subi_new opc =
     (let ea_mode_part = drop_bit 3 opc AND 0x7;
          ea_reg_part = drop_bit 0 opc AND 0x7;
          data_size_part = drop_bit 6 opc AND 0x3 in
      \<lparr>opcode = opc,
       is_valid = (IS_MEMORY_ALTERABLE (getAddressingMode ea_mode_part ea_reg_part)
                   \<and> size_part_ok data_size_part),
       dest_mode = getAddressingMode ea_mode_part ea_reg_part,
       dest_reg = getRegisterType ea_mode_part ea_reg_part,
       data_size = size_part data_size_part\<rparr>)"

definition Subi_execute :: "Subi \<Rightarrow> (CPUState, unit) exec" where
  "Subi_execute i =
     bindE skip_opcode (\<lambda>_.
     bindE (getData ADDR_MODE_IMMEDIATE REG_D0 (data_size i)) (\<lambda>src_data.
     bindE (getDataSilent (dest_mode i) (dest_reg i) (data_size i)) (\<lambda>dest_data.
     let result = wide (dest_data - src_data) in
     bindE (setData (dest_mode i) (dest_reg i) (data_size i) (narrow result)) (\<lambda>_.
     seqE [flag_set SR_FLAG_EXTEND (IS_CARRY result (data_size i)),
           flag_set SR_FLAG_NEGATIVE (IS_NEGATIVE result (data_size i)),
           flag_set SR_FLAG_ZERO (IS_ZERO result (data_size i)),
           flag_set SR_FLAG_OVERFLOW (IS_OVERFLOW src_data dest_data (data_size i)),
           flag_set SR_FLAG_CARRY (IS_CARRY result (data_size i))]))))"

definition Subi_disassembly :: "Subi \<Rightarrow> (CPUState, string) exec" where
  "Subi_disassembly i =
     bindE skip_opcode (\<lambda>_.
     bindE (effectiveAddress ADDR_MODE_IMMEDIATE REG_D0 (data_size i)) (\<lambda>src.
     bindE (effectiveAddress (dest_mode i) (dest_reg i) (data_size i)) (\<lambda>dest.
     returnE (''subi'' @ sizeSuffix (data_size i) @ '' '' @ src @ '', '' @ dest))))"

section \<open>SUBQ\<close>

record Subq = Instruction +
  dest_mode :: AddressingMode
  dest_reg :: RegisterType
  imm_data :: "8 word"
  data_size :: DataSize

definition Subq_new :: "16 word \<Rightarrow> Subq" where
  "Subq_new opc =
     (let ea_mode_part = drop_bit 3 opc AND 0x7;
          ea_reg_part = drop_bit 0 opc AND 0x7;
          data_size_part = drop_bit 6 opc AND 0x3;
          imm = ucast (drop_bit 9 opc AND 0x7) in
      \<lparr>opcode = opc,
       is_valid = (IS_MEMORY_ALTERABLE (getAddressingMode ea_mode_part ea_reg_part)
                   \<and> size_part_ok data_size_part),
       dest_mode = getAddressingMode ea_mode_part ea_reg_part,
       dest_reg = getRegisterType ea_mode_part ea_reg_part,
       imm_data = (if imm = 0 then 8 else imm),
       data_size = size_part data_size_part\<rparr>)"

definition Subq_execute :: "Subq \<Rightarrow> (CPUState, unit) exec" where
  "Subq_execute i =
     bindE skip_opcode (\<lambda>_.
     let src_data = ucast (imm_data i) in
     bindE (getDataSilent (dest_mode i) (dest_reg i) (data_size i)) (\<lambda>dest_data.
     let result = wide (dest_data - src_data) in
     bindE (setData (dest_mode i) (dest_reg i) (data_size i) (narrow result)) (\<lambda>_.
     whenE (dest_mode i \<noteq> ADDR_MODE_DIRECT_ADDR)
       (seqE [flag_set SR_FLAG_EXTEND (IS_CARRY result (data_size i)),
             flag_set SR_FLAG_NEGATIVE (IS_NEGATIVE result (data_size i)),
             flag_set SR_FLAG_ZERO (IS_ZERO result (data_size i)),
             flag_set SR_FLAG_OVERFLOW (IS_OVERFLOW src_data dest_data (data_size i)),
             flag_set SR_FLAG_CARRY (IS_CARRY result (data_size i))]))))"

definition Subq_disassembly :: "Subq \<Rightarrow> (CPUState, string) exec" where
  "Subq_disassembly i =
     bindE skip_opcode (\<lambda>_.
     bindE (effectiveAddress (dest_mode i) (dest_reg i) (data_size i)) (\<lambda>dest.
     returnE (''subq'' @ sizeSuffix (data_size i) @ '' #$'' @ hex (ucast (imm_data i) :: 32 word) @
              '', '' @ dest)))"

section \<open>SUBX\<close>

record Subx = Instruction +
  dest_mode :: AddressingMode
  src_mode :: AddressingMode
  src_reg :: RegisterType
  dest_reg :: RegisterType
  data_size :: DataSize

definition Subx_new :: "16 word \<Rightarrow> Subx" where
  "Subx_new opc =
     (let dest_reg_part = drop_bit 9 opc AND 0x7;
          src_reg_part = drop_bit 0 opc AND 0x7;
          mode_part = drop_bit 3 opc AND 0x1;
          data_size_part = drop_bit 6 opc AND 0x3;
          mode = (if mode_part = 0 then ADDR_MODE_DIRECT_DATA else ADDR_MODE_INDIRECT_PREDECREMENT) in
      \<lparr>opcode = opc,
       is_valid = size_part_ok data_size_part,
       dest_mode = mode,
       src_mode = mode,
       src_reg = getRegisterType mode_part src_reg_part,
       dest_reg = getRegisterType mode_part dest_reg_part,
       data_size = size_part data_size_part\<rparr>)"

definition Subx_execute :: "Subx \<Rightarrow> (CPUState, unit) exec" where
  "Subx_execute i =
     bindE skip_opcode (\<lambda>_.
     bindE (flag_get SR_FLAG_EXTEND) (\<lambda>extend.
     let extend_data = (if extend then 1 else 0) in
     bindE (getData (src_mode i) (src_reg i) (data_size i)) (\<lambda>src_data.
     bindE (getDataSilent (dest_mode i) (dest_reg i) (data_size i)) (\<lambda>dest_data.
     let result = wide (dest_data - src_data - extend_data) in
     bindE (setData (dest_mode i) (dest_reg i) (data_size i) (narrow result)) (\<lambda>_.
     bindE (whenE (\<not> IS_ZERO result (data_size i)) (flag_set SR_FLAG_ZERO False)) (\<lambda>_.
     seqE [flag_set SR_FLAG_EXTEND (IS_CARRY result (data_size i)),
           flag_set SR_FLAG_NEGATIVE (IS_NEGATIVE result (data_size i)),
           flag_set SR_FLAG_OVERFLOW (IS_OVERFLOW src_data dest_data (data_size i)),
           flag_set SR_FLAG_CARRY (IS_CARRY result (data_size i))]))))))"

definition Subx_disassembly :: "Subx \<Rightarrow> (CPUState, string) exec" where
  "Subx_disassembly i =
     bindE skip_opcode (\<lambda>_.
     bindE (effectiveAddress (src_mode i) (src_reg i) (data_size i)) (\<lambda>src.
     bindE (effectiveAddress (dest_mode i) (dest_reg i) (data_size i)) (\<lambda>dest.
     returnE (''subx'' @ sizeSuffix (data_size i) @ '' '' @ src @ '', '' @ dest))))"

end
