(* ===== verification/Ins_Logic.thy ===== *)
theory Ins_Logic
  imports Ins_Common
begin

text \<open>
  \<open>src/instructions/and.cpp\<close>, \<open>or.cpp\<close>, \<open>eor.cpp\<close>, \<open>andi.cpp\<close>, \<open>ori.cpp\<close> and \<open>eori.cpp\<close> with their
  headers.  The names follow \<open>Ins_Add\<close>.
\<close>

section \<open>AND\<close>

record And = Instruction +
  dest_mode :: AddressingMode
  src_mode :: AddressingMode
  src_reg :: RegisterType
  dest_reg :: RegisterType
  op_mode :: "8 word"
  data_size :: DataSize

definition And_new :: "16 word \<Rightarrow> And" where
  "And_new opc =
     (let data_reg_part = drop_bit 9 opc AND 0x7;
          ea_mode_part = drop_bit 3 opc AND 0x7;
          ea_reg_part = drop_bit 0 opc AND 0x7;
          data_size_part = drop_bit 6 opc AND 0x3;
          op_mode = ucast (drop_bit 8 opc AND 0x1) in
      if op_mode \<noteq> 0 then
        \<lparr>opcode = opc,
         is_valid = (IS_MEMORY_ALTERABLE (getAddressingMode ea_mode_part ea_reg_part)
                     \<and> size_part_ok data_size_part),
         dest_mode = getAddressingMode ea_mode_part ea_reg_part,
         src_mode = ADDR_MODE_DIRECT_DATA,
         src_reg = getRegisterType 0 data_reg_part,
         dest_reg = getRegisterType ea_mode_part ea_reg_part,
         op_mode = op_mode,
         data_size = size_part data_size_part\<rparr>
      else
        \<lparr>opcode = opc,
         is_valid = size_part_ok data_size_part,
         dest_mode = ADDR_MODE_DIRECT_DATA,
         src_mode = getAddressingMode ea_mode_part ea_reg_part,
         src_reg = getRegisterType ea_mode_part ea_reg_part,
         dest_reg = getRegisterType 0 data_reg_part,
         op_mode = op_mode,
         data_size = size_part data_size_part\<rparr>)"

definition And_execute :: "And \<Rightarrow> (CPUState, unit) exec" where
  "And_execute i =
     bindE skip_opcode (\<lambda>_.
     bindE (getData (src_mode i) (src_reg i) (data_size i)) (\<lambda>src_data.
     bindE (getDataSilent (dest_mode i) (dest_reg i) (data_size i)) (\<lambda>dest_data.
     let result = wide (src_data AND dest_data) in
     bindE (setData (dest_mode i) (dest_reg i) (data_size i) (narrow result)) (\<lambda>_.
     seqE [flag_set SR_FLAG_NEGATIVE (IS_NEGATIVE result (data_size i)),
           flag_set SR_FLAG_ZERO (IS_ZERO result (data_size i)),
           flag_set SR_FLAG_OVERFLOW False,
           flag_set SR_FLAG_CARRY False]))))"

definition And_disassembly :: "And \<Rightarrow> (CPUState, string) exec" where
  "And_disassembly i =
     bindE skip_opcode (\<lambda>_.
     bindE (effectiveAddress (src_mode i) (src_reg i) (data_size i)) (\<lambda>src.
     bindE (effectiveAddress (dest_mode i) (dest_reg i) (data_size i)) (\<lambda>dest.
     returnE (''and'' @ sizeSuffix (data_size i) @ '' '' @ src @ '', '' @ dest))))"

section \<open>OR\<close>

record Or = Instruction +
  dest_mode :: AddressingMode
  src_mode :: AddressingMode
  src_reg :: RegisterType
  dest_reg :: RegisterType
  op_mode :: "8 word"
  data_size :: DataSize

definition Or_new :: "16 word \<Rightarrow> Or" where
  "Or_new opc =
     (let data_reg_part = drop_bit 9 opc AND 0x7;
          ea_mode_part = drop_bit 3 opc AND 0x7;
          ea_reg_part = drop_bit 0 opc AND 0x7;
          data_size_part = drop_bit 6 opc AND 0x3;
          op_mode = ucast (drop_bit 8 opc AND 0x1) in
      if op_mode \<noteq> 0 then
        \<lparr>opcode = opc,
         is_valid = (IS_MEMORY_ALTERABLE (getAddressingMode ea_mode_part ea_reg_part)
                     \<and> size_part_ok data_size_part),
         dest_mode = getAddressingMode ea_mode_part ea_reg_part,
         src_mode = ADDR_MODE_DIRECT_DATA,
         src_reg = getRegisterType 0 data_reg_part,
         dest_reg = getRegisterType ea_mode_part ea_reg_part,
         op_mode = op_mode,
         data_size = size_part data_size_part\<rparr>
      else
        \<lparr>opcode = opc,
         is_valid = size_part_ok data_size_part,
         dest_mode = ADDR_MODE_DIRECT_DATA,
         src_mode = getAddressingMode ea_mode_part ea_reg_part,
         src_reg = getRegisterType ea_mode_part ea_reg_part,
         dest_reg = getRegisterType 0 data_reg_part,
         op_mode = op_mode,
         data_size = size_part data_size_part\<rparr>)"

definition Or_execute :: "Or \<Rightarrow> (CPUState, unit) exec" where
  "Or_execute i =
     bindE skip_opcode (\<lambda>_.
     bindE (getData (src_mode i) (src_reg i) (data_size i)) (\<lambda>src_data.
     bindE (getDataSilent (dest_mode i) (dest_reg i) (data_size i)) (\<lambda>dest_data.
     let result = wide (dest_data OR src_data) in
     bindE (setData (dest_mode i) (dest_reg i) (data_size i) (narrow result)) (\<lambda>_.
     seqE [flag_set SR_FLAG_NEGATIVE (IS_NEGATIVE result (data_size i)),
           flag_set SR_FLAG_ZERO (IS_ZERO result (data_size i)),
           flag_set SR_FLAG_OVERFLOW False,
           flag_set SR_FLAG_CARRY False]))))"

definition Or_disassembly :: "Or \<Rightarrow> (CPUState, string) exec" where
  "Or_disassembly i =
     bindE skip_opcode (\<lambda>_.
     bindE (effectiveAddress (src_mode i) (src_reg i) (data_size i)) (\<lambda>src.
     bindE (effectiveAddress (dest_mode i) (dest_reg i) (data_size i)) (\<lambda>dest.
     returnE (''or'' @ sizeSuffix (data_size i) @ '' '' @ src @ '', '' @ dest))))"

section \<open>EOR\<close>

text \<open>With \<open>op_mode\<close> clear only \<open>is_valid\<close> is written: the other fields keep their initialisers.\<close>

record Eor = Instruction +
  dest_mode :: AddressingMode
  src_mode :: AddressingMode
  src_reg :: RegisterType
  dest_reg :: RegisterType
  op_mode :: "8 word"
  data_size :: DataSize

definition Eor_new :: "16 word \<Rightarrow> Eor" where
  "Eor_new opc =
     (let data_reg_part = drop_bit 9 opc AND 0x7;
          ea_mode_part = drop_bit 3 opc AND 0x7;
          ea_reg_part = drop_bit 0 opc AND 0x7;
          data_size_part = drop_bit 6 opc AND 0x3;
          op_mode = ucast (drop_bit 8 opc AND 0x1) in
      if op_mode \<noteq> 0 then
        \<lparr>opcode = opc,
         is_valid = (IS_MEMORY_ALTERABLE (getAddressingMode ea_mode_part ea_reg_part)
                     \<and> size_part_ok data_size_part),
         dest_mode = getAddressingMode ea_mode_part ea_reg_part,
         src_mode = ADDR_MODE_DIRECT_DATA,
         src_reg = getRegisterType 0 data_reg_part,
         dest_reg = getRegisterType ea_mode_part ea_reg_part,
         op_mode = op_mode,
         data_size = size_part data_size_part\<rparr>
      else
        \<lparr>opcode = opc,
         is_valid = False,
         dest_mode = ADDR_MODE_UNKNOWN,
         src_mode = ADDR_MODE_UNKNOWN,
         src_reg = REG_D0,
         dest_reg = REG_D0,
         op_mode = op_mode,
         data_size = size_part data_size_part\<rparr>)"

definition Eor_execute :: "Eor \<Rightarrow> (CPUState, unit) exec" where
  "Eor_execute i =
     bindE skip_opcode (\<lambda>_.
     bindE (getData (src_mode i) (src_reg i) (data_size i)) (\<lambda>src_data.
     bindE (getDataSilent (dest_mode i) (dest_reg i) (data_size i)) (\<lambda>dest_data.
     let result = wide (dest_data XOR src_data) in
     bindE (setData (dest_mode i) (dest_reg i) (data_size i) (narrow result)) (\<lambda>_.
     seqE [flag_set SR_FLAG_NEGATIVE (IS_NEGATIVE result (data_size i)),
           flag_set SR_FLAG_ZERO (IS_ZERO result (data_size i)),
           flag_set SR_FLAG_OVERFLOW False,
           flag_set SR_FLAG_CARRY False]))))"

definition Eor_disassembly :: "Eor \<Rightarrow> (CPUState, string) exec" where
  "Eor_disassembly i =
     bindE skip_opcode (\<lambda>_.
     bindE (effectiveAddress (src_mode i) (src_reg i) (data_size i)) (\<lambda>src.
     bindE (effectiveAddress (dest_mode i) (dest_reg i) (data_size i)) (\<lambda>dest.
     returnE (''eor'' @ sizeSuffix (data_size i) @ '' '' @ src @ '', '' @ dest))))"

section \<open>ANDI\<close>

record Andi = Instruction +
  dest_mode :: AddressingMode
  dest_reg :: RegisterType
  data_size :: DataSize

definition Andi_new :: "16 word \<Rightarrow> Andi" where
  "Andi_new opc =
     (let ea_mode_part = drop_bit 3 opc AND 0x7;
          ea_reg_part = drop_bit 0 opc AND 0x7;
          data_size_part = drop_bit 6 opc AND 0x3 in
      \<lparr>opcode = opc,
       is_valid = (IS_MEMORY_ALTERABLE (getAddressingMode ea_mode_part ea_reg_part)
                   \<and> size_part_ok data_size_part),
       dest_mode = getAddressingMode ea_mode_part ea_reg_part,
       dest_reg = getRegisterType ea_mode_part ea_reg_part,
       data_size = size_part data_size_part\<rparr>)"

definition Andi_execute :: "Andi \<Rightarrow> (CPUState, unit) exec" where
  "Andi_execute i =
     bindE skip_opcode (\<lambda>_.
     bindE (getData ADDR_MODE_IMMEDIATE REG_D0 (data_size i)) (\<lambda>src_data.
     bindE (getDataSilent (dest_mode i) (dest_reg i) (data_size i)) (\<lambda>dest_data.
     let result = wide (src_data AND dest_data) in
     bindE (setData (dest_mode i) (dest_reg i) (data_size i) (narrow result)) (\<lambda>_.
     seqE [flag_set SR_FLAG_NEGATIVE (IS_NEGATIVE result (data_size i)),
           flag_set SR_FLAG_ZERO (IS_ZERO result (data_size i)),
           flag_set SR_FLAG_OVERFLOW False,
           flag_set SR_FLAG_CARRY False]))))"

definition Andi_disassembly :: "Andi \<Rightarrow> (CPUState, string) exec" where
  "Andi_disassembly i =
     bindE skip_opcode (\<lambda>_.
     bindE (effectiveAddress ADDR_MODE_IMMEDIATE REG_D0 (data_size i)) (\<lambda>src.
     bindE (effectiveAddress (dest_mode i) (dest_reg i) (data_size i)) (\<lambda>dest.
     returnE (''andi'' @ sizeSuffix (data_size i) @ '' '' @ src @ '', '' @ dest))))"

section \<open>ORI\<close>

record Ori = Instruction +
  dest_mode :: AddressingMode
  dest_reg :: RegisterType
  data_size :: DataSize

definition Ori_new :: "16 word \<Rightarrow> Ori" where
  "Ori_new opc =
     (let ea_mode_part = drop_bit 3 opc AND 0x7;
          ea_reg_part = drop_bit 0 opc AND 0x7;
          data_size_part = drop_bit 6 opc AND 0x3 in
      \<lparr>opcode = opc,
       is_valid = (IS_MEMORY_ALTERABLE (getAddressingMode ea_mode_part ea_reg_part)
                   \<and> size_part_ok data_size_part),
       dest_mode = getAddressingMode ea_mode_part ea_reg_part,
       dest_reg = getRegisterType ea_mode_part ea_reg_part,
       data_size = size_part data_size_part\<rparr>)"

definition Ori_execute :: "Ori \<Rightarrow> (CPUState, unit) exec" where
  "Ori_execute i =
     bindE skip_opcode (\<lambda>_.
     bindE (getData ADDR_MODE_IMMEDIATE REG_D0 (data_size i)) (\<lambda>src_data.
     bindE (getDataSilent (dest_mode i) (dest_reg i) (data_size i)) (\<lambda>dest_data.
     let result = wide (dest_data OR src_data) in
     bindE (setData (dest_mode i) (dest_reg i) (data_size i) (narrow result)) (\<lambda>_.
     seqE [flag_set SR_FLAG_NEGATIVE (IS_NEGATIVE result (data_size i)),
           flag_set SR_FLAG_ZERO (IS_ZERO result (data_size i)),
           flag_set SR_FLAG_OVERFLOW False,
           flag_set SR_FLAG_CARRY False]))))"

definition Ori_disassembly :: "Ori \<Rightarrow> (CPUState, string) exec" where
  "Ori_disassembly i =
     bindE skip_opcode (\<lambda>_.
     bindE (effectiveAddress ADDR_MODE_IMMEDIATE REG_D0 (data_size i)) (\<lambda>src.
     bindE (effectiveAddress (dest_mode i) (dest_reg i) (data_size i)) (\<lambda>dest.
     returnE (''ori'' @ sizeSuffix (data_size i) @ '' '' @ src @ '', '' @ dest))))"

section \<open>EORI\<close>

record Eori = Instruction +
  dest_mode :: AddressingMode
  dest_reg :: RegisterType
  data_size :: DataSize

definition Eori_new :: "16 word \<Rightarrow> Eori" where
  "Eori_new opc =
     (let ea_mode_part = drop_bit 3 opc AND 0x7;
          ea_reg_part = drop_bit 0 opc AND 0x7;
          data_size_part = drop_bit 6 opc AND 0x3 in
      \<lparr>opcode = opc,
       is_valid = (IS_MEMORY_ALTERABLE (getAddressingMode ea_mode_part ea_reg_part)
                   \<and> size_part_ok data_size_part),
       dest_mode = getAddressingMode ea_mode_part ea_reg_part,
       dest_reg = getRegisterType ea_mode_part ea_reg_part,
       data_size = size_part data_size_part\<rparr>)"

definition Eori_execute :: "Eori \<Rightarrow> (CPUState, unit) exec" where
  "Eori_execute i =
     bindE skip_opcode (\<lambda>_.
     bindE (getData ADDR_MODE_IMMEDIATE REG_D0 (data_size i)) (\<lambda>src_data.
     bindE (getDataSilent (dest_mode i) (dest_reg i) (data_size i)) (\<lambda>dest_data.
     let result = wide (dest_data XOR src_data) in
     bindE (setData (dest_mode i) (dest_reg i) (data_size i) (narrow result)) (\<lambda>_.
     seqE [flag_set SR_FLAG_NEGATIVE (IS_NEGATIVE result (data_size i)),
           flag_set SR_FLAG_ZERO (IS_ZERO result (data_size i)),
           flag_set SR_FLAG_OVERFLOW False,
           flag_set SR_FLAG_CARRY False]))))"

definition Eori_disassembly :: "Eori \<Rightarrow> (CPUState, string) exec" where
  "Eori_disassembly i =
     bindE skip_opcode (\<lambda>_.
     bindE (effectiveAddress ADDR_MODE_IMMEDIATE REG_D0 (data_size i)) (\<lambda>src.
     bindE (effectiveAddress (dest_mode i) (dest_reg i) (data_size i)) (\<lambda>dest.
     returnE (''eori'' @ sizeSuffix (data_size i) @ '' '' @ src @ '', '' @ dest))))"

end
