(* ===== verification/Ins_Compare.thy ===== *)
theory Ins_Compare
  imports Ins_Common
begin

text \<open>
  \<open>src/instructions/cmp.cpp\<close>, \<open>cmpa.cpp\<close>, \<open>cmpi.cpp\<close>, \<open>tst.cpp\<close>, \<open>clr.cpp\<close> and \<open>neg.cpp\<close> with their
  headers.  The names follow \<open>Ins_Add\<close>.
\<close>

section \<open>CMP\<close>

record Cmp = Instruction +
  dest_mode :: AddressingMode
  src_mode :: AddressingMode
  src_reg :: RegisterType
  dest_reg :: RegisterType
  data_size :: DataSize

definition Cmp_new :: "16 word \<Rightarrow> Cmp" where
  "Cmp_new opc =
     (let data_reg_part = drop_bit 9 opc AND 0x7;
          ea_mode_part = drop_bit 3 opc AND 0x7;
          ea_reg_part = drop_bit 0 opc AND 0x7;
          data_size_part = drop_bit 6 opc AND 0x3 in
      \<lparr>opcode = opc,
       is_valid = size_part_ok data_size_part,
       dest_mode = ADDR_MODE_DIRECT_DATA,
       src_mode = getAddressingMode ea_mode_part ea_reg_part,
       src_reg = getRegisterType ea_mode_part ea_reg_part,
       dest_reg = getRegisterType 0 data_reg_part,
       data_size = size_part data_size_part\<rparr>)"

definition Cmp_execute :: "Cmp \<Rightarrow> (CPUState, unit) exec" where
  "Cmp_execute i =
     bindE skip_opcode (\<lambda>_.
     bindE (getData (src_mode i) (src_reg i) (data_size i)) (\<lambda>src_data.
     bindE (getData (dest_mode i) (dest_reg i) (data_size i)) (\<lambda>dest_data.
     let result = wide (dest_data - src_data) in
     seqE [flag_set SR_FLAG_NEGATIVE (IS_NEGATIVE result (data_size i)),
           flag_set SR_FLAG_ZERO (IS_ZERO result (data_size i)),
           flag_set SR_FLAG_OVERFLOW (IS_OVERFLOW src_data dest_data (data_size i)),
           flag_set SR_FLAG_CARRY (IS_CARRY result (data_size i))])))"

definition Cmp_disassembly :: "Cmp \<Rightarrow> (CPUState, string) exec" where
  "Cmp_disassembly i =
     bindE skip_opcode (\<lambda>_.
     bindE (effectiveAddress (src_mode i) (src_reg i) (data_size i)) (\<lambda>src.
     bindE (effectiveAddress (dest_mode i) (dest_reg i) (data_size i)) (\<lambda>dest.
     returnE (''cmp'' @ sizeSuffix (data_size i) @ '' '' @ src @ '', '' @ dest))))"

section \<open>CMPA\<close>

record Cmpa = Instruction +
  dest_mode :: AddressingMode
  src_mode :: AddressingMode
  src_reg :: RegisterType
  dest_reg :: RegisterType
  data_size :: DataSize

definition Cmpa_new :: "16 word \<Rightarrow> Cmpa" where
  "Cmpa_new opc =
     (let addr_reg_part = drop_bit 9 opc AND 0x7;
          ea_mode_mode = drop_bit 3 opc AND 0x7;
          ea_reg_part = drop_bit 0 opc AND 0x7;
          data_size_part = drop_bit 8 opc AND 0x1 in
      \<lparr>opcode = opc,
       is_valid = size_bit_ok data_size_part,
       dest_mode = ADDR_MODE_DIRECT_ADDR,
       src_mode = getAddressingMode ea_mode_mode ea_reg_part,
       src_reg = getRegisterType ea_mode_mode ea_reg_part,
       dest_reg = getRegisterType 1 addr_reg_part,
       data_size = size_bit data_size_part\<rparr>)"

definition Cmpa_execute :: "Cmpa \<Rightarrow> (CPUState, unit) exec" where
  "Cmpa_execute i =
     bindE skip_opcode (\<lambda>_.
     bindE (getData (src_mode i) (src_reg i) (data_size i)) (\<lambda>src_data.
     let src_data = (if data_size i = SIZE_WORD then sext16 src_data else src_data) in
     bindE (getData (dest_mode i) (dest_reg i) (data_size i)) (\<lambda>dest_data.
     let result = wide (dest_data - src_data) in
     seqE [flag_set SR_FLAG_NEGATIVE (IS_NEGATIVE result (data_size i)),
           flag_set SR_FLAG_ZERO (IS_ZERO result (data_size i)),
           flag_set SR_FLAG_OVERFLOW (IS_OVERFLOW src_data dest_data (data_size i)),
           flag_set SR_FLAG_CARRY (IS_CARRY result (data_size i))])))"

definition Cmpa_disassembly :: "Cmpa \<Rightarrow> (CPUState, string) exec" where
  "Cmpa_disassembly i =
     bindE skip_opcode (\<lambda>_.
     bindE (effectiveAddress (src_mode i) (src_reg i) (data_size i)) (\<lambda>src.
     bindE (effectiveAddress (dest_mode i) (dest_reg i) (data_size i)) (\<lambda>dest.
     returnE (''cmpa'' @ sizeSuffix (data_size i) @ '' '' @ src @ '', '' @ dest))))"

section \<open>CMPI\<close>

record Cmpi = Instruction +
  dest_mode :: AddressingMode
  dest_reg :: RegisterType
  data_size :: DataSize

definition Cmpi_new :: "16 word \<Rightarrow> Cmpi" where
  "Cmpi_new opc =
     (let ea_mode_part = drop_bit 3 opc AND 0x7;
          ea_reg_part = drop_bit 0 opc AND 0x7;
          data_size_part = drop_bit 6 opc AND 0x3 in
      \<lparr>opcode = opc,
       is_valid = (IS_MEMORY_ALTERABLE (getAddressingMode ea_mode_part ea_reg_part)
                   \<and> size_part_ok data_size_part),
       dest_mode = getAddressingMode ea_mode_part ea_reg_part,
       dest_reg = getRegisterType ea_mode_part ea_reg_part,
       data_size = size_part data_size_part\<rparr>)"

definition Cmpi_execute :: "Cmpi \<Rightarrow> (CPUState, unit) exec" where
  "Cmpi_execute i =
     bindE skip_opcode (\<lambda>_.
     bindE (getData ADDR_MODE_IMMEDIATE REG_D0 (data_size i)) (\<lambda>src_data.
     bindE (getData (dest_mode i) (dest_reg i) (data_size i)) (\<lambda>dest_data.
     let result = wide (dest_data - src_data) in
     seqE [flag_set SR_FLAG_NEGATIVE (IS_NEGATIVE result (data_size i)),
           flag_set SR_FLAG_ZERO (IS_ZERO result (data_size i)),
           flag_set SR_FLAG_OVERFLOW (IS_OVERFLOW src_data dest_data (data_size i)),
           flag_set SR_FLAG_CARRY (IS_CARRY result (data_size i))])))"

definition Cmpi_disassembly :: "Cmpi \<Rightarrow> (CPUState, string) exec" where
  "Cmpi_disassembly i =
     bindE skip_opcode (\<lambda>_.
     bindE (effectiveAddress ADDR_MODE_IMMEDIATE REG_D0 (data_size i)) (\<lambda>src.
     bindE (effectiveAddress (dest_mode i) (dest_reg i) (data_size i)) (\<lambda>dest.
     returnE (''cmpi'' @ sizeSuffix (data_size i) @ '' '' @ src @ '', '' @ dest))))"

section \<open>TST\<close>

text \<open>\<open>data_size\<close> is initialised here, so an invalid size field leaves \<open>SIZE_LONG\<close>.\<close>

record Tst = Instruction +
  ea_mode :: AddressingMode
  ea_reg :: RegisterType
  data_size :: DataSize

definition Tst_new :: "16 word \<Rightarrow> Tst" where
  "Tst_new opc =
     (let ea_mode_part = drop_bit 3 opc AND 0x7;
          ea_reg_part = drop_bit 0 opc AND 0x7;
          data_size_part = drop_bit 6 opc AND 0x3 in
      \<lparr>opcode = opc,
       is_valid = size_part_ok data_size_part,
       ea_mode = getAddressingMode ea_mode_part ea_reg_part,
       ea_reg = getRegisterType ea_mode_part ea_reg_part,
       data_size = (if size_part_ok data_size_part then size_part data_size_part else SIZE_LONG)\<rparr>)"

definition Tst_execute :: "Tst \<Rightarrow> (CPUState, unit) exec" where
  "Tst_execute i =
     bindE skip_opcode (\<lambda>_.
     bindE (getData (ea_mode i) (ea_reg i) (data_size i)) (\<lambda>ea_data.
     seqE [flag_set SR_FLAG_NEGATIVE (IS_NEGATIVE ea_data (data_size i)),
           flag_set SR_FLAG_ZERO (IS_ZERO ea_data (data_size i)),
           flag_set SR_FLAG_OVERFLOW False,
           flag_set SR_FLAG_CARRY False]))"

definition Tst_disassembly :: "Tst \<Rightarrow> (CPUState, string) exec" where
  "Tst_disassembly i =
     bindE skip_opcode (\<lambda>_.
     bindE (effectiveAddress (ea_mode i) (ea_reg i) (data_size i)) (\<lambda>dest.
     returnE (''tst '' @ dest)))"

section \<open>CLR\<close>

record Clr = Instruction +
  dest_mode :: AddressingMode
  dest_reg :: RegisterType
  data_size :: DataSize

definition Clr_new :: "16 word \<Rightarrow> Clr" where
  "Clr_new opc =
     (let ea_mode_part = drop_bit 3 opc AND 0x7;
          ea_reg_part = drop_bit 0 opc AND 0x7;
          data_size_part = drop_bit 6 opc AND 0x3 in
      \<lparr>opcode = opc,
       is_valid = (IS_MEMORY_ALTERABLE (getAddressingMode ea_mode_part ea_reg_part)
                   \<and> size_part_ok data_size_part),
       dest_mode = getAddressingMode ea_mode_part ea_reg_part,
       dest_reg = getRegisterType ea_mode_part ea_reg_part,
       data_size = size_part data_size_part\<rparr>)"

definition Clr_execute :: "Clr \<Rightarrow> (CPUState, unit) exec" where
  "Clr_execute i =
     bindE skip_opcode (\<lambda>_.
     bindE (setData (dest_mode i) (dest_reg i) (data_size i) 0) (\<lambda>_.
     seqE [flag_set SR_FLAG_NEGATIVE False,
           flag_set SR_FLAG_ZERO True,
           flag_set SR_FLAG_OVERFLOW False,
           flag_set SR_FLAG_CARRY False]))"

definition Clr_disassembly :: "Clr \<Rightarrow> (CPUState, string) exec" where
  "Clr_disassembly i =
     bindE skip_opcode (\<lambda>_.
     bindE (effectiveAddress (dest_mode i) (dest_reg i) (data_size i)) (\<lambda>dest.
     returnE (''clr'' @ sizeSuffix (data_size i) @ '' '' @ dest)))"

section \<open>NEG\<close>

record Neg = Instruction +
  dest_mode :: AddressingMode
  dest_reg :: RegisterType
  data_size :: DataSize

definition Neg_new :: "16 word \<Rightarrow> Neg" where
  "Neg_new opc =
     (let ea_mode_part = drop_bit 3 opc AND 0x7;
          ea_reg_part = drop_bit 0 opc AND 0x7;
          data_size_part = drop_bit 6 opc AND 0x3 in
      \<lparr>opcode = opc,
       is_valid = (IS_MEMORY_ALTERABLE (getAddressingMode ea_mode_part ea_reg_part)
                   \<and> size_part_ok data_size_part),
       dest_mode = getAddressingMode ea_mode_part ea_reg_part,
       dest_reg = getRegisterType ea_mode_part ea_reg_part,
       data_size = size_part data_size_part\<rparr>)"

definition Neg_execute :: "Neg \<Rightarrow> (CPUState, unit) exec" where
  "Neg_execute i =
     bindE skip_opcode (\<lambda>_.
     let src_data = 0 in
     bindE (getDataSilent (dest_mode i) (dest_reg i) (data_size i)) (\<lambda>dest_data.
     let result = wide (src_data - dest_data) in
     bindE (setData (dest_mode i) (dest_reg i) (data_size i) (narrow result)) (\<lambda>_.
     seqE [flag_set SR_FLAG_EXTEND (IS_CARRY result (data_size i)),
           flag_set SR_FLAG_NEGATIVE (IS_NEGATIVE result (data_size i)),
           flag_set SR_FLAG_ZERO (IS_ZERO result (data_size i)),
           flag_set SR_FLAG_OVERFLOW (IS_OVERFLOW src_data dest_data (data_size i)),
           flag_set SR_FLAG_CARRY (IS_CARRY result (data_size i))])))"

definition Neg_disassembly :: "Neg \<Rightarrow> (CPUState, string) exec" where
  "Neg_disassembly i =
     bindE skip_opcode (\<lambda>_.
     bindE (effectiveAddress (dest_mode i) (dest_reg i) (data_size i)) (\<lambda>dest.
     returnE (''neg '' @ dest)))"

end
