(* ===== verification/Ins_Move.thy ===== *)
theory Ins_Move
  imports Ins_Common
begin

text \<open>
  \<open>src/instructions/move.cpp\<close>, \<open>moveq.cpp\<close>, \<open>lea.cpp\<close>, \<open>pea.cpp\<close> and \<open>ext.cpp\<close> with their headers.
  The names follow \<open>Ins_Add\<close>.
\<close>

section \<open>MOVE, MOVEA\<close>

record Move = Instruction +
  dest_mode :: AddressingMode
  src_mode :: AddressingMode
  src_reg :: RegisterType
  dest_reg :: RegisterType
  data_size :: DataSize
  is_movea :: bool

definition move_size :: "16 word \<Rightarrow> DataSize" where
  "move_size data_size_part =
     (if data_size_part = 1 then SIZE_BYTE
      else if data_size_part = 2 then SIZE_LONG
      else if data_size_part = 3 then SIZE_WORD
      else SIZE_OTHER 0)"

definition Move_new :: "16 word \<Rightarrow> Move" where
  "Move_new opc =
     (let dest_mode_part = drop_bit 6 opc AND 0x7;
          dest_reg_part = drop_bit 9 opc AND 0x7;
          src_mode_part = drop_bit 3 opc AND 0x7;
          src_reg_part = drop_bit 0 opc AND 0x7;
          dest_mode = getAddressingMode dest_mode_part dest_reg_part;
          src_mode = getAddressingMode src_mode_part src_reg_part;
          data_size_part = drop_bit 12 opc AND 0x3;
          data_size = move_size data_size_part;
          is_movea = (dest_mode = ADDR_MODE_DIRECT_ADDR) in
      \<lparr>opcode = opc,
       is_valid = (\<not> (src_mode = ADDR_MODE_UNKNOWN \<or> \<not> IS_MEMORY_ALTERABLE dest_mode)
         \<and> \<not> (src_mode = ADDR_MODE_UNKNOWN \<or> dest_mode = ADDR_MODE_UNKNOWN
              \<or> dest_mode = ADDR_MODE_PC_DISPLACEMENT \<or> dest_mode = ADDR_MODE_PC_INDEX
              \<or> dest_mode = ADDR_MODE_IMMEDIATE)
         \<and> (data_size_part = 1 \<or> data_size_part = 2 \<or> data_size_part = 3)
         \<and> \<not> (is_movea \<and> data_size = SIZE_BYTE)),
       dest_mode = dest_mode,
       src_mode = src_mode,
       src_reg = getRegisterType src_mode_part src_reg_part,
       dest_reg = getRegisterType dest_mode_part dest_reg_part,
       data_size = data_size,
       is_movea = is_movea\<rparr>)"

definition Move_execute :: "Move \<Rightarrow> (CPUState, unit) exec" where
  "Move_execute i =
     bindE skip_opcode (\<lambda>_.
     bindE (getData (src_mode i) (src_reg i) (data_size i)) (\<lambda>src_data.
     if is_movea i then
       let src_data = (if data_size i = SIZE_WORD then sext16 src_data else src_data) in
       setData (dest_mode i) (dest_reg i) SIZE_LONG src_data
     else
       bindE (setData (dest_mode i) (dest_reg i) (data_size i) src_data) (\<lambda>_.
       seqE [flag_set SR_FLAG_NEGATIVE (IS_NEGATIVE src_data (data_size i)),
             flag_set SR_FLAG_ZERO (src_data = 0),
             flag_set SR_FLAG_OVERFLOW False,
             flag_set SR_FLAG_CARRY False])))"

definition Move_disassembly :: "Move \<Rightarrow> (CPUState, string) exec" where
  "Move_disassembly i =
     bindE skip_opcode (\<lambda>_.
     bindE (effectiveAddress (src_mode i) (src_reg i) (data_size i)) (\<lambda>src.
     bindE (effectiveAddress (dest_mode i) (dest_reg i) (data_size i)) (\<lambda>dest.
     returnE ((if is_movea i then ''movea'' else ''move'') @ sizeSuffix (data_size i) @ '' '' @ src @ '', '' @ dest))))"

section \<open>MOVEQ\<close>

text \<open>\<open>imm_data\<close> is a \<open>uint8_t\<close>: it is widened without its sign, and tested at eight bits.\<close>

record Moveq = Instruction +
  dest_mode :: AddressingMode
  dest_reg :: RegisterType
  imm_data :: "8 word"
  data_size :: DataSize

definition Moveq_new :: "16 word \<Rightarrow> Moveq" where
  "Moveq_new opc =
     (let reg_part = drop_bit 9 opc AND 0x7 in
      \<lparr>opcode = opc,
       is_valid = True,
       dest_mode = ADDR_MODE_DIRECT_DATA,
       dest_reg = getRegisterType 0 reg_part,
       imm_data = ucast (drop_bit 0 opc AND 0xFF),
       data_size = SIZE_LONG\<rparr>)"

definition Moveq_execute :: "Moveq \<Rightarrow> (CPUState, unit) exec" where
  "Moveq_execute i =
     bindE skip_opcode (\<lambda>_.
     bindE (setData (dest_mode i) (dest_reg i) (data_size i) (ucast (imm_data i))) (\<lambda>_.
     seqE [flag_set SR_FLAG_NEGATIVE (IS_NEGATIVE (imm_data i) (data_size i)),
           flag_set SR_FLAG_ZERO (imm_data i = 0),
           flag_set SR_FLAG_OVERFLOW False,
           flag_set SR_FLAG_CARRY False]))"

definition Moveq_disassembly :: "Moveq \<Rightarrow> (CPUState, string) exec" where
  "Moveq_disassembly i =
     bindE skip_opcode (\<lambda>_.
     bindE (effectiveAddress (dest_mode i) (dest_reg i) (data_size i)) (\<lambda>dest.
     returnE (''moveq'' @ '' #$'' @ hex (ucast (imm_data i) :: 32 word) @
              '', '' @ dest)))"

section \<open>LEA\<close>

record Lea = Instruction +
  src_mode :: AddressingMode
  src_reg :: RegisterType
  addr_reg :: RegisterType
  data_size :: DataSize

definition Lea_new :: "16 word \<Rightarrow> Lea" where
  "Lea_new opc =
     (let addr_reg_part = drop_bit 9 opc AND 0x7;
          ea_mode_part = drop_bit 3 opc AND 0x7;
          ea_reg_part = drop_bit 0 opc AND 0x7 in
      \<lparr>opcode = opc,
       is_valid = IS_CONTROL_ADDR (getAddressingMode ea_mode_part ea_reg_part),
       src_mode = getAddressingMode ea_mode_part ea_reg_part,
       src_reg = getRegisterType ea_mode_part ea_reg_part,
       addr_reg = getRegisterType 1 addr_reg_part,
       data_size = SIZE_LONG\<rparr>)"

definition Lea_execute :: "Lea \<Rightarrow> (CPUState, unit) exec" where
  "Lea_execute i =
     bindE skip_opcode (\<lambda>_.
     bindE (getControlAddress (src_mode i) (src_reg i) (data_size i)) (\<lambda>src_data.
     setData ADDR_MODE_DIRECT_ADDR (addr_reg i) (data_size i) src_data))"

definition Lea_disassembly :: "Lea \<Rightarrow> (CPUState, string) exec" where
  "Lea_disassembly i =
     bindE skip_opcode (\<lambda>_.
     bindE (effectiveAddress (src_mode i) (src_reg i) (data_size i)) (\<lambda>src.
     bindE (effectiveAddress ADDR_MODE_DIRECT_ADDR (addr_reg i) (data_size i)) (\<lambda>dest.
     returnE (''lea '' @ src @ '', '' @ dest))))"

section \<open>PEA\<close>

record Pea = Instruction +
  addr_mode :: AddressingMode
  addr_reg :: RegisterType
  data_size :: DataSize

definition Pea_new :: "16 word \<Rightarrow> Pea" where
  "Pea_new opc =
     (let addr_mode_part = drop_bit 3 opc AND 0x7;
          addr_reg_part = drop_bit 0 opc AND 0x7 in
      \<lparr>opcode = opc,
       is_valid = IS_CONTROL_ADDR (getAddressingMode addr_mode_part addr_reg_part),
       addr_mode = getAddressingMode addr_mode_part addr_reg_part,
       addr_reg = getRegisterType addr_mode_part addr_reg_part,
       data_size = SIZE_LONG\<rparr>)"

definition Pea_execute :: "Pea \<Rightarrow> (CPUState, unit) exec" where
  "Pea_execute i =
     bindE skip_opcode (\<lambda>_.
     bindE (getControlAddress (addr_mode i) (addr_reg i) (data_size i)) (\<lambda>addr.
     stackPush SIZE_LONG addr))"

definition Pea_disassembly :: "Pea \<Rightarrow> (CPUState, string) exec" where
  "Pea_disassembly i =
     bindE skip_opcode (\<lambda>_.
     bindE (effectiveAddress (addr_mode i) (addr_reg i) (data_size i)) (\<lambda>dest.
     returnE (''pea '' @ dest)))"

section \<open>EXT\<close>

text \<open>The long form sign-extends through \<open>int8_t\<close> as well.\<close>

record Ext = Instruction +
  addr_mode :: AddressingMode
  addr_reg :: RegisterType
  data_size :: DataSize

definition Ext_new :: "16 word \<Rightarrow> Ext" where
  "Ext_new opc =
     (let addr_reg_part = drop_bit 0 opc AND 0x7;
          data_size_part = drop_bit 6 opc AND 0x1 in
      \<lparr>opcode = opc,
       is_valid = True,
       addr_mode = ADDR_MODE_DIRECT_DATA,
       addr_reg = getRegisterType 0 addr_reg_part,
       data_size = (if data_size_part \<noteq> 0 then SIZE_LONG else SIZE_WORD)\<rparr>)"

definition Ext_execute :: "Ext \<Rightarrow> (CPUState, unit) exec" where
  "Ext_execute i =
     bindE skip_opcode (\<lambda>_.
     bindE (if data_size i = SIZE_WORD then
              bindE (getData (addr_mode i) (addr_reg i) SIZE_BYTE) (\<lambda>d.
              let data_byte = ucast d :: 8 word in
              returnE (ucast (scast data_byte :: 16 word)))
            else
              bindE (getData (addr_mode i) (addr_reg i) SIZE_WORD) (\<lambda>d.
              let data_word = ucast d :: 16 word in
              returnE (scast (ucast data_word :: 8 word)))) (\<lambda>result.
     bindE (setData (addr_mode i) (addr_reg i) (data_size i) result) (\<lambda>_.
     seqE [flag_set SR_FLAG_NEGATIVE (IS_NEGATIVE result (data_size i)),
           flag_set SR_FLAG_ZERO (IS_ZERO result (data_size i)),
           flag_set SR_FLAG_OVERFLOW False,
           flag_set SR_FLAG_CARRY False])))"

definition Ext_disassembly :: "Ext \<Rightarrow> (CPUState, string) exec" where
  "Ext_disassembly i =
     bindE skip_opcode (\<lambda>_.
     bindE (effectiveAddress (addr_mode i) (addr_reg i) (data_size i)) (\<lambda>dest.
     returnE (''ext'' @ sizeSuffix (data_size i) @ dest)))"

end
