(* ===== verification/Ins_MulDiv.thy ===== *)
theory Ins_MulDiv
  imports Ins_Common "HOL-Library.Signed_Division"
begin

text \<open>
  \<open>src/instructions/mul.cpp\<close> and \<open>div.cpp\<close> with their headers.  The names follow \<open>Ins_Add\<close>.
\<close>

section \<open>MULS, MULU\<close>

text \<open>
  Two \<open>uint16_t\<close> operands are promoted to \<open>int\<close> before they are multiplied, so an unsigned product
  of \<open>2\<^sup>3\<^sup>1\<close> or more is undefined behaviour; a signed product always fits.
\<close>

definition mul_result :: "bool \<Rightarrow> 16 word \<Rightarrow> 16 word \<Rightarrow> (CPUState, 32 word) exec" where
  "mul_result sg src_data dest_data =
     (if sg then returnE (word_of_int (sint src_data * sint dest_data))
      else if uint src_data * uint dest_data < 2 ^ 31
      then returnE (word_of_int (uint src_data * uint dest_data))
      else throwE Undefined_behaviour)"

record Mul = Instruction +
  dest_mode :: AddressingMode
  src_mode :: AddressingMode
  is_signed :: bool
  src_reg :: RegisterType
  dest_reg :: RegisterType
  data_size :: DataSize

definition Mul_new :: "16 word \<Rightarrow> Mul" where
  "Mul_new opc =
     (let data_reg_part = drop_bit 9 opc AND 0x7;
          ea_mode_mode = drop_bit 3 opc AND 0x7;
          ea_reg_part = drop_bit 0 opc AND 0x7 in
      \<lparr>opcode = opc,
       is_valid = True,
       dest_mode = ADDR_MODE_DIRECT_DATA,
       src_mode = getAddressingMode ea_mode_mode ea_reg_part,
       is_signed = (drop_bit 8 opc AND 0x1 \<noteq> 0),
       src_reg = getRegisterType ea_mode_mode ea_reg_part,
       dest_reg = getRegisterType 0 data_reg_part,
       data_size = SIZE_WORD\<rparr>)"

definition Mul_execute :: "Mul \<Rightarrow> (CPUState, unit) exec" where
  "Mul_execute i =
     bindE skip_opcode (\<lambda>_.
     bindE (getData (src_mode i) (src_reg i) (data_size i)) (\<lambda>src.
     let src_data = ucast src in
     bindE (getDataSilent (dest_mode i) (dest_reg i) (data_size i)) (\<lambda>dest.
     let dest_data = ucast dest in
     bindE (mul_result (is_signed i) src_data dest_data) (\<lambda>result.
     bindE (setData (dest_mode i) (dest_reg i) SIZE_LONG result) (\<lambda>_.
     seqE [flag_set SR_FLAG_NEGATIVE (IS_NEGATIVE result SIZE_LONG),
           flag_set SR_FLAG_ZERO (IS_ZERO result SIZE_LONG),
           flag_set SR_FLAG_OVERFLOW False,
           flag_set SR_FLAG_CARRY False])))))"

definition Mul_disassembly :: "Mul \<Rightarrow> (CPUState, string) exec" where
  "Mul_disassembly i =
     bindE skip_opcode (\<lambda>_.
     bindE (effectiveAddress (src_mode i) (src_reg i) (data_size i)) (\<lambda>src.
     bindE (effectiveAddress (dest_mode i) (dest_reg i) (data_size i)) (\<lambda>dest.
     returnE ((if is_signed i then ''muls'' else ''mulu'') @ sizeSuffix (data_size i) @ '' '' @ src @ '', '' @ dest))))"

section \<open>DIVS, DIVU\<close>

text \<open>
  The operands are 16-bit numbers promoted to \<open>int\<close>.  Division by zero is undefined behaviour.
  The quotient goes to the low and the remainder to the high half of the result; C++ truncates
  the quotient towards zero.
\<close>

definition div_result :: "bool \<Rightarrow> 16 word \<Rightarrow> 16 word \<Rightarrow> (CPUState, 32 word) exec" where
  "div_result sg src_data dest_data =
     (if src_data = 0 then throwE Undefined_behaviour
      else if sg then
        let result = ucast (word_of_int (sint dest_data sdiv sint src_data) :: 16 word) in
        returnE (result OR push_bit 16 (ucast (word_of_int (sint dest_data smod sint src_data) :: 16 word)))
      else
        let result = word_of_int (uint dest_data div uint src_data) in
        returnE (result OR push_bit 16 (word_of_int (uint dest_data mod uint src_data))))"

record Div = Instruction +
  dest_mode :: AddressingMode
  src_mode :: AddressingMode
  is_signed :: bool
  src_reg :: RegisterType
  dest_reg :: RegisterType
  data_size :: DataSize

definition Div_new :: "16 word \<Rightarrow> Div" where
  "Div_new opc =
     (let data_reg_part = drop_bit 9 opc AND 0x7;
          ea_mode_mode = drop_bit 3 opc AND 0x7;
          ea_reg_part = drop_bit 0 opc AND 0x7 in
      \<lparr>opcode = opc,
       is_valid = True,
       dest_mode = ADDR_MODE_DIRECT_DATA,
       src_mode = getAddressingMode ea_mode_mode ea_reg_part,
       is_signed = (drop_bit 8 opc AND 0x1 \<noteq> 0),
       src_reg = getRegisterType ea_mode_mode ea_reg_part,
       dest_reg = getRegisterType 0 data_reg_part,
       data_size = SIZE_WORD\<rparr>)"

definition Div_execute :: "Div \<Rightarrow> (CPUState, unit) exec" where
  "Div_execute i =
     bindE skip_opcode (\<lambda>_.
     bindE (getData (src_mode i) (src_reg i) (data_size i)) (\<lambda>src.
     let src_data = ucast src in
     bindE (getDataSilent (dest_mode i) (dest_reg i) (data_size i)) (\<lambda>dest.
     let dest_data = ucast dest in
     bindE (div_result (is_signed i) src_data dest_data) (\<lambda>result.
     bindE (setData (dest_mode i) (dest_reg i) SIZE_LONG result) (\<lambda>_.
     seqE [flag_set SR_FLAG_NEGATIVE (IS_NEGATIVE (MASK_16 result) SIZE_WORD),
           flag_set SR_FLAG_ZERO (IS_ZERO (MASK_16 result) SIZE_WORD),
           flag_set SR_FLAG_OVERFLOW False,
           flag_set SR_FLAG_CARRY False])))))"

definition Div_disassembly :: "Div \<Rightarrow> (CPUState, string) exec" where
  "Div_disassembly i =
     bindE skip_opcode (\<lambda>_.
     bindE (effectiveAddress (src_mode i) (src_reg i) (data_size i)) (\<lambda>src.
     bindE (effectiveAddress (dest_mode i) (dest_reg i) (data_size i)) (\<lambda>dest.
     returnE ((if is_signed i then ''mivs'' else ''divu'') @ sizeSuffix (data_size i) @ '' '' @ src @ '', '' @ dest))))"

end
