(* ===== verification/Ins_Bits.thy ===== *)
theory Ins_Bits
  imports Ins_Common
begin

text \<open>
  \<open>src/instructions/bit_manip.cpp\<close> and \<open>bit_shift.cpp\<close> with their headers.  The names follow
  \<open>Ins_Add\<close>; the enumerations \<open>InstructionType\<close> of the two classes are \<open>BitOp\<close> and \<open>ShiftOp\<close>.
\<close>

section \<open>BTST, BCHG, BCLR, BSET\<close>

datatype BitOp = BTST | BCHG | BCLR | BSET

definition bit_op :: "16 word \<Rightarrow> BitOp" where
  "bit_op part = [BTST, BCHG, BCLR, BSET] ! unat (part AND 0x3)"

fun bit_op_str :: "BitOp \<Rightarrow> string" where
  "bit_op_str BTST = ''btst''"
| "bit_op_str BCHG = ''bchg''"
| "bit_op_str BCLR = ''bclr''"
| "bit_op_str BSET = ''bset''"

record BitManip = Instruction +
  src_mode :: AddressingMode
  src_reg :: RegisterType
  dest_mode :: AddressingMode
  dest_reg :: RegisterType
  instruction_type :: BitOp
  instruction_str :: string
  data_bits_modulo :: "8 word"
  data_size :: DataSize

definition BitManip_new :: "16 word \<Rightarrow> BitManip" where
  "BitManip_new opc =
     (let dest_mode_part = drop_bit 3 opc AND 0x7;
          dest_reg_part = drop_bit 0 opc AND 0x7;
          src_mode_part = drop_bit 8 opc AND 0x1;
          src_reg_part = drop_bit 9 opc AND 0x7;
          instruction_type_part = drop_bit 6 opc AND 0x3;
          dest_mode = getAddressingMode dest_mode_part dest_reg_part in
      \<lparr>opcode = opc,
       is_valid = IS_DATA_ALTERABLE dest_mode,
       src_mode = (if src_mode_part \<noteq> 0 then ADDR_MODE_DIRECT_DATA else ADDR_MODE_IMMEDIATE),
       src_reg = getRegisterType 0 src_reg_part,
       dest_mode = dest_mode,
       dest_reg = getRegisterType dest_mode_part dest_reg_part,
       instruction_type = bit_op instruction_type_part,
       instruction_str = bit_op_str (bit_op instruction_type_part),
       data_bits_modulo = (if dest_mode = ADDR_MODE_DIRECT_DATA then 32 else 8),
       data_size = (if dest_mode = ADDR_MODE_DIRECT_DATA then SIZE_LONG else SIZE_BYTE)\<rparr>)"

text \<open>The \<open>switch\<close> of \<open>execute\<close>, on 64-bit copies; \<open>1ull << shift\<close> is \<open>push_bit (unat shift) 1\<close>.\<close>

definition bit_result :: "BitOp \<Rightarrow> 32 word \<Rightarrow> bool \<Rightarrow> 64 word \<Rightarrow> 64 word" where
  "bit_result ty shift test_bit_value result =
     (case ty of
        BTST \<Rightarrow> result
      | BCHG \<Rightarrow> if test_bit_value then result AND NOT (push_bit (unat shift) 1)
                else result OR push_bit (unat shift) 1
      | BCLR \<Rightarrow> result AND NOT (push_bit (unat shift) 1)
      | BSET \<Rightarrow> result OR push_bit (unat shift) 1)"

definition BitManip_execute :: "BitManip \<Rightarrow> (CPUState, unit) exec" where
  "BitManip_execute i =
     bindE skip_opcode (\<lambda>_.
     bindE (getData (src_mode i) (src_reg i) (data_size i)) (\<lambda>src.
     let shift = src mod ucast (data_bits_modulo i) in
     bindE (getDataSilent (dest_mode i) (dest_reg i) (data_size i)) (\<lambda>dest_data.
     let test_bit_value = (drop_bit (unat shift) dest_data AND 0x1 \<noteq> 0);
         result = bit_result (instruction_type i) shift test_bit_value (wide dest_data) in
     bindE (setData (dest_mode i) (dest_reg i) (data_size i) (narrow result)) (\<lambda>_.
     flag_set SR_FLAG_ZERO (\<not> test_bit_value)))))"

definition BitManip_disassembly :: "BitManip \<Rightarrow> (CPUState, string) exec" where
  "BitManip_disassembly i =
     bindE skip_opcode (\<lambda>_.
     bindE (effectiveAddress (src_mode i) (src_reg i) (data_size i)) (\<lambda>src.
     bindE (effectiveAddress (dest_mode i) (dest_reg i) (data_size i)) (\<lambda>dest.
     returnE (instruction_str i @ '' '' @ src @ '', '' @ dest))))"

section \<open>ASd, LSd, ROXd, ROd\<close>

datatype ShiftOp = AS | LS | ROX | RO

definition shift_op :: "16 word \<Rightarrow> ShiftOp" where
  "shift_op part = [AS, LS, ROX, RO] ! unat (part AND 0x3)"

fun shift_op_str :: "ShiftOp \<Rightarrow> string" where
  "shift_op_str AS = ''as''"
| "shift_op_str LS = ''ls''"
| "shift_op_str ROX = ''rox''"
| "shift_op_str RO = ''ro''"

record BitShift = Instruction +
  addr_mode :: AddressingMode
  addr_reg :: RegisterType
  shift_reg :: RegisterType
  imm_shift :: "8 word"
  direction_left :: bool
  is_imm :: bool
  is_memory :: bool
  instruction_type :: ShiftOp
  instruction_str :: string
  data_size :: DataSize

definition BitShift_new :: "16 word \<Rightarrow> BitShift" where
  "BitShift_new opc =
     (let addr_mode_part = drop_bit 3 opc AND 0x7;
          addr_reg_part = drop_bit 0 opc AND 0x7;
          direction_part = drop_bit 8 opc AND 0x1;
          data_size_part = drop_bit 6 opc AND 0x3;
          direction_left = (direction_part = 1);
          is_memory = (data_size_part = 3);
          instruction_type_part = drop_bit (if is_memory then 3 else 9) opc AND 0x3;
          is_imm_part = drop_bit 5 opc AND 0x1;
          rotation_part = drop_bit 9 opc AND 0x7;
          is_imm = (is_imm_part = 1) in
      \<lparr>opcode = opc,
       is_valid = (\<not> (is_memory \<and> \<not> IS_MEMORY_ALTERABLE (getAddressingMode addr_mode_part addr_reg_part))),
       addr_mode = (if is_memory then getAddressingMode addr_mode_part addr_reg_part else getAddressingMode 0 0),
       addr_reg = (if is_memory then getRegisterType addr_mode_part addr_reg_part else getRegisterType 0 addr_reg_part),
       shift_reg = (if \<not> is_memory \<and> \<not> is_imm then getRegisterType 0 rotation_part else REG_D0),
       imm_shift = (if is_memory then 1 else if is_imm then ucast (rotation_part + 1) else 0),
       direction_left = direction_left,
       is_imm = is_imm,
       is_memory = is_memory,
       instruction_type = shift_op instruction_type_part,
       instruction_str = shift_op_str (shift_op instruction_type_part) @ (if direction_left then ''l'' else ''r''),
       data_size = (if is_memory then SIZE_WORD else size_part data_size_part)\<rparr>)"

text \<open>
  \<open>BitShift::execute\<close>, one definition per case of its outer \<open>switch\<close>; each returns the value of
  \<open>result\<close>.  \<open>LSL\<close> and \<open>LSR\<close> are the operators \<open><<\<close> and \<open>>>\<close> on \<open>uint64_t\<close>, undefined for a distance
  of 64 or more, which \<open>shift - 1\<close> and \<open>8 - shift\<close> reach by wrapping around.  A flag is set to
  whether its argument is non-zero.
\<close>

definition shift_flags :: "bool \<Rightarrow> (CPUState, unit) exec" where
  "shift_flags b =
     bindE (flag_set SR_FLAG_CARRY b) (\<lambda>_. flag_set SR_FLAG_EXTEND b)"

definition shift_AS :: "bool \<Rightarrow> DataSize \<Rightarrow> 64 word \<Rightarrow> 64 word \<Rightarrow> (CPUState, 64 word) exec" where
  "shift_AS left sz addr_data shift =
     (if left then
        bindE (LSL addr_data shift) (\<lambda>result.
        bindE (shift_flags (result AND 1 \<noteq> 0)) (\<lambda>_.
        returnE result))
      else
        bindE (LSR addr_data shift) (\<lambda>shifted.
        bindE (LSR (NOT 0) shift) (\<lambda>ones.
        let result = (if IS_NEGATIVE addr_data sz then shifted OR NOT ones else shifted) in
        bindE (LSR addr_data (shift - 1)) (\<lambda>last.
        bindE (shift_flags (last AND 1 \<noteq> 0)) (\<lambda>_.
        returnE result)))))"

definition shift_LS :: "bool \<Rightarrow> 64 word \<Rightarrow> 64 word \<Rightarrow> (CPUState, 64 word) exec" where
  "shift_LS left addr_data shift =
     (if left then
        bindE (LSL addr_data shift) (\<lambda>result.
        bindE (shift_flags (result AND 1 \<noteq> 0)) (\<lambda>_.
        returnE result))
      else
        bindE (LSR addr_data shift) (\<lambda>result.
        bindE (LSR addr_data (shift - 1)) (\<lambda>last.
        bindE (shift_flags (last AND 1 \<noteq> 0)) (\<lambda>_.
        returnE result))))"

text \<open>The left rotation includes \<open>addr_data\<close>; the right one starts from \<open>result\<close>, which is 0.\<close>

definition shift_ROX :: "bool \<Rightarrow> DataSize \<Rightarrow> 64 word \<Rightarrow> 64 word \<Rightarrow> (CPUState, 64 word) exec" where
  "shift_ROX left sz addr_data shift =
     bindE (flag_get SR_FLAG_CARRY) (\<lambda>c.
     let carry = (if c then 1 else 0);
         start = (if left then addr_data else 0) in
     case sz of
       SIZE_BYTE \<Rightarrow>
         bindE ((if left then ROL_9 else ROR_9) (start OR push_bit 8 carry) shift) (\<lambda>result.
         bindE (shift_flags (result \<noteq> 0)) (\<lambda>_.
         returnE result))
     | SIZE_WORD \<Rightarrow>
         bindE ((if left then ROL_17 else ROR_17) (start OR push_bit 16 carry) shift) (\<lambda>result.
         bindE (shift_flags (drop_bit 8 result \<noteq> 0)) (\<lambda>_.
         returnE result))
     | SIZE_LONG \<Rightarrow>
         bindE ((if left then ROL_33 else ROR_33) (start OR push_bit 32 carry) shift) (\<lambda>result.
         bindE (shift_flags (drop_bit 24 result \<noteq> 0)) (\<lambda>_.
         returnE result))
     | SIZE_OTHER _ \<Rightarrow> returnE 0)"

text \<open>\<open>ROL\<close> and \<open>ROR\<close> return \<open>bool\<close>, so \<open>result\<close> becomes 0 or 1.\<close>

definition shift_RO :: "bool \<Rightarrow> DataSize \<Rightarrow> 64 word \<Rightarrow> 64 word \<Rightarrow> (CPUState, 64 word) exec" where
  "shift_RO left sz addr_data shift =
     (if left then
        bindE (ROL addr_data shift sz) (\<lambda>b.
        bindE (LSR addr_data (8 - shift)) (\<lambda>x.
        bindE (flag_set SR_FLAG_CARRY (x \<noteq> 0)) (\<lambda>_.
        returnE (of_bool b))))
      else
        bindE (ROR addr_data shift sz) (\<lambda>b.
        bindE (LSL addr_data (9 - shift)) (\<lambda>x.
        bindE (flag_set SR_FLAG_CARRY (x \<noteq> 0)) (\<lambda>_.
        returnE (of_bool b)))))"

definition BitShift_execute :: "BitShift \<Rightarrow> (CPUState, unit) exec" where
  "BitShift_execute i =
     bindE skip_opcode (\<lambda>_.
     bindE (getDataSilent (addr_mode i) (addr_reg i) (data_size i)) (\<lambda>d.
     let addr_data = wide d in
     bindE (if \<not> is_memory i \<and> \<not> is_imm i then
              bindE (getData ADDR_MODE_DIRECT_DATA (shift_reg i) (data_size i)) (\<lambda>n.
              returnE (wide (n mod 64)))
            else returnE (ucast (imm_shift i))) (\<lambda>shift.
     bindE (case instruction_type i of
              AS \<Rightarrow> shift_AS (direction_left i) (data_size i) addr_data shift
            | LS \<Rightarrow> shift_LS (direction_left i) addr_data shift
            | ROX \<Rightarrow> shift_ROX (direction_left i) (data_size i) addr_data shift
            | RO \<Rightarrow> shift_RO (direction_left i) (data_size i) addr_data shift) (\<lambda>result.
     seqE [flag_set SR_FLAG_NEGATIVE (IS_NEGATIVE result (data_size i)),
           flag_set SR_FLAG_ZERO (IS_ZERO result (data_size i)),
           flag_set SR_FLAG_OVERFLOW False]))))"

text \<open>\<open>imm_shift\<close> is a \<open>uint8_t\<close>, which \<open>operator<<\<close> writes as a character.\<close>

definition BitShift_disassembly :: "BitShift \<Rightarrow> (CPUState, string) exec" where
  "BitShift_disassembly i =
     bindE skip_opcode (\<lambda>_.
     if is_imm i then
       bindE (effectiveAddress (addr_mode i) (addr_reg i) (data_size i)) (\<lambda>dest.
       returnE (instruction_str i @ '' '' @ '' #$'' @ [char_of (unat (imm_shift i))] @ '', '' @ dest))
     else
       bindE (effectiveAddress ADDR_MODE_DIRECT_DATA (shift_reg i) (data_size i)) (\<lambda>src.
       bindE (effectiveAddress (addr_mode i) (addr_reg i) (data_size i)) (\<lambda>dest.
       returnE (instruction_str i @ '' '' @ '' '' @ src @ '', '' @ dest))))"

end
