(* ===== verification/Ins_Flow.thy ===== *)
theory Ins_Flow
  imports Ins_Common
begin

text \<open>
  \<open>src/instructions/bcc.cpp\<close>, \<open>scc.cpp\<close>, \<open>jmp.cpp\<close>, \<open>jsr.cpp\<close>, \<open>rts.cpp\<close>, \<open>link.cpp\<close>, \<open>unlk.cpp\<close>,
  \<open>nop.cpp\<close> and \<open>illegal.cpp\<close> with their headers.  The names follow \<open>Ins_Add\<close>.
\<close>

section \<open>BRA, BSR, Bcc\<close>

record Bcc = Instruction +
  condition :: Condition
  displacement_8 :: "8 word"
  data_size :: DataSize

definition Bcc_new :: "16 word \<Rightarrow> Bcc" where
  "Bcc_new opc =
     (let cond_part = drop_bit 8 opc AND 0xF;
          displacement_8 = ucast (drop_bit 0 opc AND 0xFF) in
      \<lparr>opcode = opc,
       is_valid = True,
       condition = getCondition cond_part,
       displacement_8 = displacement_8,
       data_size = (if displacement_8 = 0x00 then SIZE_WORD else if displacement_8 = 0xFF then SIZE_LONG
                    else SIZE_BYTE)\<rparr>)"

text \<open>
  The displacement: eight bits of the opcode, or an extension word or long word.  Reading the
  extension advances the register, but the branch is relative to the local \<open>pc\<close> of the code.
\<close>

definition Bcc_displacement :: "Bcc \<Rightarrow> (CPUState, 32 word) exec" where
  "Bcc_displacement i =
     (case data_size i of
        SIZE_BYTE \<Rightarrow> returnE (scast (displacement_8 i))
      | SIZE_WORD \<Rightarrow> bindE (getData ADDR_MODE_IMMEDIATE REG_D0 (data_size i)) (\<lambda>d. returnE (sext16 d))
      | SIZE_LONG \<Rightarrow> getData ADDR_MODE_IMMEDIATE REG_D0 (data_size i)
      | SIZE_OTHER _ \<Rightarrow> returnE 0)"

definition Bcc_execute :: "Bcc \<Rightarrow> (CPUState, unit) exec" where
  "Bcc_execute i =
     bindE (regs_get REG_PC SIZE_LONG) (\<lambda>pc.
     let pc = pc + size_w SIZE_WORD in
     bindE (regs_set REG_PC SIZE_LONG pc) (\<lambda>_.
     bindE (Bcc_displacement i) (\<lambda>displacement.
     case condition i of
       COND_TRUE \<Rightarrow> regs_set REG_PC SIZE_LONG (pc + displacement)
     | COND_FALSE \<Rightarrow>
         bindE (stackPush SIZE_LONG pc) (\<lambda>_.
         regs_set REG_PC SIZE_LONG (pc + displacement))
     | _ \<Rightarrow>
         bindE (checkCondition (condition i)) (\<lambda>cond_result.
         whenE cond_result (regs_set REG_PC SIZE_LONG (pc + displacement))))))"

text \<open>The disassembly has a second copy of the code that gets the displacement.\<close>

definition Bcc_text_displacement :: "Bcc \<Rightarrow> (CPUState, 32 word) exec" where
  "Bcc_text_displacement i =
     (case data_size i of
        SIZE_BYTE \<Rightarrow> returnE (scast (displacement_8 i))
      | SIZE_WORD \<Rightarrow> bindE (getData ADDR_MODE_IMMEDIATE REG_D0 (data_size i)) (\<lambda>d. returnE (sext16 d))
      | SIZE_LONG \<Rightarrow> getData ADDR_MODE_IMMEDIATE REG_D0 (data_size i)
      | SIZE_OTHER _ \<Rightarrow> returnE 0)"

definition Bcc_disassembly :: "Bcc \<Rightarrow> (CPUState, string) exec" where
  "Bcc_disassembly i =
     bindE (regs_get REG_PC SIZE_LONG) (\<lambda>pc.
     let pc = pc + size_w SIZE_WORD in
     bindE (regs_set REG_PC SIZE_LONG pc) (\<lambda>_.
     bindE (Bcc_text_displacement i) (\<lambda>displacement.
     returnE ((case condition i of
                 COND_TRUE \<Rightarrow> ''bra''
               | COND_FALSE \<Rightarrow> ''bsr''
               | _ \<Rightarrow> ''b'' @ conditionSuffix (condition i)) @
              '' $'' @ hex (pc + displacement)))))"

lemma Bcc_copies_agree: "Bcc_text_displacement i = Bcc_displacement i"
  by (simp add: Bcc_text_displacement_def Bcc_displacement_def)

section \<open>Scc\<close>

record Scc = Instruction +
  dest_mode :: AddressingMode
  dest_reg :: RegisterType
  condition :: Condition
  data_size :: DataSize

definition Scc_new :: "16 word \<Rightarrow> Scc" where
  "Scc_new opc =
     (let cond_part = drop_bit 8 opc AND 0xF;
          ea_mode_part = drop_bit 3 opc AND 0x7;
          ea_reg_part = drop_bit 0 opc AND 0x7 in
      \<lparr>opcode = opc,
       is_valid = IS_DATA_ALTERABLE (getAddressingMode ea_mode_part ea_reg_part),
       dest_mode = getAddressingMode ea_mode_part ea_reg_part,
       dest_reg = getRegisterType ea_mode_part ea_reg_part,
       condition = getCondition cond_part,
       data_size = SIZE_BYTE\<rparr>)"

definition Scc_execute :: "Scc \<Rightarrow> (CPUState, unit) exec" where
  "Scc_execute i =
     bindE skip_opcode (\<lambda>_.
     bindE (checkCondition (condition i)) (\<lambda>cond_result.
     if cond_result then setData (dest_mode i) (dest_reg i) SIZE_BYTE 0xFF
     else setData (dest_mode i) (dest_reg i) SIZE_BYTE 0x00))"

definition Scc_disassembly :: "Scc \<Rightarrow> (CPUState, string) exec" where
  "Scc_disassembly i =
     bindE skip_opcode (\<lambda>_.
     bindE (effectiveAddress (dest_mode i) (dest_reg i) SIZE_BYTE) (\<lambda>dest.
     returnE (''s'' @ conditionSuffix (condition i) @ '' '' @ dest)))"

section \<open>JMP\<close>

record Jmp = Instruction +
  dest_mode :: AddressingMode
  dest_reg :: RegisterType
  data_size :: DataSize

definition Jmp_new :: "16 word \<Rightarrow> Jmp" where
  "Jmp_new opc =
     (let ea_mode_part = drop_bit 3 opc AND 0x7;
          ea_reg_part = drop_bit 0 opc AND 0x7 in
      \<lparr>opcode = opc,
       is_valid = IS_CONTROL_ADDR (getAddressingMode ea_mode_part ea_reg_part),
       dest_mode = getAddressingMode ea_mode_part ea_reg_part,
       dest_reg = getRegisterType ea_mode_part ea_reg_part,
       data_size = SIZE_LONG\<rparr>)"

definition Jmp_execute :: "Jmp \<Rightarrow> (CPUState, unit) exec" where
  "Jmp_execute i =
     bindE skip_opcode (\<lambda>_.
     bindE (getControlAddress (dest_mode i) (dest_reg i) (data_size i)) (\<lambda>dest_addr.
     regs_set REG_PC SIZE_LONG dest_addr))"

definition Jmp_disassembly :: "Jmp \<Rightarrow> (CPUState, string) exec" where
  "Jmp_disassembly i =
     bindE skip_opcode (\<lambda>_.
     bindE (effectiveAddress (dest_mode i) (dest_reg i) (data_size i)) (\<lambda>dest.
     returnE (''jmp '' @ dest)))"

section \<open>JSR\<close>

record Jsr = Instruction +
  dest_mode :: AddressingMode
  dest_reg :: RegisterType
  data_size :: DataSize

definition Jsr_new :: "16 word \<Rightarrow> Jsr" where
  "Jsr_new opc =
     (let ea_mode_part = drop_bit 3 opc AND 0x7;
          ea_reg_part = drop_bit 0 opc AND 0x7 in
      \<lparr>opcode = opc,
       is_valid = IS_CONTROL_ADDR (getAddressingMode ea_mode_part ea_reg_part),
       dest_mode = getAddressingMode ea_mode_part ea_reg_part,
       dest_reg = getRegisterType ea_mode_part ea_reg_part,
       data_size = SIZE_LONG\<rparr>)"

definition Jsr_execute :: "Jsr \<Rightarrow> (CPUState, unit) exec" where
  "Jsr_execute i =
     bindE skip_opcode (\<lambda>_.
     bindE (getControlAddress (dest_mode i) (dest_reg i) (data_size i)) (\<lambda>dest_addr.
     bindE (regs_get REG_PC SIZE_LONG) (\<lambda>pc.
     bindE (stackPush SIZE_LONG pc) (\<lambda>_.
     regs_set REG_PC SIZE_LONG dest_addr))))"

definition Jsr_disassembly :: "Jsr \<Rightarrow> (CPUState, string) exec" where
  "Jsr_disassembly i =
     bindE skip_opcode (\<lambda>_.
     bindE (effectiveAddress (dest_mode i) (dest_reg i) (data_size i)) (\<lambda>dest.
     returnE (''jsr '' @ dest)))"

section \<open>RTS\<close>

text \<open>\<open>Rts\<close>, \<open>Nop\<close> and \<open>Illegal\<close> add no field to \<open>Instruction\<close>.  \<open>Rts\<close> computes \<open>pc + 2\<close> but does not
  store it.\<close>

definition Rts_new :: "16 word \<Rightarrow> Instruction" where
  "Rts_new opc = \<lparr>opcode = opc, is_valid = True\<rparr>"

definition Rts_execute :: "Instruction \<Rightarrow> (CPUState, unit) exec" where
  "Rts_execute i =
     bindE (regs_get REG_PC SIZE_LONG) (\<lambda>_.
     bindE (stackPop SIZE_LONG) (\<lambda>return_addr.
     regs_set REG_PC SIZE_LONG return_addr))"

definition Rts_disassembly :: "Instruction \<Rightarrow> (CPUState, string) exec" where
  "Rts_disassembly i =
     bindE skip_opcode (\<lambda>_.
     returnE ''rts'')"

section \<open>LINK\<close>

record Link = Instruction +
  addr_reg :: RegisterType
  data_size :: DataSize

definition Link_new :: "16 word \<Rightarrow> Link" where
  "Link_new opc =
     (let addr_reg_part = drop_bit 0 opc AND 0x7 in
      \<lparr>opcode = opc,
       is_valid = True,
       addr_reg = getRegisterType 1 addr_reg_part,
       data_size = SIZE_WORD\<rparr>)"

definition Link_execute :: "Link \<Rightarrow> (CPUState, unit) exec" where
  "Link_execute i =
     bindE (regs_get REG_PC SIZE_LONG) (\<lambda>pc.
     let pc = pc + size_w SIZE_WORD in
     bindE (mem_get pc (data_size i)) (\<lambda>d.
     let displacement = sext16 d;
         pc = pc + size_w SIZE_WORD in
     bindE (regs_set REG_PC SIZE_LONG pc) (\<lambda>_.
     bindE (regs_get (addr_reg i) SIZE_LONG) (\<lambda>addr_data.
     bindE (stackPush SIZE_LONG addr_data) (\<lambda>_.
     bindE (regs_get REG_USP SIZE_LONG) (\<lambda>stack_ptr.
     bindE (regs_set (addr_reg i) SIZE_LONG stack_ptr) (\<lambda>_.
     regs_set REG_USP SIZE_LONG (stack_ptr + displacement))))))))"

definition Link_disassembly :: "Link \<Rightarrow> (CPUState, string) exec" where
  "Link_disassembly i =
     bindE (regs_get REG_PC SIZE_LONG) (\<lambda>pc.
     let pc = pc + size_w SIZE_WORD in
     bindE (mem_get pc (data_size i)) (\<lambda>d.
     let displacement = ucast d :: 16 word;
         pc = pc + size_w SIZE_WORD in
     bindE (regs_set REG_PC SIZE_LONG pc) (\<lambda>_.
     returnE (''link '' @ disasm_reg (addr_reg i) @ '', $'' @ hex displacement))))"

section \<open>UNLK\<close>

record Unlk = Instruction +
  addr_reg :: RegisterType

definition Unlk_new :: "16 word \<Rightarrow> Unlk" where
  "Unlk_new opc =
     (let addr_reg_part = drop_bit 0 opc AND 0x7 in
      \<lparr>opcode = opc,
       is_valid = True,
       addr_reg = getRegisterType 1 addr_reg_part\<rparr>)"

definition Unlk_execute :: "Unlk \<Rightarrow> (CPUState, unit) exec" where
  "Unlk_execute i =
     bindE skip_opcode (\<lambda>_.
     bindE (regs_get (addr_reg i) SIZE_LONG) (\<lambda>addr_data.
     bindE (regs_set REG_USP SIZE_LONG addr_data) (\<lambda>_.
     bindE (stackPop SIZE_LONG) (\<lambda>addr_data.
     regs_set (addr_reg i) SIZE_LONG addr_data))))"

definition Unlk_disassembly :: "Unlk \<Rightarrow> (CPUState, string) exec" where
  "Unlk_disassembly i =
     bindE skip_opcode (\<lambda>_.
     returnE (''unlk '' @ disasm_reg (addr_reg i)))"

section \<open>NOP\<close>

definition Nop_new :: "16 word \<Rightarrow> Instruction" where
  "Nop_new opc = \<lparr>opcode = opc, is_valid = True\<rparr>"

definition Nop_execute :: "Instruction \<Rightarrow> (CPUState, unit) exec" where
  "Nop_execute i = skip_opcode"

definition Nop_disassembly :: "Instruction \<Rightarrow> (CPUState, string) exec" where
  "Nop_disassembly i =
     bindE skip_opcode (\<lambda>_.
     returnE ''nop'')"

section \<open>ILLEGAL\<close>

definition Illegal_new :: "16 word \<Rightarrow> Instruction" where
  "Illegal_new opc = \<lparr>opcode = opc, is_valid = True\<rparr>"

definition Illegal_execute :: "Instruction \<Rightarrow> (CPUState, unit) exec" where
  "Illegal_execute i = bindE skip_opcode (\<lambda>_. throwE Invalid_argument)"

definition Illegal_disassembly :: "Instruction \<Rightarrow> (CPUState, string) exec" where
  "Illegal_disassembly i =
     bindE skip_opcode (\<lambda>_.
     returnE ''illegal'')"

end
