(* ===== verification/Instructions.thy ===== *)
theory Instructions
  imports Ins_Add Ins_Sub Ins_Logic Ins_Compare Ins_Move Ins_MulDiv Ins_Bits Ins_Flow
begin

text \<open>
  The class hierarchy below \<open>INSTRUCTION::Instruction\<close> as a datatype with one constructor per
  class: a \<open>std::unique_ptr<Instruction>\<close> is a value of it, and a virtual call is a case
  distinction.  \<open>X_create\<close> is the static \<open>X::create\<close>.
\<close>

datatype Ins =
    I_Add Add
  | I_Adda Adda
  | I_Addi Addi
  | I_Addq Addq
  | I_Addx Addx
  | I_Sub Sub
  | I_Suba Suba
  | I_Subi Subi
  | I_Subq Subq
  | I_Subx Subx
  | I_And And
  | I_Andi Andi
  | I_Or Or
  | I_Ori Ori
  | I_Eor Eor
  | I_Eori Eori
  | I_Cmp Cmp
  | I_Cmpa Cmpa
  | I_Cmpi Cmpi
  | I_Tst Tst
  | I_Clr Clr
  | I_Neg Neg
  | I_Move Move
  | I_Moveq Moveq
  | I_Lea Lea
  | I_Pea Pea
  | I_Ext Ext
  | I_Mul Mul
  | I_Div Div
  | I_BitManip BitManip
  | I_BitShift BitShift
  | I_Bcc Bcc
  | I_Scc Scc
  | I_Jmp Jmp
  | I_Jsr Jsr
  | I_Rts Instruction
  | I_Link Link
  | I_Unlk Unlk
  | I_Nop Instruction
  | I_Illegal Instruction

definition Add_create :: "16 word \<Rightarrow> Ins" where
  "Add_create opc = I_Add (Add_new opc)"

definition Adda_create :: "16 word \<Rightarrow> Ins" where
  "Adda_create opc = I_Adda (Adda_new opc)"

definition Addi_create :: "16 word \<Rightarrow> Ins" where
  "Addi_create opc = I_Addi (Addi_new opc)"

definition Addq_create :: "16 word \<Rightarrow> Ins" where
  "Addq_create opc = I_Addq (Addq_new opc)"

definition Addx_create :: "16 word \<Rightarrow> Ins" where
  "Addx_create opc = I_Addx (Addx_new opc)"

definition Sub_create :: "16 word \<Rightarrow> Ins" where
  "Sub_create opc = I_Sub (Sub_new opc)"

definition Suba_create :: "16 word \<Rightarrow> Ins" where
  "Suba_create opc = I_Suba (Suba_new opc)"

definition Subi_create :: "16 word \<Rightarrow> Ins" where
  "Subi_create opc = I_Subi (Subi_new opc)"

definition Subq_create :: "16 word \<Rightarrow> Ins" where
  "Subq_create opc = I_Subq (Subq_new opc)"

definition Subx_create :: "16 word \<Rightarrow> Ins" where
  "Subx_create opc = I_Subx (Subx_new opc)"

definition And_create :: "16 word \<Rightarrow> Ins" where
  "And_create opc = I_And (And_new opc)"

definition Andi_create :: "16 word \<Rightarrow> Ins" where
  "Andi_create opc = I_Andi (Andi_new opc)"

definition Or_create :: "16 word \<Rightarrow> Ins" where
  "Or_create opc = I_Or (Or_new opc)"

definition Ori_create :: "16 word \<Rightarrow> Ins" where
  "Ori_create opc = I_Ori (Ori_new opc)"

definition Eor_create :: "16 word \<Rightarrow> Ins" where
  "Eor_create opc = I_Eor (Eor_new opc)"

definition Eori_create :: "16 word \<Rightarrow> Ins" where
  "Eori_create opc = I_Eori (Eori_new opc)"

definition Cmp_create :: "16 word \<Rightarrow> Ins" where
  "Cmp_create opc = I_Cmp (Cmp_new opc)"

definition Cmpa_create :: "16 word \<Rightarrow> Ins" where
  "Cmpa_create opc = I_Cmpa (Cmpa_new opc)"

definition Cmpi_create :: "16 word \<Rightarrow> Ins" where
  "Cmpi_create opc = I_Cmpi (Cmpi_new opc)"

definition Tst_create :: "16 word \<Rightarrow> Ins" where
  "Tst_create opc = I_Tst (Tst_new opc)"

definition Clr_create :: "16 word \<Rightarrow> Ins" where
  "Clr_create opc = I_Clr (Clr_new opc)"

definition Neg_create :: "16 word \<Rightarrow> Ins" where
  "Neg_create opc = I_Neg (Neg_new opc)"

definition Move_create :: "16 word \<Rightarrow> Ins" where
  "Move_create opc = I_Move (Move_new opc)"

definition Moveq_create :: "16 word \<Rightarrow> Ins" where
  "Moveq_create opc = I_Moveq (Moveq_new opc)"

definition Lea_create :: "16 word \<Rightarrow> Ins" where
  "Lea_create opc = I_Lea (Lea_new opc)"

definition Pea_create :: "16 word \<Rightarrow> Ins" where
  "Pea_create opc = I_Pea (Pea_new opc)"

definition Ext_create :: "16 word \<Rightarrow> Ins" where
  "Ext_create opc = I_Ext (Ext_new opc)"

definition Mul_create :: "16 word \<Rightarrow> Ins" where
  "Mul_create opc = I_Mul (Mul_new opc)"

definition Div_create :: "16 word \<Rightarrow> Ins" where
  "Div_create opc = I_Div (Div_new opc)"

definition BitManip_create :: "16 word \<Rightarrow> Ins" where
  "BitManip_create opc = I_BitManip (BitManip_new opc)"

definition BitShift_create :: "16 word \<Rightarrow> Ins" where
  "BitShift_create opc = I_BitShift (BitShift_new opc)"

definition Bcc_create :: "16 word \<Rightarrow> Ins" where
  "Bcc_create opc = I_Bcc (Bcc_new opc)"

definition Scc_create :: "16 word \<Rightarrow> Ins" where
  "Scc_create opc = I_Scc (Scc_new opc)"

definition Jmp_create :: "16 word \<Rightarrow> Ins" where
  "Jmp_create opc = I_Jmp (Jmp_new opc)"

definition Jsr_create :: "16 word \<Rightarrow> Ins" where
  "Jsr_create opc = I_Jsr (Jsr_new opc)"

definition Rts_create :: "16 word \<Rightarrow> Ins" where
  "Rts_create opc = I_Rts (Rts_new opc)"

definition Link_create :: "16 word \<Rightarrow> Ins" where
  "Link_create opc = I_Link (Link_new opc)"

definition Unlk_create :: "16 word \<Rightarrow> Ins" where
  "Unlk_create opc = I_Unlk (Unlk_new opc)"

definition Nop_create :: "16 word \<Rightarrow> Ins" where
  "Nop_create opc = I_Nop (Nop_new opc)"

definition Illegal_create :: "16 word \<Rightarrow> Ins" where
  "Illegal_create opc = I_Illegal (Illegal_new opc)"

lemmas create_defs =
  Add_create_def Adda_create_def Addi_create_def Addq_create_def
  Addx_create_def Sub_create_def Suba_create_def Subi_create_def
  Subq_create_def Subx_create_def And_create_def Andi_create_def
  Or_create_def Ori_create_def Eor_create_def Eori_create_def
  Cmp_create_def Cmpa_create_def Cmpi_create_def Tst_create_def
  Clr_create_def Neg_create_def Move_create_def Moveq_create_def
  Lea_create_def Pea_create_def Ext_create_def Mul_create_def
  Div_create_def BitManip_create_def BitShift_create_def Bcc_create_def
  Scc_create_def Jmp_create_def Jsr_create_def Rts_create_def
  Link_create_def Unlk_create_def Nop_create_def Illegal_create_def

section \<open>Virtual calls\<close>

fun execute :: "Ins \<Rightarrow> (CPUState, unit) exec" where
  "execute (I_Add i) = Add_execute i"
| "execute (I_Adda i) = Adda_execute i"
| "execute (I_Addi i) = Addi_execute i"
| "execute (I_Addq i) = Addq_execute i"
| "execute (I_Addx i) = Addx_execute i"
| "execute (I_Sub i) = Sub_execute i"
| "execute (I_Suba i) = Suba_execute i"
| "execute (I_Subi i) = Subi_execute i"
| "execute (I_Subq i) = Subq_execute i"
| "execute (I_Subx i) = Subx_execute i"
| "execute (I_And i) = And_execute i"
| "execute (I_Andi i) = Andi_execute i"
| "execute (I_Or i) = Or_execute i"
| "execute (I_Ori i) = Ori_execute i"
| "execute (I_Eor i) = Eor_execute i"
| "execute (I_Eori i) = Eori_execute i"
| "execute (I_Cmp i) = Cmp_execute i"
| "execute (I_Cmpa i) = Cmpa_execute i"
| "execute (I_Cmpi i) = Cmpi_execute i"
| "execute (I_Tst i) = Tst_execute i"
| "execute (I_Clr i) = Clr_execute i"
| "execute (I_Neg i) = Neg_execute i"
| "execute (I_Move i) = Move_execute i"
| "execute (I_Moveq i) = Moveq_execute i"
| "execute (I_Lea i) = Lea_execute i"
| "execute (I_Pea i) = Pea_execute i"
| "execute (I_Ext i) = Ext_execute i"
| "execute (I_Mul i) = Mul_execute i"
| "execute (I_Div i) = Div_execute i"
| "execute (I_BitManip i) = BitManip_execute i"
| "execute (I_BitShift i) = BitShift_execute i"
| "execute (I_Bcc i) = Bcc_execute i"
| "execute (I_Scc i) = Scc_execute i"
| "execute (I_Jmp i) = Jmp_execute i"
| "execute (I_Jsr i) = Jsr_execute i"
| "execute (I_Rts i) = Rts_execute i"
| "execute (I_Link i) = Link_execute i"
| "execute (I_Unlk i) = Unlk_execute i"
| "execute (I_Nop i) = Nop_execute i"
| "execute (I_Illegal i) = Illegal_execute i"

fun disassembly :: "Ins \<Rightarrow> (CPUState, string) exec" where
  "disassembly (I_Add i) = Add_disassembly i"
| "disassembly (I_Adda i) = Adda_disassembly i"
| "disassembly (I_Addi i) = Addi_disassembly i"
| "disassembly (I_Addq i) = Addq_disassembly i"
| "disassembly (I_Addx i) = Addx_disassembly i"
| "disassembly (I_Sub i) = Sub_disassembly i"
| "disassembly (I_Suba i) = Suba_disassembly i"
| "disassembly (I_Subi i) = Subi_disassembly i"
| "disassembly (I_Subq i) = Subq_disassembly i"
| "disassembly (I_Subx i) = Subx_disassembly i"
| "disassembly (I_And i) = And_disassembly i"
| "disassembly (I_Andi i) = Andi_disassembly i"
| "disassembly (I_Or i) = Or_disassembly i"
| "disassembly (I_Ori i) = Ori_disassembly i"
| "disassembly (I_Eor i) = Eor_disassembly i"
| "disassembly (I_Eori i) = Eori_disassembly i"
| "disassembly (I_Cmp i) = Cmp_disassembly i"
| "disassembly (I_Cmpa i) = Cmpa_disassembly i"
| "disassembly (I_Cmpi i) = Cmpi_disassembly i"
| "disassembly (I_Tst i) = Tst_disassembly i"
| "disassembly (I_Clr i) = Clr_disassembly i"
| "disassembly (I_Neg i) = Neg_disassembly i"
| "disassembly (I_Move i) = Move_disassembly i"
| "disassembly (I_Moveq i) = Moveq_disassembly i"
| "disassembly (I_Lea i) = Lea_disassembly i"
| "disassembly (I_Pea i) = Pea_disassembly i"
| "disassembly (I_Ext i) = Ext_disassembly i"
| "disassembly (I_Mul i) = Mul_disassembly i"
| "disassembly (I_Div i) = Div_disassembly i"
| "disassembly (I_BitManip i) = BitManip_disassembly i"
| "disassembly (I_BitShift i) = BitShift_disassembly i"
| "disassembly (I_Bcc i) = Bcc_disassembly i"
| "disassembly (I_Scc i) = Scc_disassembly i"
| "disassembly (I_Jmp i) = Jmp_disassembly i"
| "disassembly (I_Jsr i) = Jsr_disassembly i"
| "disassembly (I_Rts i) = Rts_disassembly i"
| "disassembly (I_Link i) = Link_disassembly i"
| "disassembly (I_Unlk i) = Unlk_disassembly i"
| "disassembly (I_Nop i) = Nop_disassembly i"
| "disassembly (I_Illegal i) = Illegal_disassembly i"

fun ins_is_valid :: "Ins \<Rightarrow> bool" where
  "ins_is_valid (I_Add i) = is_valid i"
| "ins_is_valid (I_Adda i) = is_valid i"
| "ins_is_valid (I_Addi i) = is_valid i"
| "ins_is_valid (I_Addq i) = is_valid i"
| "ins_is_valid (I_Addx i) = is_valid i"
| "ins_is_valid (I_Sub i) = is_valid i"
| "ins_is_valid (I_Suba i) = is_valid i"
| "ins_is_valid (I_Subi i) = is_valid i"
| "ins_is_valid (I_Subq i) = is_valid i"
| "ins_is_valid (I_Subx i) = is_valid i"
| "ins_is_valid (I_And i) = is_valid i"
| "ins_is_valid (I_Andi i) = is_valid i"
| "ins_is_valid (I_Or i) = is_valid i"
| "ins_is_valid (I_Ori i) = is_valid i"
| "ins_is_valid (I_Eor i) = is_valid i"
| "ins_is_valid (I_Eori i) = is_valid i"
| "ins_is_valid (I_Cmp i) = is_valid i"
| "ins_is_valid (I_Cmpa i) = is_valid i"
| "ins_is_valid (I_Cmpi i) = is_valid i"
| "ins_is_valid (I_Tst i) = is_valid i"
| "ins_is_valid (I_Clr i) = is_valid i"
| "ins_is_valid (I_Neg i) = is_valid i"
| "ins_is_valid (I_Move i) = is_valid i"
| "ins_is_valid (I_Moveq i) = is_valid i"
| "ins_is_valid (I_Lea i) = is_valid i"
| "ins_is_valid (I_Pea i) = is_valid i"
| "ins_is_valid (I_Ext i) = is_valid i"
| "ins_is_valid (I_Mul i) = is_valid i"
| "ins_is_valid (I_Div i) = is_valid i"
| "ins_is_valid (I_BitManip i) = is_valid i"
| "ins_is_valid (I_BitShift i) = is_valid i"
| "ins_is_valid (I_Bcc i) = is_valid i"
| "ins_is_valid (I_Scc i) = is_valid i"
| "ins_is_valid (I_Jmp i) = is_valid i"
| "ins_is_valid (I_Jsr i) = is_valid i"
| "ins_is_valid (I_Rts i) = is_valid i"
| "ins_is_valid (I_Link i) = is_valid i"
| "ins_is_valid (I_Unlk i) = is_valid i"
| "ins_is_valid (I_Nop i) = is_valid i"
| "ins_is_valid (I_Illegal i) = is_valid i"

end
