(* ===== verification/Ins_Frames.thy ===== *)
theory Ins_Frames
  imports Instructions
begin

text \<open>
  Every instruction whose register fields name data or address registers keeps every frame of
  the machine, and its disassembly changes the program counter only.
\<close>

text \<open>The register fields of an instruction are in the range a three-bit field can name.\<close>

fun regs_ok :: "Ins \<Rightarrow> bool" where
  "regs_ok (I_Add i) \<longleftrightarrow> general_reg (Add.src_reg i) \<and> general_reg (Add.dest_reg i)"
| "regs_ok (I_Adda i) \<longleftrightarrow> general_reg (Adda.src_reg i) \<and> general_reg (Adda.dest_reg i)"
| "regs_ok (I_Addi i) \<longleftrightarrow> general_reg (Addi.dest_reg i)"
| "regs_ok (I_Addq i) \<longleftrightarrow> general_reg (Addq.dest_reg i)"
| "regs_ok (I_Addx i) \<longleftrightarrow> general_reg (Addx.src_reg i) \<and> general_reg (Addx.dest_reg i)"
| "regs_ok (I_Sub i) \<longleftrightarrow> general_reg (Sub.src_reg i) \<and> general_reg (Sub.dest_reg i)"
| "regs_ok (I_Suba i) \<longleftrightarrow> general_reg (Suba.src_reg i) \<and> general_reg (Suba.dest_reg i)"
| "regs_ok (I_Subi i) \<longleftrightarrow> general_reg (Subi.dest_reg i)"
| "regs_ok (I_Subq i) \<longleftrightarrow> general_reg (Subq.dest_reg i)"
| "regs_ok (I_Subx i) \<longleftrightarrow> general_reg (Subx.src_reg i) \<and> general_reg (Subx.dest_reg i)"
| "regs_ok (I_And i) \<longleftrightarrow> general_reg (And.src_reg i) \<and> general_reg (And.dest_reg i)"
| "regs_ok (I_Andi i) \<longleftrightarrow> general_reg (Andi.dest_reg i)"
| "regs_ok (I_Or i) \<longleftrightarrow> general_reg (Or.src_reg i) \<and> general_reg (Or.dest_reg i)"
| "regs_ok (I_Ori i) \<longleftrightarrow> general_reg (Ori.dest_reg i)"
| "regs_ok (I_Eor i) \<longleftrightarrow> general_reg (Eor.src_reg i) \<and> general_reg (Eor.dest_reg i)"
| "regs_ok (I_Eori i) \<longleftrightarrow> general_reg (Eori.dest_reg i)"
| "regs_ok (I_Cmp i) \<longleftrightarrow> general_reg (Cmp.src_reg i) \<and> general_reg (Cmp.dest_reg i)"
| "regs_ok (I_Cmpa i) \<longleftrightarrow> general_reg (Cmpa.src_reg i) \<and> general_reg (Cmpa.dest_reg i)"
| "regs_ok (I_Cmpi i) \<longleftrightarrow> general_reg (Cmpi.dest_reg i)"
| "regs_ok (I_Tst i) \<longleftrightarrow> general_reg (Tst.ea_reg i)"
| "regs_ok (I_Clr i) \<longleftrightarrow> general_reg (Clr.dest_reg i)"
| "regs_ok (I_Neg i) \<longleftrightarrow> general_reg (Neg.dest_reg i)"
| "regs_ok (I_Move i) \<longleftrightarrow> general_reg (Move.src_reg i) \<and> general_reg (Move.dest_reg i)"
| "regs_ok (I_Moveq i) \<longleftrightarrow> general_reg (Moveq.dest_reg i)"
| "regs_ok (I_Lea i) \<longleftrightarrow> general_reg (Lea.src_reg i) \<and> general_reg (Lea.addr_reg i)"
| "regs_ok (I_Pea i) \<longleftrightarrow> general_reg (Pea.addr_reg i)"
| "regs_ok (I_Ext i) \<longleftrightarrow> general_reg (Ext.addr_reg i)"
| "regs_ok (I_Mul i) \<longleftrightarrow> general_reg (Mul.src_reg i) \<and> general_reg (Mul.dest_reg i)"
| "regs_ok (I_Div i) \<longleftrightarrow> general_reg (Div.src_reg i) \<and> general_reg (Div.dest_reg i)"
| "regs_ok (I_BitManip i) \<longleftrightarrow> general_reg (BitManip.src_reg i) \<and> general_reg (BitManip.dest_reg i)"
| "regs_ok (I_BitShift i) \<longleftrightarrow> general_reg (BitShift.addr_reg i) \<and> general_reg (BitShift.shift_reg i)"
| "regs_ok (I_Bcc i) \<longleftrightarrow> True"
| "regs_ok (I_Scc i) \<longleftrightarrow> general_reg (Scc.dest_reg i)"
| "regs_ok (I_Jmp i) \<longleftrightarrow> general_reg (Jmp.dest_reg i)"
| "regs_ok (I_Jsr i) \<longleftrightarrow> general_reg (Jsr.dest_reg i)"
| "regs_ok (I_Rts i) \<longleftrightarrow> True"
| "regs_ok (I_Link i) \<longleftrightarrow> general_reg (Link.addr_reg i)"
| "regs_ok (I_Unlk i) \<longleftrightarrow> general_reg (Unlk.addr_reg i)"
| "regs_ok (I_Nop i) \<longleftrightarrow> True"
| "regs_ok (I_Illegal i) \<longleftrightarrow> True"

section \<open>Execution\<close>

context flag_frame
begin

lemma keeps_LSL [keeps_intros]: "keeps R (LSL a b)"
  by (simp add: LSL_def keeps_return keeps_throw)

lemma keeps_LSR [keeps_intros]: "keeps R (LSR a b)"
  by (simp add: LSR_def keeps_return keeps_throw)

lemma keeps_rotates [keeps_intros]:
  "keeps R (ROL_8 a b)" "keeps R (ROL_9 a b)" "keeps R (ROL_16 a b)" "keeps R (ROL_17 a b)"
  "keeps R (ROL_32 a b)" "keeps R (ROL_33 a b)" "keeps R (ROR_8 a b)" "keeps R (ROR_9 a b)"
  "keeps R (ROR_16 a b)" "keeps R (ROR_17 a b)" "keeps R (ROR_32 a b)" "keeps R (ROR_33 a b)"
  unfolding ROL_8_def ROL_9_def ROL_16_def ROL_17_def ROL_32_def ROL_33_def
    ROR_8_def ROR_9_def ROR_16_def ROR_17_def ROR_32_def ROR_33_def
  by (intro keeps_intros)+

lemma keeps_ROL [keeps_intros]: "keeps R (ROL a b sz)"
  by (cases sz) (auto intro!: keeps_intros)

lemma keeps_ROR [keeps_intros]: "keeps R (ROR a b sz)"
  by (cases sz) (auto intro!: keeps_intros)

lemma keeps_shift_flags [keeps_intros]: "keeps R (shift_flags b)"
  unfolding shift_flags_def by (auto intro!: keeps_intros)

lemma keeps_shift_AS [keeps_intros]: "keeps R (shift_AS l sz a n)"
  unfolding shift_AS_def by (auto intro!: keeps_intros)

lemma keeps_shift_LS [keeps_intros]: "keeps R (shift_LS l a n)"
  unfolding shift_LS_def by (auto intro!: keeps_intros)

lemma keeps_shift_ROX [keeps_intros]: "keeps R (shift_ROX l sz a n)"
  unfolding shift_ROX_def by (cases sz) (auto intro!: keeps_intros)

lemma keeps_shift_RO [keeps_intros]: "keeps R (shift_RO l sz a n)"
  unfolding shift_RO_def by (auto intro!: keeps_intros)

lemma keeps_mul_result [keeps_intros]: "keeps R (mul_result sg a b)"
  unfolding mul_result_def by (auto intro!: keeps_intros)

lemma keeps_div_result [keeps_intros]: "keeps R (div_result sg a b)"
  unfolding div_result_def by (auto intro!: keeps_intros)

end

context cpu_frame
begin

lemma keeps_Bcc_displacement [keeps_intros]: "keeps R (Bcc_displacement i)"
  unfolding Bcc_displacement_def by (cases "Bcc.data_size i") (auto intro!: keeps_intros)

lemma keeps_Add [keeps_intros]:
  "general_reg (Add.src_reg i) \<Longrightarrow> general_reg (Add.dest_reg i) \<Longrightarrow> keeps R (Add_execute i)"
  unfolding Add_execute_def by (auto intro!: keeps_intros)

lemma keeps_Adda [keeps_intros]:
  "general_reg (Adda.src_reg i) \<Longrightarrow> general_reg (Adda.dest_reg i) \<Longrightarrow> keeps R (Adda_execute i)"
  unfolding Adda_execute_def by (auto intro!: keeps_intros)

lemma keeps_Addi [keeps_intros]:
  "general_reg (Addi.dest_reg i) \<Longrightarrow> keeps R (Addi_execute i)"
  unfolding Addi_execute_def by (auto intro!: keeps_intros)

lemma keeps_Addq [keeps_intros]:
  "general_reg (Addq.dest_reg i) \<Longrightarrow> keeps R (Addq_execute i)"
  unfolding Addq_execute_def by (auto intro!: keeps_intros)

lemma keeps_Addx [keeps_intros]:
  "general_reg (Addx.src_reg i) \<Longrightarrow> general_reg (Addx.dest_reg i) \<Longrightarrow> keeps R (Addx_execute i)"
  unfolding Addx_execute_def by (auto intro!: keeps_intros)

lemma keeps_Sub [keeps_intros]:
  "general_reg (Sub.src_reg i) \<Longrightarrow> general_reg (Sub.dest_reg i) \<Longrightarrow> keeps R (Sub_execute i)"
  unfolding Sub_execute_def by (auto intro!: keeps_intros)

lemma keeps_Suba [keeps_intros]:
  "general_reg (Suba.src_reg i) \<Longrightarrow> general_reg (Suba.dest_reg i) \<Longrightarrow> keeps R (Suba_execute i)"
  unfolding Suba_execute_def by (auto intro!: keeps_intros)

lemma keeps_Subi [keeps_intros]:
  "general_reg (Subi.dest_reg i) \<Longrightarrow> keeps R (Subi_execute i)"
  unfolding Subi_execute_def by (auto intro!: keeps_intros)

lemma keeps_Subq [keeps_intros]:
  "general_reg (Subq.dest_reg i) \<Longrightarrow> keeps R (Subq_execute i)"
  unfolding Subq_execute_def by (auto intro!: keeps_intros)

lemma keeps_Subx [keeps_intros]:
  "general_reg (Subx.src_reg i) \<Longrightarrow> general_reg (Subx.dest_reg i) \<Longrightarrow> keeps R (Subx_execute i)"
  unfolding Subx_execute_def by (auto intro!: keeps_intros)

lemma keeps_And [keeps_intros]:
  "general_reg (And.src_reg i) \<Longrightarrow> general_reg (And.dest_reg i) \<Longrightarrow> keeps R (And_execute i)"
  unfolding And_execute_def by (auto intro!: keeps_intros)

lemma keeps_Andi [keeps_intros]:
  "general_reg (Andi.dest_reg i) \<Longrightarrow> keeps R (Andi_execute i)"
  unfolding Andi_execute_def by (auto intro!: keeps_intros)

lemma keeps_Or [keeps_intros]:
  "general_reg (Or.src_reg i) \<Longrightarrow> general_reg (Or.dest_reg i) \<Longrightarrow> keeps R (Or_execute i)"
  unfolding Or_execute_def by (auto intro!: keeps_intros)

lemma keeps_Ori [keeps_intros]:
  "general_reg (Ori.dest_reg i) \<Longrightarrow> keeps R (Ori_execute i)"
  unfolding Ori_execute_def by (auto intro!: keeps_intros)

lemma keeps_Eor [keeps_intros]:
  "general_reg (Eor.src_reg i) \<Longrightarrow> general_reg (Eor.dest_reg i) \<Longrightarrow> keeps R (Eor_execute i)"
  unfolding Eor_execute_def by (auto intro!: keeps_intros)

lemma keeps_Eori [keeps_intros]:
  "general_reg (Eori.dest_reg i) \<Longrightarrow> keeps R (Eori_execute i)"
  unfolding Eori_execute_def by (auto intro!: keeps_intros)

lemma keeps_Cmp [keeps_intros]:
  "general_reg (Cmp.src_reg i) \<Longrightarrow> general_reg (Cmp.dest_reg i) \<Longrightarrow> keeps R (Cmp_execute i)"
  unfolding Cmp_execute_def by (auto intro!: keeps_intros)

lemma keeps_Cmpa [keeps_intros]:
  "general_reg (Cmpa.src_reg i) \<Longrightarrow> general_reg (Cmpa.dest_reg i) \<Longrightarrow> keeps R (Cmpa_execute i)"
  unfolding Cmpa_execute_def by (auto intro!: keeps_intros)

lemma keeps_Cmpi [keeps_intros]:
  "general_reg (Cmpi.dest_reg i) \<Longrightarrow> keeps R (Cmpi_execute i)"
  unfolding Cmpi_execute_def by (auto intro!: keeps_intros)

lemma keeps_Tst [keeps_intros]:
  "general_reg (Tst.ea_reg i) \<Longrightarrow> keeps R (Tst_execute i)"
  unfolding Tst_execute_def by (auto intro!: keeps_intros)

lemma keeps_Clr [keeps_intros]:
  "general_reg (Clr.dest_reg i) \<Longrightarrow> keeps R (Clr_execute i)"
  unfolding Clr_execute_def by (auto intro!: keeps_intros)

lemma keeps_Neg [keeps_intros]:
  "general_reg (Neg.dest_reg i) \<Longrightarrow> keeps R (Neg_execute i)"
  unfolding Neg_execute_def by (auto intro!: keeps_intros)

lemma keeps_Move [keeps_intros]:
  "general_reg (Move.src_reg i) \<Longrightarrow> general_reg (Move.dest_reg i) \<Longrightarrow> keeps R (Move_execute i)"
  unfolding Move_execute_def by (auto intro!: keeps_intros)

lemma keeps_Moveq [keeps_intros]:
  "general_reg (Moveq.dest_reg i) \<Longrightarrow> keeps R (Moveq_execute i)"
  unfolding Moveq_execute_def by (auto intro!: keeps_intros)

lemma keeps_Lea [keeps_intros]:
  "general_reg (Lea.src_reg i) \<Longrightarrow> general_reg (Lea.addr_reg i) \<Longrightarrow> keeps R (Lea_execute i)"
  unfolding Lea_execute_def by (auto intro!: keeps_intros)

lemma keeps_Pea [keeps_intros]:
  "general_reg (Pea.addr_reg i) \<Longrightarrow> keeps R (Pea_execute i)"
  unfolding Pea_execute_def by (auto intro!: keeps_intros)

lemma keeps_Ext [keeps_intros]:
  "general_reg (Ext.addr_reg i) \<Longrightarrow> keeps R (Ext_execute i)"
  unfolding Ext_execute_def by (auto intro!: keeps_intros)

lemma keeps_Mul [keeps_intros]:
  "general_reg (Mul.src_reg i) \<Longrightarrow> general_reg (Mul.dest_reg i) \<Longrightarrow> keeps R (Mul_execute i)"
  unfolding Mul_execute_def by (auto intro!: keeps_intros)

lemma keeps_Div [keeps_intros]:
  "general_reg (Div.src_reg i) \<Longrightarrow> general_reg (Div.dest_reg i) \<Longrightarrow> keeps R (Div_execute i)"
  unfolding Div_execute_def by (auto intro!: keeps_intros)

lemma keeps_BitManip [keeps_intros]:
  "general_reg (BitManip.src_reg i) \<Longrightarrow> general_reg (BitManip.dest_reg i) \<Longrightarrow> keeps R (BitManip_execute i)"
  unfolding BitManip_execute_def by (auto intro!: keeps_intros)

lemma keeps_BitShift [keeps_intros]:
  "general_reg (BitShift.addr_reg i) \<Longrightarrow> general_reg (BitShift.shift_reg i) \<Longrightarrow> keeps R (BitShift_execute i)"
  unfolding BitShift_execute_def by (cases "BitShift.instruction_type i") (auto intro!: keeps_intros)

lemma keeps_Bcc [keeps_intros]:
  "keeps R (Bcc_execute i)"
  unfolding Bcc_execute_def by (cases "Bcc.condition i") (auto intro!: keeps_intros)

lemma keeps_Scc [keeps_intros]:
  "general_reg (Scc.dest_reg i) \<Longrightarrow> keeps R (Scc_execute i)"
  unfolding Scc_execute_def by (auto intro!: keeps_intros)

lemma keeps_Jmp [keeps_intros]:
  "general_reg (Jmp.dest_reg i) \<Longrightarrow> keeps R (Jmp_execute i)"
  unfolding Jmp_execute_def by (auto intro!: keeps_intros)

lemma keeps_Jsr [keeps_intros]:
  "general_reg (Jsr.dest_reg i) \<Longrightarrow> keeps R (Jsr_execute i)"
  unfolding Jsr_execute_def by (auto intro!: keeps_intros)

lemma keeps_Rts [keeps_intros]:
  "keeps R (Rts_execute i)"
  unfolding Rts_execute_def by (auto intro!: keeps_intros)

lemma keeps_Link [keeps_intros]:
  "general_reg (Link.addr_reg i) \<Longrightarrow> keeps R (Link_execute i)"
  unfolding Link_execute_def by (auto intro!: keeps_intros)

lemma keeps_Unlk [keeps_intros]:
  "general_reg (Unlk.addr_reg i) \<Longrightarrow> keeps R (Unlk_execute i)"
  unfolding Unlk_execute_def by (auto intro!: keeps_intros)

lemma keeps_Nop [keeps_intros]:
  "keeps R (Nop_execute i)"
  unfolding Nop_execute_def by (auto intro!: keeps_intros)

lemma keeps_Illegal [keeps_intros]:
  "keeps R (Illegal_execute i)"
  unfolding Illegal_execute_def by (auto intro!: keeps_intros)

lemma execute_keeps: "regs_ok i \<Longrightarrow> keeps R (execute i)"
  by (cases i) (auto intro: keeps_intros)

end

section \<open>Disassembly\<close>

lemma immediate_only_pc [keeps_intros]: "keeps only_pc (getData ADDR_MODE_IMMEDIATE r sz)"
  by (auto intro!: keeps_intros)

lemma displacement_only_pc [keeps_intros]: "keeps only_pc (Bcc_displacement i)"
  unfolding Bcc_displacement_def
  by (cases "Bcc.data_size i") (auto intro!: keeps_intros simp del: getData.simps)

lemmas disassembly_defs =
  Add_disassembly_def Adda_disassembly_def Addi_disassembly_def Addq_disassembly_def
  Addx_disassembly_def Sub_disassembly_def Suba_disassembly_def Subi_disassembly_def
  Subq_disassembly_def Subx_disassembly_def And_disassembly_def Andi_disassembly_def
  Or_disassembly_def Ori_disassembly_def Eor_disassembly_def Eori_disassembly_def
  Cmp_disassembly_def Cmpa_disassembly_def Cmpi_disassembly_def Tst_disassembly_def
  Clr_disassembly_def Neg_disassembly_def Move_disassembly_def Moveq_disassembly_def
  Lea_disassembly_def Pea_disassembly_def Ext_disassembly_def Mul_disassembly_def
  Div_disassembly_def BitManip_disassembly_def BitShift_disassembly_def Bcc_disassembly_def Bcc_copies_agree
  Scc_disassembly_def Jmp_disassembly_def Jsr_disassembly_def Rts_disassembly_def
  Link_disassembly_def Unlk_disassembly_def Nop_disassembly_def Illegal_disassembly_def

lemma disassembly_keeps: "keeps only_pc (disassembly i)"
  by (cases i) (auto simp: disassembly_defs intro!: keeps_intros simp del: effectiveAddress.simps)

section \<open>Decoded instructions\<close>

text \<open>The constructors only put three-bit fields and fixed general registers into the register fields.\<close>

lemmas new_defs =
  Add_new_def Adda_new_def Addi_new_def Addq_new_def Addx_new_def
  Sub_new_def Suba_new_def Subi_new_def Subq_new_def Subx_new_def
  And_new_def Andi_new_def Or_new_def Ori_new_def Eor_new_def
  Eori_new_def Cmp_new_def Cmpa_new_def Cmpi_new_def Tst_new_def
  Clr_new_def Neg_new_def Move_new_def Moveq_new_def Lea_new_def
  Pea_new_def Ext_new_def Mul_new_def Div_new_def BitManip_new_def
  BitShift_new_def Bcc_new_def Scc_new_def Jmp_new_def Jsr_new_def
  Rts_new_def Link_new_def Unlk_new_def Nop_new_def Illegal_new_def

lemma regs_ok_create:
  "regs_ok (Add_create opc)"
  "regs_ok (Adda_create opc)"
  "regs_ok (Addi_create opc)"
  "regs_ok (Addq_create opc)"
  "regs_ok (Addx_create opc)"
  "regs_ok (Sub_create opc)"
  "regs_ok (Suba_create opc)"
  "regs_ok (Subi_create opc)"
  "regs_ok (Subq_create opc)"
  "regs_ok (Subx_create opc)"
  "regs_ok (And_create opc)"
  "regs_ok (Andi_create opc)"
  "regs_ok (Or_create opc)"
  "regs_ok (Ori_create opc)"
  "regs_ok (Eor_create opc)"
  "regs_ok (Eori_create opc)"
  "regs_ok (Cmp_create opc)"
  "regs_ok (Cmpa_create opc)"
  "regs_ok (Cmpi_create opc)"
  "regs_ok (Tst_create opc)"
  "regs_ok (Clr_create opc)"
  "regs_ok (Neg_create opc)"
  "regs_ok (Move_create opc)"
  "regs_ok (Moveq_create opc)"
  "regs_ok (Lea_create opc)"
  "regs_ok (Pea_create opc)"
  "regs_ok (Ext_create opc)"
  "regs_ok (Mul_create opc)"
  "regs_ok (Div_create opc)"
  "regs_ok (BitManip_create opc)"
  "regs_ok (BitShift_create opc)"
  "regs_ok (Bcc_create opc)"
  "regs_ok (Scc_create opc)"
  "regs_ok (Jmp_create opc)"
  "regs_ok (Jsr_create opc)"
  "regs_ok (Rts_create opc)"
  "regs_ok (Link_create opc)"
  "regs_ok (Unlk_create opc)"
  "regs_ok (Nop_create opc)"
  "regs_ok (Illegal_create opc)"
  by (simp_all add: create_defs new_defs Let_def)

end
