(* ===== verification/Decoder.thy ===== *)
theory Decoder
  imports Ins_Frames
begin

text \<open>
  \<open>include/instruction_decoder.hpp\<close> and \<open>src/instruction_decoder.cpp\<close>: the table of masks and values,
  the loop that fills the table of 65536 decoded instructions, and the lookup.
\<close>

record MaskTableElement =
  op_mask :: "32 word"
  op_value :: "32 word"
  create_function :: "16 word \<Rightarrow> Ins"

definition row :: "32 word \<Rightarrow> 32 word \<Rightarrow> (16 word \<Rightarrow> Ins) \<Rightarrow> MaskTableElement" where
  "row m v c = \<lparr>op_mask = m, op_value = v, create_function = c\<rparr>"

definition opcode_mask_table :: "MaskTableElement list" where
  "opcode_mask_table = [
     row 0xFFFF 0x4AFC Illegal_create,
     row 0xFFFF 0x4E71 Nop_create,
     row 0xFFFF 0x4E75 Rts_create,
     row 0xFFF8 0x4E50 Link_create,
     row 0xFFF8 0x4E58 Unlk_create,
     row 0xFFB8 0x4880 Ext_create,
     row 0xFFC0 0x0800 BitManip_create,
     row 0xFFC0 0x0840 BitManip_create,
     row 0xFFC0 0x0880 BitManip_create,
     row 0xFFC0 0x08C0 BitManip_create,
     row 0xFFC0 0x4840 Pea_create,
     row 0xFFC0 0x4E80 Jsr_create,
     row 0xFFC0 0x4EC0 Jmp_create,
     row 0xFEC0 0xE0C0 BitShift_create,
     row 0xFEC0 0xE2C0 BitShift_create,
     row 0xFEC0 0xE4C0 BitShift_create,
     row 0xFEC0 0xE6C0 BitShift_create,
     row 0xFF00 0x0000 Ori_create,
     row 0xFF00 0x0200 Andi_create,
     row 0xFF00 0x0400 Subi_create,
     row 0xFF00 0x0600 Addi_create,
     row 0xFF00 0x0A00 Eori_create,
     row 0xFF00 0x0C00 Cmpi_create,
     row 0xFF00 0x4200 Clr_create,
     row 0xFF00 0x4400 Neg_create,
     row 0xFF00 0x4A00 Tst_create,
     row 0xFF00 0x6000 Bcc_create,
     row 0xFF00 0x6100 Bcc_create,
     row 0xF0C0 0xB0C0 Cmpa_create,
     row 0xF1C0 0x0100 BitManip_create,
     row 0xF1C0 0x0140 BitManip_create,
     row 0xF1C0 0x0180 BitManip_create,
     row 0xF1C0 0x01C0 BitManip_create,
     row 0xF1C0 0x3040 Move_create,
     row 0xF1C0 0x2040 Move_create,
     row 0xF1C0 0x41C0 Lea_create,
     row 0xF1C0 0x80C0 Div_create,
     row 0xF1C0 0x81C0 Div_create,
     row 0xF0C0 0x90C0 Suba_create,
     row 0xF1C0 0xC0C0 Mul_create,
     row 0xF1C0 0xC1C0 Mul_create,
     row 0xF000 0xC000 And_create,
     row 0xF0C0 0xD0C0 Adda_create,
     row 0xF130 0xD100 Addx_create,
     row 0xF0C0 0x50C0 Scc_create,
     row 0xF130 0x9100 Subx_create,
     row 0xF018 0xE000 BitShift_create,
     row 0xF018 0xE008 BitShift_create,
     row 0xF018 0xE010 BitShift_create,
     row 0xF018 0xE018 BitShift_create,
     row 0xF100 0x5000 Addq_create,
     row 0xF100 0x5100 Subq_create,
     row 0xF100 0x7000 Moveq_create,
     row 0xF100 0xB100 Eor_create,
     row 0xF100 0xB000 Cmp_create,
     row 0xF000 0x3000 Move_create,
     row 0xF000 0x2000 Move_create,
     row 0xF000 0x1000 Move_create,
     row 0xF000 0x6000 Bcc_create,
     row 0xF000 0x8000 Or_create,
     row 0xF000 0x9000 Sub_create,
     row 0xF000 0xD000 Add_create]"

section \<open>generateOpcodeTable\<close>

text \<open>
  The two \<open>unique_ptr\<close> variables live across the iterations of the outer loop, so a pass of the
  inner loop starts with what \<open>std::move\<close> left in \<open>instruction\<close>: null.  A variable is an
  option, \<open>None\<close> for null, and moving from it leaves \<open>None\<close>.
\<close>

fun match_loop :: "32 word \<Rightarrow> MaskTableElement list \<Rightarrow> Ins option \<times> Ins option \<Rightarrow> Ins option \<times> Ins option" where
  "match_loop opc [] vars = vars"
| "match_loop opc (opcode_mask # rest) (instruction, instruction_candidate) =
     (if opc AND op_mask opcode_mask \<noteq> op_value opcode_mask
      then match_loop opc rest (instruction, instruction_candidate)
      else let candidate = create_function opcode_mask (ucast opc) in
        if ins_is_valid candidate then (Some candidate, None)
        else (instruction, Some candidate))"

definition table_step :: "32 word \<Rightarrow> Ins list \<times> Ins option \<times> Ins option \<Rightarrow> Ins list \<times> Ins option \<times> Ins option" where
  "table_step opc st =
     (case st of (opcode_table, vars) \<Rightarrow>
        case match_loop opc opcode_mask_table vars of (instruction, instruction_candidate) \<Rightarrow>
          let instruction = (case instruction of
                None \<Rightarrow> Illegal_create (ucast opc)
              | Some i \<Rightarrow> i) in
          (opcode_table @ [instruction], None, instruction_candidate))"

text \<open>\<open>for (uint32_t opcode = 0; opcode <= 0xffff; opcode++)\<close>, from a given value of the counter.\<close>

function table_loop :: "32 word \<Rightarrow> Ins list \<times> Ins option \<times> Ins option \<Rightarrow> Ins list \<times> Ins option \<times> Ins option" where
  "table_loop opc st =
     (if opc \<le> 0xffff then table_loop (opc + 1) (table_step opc st) else st)"
  by pat_completeness auto

termination
proof (relation "measure (\<lambda>(opc, _). 0x10000 - unat opc)")
  fix opc :: "32 word" and st :: "Ins list \<times> Ins option \<times> Ins option"
  assume "opc \<le> 0xffff"
  then have le: "unat opc \<le> 0xffff" by (simp add: word_le_nat_alt)
  then have "unat (opc + 1) = unat opc + 1" by (simp add: unat_word_ariths)
  with le show "((opc + 1, table_step opc st), opc, st) \<in> measure (\<lambda>(opc, _). 0x10000 - unat opc)"
    by simp
qed simp

declare table_loop.simps [simp del]

definition generateOpcodeTable :: "Ins list" where
  "generateOpcodeTable = fst (table_loop 0 ([], None, None))"

text \<open>An \<open>InstructionDecoder\<close> is its \<open>opcode_table\<close>, which the constructor fills.\<close>

definition InstructionDecoder_new :: "Ins list" where
  "InstructionDecoder_new = generateOpcodeTable"

definition Decode :: "Ins list \<Rightarrow> 16 word \<Rightarrow> Ins" where
  "Decode opcode_table opc = opcode_table ! unat opc"

section \<open>The table row by row\<close>

text \<open>
  The specification: the first row whose value the masked opcode equals decides; when there is
  none, or the instruction it makes is not valid, the opcode is illegal.
\<close>

definition decode_spec :: "16 word \<Rightarrow> Ins" where
  "decode_spec opc =
     (case find (\<lambda>e. ucast opc AND op_mask e = op_value e) opcode_mask_table of
        None \<Rightarrow> Illegal_create opc
      | Some e \<Rightarrow> if ins_is_valid (create_function e opc) then create_function e opc
                  else Illegal_create opc)"

lemma Illegal_valid [simp]: "ins_is_valid (Illegal_create opc)"
  by (simp add: Illegal_create_def Illegal_new_def)

lemma decode_spec_valid: "ins_is_valid (decode_spec opc)"
  by (simp add: decode_spec_def split: option.split)

lemma match_loop_find:
  "fst (match_loop w es (None, c)) =
     (case find (\<lambda>e. w AND op_mask e = op_value e) es of
        None \<Rightarrow> None
      | Some e \<Rightarrow> if ins_is_valid (create_function e (ucast w)) then Some (create_function e (ucast w)) else None)"
  by (induction es arbitrary: c) (auto simp: Let_def)

lemma table_step_spec:
  assumes "k < 65536"
  shows "\<exists>c'. table_step (of_nat k) (tbl, None, c) = (tbl @ [decode_spec (of_nat k)], None, c')"
proof -
  have "ucast (of_nat k :: 32 word) = (of_nat k :: 16 word)" and "ucast (of_nat k :: 16 word) = (of_nat k :: 32 word)"
    using assms by (simp_all add: unsigned_of_nat take_bit_nat_eq_self)
  then show ?thesis
    using match_loop_find [of "of_nat k" opcode_mask_table c]
    by (auto simp: table_step_def decode_spec_def Let_def split: prod.splits option.splits)
qed

lemma table_loop_spec:
  "k \<le> 65536 \<Longrightarrow>
   \<exists>c'. table_loop (of_nat k) (tbl, None, c) = (tbl @ map (\<lambda>j. decode_spec (of_nat j)) [k..<65536], None, c')"
proof (induction "65536 - k" arbitrary: k tbl c)
  case 0
  then have "k = 65536" by simp
  then show ?case by (subst table_loop.simps) simp
next
  case (Suc n)
  then have k: "k < 65536" by simp
  then have "of_nat k \<le> (0xffff :: 32 word)" by (simp add: word_le_nat_alt unat_of_nat)
  moreover obtain c1 where
    "table_step (of_nat k) (tbl, None, c) = (tbl @ [decode_spec (of_nat k)], None, c1)"
    using table_step_spec [OF k] by blast
  moreover have "of_nat k + 1 = (of_nat (Suc k) :: 32 word)" by simp
  ultimately have "table_loop (of_nat k) (tbl, None, c) =
      table_loop (of_nat (Suc k)) (tbl @ [decode_spec (of_nat k)], None, c1)"
    by (subst table_loop.simps) (simp del: of_nat_Suc)
  moreover have "[k..<65536] = k # [Suc k..<65536]" using k by (simp add: upt_conv_Cons)
  ultimately show ?case
    using Suc.hyps(1) [of "Suc k" "tbl @ [decode_spec (of_nat k)]" c1] Suc.hyps(2) k by auto
qed

lemma generateOpcodeTable_map:
  "generateOpcodeTable = map (\<lambda>j. decode_spec (of_nat j)) [0..<65536]"
  using table_loop_spec [of 0 "[]" None] by (auto simp: generateOpcodeTable_def)

lemma Decode_spec: "Decode generateOpcodeTable opc = decode_spec opc"
  using unsigned_less [of opc, where 'a = nat] by (simp add: Decode_def generateOpcodeTable_map)

text \<open>
  C2. InstructionDecoder::generateOpcodeTable ends with exactly 65536 entries, and looking an
  opcode up is the same as scanning the mask table for the first matching row, creating its
  instruction, and taking Illegal when there is no row or the instruction is not valid. The two
  unique_ptr variables that live across iterations never leak an instruction from one opcode to
  the next.
\<close>

theorem opcode_table_refines_first_match:
  "length generateOpcodeTable = 0x10000 \<and>
   Decode generateOpcodeTable opc = decode_spec opc \<and>
   ins_is_valid (Decode generateOpcodeTable opc)"
  by (simp add: Decode_spec decode_spec_valid) (simp add: generateOpcodeTable_map)

section \<open>Decoded instructions are well formed\<close>

lemma table_regs_ok: "\<forall>e\<in>set opcode_mask_table. \<forall>opc. regs_ok (create_function e opc)"
  by (simp add: opcode_mask_table_def row_def regs_ok_create)

lemma find_in_set: "find P xs = Some x \<Longrightarrow> x \<in> set xs"
  by (auto simp: find_Some_iff in_set_conv_nth)

lemma decode_spec_cases:
  assumes "\<And>e. e \<in> set opcode_mask_table \<Longrightarrow> P (create_function e opc)" and "P (Illegal_create opc)"
  shows "P (decode_spec opc)"
  using assms by (auto simp: decode_spec_def dest!: find_in_set split: option.split)

lemma decode_regs_ok: "regs_ok (decode_spec opc)"
  by (rule decode_spec_cases) (use table_regs_ok regs_ok_create in auto)

text \<open>The operand size of an instruction, for the classes that have one.\<close>

fun ins_size :: "Ins \<Rightarrow> DataSize option" where
  "ins_size (I_Add i) = Some (Add.data_size i)"
| "ins_size (I_Adda i) = Some (Adda.data_size i)"
| "ins_size (I_Addi i) = Some (Addi.data_size i)"
| "ins_size (I_Addq i) = Some (Addq.data_size i)"
| "ins_size (I_Addx i) = Some (Addx.data_size i)"
| "ins_size (I_Sub i) = Some (Sub.data_size i)"
| "ins_size (I_Suba i) = Some (Suba.data_size i)"
| "ins_size (I_Subi i) = Some (Subi.data_size i)"
| "ins_size (I_Subq i) = Some (Subq.data_size i)"
| "ins_size (I_Subx i) = Some (Subx.data_size i)"
| "ins_size (I_And i) = Some (And.data_size i)"
| "ins_size (I_Andi i) = Some (Andi.data_size i)"
| "ins_size (I_Or i) = Some (Or.data_size i)"
| "ins_size (I_Ori i) = Some (Ori.data_size i)"
| "ins_size (I_Eor i) = Some (Eor.data_size i)"
| "ins_size (I_Eori i) = Some (Eori.data_size i)"
| "ins_size (I_Cmp i) = Some (Cmp.data_size i)"
| "ins_size (I_Cmpa i) = Some (Cmpa.data_size i)"
| "ins_size (I_Cmpi i) = Some (Cmpi.data_size i)"
| "ins_size (I_Tst i) = Some (Tst.data_size i)"
| "ins_size (I_Clr i) = Some (Clr.data_size i)"
| "ins_size (I_Neg i) = Some (Neg.data_size i)"
| "ins_size (I_Move i) = Some (Move.data_size i)"
| "ins_size (I_Moveq i) = Some (Moveq.data_size i)"
| "ins_size (I_Lea i) = Some (Lea.data_size i)"
| "ins_size (I_Pea i) = Some (Pea.data_size i)"
| "ins_size (I_Ext i) = Some (Ext.data_size i)"
| "ins_size (I_Mul i) = Some (Mul.data_size i)"
| "ins_size (I_Div i) = Some (Div.data_size i)"
| "ins_size (I_BitManip i) = Some (BitManip.data_size i)"
| "ins_size (I_BitShift i) = Some (BitShift.data_size i)"
| "ins_size (I_Bcc i) = Some (Bcc.data_size i)"
| "ins_size (I_Scc i) = Some (Scc.data_size i)"
| "ins_size (I_Jmp i) = Some (Jmp.data_size i)"
| "ins_size (I_Jsr i) = Some (Jsr.data_size i)"
| "ins_size (I_Link i) = Some (Link.data_size i)"
| "ins_size _ = None"

definition size_ok :: "Ins \<Rightarrow> bool" where
  "size_ok i \<longleftrightarrow> (ins_is_valid i \<longrightarrow> (case ins_size i of None \<Rightarrow> True | Some sz \<Rightarrow> proper_size sz))"

lemma move_size_ok: "p = 1 \<or> p = 2 \<or> p = 3 \<Longrightarrow> proper_size (move_size p)"
  by (auto simp: move_size_def)

lemma and_3_cases: "(w AND 3 :: 16 word) = 0 \<or> w AND 3 = 1 \<or> w AND 3 = 2 \<or> w AND 3 = 3"
proof -
  have "w AND 3 = take_bit 2 w" by (simp add: take_bit_eq_mask mask_eq_exp_minus_1)
  then have "unat (w AND 3) < 4" using take_bit_nat_less_exp [of 2 "unat w"] by (simp add: unsigned_take_bit_eq)
  then have "unat (w AND 3) \<in> {0, 1, 2, 3}" by auto
  then show ?thesis by (auto simp: word_unat_eq_iff)
qed

lemma shift_size_ok: "w AND 3 \<noteq> 3 \<Longrightarrow> proper_size (size_part (w AND 3))"
  using and_3_cases [of w] by (auto simp: size_part_def)

lemma size_ok_create:
  "size_ok (Add_create opc)"
  "size_ok (Adda_create opc)"
  "size_ok (Addi_create opc)"
  "size_ok (Addq_create opc)"
  "size_ok (Addx_create opc)"
  "size_ok (Sub_create opc)"
  "size_ok (Suba_create opc)"
  "size_ok (Subi_create opc)"
  "size_ok (Subq_create opc)"
  "size_ok (Subx_create opc)"
  "size_ok (And_create opc)"
  "size_ok (Andi_create opc)"
  "size_ok (Or_create opc)"
  "size_ok (Ori_create opc)"
  "size_ok (Eor_create opc)"
  "size_ok (Eori_create opc)"
  "size_ok (Cmp_create opc)"
  "size_ok (Cmpa_create opc)"
  "size_ok (Cmpi_create opc)"
  "size_ok (Tst_create opc)"
  "size_ok (Clr_create opc)"
  "size_ok (Neg_create opc)"
  "size_ok (Move_create opc)"
  "size_ok (Moveq_create opc)"
  "size_ok (Lea_create opc)"
  "size_ok (Pea_create opc)"
  "size_ok (Ext_create opc)"
  "size_ok (Mul_create opc)"
  "size_ok (Div_create opc)"
  "size_ok (BitManip_create opc)"
  "size_ok (BitShift_create opc)"
  "size_ok (Bcc_create opc)"
  "size_ok (Scc_create opc)"
  "size_ok (Jmp_create opc)"
  "size_ok (Jsr_create opc)"
  "size_ok (Rts_create opc)"
  "size_ok (Link_create opc)"
  "size_ok (Unlk_create opc)"
  "size_ok (Nop_create opc)"
  "size_ok (Illegal_create opc)"
  by (simp_all add: size_ok_def create_defs new_defs Let_def move_size_ok shift_size_ok)

lemma table_size_ok: "\<forall>e\<in>set opcode_mask_table. \<forall>opc. size_ok (create_function e opc)"
  by (simp add: opcode_mask_table_def row_def size_ok_create)

lemma decode_size_ok: "size_ok (decode_spec opc)"
  by (rule decode_spec_cases) (use table_size_ok size_ok_create in auto)

text \<open>
  The addressing modes of a valid instruction, class by class as the constructors check or set
  them: a destination is alterable (data alterable for \<open>BitManip\<close> and \<open>Scc\<close>), a fixed mode is the one
  the format has, and an address that is computed without an access comes from a control mode.
\<close>

fun modes_ok :: "Ins \<Rightarrow> bool" where
  "modes_ok (I_Add i) \<longleftrightarrow> IS_MEMORY_ALTERABLE (Add.dest_mode i) \<and>
     (if Add.op_mode i \<noteq> 0 then Add.src_mode i = ADDR_MODE_DIRECT_DATA else Add.dest_mode i = ADDR_MODE_DIRECT_DATA)"
| "modes_ok (I_Adda i) \<longleftrightarrow> Adda.dest_mode i = ADDR_MODE_DIRECT_ADDR \<and> Adda.data_size i \<noteq> SIZE_BYTE"
| "modes_ok (I_Addi i) \<longleftrightarrow> IS_MEMORY_ALTERABLE (Addi.dest_mode i)"
| "modes_ok (I_Addq i) \<longleftrightarrow> IS_MEMORY_ALTERABLE (Addq.dest_mode i)"
| "modes_ok (I_Addx i) \<longleftrightarrow> Addx.src_mode i = Addx.dest_mode i \<and>
     (Addx.dest_mode i = ADDR_MODE_DIRECT_DATA \<or> Addx.dest_mode i = ADDR_MODE_INDIRECT_PREDECREMENT)"
| "modes_ok (I_Sub i) \<longleftrightarrow> IS_MEMORY_ALTERABLE (Sub.dest_mode i) \<and>
     (if Sub.op_mode i \<noteq> 0 then Sub.src_mode i = ADDR_MODE_DIRECT_DATA else Sub.dest_mode i = ADDR_MODE_DIRECT_DATA)"
| "modes_ok (I_Suba i) \<longleftrightarrow> Suba.dest_mode i = ADDR_MODE_DIRECT_ADDR \<and> Suba.data_size i \<noteq> SIZE_BYTE"
| "modes_ok (I_Subi i) \<longleftrightarrow> IS_MEMORY_ALTERABLE (Subi.dest_mode i)"
| "modes_ok (I_Subq i) \<longleftrightarrow> IS_MEMORY_ALTERABLE (Subq.dest_mode i)"
| "modes_ok (I_Subx i) \<longleftrightarrow> Subx.src_mode i = Subx.dest_mode i \<and>
     (Subx.dest_mode i = ADDR_MODE_DIRECT_DATA \<or> Subx.dest_mode i = ADDR_MODE_INDIRECT_PREDECREMENT)"
| "modes_ok (I_And i) \<longleftrightarrow> IS_MEMORY_ALTERABLE (And.dest_mode i) \<and>
     (if And.op_mode i \<noteq> 0 then And.src_mode i = ADDR_MODE_DIRECT_DATA else And.dest_mode i = ADDR_MODE_DIRECT_DATA)"
| "modes_ok (I_Andi i) \<longleftrightarrow> IS_MEMORY_ALTERABLE (Andi.dest_mode i)"
| "modes_ok (I_Or i) \<longleftrightarrow> IS_MEMORY_ALTERABLE (Or.dest_mode i) \<and>
     (if Or.op_mode i \<noteq> 0 then Or.src_mode i = ADDR_MODE_DIRECT_DATA else Or.dest_mode i = ADDR_MODE_DIRECT_DATA)"
| "modes_ok (I_Ori i) \<longleftrightarrow> IS_MEMORY_ALTERABLE (Ori.dest_mode i)"
| "modes_ok (I_Eor i) \<longleftrightarrow> IS_MEMORY_ALTERABLE (Eor.dest_mode i) \<and>
     Eor.op_mode i \<noteq> 0 \<and> Eor.src_mode i = ADDR_MODE_DIRECT_DATA"
| "modes_ok (I_Eori i) \<longleftrightarrow> IS_MEMORY_ALTERABLE (Eori.dest_mode i)"
| "modes_ok (I_Cmp i) \<longleftrightarrow> Cmp.dest_mode i = ADDR_MODE_DIRECT_DATA"
| "modes_ok (I_Cmpa i) \<longleftrightarrow> Cmpa.dest_mode i = ADDR_MODE_DIRECT_ADDR \<and> Cmpa.data_size i \<noteq> SIZE_BYTE"
| "modes_ok (I_Cmpi i) \<longleftrightarrow> IS_MEMORY_ALTERABLE (Cmpi.dest_mode i)"
| "modes_ok (I_Clr i) \<longleftrightarrow> IS_MEMORY_ALTERABLE (Clr.dest_mode i)"
| "modes_ok (I_Neg i) \<longleftrightarrow> IS_MEMORY_ALTERABLE (Neg.dest_mode i)"
| "modes_ok (I_Move i) \<longleftrightarrow> IS_MEMORY_ALTERABLE (Move.dest_mode i) \<and>
     Move.src_mode i \<noteq> ADDR_MODE_UNKNOWN \<and> is_movea i = (Move.dest_mode i = ADDR_MODE_DIRECT_ADDR) \<and>
     \<not> (is_movea i \<and> Move.data_size i = SIZE_BYTE)"
| "modes_ok (I_Moveq i) \<longleftrightarrow> Moveq.dest_mode i = ADDR_MODE_DIRECT_DATA \<and> Moveq.data_size i = SIZE_LONG"
| "modes_ok (I_Lea i) \<longleftrightarrow> IS_CONTROL_ADDR (Lea.src_mode i) \<and> Lea.data_size i = SIZE_LONG"
| "modes_ok (I_Pea i) \<longleftrightarrow> IS_CONTROL_ADDR (Pea.addr_mode i) \<and> Pea.data_size i = SIZE_LONG"
| "modes_ok (I_Ext i) \<longleftrightarrow> Ext.addr_mode i = ADDR_MODE_DIRECT_DATA \<and> (Ext.data_size i = SIZE_WORD \<or> Ext.data_size i = SIZE_LONG)"
| "modes_ok (I_Mul i) \<longleftrightarrow> Mul.dest_mode i = ADDR_MODE_DIRECT_DATA \<and> Mul.data_size i = SIZE_WORD"
| "modes_ok (I_Div i) \<longleftrightarrow> Div.dest_mode i = ADDR_MODE_DIRECT_DATA \<and> Div.data_size i = SIZE_WORD"
| "modes_ok (I_BitManip i) \<longleftrightarrow> IS_DATA_ALTERABLE (BitManip.dest_mode i) \<and>
     (BitManip.src_mode i = ADDR_MODE_DIRECT_DATA \<or> BitManip.src_mode i = ADDR_MODE_IMMEDIATE) \<and>
     BitManip.data_size i = (if BitManip.dest_mode i = ADDR_MODE_DIRECT_DATA then SIZE_LONG else SIZE_BYTE)"
| "modes_ok (I_BitShift i) \<longleftrightarrow>
     (if BitShift.is_memory i then IS_MEMORY_ALTERABLE (BitShift.addr_mode i) \<and> BitShift.data_size i = SIZE_WORD
      else BitShift.addr_mode i = ADDR_MODE_DIRECT_DATA)"
| "modes_ok (I_Scc i) \<longleftrightarrow> IS_DATA_ALTERABLE (Scc.dest_mode i) \<and> Scc.data_size i = SIZE_BYTE"
| "modes_ok (I_Jmp i) \<longleftrightarrow> IS_CONTROL_ADDR (Jmp.dest_mode i) \<and> Jmp.data_size i = SIZE_LONG"
| "modes_ok (I_Jsr i) \<longleftrightarrow> IS_CONTROL_ADDR (Jsr.dest_mode i) \<and> Jsr.data_size i = SIZE_LONG"
| "modes_ok (I_Link i) \<longleftrightarrow> Link.data_size i = SIZE_WORD"
| "modes_ok _ \<longleftrightarrow> True"

lemma data_alterable [simp]: "IS_DATA_ALTERABLE m \<Longrightarrow> IS_MEMORY_ALTERABLE m"
  by (simp add: IS_DATA_ALTERABLE_def IS_MEMORY_ALTERABLE_def)

lemma alterable_fixed [simp]:
  "IS_MEMORY_ALTERABLE ADDR_MODE_DIRECT_DATA" "IS_MEMORY_ALTERABLE ADDR_MODE_DIRECT_ADDR"
  "IS_MEMORY_ALTERABLE ADDR_MODE_INDIRECT_PREDECREMENT"
  by (simp_all add: IS_MEMORY_ALTERABLE_def)

lemma mode_0: "getAddressingMode 0 0 = ADDR_MODE_DIRECT_DATA"
  by (simp add: getAddressingMode_def mode_table_def)

definition valid_modes :: "Ins \<Rightarrow> bool" where
  "valid_modes i \<longleftrightarrow> (ins_is_valid i \<longrightarrow> modes_ok i)"

lemma modes_ok_create:
  "valid_modes (Add_create opc)"
  "valid_modes (Adda_create opc)"
  "valid_modes (Addi_create opc)"
  "valid_modes (Addq_create opc)"
  "valid_modes (Addx_create opc)"
  "valid_modes (Sub_create opc)"
  "valid_modes (Suba_create opc)"
  "valid_modes (Subi_create opc)"
  "valid_modes (Subq_create opc)"
  "valid_modes (Subx_create opc)"
  "valid_modes (And_create opc)"
  "valid_modes (Andi_create opc)"
  "valid_modes (Or_create opc)"
  "valid_modes (Ori_create opc)"
  "valid_modes (Eor_create opc)"
  "valid_modes (Eori_create opc)"
  "valid_modes (Cmp_create opc)"
  "valid_modes (Cmpa_create opc)"
  "valid_modes (Cmpi_create opc)"
  "valid_modes (Tst_create opc)"
  "valid_modes (Clr_create opc)"
  "valid_modes (Neg_create opc)"
  "valid_modes (Move_create opc)"
  "valid_modes (Moveq_create opc)"
  "valid_modes (Lea_create opc)"
  "valid_modes (Pea_create opc)"
  "valid_modes (Ext_create opc)"
  "valid_modes (Mul_create opc)"
  "valid_modes (Div_create opc)"
  "valid_modes (BitManip_create opc)"
  "valid_modes (BitShift_create opc)"
  "valid_modes (Bcc_create opc)"
  "valid_modes (Scc_create opc)"
  "valid_modes (Jmp_create opc)"
  "valid_modes (Jsr_create opc)"
  "valid_modes (Rts_create opc)"
  "valid_modes (Link_create opc)"
  "valid_modes (Unlk_create opc)"
  "valid_modes (Nop_create opc)"
  "valid_modes (Illegal_create opc)"
  by (simp_all add: valid_modes_def create_defs new_defs Let_def data_alterable mode_0)

lemma table_modes_ok: "\<forall>e\<in>set opcode_mask_table. \<forall>opc. valid_modes (create_function e opc)"
  by (simp add: opcode_mask_table_def row_def modes_ok_create)

lemma decode_modes_ok: "modes_ok (decode_spec opc)"
proof -
  have "valid_modes (decode_spec opc)"
    by (rule decode_spec_cases) (use table_modes_ok modes_ok_create in auto)
  then show ?thesis by (simp add: valid_modes_def decode_spec_valid)
qed

text \<open>
  C16. Every entry of the opcode table is a valid instruction whose register fields name data or
  address registers, whose addressing modes and fixed sizes are those its class requires
  (alterable destinations, data alterable ones for the bit instructions and Scc, control modes for
  addresses, the fixed modes of the formats), and whose operand size is byte, word or long.
\<close>

theorem decoded_well_formed:
  "ins_is_valid (Decode generateOpcodeTable opc) \<and> regs_ok (Decode generateOpcodeTable opc) \<and>
   modes_ok (Decode generateOpcodeTable opc) \<and>
   (case ins_size (Decode generateOpcodeTable opc) of None \<Rightarrow> True | Some sz \<Rightarrow> proper_size sz)"
  using decode_regs_ok [of opc] decode_spec_valid [of opc] decode_size_ok [of opc]
    decode_modes_ok [of opc]
  by (simp add: Decode_spec size_ok_def)

end
