(* ===== verification/Cpu.thy ===== *)
theory Cpu
  imports Decoder
begin

text \<open>
  \<open>include/cpu.hpp\<close> and \<open>src/cpu.cpp\<close>: the machine, its step, and the loading of a program.  The
  member \<open>memory\<close> of the class is the object the reference in \<open>state\<close> is bound to, so it appears
  once, inside \<open>state\<close>.
\<close>

record CPU =
  state :: CPUState
  instruction_decoder :: "Ins list"

text \<open>The default constructor; the argument is what \<open>new uint8_t[...]\<close> returns.\<close>

definition CPU_new :: "bytes \<Rightarrow> exn + CPU" where
  "CPU_new fresh =
     map_sum id (\<lambda>m. \<lparr>state = \<lparr>memory = m, registers = Registers_new\<rparr>,
                      instruction_decoder = InstructionDecoder_new\<rparr>)
       (SimpleMemory_new fresh)"

definition on_state :: "(CPUState, 'a) exec \<Rightarrow> (CPU, 'a) exec" where
  "on_state m = (\<lambda>c. case m (state c) of (r, s) \<Rightarrow> (r, c\<lparr>state := s\<rparr>))"

definition CPU_step :: "(CPU, unit) exec" where
  "CPU_step =
     bindE (on_state (regs_get REG_PC SIZE_LONG)) (\<lambda>pc.
     bindE (on_state (mem_get pc SIZE_WORD)) (\<lambda>w.
     bindE (getsE (\<lambda>c. Decode (instruction_decoder c) (ucast w))) (\<lambda>instruction.
     on_state (execute instruction))))"

section \<open>Loading a program\<close>

text \<open>
  The ELF reader is third-party code.  It is the parameter \<open>reader\<close>: what a successful
  \<open>elf_reader.load\<close> of a file makes visible through the accessors \<open>load_elf\<close> calls.  The
  constants it compares with are the parameter \<open>k\<close>.  A \<open>const char*\<close> is an option, \<open>None\<close> for
  null.  The state of \<open>load_elf\<close> is the machine and what has been written on \<open>std::cout\<close>: the line
  of a section is printed before its data is loaded.
\<close>

record ElfConsts =
  ELFCLASS32 :: "8 word"
  ELFDATA2MSB :: "8 word"
  ET_EXEC :: "16 word"
  EM_68K :: "16 word"
  PT_LOAD :: "32 word"
  SHF_ALLOC :: "64 word"

record ElfSection =
  get_name :: string
  get_type :: "32 word"
  get_flags :: "64 word"
  get_address :: "64 word"
  get_offset :: "64 word"
  get_size :: "64 word"
  get_link :: "32 word"
  get_info :: "32 word"
  get_addr_align :: "64 word"
  get_data :: "(nat \<Rightarrow> 8 word) option"

record ElfFile =
  get_class :: "8 word"
  get_encoding :: "8 word"
  get_file_type :: "16 word"
  get_machine :: "16 word"
  get_entry :: "64 word"
  sections :: "ElfSection list"

definition on_machine :: "(CPU, 'a) exec \<Rightarrow> (CPU \<times> string, 'a) exec" where
  "on_machine m = (\<lambda>(c, out). case m c of (r, c) \<Rightarrow> (r, c, out))"

definition put_cout :: "string \<Rightarrow> (CPU \<times> string, unit) exec" where
  "put_cout txt = (\<lambda>(c, out). (Inr (), c, out @ txt))"

definition section_line :: "ElfSection \<Rightarrow> string" where
  "section_line segment =
     get_name segment @ replicate (16 - length (get_name segment)) CHR 0x20 @ tab @
     decimal (unat (get_address segment)) @ tab @
     decimal (unat (get_size segment)) @ tab @
     decimal (unat (get_offset segment)) @ tab @
     decimal (unat (get_addr_align segment)) @ tab @
     decimal (unat (get_link segment)) @ tab @
     decimal (unat (get_flags segment)) @ tab @
     decimal (unat (get_info segment)) @ tab @
     decimal (unat (get_type segment)) @ endl"

definition load_section :: "ElfConsts \<Rightarrow> ElfSection \<Rightarrow> (CPUState, unit) exec" where
  "load_section k segment =
     whenE (get_type segment = PT_LOAD k \<and> get_flags segment AND SHF_ALLOC k \<noteq> 0)
       (let base_address = ucast (get_address segment) :: 32 word;
            size = ucast (get_size segment) :: 32 word in
        seqE (map (\<lambda>i. case get_data segment of
                 None \<Rightarrow> throwE Undefined_behaviour
               | Some data \<Rightarrow> mem_set (base_address + of_nat i) SIZE_BYTE (scast (data i)))
               [0..<unat size]))"

definition list_and_load :: "ElfConsts \<Rightarrow> ElfSection \<Rightarrow> (CPU \<times> string, unit) exec" where
  "list_and_load k segment =
     bindE (put_cout (section_line segment)) (\<lambda>_. on_machine (on_state (load_section k segment)))"

definition load_elf :: "ElfConsts \<Rightarrow> (string \<Rightarrow> ElfFile option) \<Rightarrow> string \<Rightarrow> (CPU \<times> string, bool) exec" where
  "load_elf k reader file_name =
     (case reader file_name of
        None \<Rightarrow> returnE False
      | Some elf_reader \<Rightarrow>
          if get_class elf_reader \<noteq> ELFCLASS32 k \<or> get_encoding elf_reader \<noteq> ELFDATA2MSB k
             \<or> get_file_type elf_reader \<noteq> ET_EXEC k \<or> get_machine elf_reader \<noteq> EM_68K k
          then returnE False
          else
            let entry_address = ucast (get_entry elf_reader) :: 32 word in
            bindE (seqE (map (list_and_load k) (sections elf_reader))) (\<lambda>_.
            bindE (on_machine (on_state (regs_set REG_USP SIZE_LONG MEMORY_SIZE))) (\<lambda>_.
            bindE (on_machine (on_state (regs_set REG_PC SIZE_LONG entry_address))) (\<lambda>_.
            returnE True))))"

section \<open>A step in terms of the decoder's specification\<close>

definition decoder_ok :: "CPU \<Rightarrow> bool" where
  "decoder_ok c \<longleftrightarrow> instruction_decoder c = generateOpcodeTable"

lemma on_state_apply: "on_state m c = (fst (m (state c)), c\<lparr>state := snd (m (state c))\<rparr>)"
  by (simp add: on_state_def split: prod.split)

lemma CPU_step_eq:
  assumes "decoder_ok c"
  shows "CPU_step c =
    (case BaseMemory_get (memory (state c)) (ucast (pc_of (state c))) SIZE_WORD of
       Inl e \<Rightarrow> (Inl e, c)
     | Inr w \<Rightarrow> on_state (execute (decode_spec (ucast w))) c)"
  using assms
  by (simp add: CPU_step_def bindE_apply on_state_apply mem_get_apply decoder_ok_def Decode_spec
      split: sum.split)

section \<open>Reachable machines\<close>

text \<open>
  A step may throw; what it wrote before stays, and the caller may go on stepping.  So a machine
  is reachable from another by steps of either outcome.
\<close>

inductive reachable :: "CPU \<Rightarrow> CPU \<Rightarrow> bool" for c where
  start: "reachable c c"
| step: "reachable c d \<Longrightarrow> CPU_step d = (r, e) \<Longrightarrow> reachable c e"

lemma step_decoder: "CPU_step d = (r, e) \<Longrightarrow> instruction_decoder e = instruction_decoder d"
  by (auto simp: CPU_step_def bindE_apply on_state_apply split: sum.splits prod.splits)

context cpu_frame
begin

lemma CPU_step_frame:
  assumes "decoder_ok d" and "CPU_step d = (r, e)"
  shows "R (state d) (state e)"
  using assms execute_keeps [OF decode_regs_ok]
  by (auto simp: CPU_step_eq on_state_apply keeps_def frame_refl split: sum.splits)

lemma reachable_frame: "reachable c d \<Longrightarrow> decoder_ok c \<Longrightarrow> decoder_ok d \<and> R (state c) (state d)"
proof (induction rule: reachable.induct)
  case start
  then show ?case by (simp add: frame_refl)
next
  case (step d r e)
  then show ?case
    using step_decoder [of d r e] CPU_step_frame [of d r e] frame_trans by (auto simp: decoder_ok_def)
qed

end

section \<open>Byte writes in sequence\<close>

text \<open>
  The specification of loading: the bytes the loadable sections write, in order; the last write
  to a physical address is the one that counts.
\<close>

definition section_writes :: "ElfConsts \<Rightarrow> ElfSection \<Rightarrow> (32 word \<times> 8 word) list" where
  "section_writes k sec =
     (if get_type sec = PT_LOAD k \<and> get_flags sec AND SHF_ALLOC k \<noteq> 0
      then map (\<lambda>i. (ucast (get_address sec) + of_nat i, the (get_data sec) i))
             [0..<unat (ucast (get_size sec) :: 32 word)]
      else [])"

definition image :: "(32 word \<times> 8 word) list \<Rightarrow> bytes \<Rightarrow> bytes" where
  "image ws m = foldl (\<lambda>m (a, b). m(phys (ucast a) := b)) m ws"

lemma image_Nil [simp]: "image [] m = m"
  by (simp add: image_def)

lemma image_Cons [simp]: "image ((a, b) # ws) m = image ws (m(phys (ucast a) := b))"
  by (simp add: image_def)

lemma image_append: "image (xs @ ys) m = image ys (image xs m)"
  by (simp add: image_def)

definition poke :: "(32 word \<times> 8 word) list \<Rightarrow> CPUState \<Rightarrow> CPUState" where
  "poke ws s = s\<lparr>memory := (memory s)\<lparr>baseAddr := image ws (baseAddr (memory s))\<rparr>\<rparr>"

lemma poke_simps [simp]:
  "memSize (memory (poke ws s)) = memSize (memory s)" "poke [] s = s"
  "baseAddr (memory (poke ws s)) = image ws (baseAddr (memory s))"
  "registers (poke ws s) = registers s"
  by (simp_all add: poke_def)

lemma poke_poke: "poke ys (poke xs s) = poke (xs @ ys) s"
  by (simp add: poke_def image_append)

lemma byte_of_scast [simp]: "ucast (MASK_8 (scast (b :: 8 word) :: 32 word)) = b"
  by (rule bit_word_eqI) (auto simp: mask_eq_take_bit bit_simps dest: bit_imp_le_length)

lemma mem_set_byte:
  "memSize (memory s) = MEMORY_SIZE \<Longrightarrow>
   mem_set a SIZE_BYTE (scast (b :: 8 word)) s = (Inr (), poke [(a, b)] s)"
  using phys_less [of "ucast a"]
  by (simp add: mem_set_def BaseMemory_set_eq MEMORY_SIZE_nat poke_def)

lemma seqE_writes:
  "memSize (memory s) = MEMORY_SIZE \<Longrightarrow>
   seqE (map (\<lambda>i. mem_set (a i) SIZE_BYTE (scast (b i :: 8 word))) is) s =
     (Inr (), poke (map (\<lambda>i. (a i, b i)) is) s)"
  by (induction "is" arbitrary: s) (simp_all add: mem_set_byte poke_poke)

text \<open>A section whose bytes are read has data.\<close>

definition has_data :: "ElfConsts \<Rightarrow> ElfSection \<Rightarrow> bool" where
  "has_data k sec \<longleftrightarrow> get_data sec \<noteq> None \<or>
     \<not> (get_type sec = PT_LOAD k \<and> get_flags sec AND SHF_ALLOC k \<noteq> 0 \<and> ucast (get_size sec) \<noteq> (0 :: 32 word))"

definition listing :: "ElfSection list \<Rightarrow> string" where
  "listing secs = concat (map section_line secs)"

lemma listing_simps [simp]: "listing [] = []" "listing (sec # secs) = section_line sec @ listing secs"
  by (simp_all add: listing_def)

lemma load_section_eq:
  assumes "memSize (memory s) = MEMORY_SIZE" and "has_data k sec"
  shows "load_section k sec s = (Inr (), poke (section_writes k sec) s)"
  using assms seqE_writes [OF assms(1)] by (auto simp: load_section_def section_writes_def has_data_def Let_def)

lemma load_section_null:
  assumes "\<not> has_data k sec"
  shows "load_section k sec s = (Inl Undefined_behaviour, s)"
proof -
  have "get_type sec = PT_LOAD k \<and> get_flags sec AND SHF_ALLOC k \<noteq> 0" and "get_data sec = None"
    and "[0..<unat (ucast (get_size sec) :: 32 word)] = 0 # [1..<unat (ucast (get_size sec) :: 32 word)]"
    using assms by (auto simp: has_data_def upt_conv_Cons unat_gt_0)
  then show ?thesis by (simp add: load_section_def Let_def)
qed

lemma load_sections_eq:
  assumes "memSize (memory s) = MEMORY_SIZE" and "\<And>sec. sec \<in> set secs \<Longrightarrow> has_data k sec"
  shows "seqE (map (load_section k) secs) s = (Inr (), poke (concat (map (section_writes k) secs)) s)"
  using assms by (induction secs arbitrary: s) (simp_all add: load_section_eq poke_poke)

lemma list_and_load_eq:
  "list_and_load k sec (c, out) = (fst (load_section k sec (state c)), c\<lparr>state := snd (load_section k sec (state c))\<rparr>, out @ section_line sec)"
  by (simp add: list_and_load_def put_cout_def on_machine_def on_state_apply bindE_apply)

lemma list_and_load_ok:
  "seqE (map (load_section k) secs) (state c) = (Inr (), s) \<Longrightarrow>
   seqE (map (list_and_load k) secs) (c, out) = (Inr (), c\<lparr>state := s\<rparr>, out @ listing secs)"
proof (induction secs arbitrary: c out)
  case (Cons sec secs)
  obtain u where "load_section k sec (state c) = (Inr (), u)" and "seqE (map (load_section k) secs) u = (Inr (), s)"
    using Cons.prems by (auto elim!: bindE_InrE)
  with Cons.IH [of "c\<lparr>state := u\<rparr>"] show ?case by (simp add: list_and_load_eq)
qed simp

lemma list_and_load_all:
  assumes "memSize (memory (state c)) = MEMORY_SIZE" and "\<And>sec. sec \<in> set secs \<Longrightarrow> has_data k sec"
  shows "seqE (map (list_and_load k) secs) (c, out) =
    (Inr (), c\<lparr>state := poke (concat (map (section_writes k) secs)) (state c)\<rparr>, out @ listing secs)"
  using assms by (intro list_and_load_ok load_sections_eq)

lemma list_and_load_null:
  assumes "memSize (memory (state c)) = MEMORY_SIZE" and "list_all (has_data k) before" and "\<not> has_data k sec"
  shows "seqE (map (list_and_load k) (before @ sec # after)) (c, out) =
    (Inl Undefined_behaviour, c\<lparr>state := poke (concat (map (section_writes k) before)) (state c)\<rparr>, out @ listing (before @ [sec]))"
  using assms(1,2)
proof (induction before arbitrary: c out)
  case Nil
  then show ?case by (simp add: list_and_load_eq load_section_null [OF assms(3)])
qed (simp add: list_and_load_eq load_section_eq poke_poke)

text \<open>The header \<open>load_elf\<close> accepts.\<close>

definition accepted :: "ElfConsts \<Rightarrow> ElfFile \<Rightarrow> bool" where
  "accepted k f \<longleftrightarrow> get_class f = ELFCLASS32 k \<and> get_encoding f = ELFDATA2MSB k \<and>
     get_file_type f = ET_EXEC k \<and> get_machine f = EM_68K k"

lemma load_elf_eq:
  "load_elf k reader name (c, out) =
     (case reader name of
        None \<Rightarrow> (Inr False, c, out)
      | Some f \<Rightarrow> if \<not> accepted k f then (Inr False, c, out)
          else case seqE (map (list_and_load k) (sections f)) (c, out) of
            (Inl e, t) \<Rightarrow> (Inl e, t)
          | (Inr _, d, out') \<Rightarrow> (Inr True, d\<lparr>state := rput (rput (state d) REG_USP MEMORY_SIZE) REG_PC (ucast (get_entry f))\<rparr>, out'))"
  by (auto simp: load_elf_def accepted_def on_machine_def on_state_apply bindE_apply Let_def
      split: option.split prod.split sum.split)

lemma load_elf_null:
  assumes "memSize (memory (state c)) = MEMORY_SIZE" and "reader name = Some f" and "accepted k f"
    and "sections f = before @ sec # after" and "list_all (has_data k) before" and "\<not> has_data k sec"
  shows "load_elf k reader name (c, out) =
    (Inl Undefined_behaviour, c\<lparr>state := poke (concat (map (section_writes k) before)) (state c)\<rparr>, out @ listing (before @ [sec]))"
  using list_and_load_null [OF assms(1,5,6), of after out] assms(2-4) by (simp add: load_elf_eq del: listing_simps)

lemma load_elf_true:
  assumes "memSize (memory (state c)) = MEMORY_SIZE" and "reader name = Some f" and "accepted k f"
    and "list_all (has_data k) (sections f)"
  shows "\<exists>d. load_elf k reader name (c, out) = (Inr True, d, out @ listing (sections f)) \<and>
    state d = rput (rput (poke (concat (map (section_writes k) (sections f))) (state c)) REG_USP MEMORY_SIZE)
      REG_PC (ucast (get_entry f)) \<and> instruction_decoder d = instruction_decoder c"
  using list_and_load_all [OF assms(1), of "sections f" k out] assms(2-4) by (simp add: load_elf_eq list_all_iff)

section \<open>Properties\<close>

text \<open>
  C1. One call of CPU::step reads the word at the program counter, and then behaves as the
  instruction that the first-match specification of the decoder assigns to that word; when the
  fetch fails nothing changes. So the machine with its table of 65536 decoded instructions refines
  a fetch-decode-execute cycle without a table.
\<close>

theorem step_fetch_decode_execute:
  assumes "decoder_ok c"
  shows "CPU_step c =
    (case BaseMemory_get (memory (state c)) (ucast (pc_of (state c))) SIZE_WORD of
       Inl e \<Rightarrow> (Inl e, c)
     | Inr w \<Rightarrow> on_state (execute (decode_spec (ucast w))) c)"
  using assms by (rule CPU_step_eq)

text \<open>
  C12. Whatever program is loaded and however many steps are taken, whether they return or throw,
  the machine never changes the size of its memory and never writes a byte of the buffer at or
  above that size.
\<close>

theorem machine_memory_safety:
  assumes "reachable c d" and "decoder_ok c"
  shows "memSize (memory (state d)) = memSize (memory (state c)) \<and>
    (\<forall>k \<ge> unat (memSize (memory (state c))).
       baseAddr (memory (state d)) k = baseAddr (memory (state c)) k)"
  using bounds.reachable_frame [OF assms] by (simp add: in_bounds_def)

text \<open>
  C13. No sequence of steps enters or leaves supervisor mode, changes any bit of the status
  register above the five condition codes, or touches the stack pointer of the other mode: in
  supervisor mode the user stack pointer keeps its value, in user mode the supervisor stack
  pointer does.
\<close>

theorem machine_privilege_safety:
  assumes "reachable c d" and "decoder_ok c"
  shows "supervisor (registers (state d)) = supervisor (registers (state c)) \<and>
    (\<forall>n \<ge> 5. bit (reg_buffer (registers (state d)) REG_SR) n = bit (reg_buffer (registers (state c)) REG_SR) n) \<and>
    (if supervisor (registers (state c))
     then reg_buffer (registers (state d)) REG_USP = reg_buffer (registers (state c)) REG_USP
     else reg_buffer (registers (state d)) REG_SSP = reg_buffer (registers (state c)) REG_SSP)"
proof -
  have u: "unprivileged (state c) (state d)"
    using privilege.reachable_frame [OF assms] by simp
  then show ?thesis
    using unprivileged_supervisor [OF u] by (simp add: unprivileged_def idle_stack_def split: if_splits)
qed

text \<open>What a default-constructed machine is.\<close>

theorem new_machine:
  "\<exists>c. CPU_new fresh = Inr c \<and> decoder_ok c \<and> memSize (memory (state c)) = MEMORY_SIZE \<and>
     \<not> supervisor (registers (state c)) \<and> pc_of (state c) = 0 \<and> sr_clean (registers (state c)) \<and>
     (\<forall>k. k \<noteq> 0xFFFFFF \<longrightarrow> baseAddr (memory (state c)) k = fresh k) \<and>
     baseAddr (memory (state c)) 0xFFFFFF = 0"
  by (simp add: CPU_new_def InstructionDecoder_new_def SimpleMemory_new_def BaseMemory_new_def MEMORY_SIZE_def decoder_ok_def
      supervisor_def Registers_new_def pc_of_def sr_clean_new [unfolded Registers_new_def])

text \<open>
  C40. For an ELF file of the right class, byte order, type and machine whose sections have data,
  load_elf returns true, std::cout receives one line for each section, the memory becomes the
  image of the loadable sections written in order over the old contents, and the program counter
  and the stack pointer are the entry point and the top of memory; the decoder is not touched.
\<close>

theorem load_elf_image:
  assumes "reader file = Some f" and "memSize (memory (state c)) = MEMORY_SIZE"
    and "get_class f = ELFCLASS32 k" "get_encoding f = ELFDATA2MSB k"
      "get_file_type f = ET_EXEC k" "get_machine f = EM_68K k"
    and "\<And>sec. sec \<in> set (sections f) \<Longrightarrow> get_data sec \<noteq> None"
  shows "\<exists>d. load_elf k reader file (c, out) = (Inr True, d, out @ concat (map section_line (sections f))) \<and>
    baseAddr (memory (state d)) =
      image (concat (map (section_writes k) (sections f))) (baseAddr (memory (state c))) \<and>
    pc_of (state d) = ucast (get_entry f) \<and> rval (state d) REG_USP = MEMORY_SIZE \<and>
    instruction_decoder d = instruction_decoder c"
  using load_elf_true [where k = k and reader = reader and name = "file" and out = out, OF assms(2,1)] assms(3-7)
  by (auto simp: accepted_def list_all_iff has_data_def listing_def)

text \<open>
  C9. load_elf fails in two ways only. A file that cannot be read, or is not a big-endian 32-bit
  executable for this processor, makes it return false with the machine and std::cout as they
  were. A loadable section without data whose size, taken to 32 bits, is not zero is undefined
  behaviour, reached when the sections before it have been listed and loaded and its own line is
  printed, but before the program counter and the stack pointer are set.
\<close>

theorem load_elf_errors:
  assumes "memSize (memory (state c)) = MEMORY_SIZE"
  shows "(load_elf k reader file (c, out) = (Inr False, d, out') \<longleftrightarrow>
       d = c \<and> out' = out \<and> (\<forall>f. reader file = Some f \<longrightarrow> \<not> accepted k f)) \<and>
    (load_elf k reader file (c, out) = (Inl e, d, out') \<longleftrightarrow>
       e = Undefined_behaviour \<and> (\<exists>f before sec after. reader file = Some f \<and> accepted k f \<and>
         sections f = before @ sec # after \<and> list_all (has_data k) before \<and> \<not> has_data k sec \<and>
         d = c\<lparr>state := poke (concat (map (section_writes k) before)) (state c)\<rparr> \<and>
         out' = out @ concat (map section_line (before @ [sec]))))" (is "_ \<and> (_ \<longleftrightarrow> ?null)")
proof (cases "\<exists>f. reader file = Some f \<and> accepted k f")
  case False
  then show ?thesis by (auto simp: load_elf_eq split: option.split)
next
  case True
  then obtain f where f: "reader file = Some f" "accepted k f" by auto
  show ?thesis
  proof (cases "list_all (has_data k) (sections f)")
    case True
    then show ?thesis using load_elf_true [where out = out and reader = reader and name = "file", OF assms f] f by auto
  next
    case False
    then have "\<exists>sec \<in> set (sections f). \<not> has_data k sec" by (auto simp: list_all_iff)
    then obtain before sec after where split: "sections f = before @ sec # after" "list_all (has_data k) before" "\<not> has_data k sec"
      using split_list_first_prop [of "sections f" "\<lambda>sec. \<not> has_data k sec"] by (auto simp: list_all_iff)
    have fails: "load_elf k reader file (c, out) = (Inl Undefined_behaviour,
        c\<lparr>state := poke (concat (map (section_writes k) before')) (state c)\<rparr>, out @ concat (map section_line (before' @ [sec'])))"
      if "sections f = before' @ sec' # after'" "list_all (has_data k) before'" "\<not> has_data k sec'" for before' sec' after'
      using load_elf_null [where reader = reader and name = "file" and out = out, OF assms f that] unfolding listing_def .
    have "?null" if "load_elf k reader file (c, out) = (Inl e, d, out')"
      using that fails [OF split] split f by auto
    moreover have "load_elf k reader file (c, out) = (Inl e, d, out')" if "?null"
    proof -
      from that f obtain before' sec' after' where "e = Undefined_behaviour"
        and at: "sections f = before' @ sec' # after'" "list_all (has_data k) before'" "\<not> has_data k sec'"
        and "d = c\<lparr>state := poke (concat (map (section_writes k) before')) (state c)\<rparr>"
          "out' = out @ concat (map section_line (before' @ [sec']))"
        by auto
      then show ?thesis using fails [OF at] by simp
    qed
    ultimately have "load_elf k reader file (c, out) = (Inl e, d, out') \<longleftrightarrow> ?null" by blast
    then show ?thesis using fails [OF split] f by auto
  qed
qed

end
