(* ===== verification/Ins_Errors.thy ===== *)
theory Ins_Errors
  imports Decoder
begin

text \<open>
  Which exceptions the execution of an instruction can end in.  \<open>raises E m\<close> says that \<open>m\<close> throws
  nothing outside \<open>E\<close>; the locale \<open>error_set\<close> is the contract of a set that covers the failures of
  memory accesses, and is interpreted with and without undefined behaviour.
\<close>

named_theorems raises_intros "rules on the exceptions of a computation"

definition raises :: "exn set \<Rightarrow> ('s, 'a) exec \<Rightarrow> bool" where
  "raises E m \<longleftrightarrow> (\<forall>s e. fst (m s) = Inl e \<longrightarrow> e \<in> E)"

lemma raisesD: "raises E m \<Longrightarrow> m s = (Inl e, t) \<Longrightarrow> e \<in> E"
  by (metis raises_def fst_conv)

lemma raises_return [raises_intros]: "raises E (returnE x)"
  by (simp add: raises_def)

lemma raises_throw [raises_intros]: "e \<in> E \<Longrightarrow> raises E (throwE e)"
  by (simp add: raises_def)

lemma raises_bind [raises_intros]:
  assumes "raises E m" and "\<And>x. raises E (f x)"
  shows "raises E (bindE m f)"
  using assms by (auto simp: raises_def bindE_apply split: prod.splits sum.splits) (metis fst_conv)+

lemma raises_when [raises_intros]: "raises E m \<Longrightarrow> raises E (whenE c m)"
  by (simp add: raises_def)

lemma raises_if [raises_intros]:
  "(c \<Longrightarrow> raises E m) \<Longrightarrow> (\<not> c \<Longrightarrow> raises E n) \<Longrightarrow> raises E (if c then m else n)"
  by simp

lemma raises_Let [raises_intros]: "raises E (f v) \<Longrightarrow> raises E (Let v f)"
  by (simp add: Let_def)

lemma raises_pair [raises_intros]: "(\<And>a b. raises E (f a b)) \<Longrightarrow> raises E (case p of (a, b) \<Rightarrow> f a b)"
  by (cases p) simp

lemma raises_seq [raises_intros]: "(\<And>m. m \<in> set ms \<Longrightarrow> raises E m) \<Longrightarrow> raises E (seqE ms)"
  by (induction ms) (auto intro: raises_return raises_bind)

lemma raises_flag_get [raises_intros]: "raises E (flag_get f)"
  by (simp add: raises_def)

lemma raises_flag_set [raises_intros]: "raises E (flag_set f b)"
  by (simp add: raises_def)

lemma raises_skip [raises_intros]: "raises E skip_opcode"
  by (simp add: raises_def)

lemma raises_checkCondition [raises_intros]: "raises E (checkCondition c)"
  unfolding checkCondition_def by (intro raises_intros)

locale error_set =
  fixes E :: "exn set"
  assumes length_error: "Length_error \<in> E" and out_of_range: "Out_of_range \<in> E"
begin

lemma raises_regs_get [raises_intros]:
  "general_reg r \<Longrightarrow> raises E (regs_get r sz)" "raises E (regs_get REG_PC sz)"
  by (cases sz; auto simp: raises_def regs_get_def Registers_get_def general_reg_def Let_def length_error)+

lemma raises_regs_set [raises_intros]:
  "general_reg r \<Longrightarrow> raises E (regs_set r sz v)" "raises E (regs_set REG_PC sz v)"
  by (cases sz; auto simp: raises_def regs_set_def Registers_set_def general_reg_def Let_def length_error)+

lemma raises_mem_get [raises_intros]: "raises E (mem_get a sz)"
  by (cases sz) (auto simp: raises_def mem_get_def BaseMemory_get_def Let_def length_error out_of_range)

lemma raises_mem_set [raises_intros]: "raises E (mem_set a sz v)"
  by (cases sz) (auto simp: raises_def mem_set_def BaseMemory_set_def Let_def length_error out_of_range
      split: sum.splits)

lemma raises_index_extension [raises_intros]: "raises E (index_extension pc)"
  unfolding index_extension_def by (intro raises_intros) simp

lemma raises_stackPop [raises_intros]: "raises E (stackPop sz)"
  unfolding stackPop_def by (intro raises_intros) simp_all

lemma raises_stackPush [raises_intros]: "raises E (stackPush sz v)"
  unfolding stackPush_def by (intro raises_intros) simp_all

lemma raises_getData [raises_intros]: "general_reg r \<Longrightarrow> raises E (getData m r sz)"
  by (cases m) (auto intro!: raises_intros)

lemma raises_getDataSilent [raises_intros]: "general_reg r \<Longrightarrow> raises E (getDataSilent m r sz)"
  by (cases m) (auto intro!: raises_intros)

lemma raises_setData [raises_intros]: "general_reg r \<Longrightarrow> raises E (setData m r sz v)"
  by (cases m) (auto intro!: raises_intros)

lemma raises_getControlAddress [raises_intros]:
  "general_reg r \<Longrightarrow> m \<noteq> ADDR_MODE_INDIRECT_INDEX \<or> Undefined_behaviour \<in> E \<Longrightarrow>
   raises E (getControlAddress m r sz)"
  by (cases m) (auto simp: int_add_def intro!: raises_intros)

lemma raises_Bcc_displacement [raises_intros]: "raises E (Bcc_displacement i)"
  unfolding Bcc_displacement_def by (cases "Bcc.data_size i") (auto intro!: raises_intros)

lemma raises_mul_result [raises_intros]: "sg \<or> Undefined_behaviour \<in> E \<Longrightarrow> raises E (mul_result sg a b)"
  unfolding mul_result_def by (auto intro!: raises_intros)

lemma raises_Add [raises_intros]:
  "general_reg (Add.src_reg i) \<Longrightarrow> general_reg (Add.dest_reg i) \<Longrightarrow> raises E (Add_execute i)"
  unfolding Add_execute_def by (auto intro!: raises_intros)

lemma raises_Adda [raises_intros]:
  "general_reg (Adda.src_reg i) \<Longrightarrow> general_reg (Adda.dest_reg i) \<Longrightarrow> raises E (Adda_execute i)"
  unfolding Adda_execute_def by (auto intro!: raises_intros)

lemma raises_Addi [raises_intros]:
  "general_reg (Addi.dest_reg i) \<Longrightarrow> raises E (Addi_execute i)"
  unfolding Addi_execute_def by (auto intro!: raises_intros)

lemma raises_Addq [raises_intros]:
  "general_reg (Addq.dest_reg i) \<Longrightarrow> raises E (Addq_execute i)"
  unfolding Addq_execute_def by (auto intro!: raises_intros)

lemma raises_Addx [raises_intros]:
  "general_reg (Addx.src_reg i) \<Longrightarrow> general_reg (Addx.dest_reg i) \<Longrightarrow> raises E (Addx_execute i)"
  unfolding Addx_execute_def by (auto intro!: raises_intros)

lemma raises_Sub [raises_intros]:
  "general_reg (Sub.src_reg i) \<Longrightarrow> general_reg (Sub.dest_reg i) \<Longrightarrow> raises E (Sub_execute i)"
  unfolding Sub_execute_def by (auto intro!: raises_intros)

lemma raises_Suba [raises_intros]:
  "general_reg (Suba.src_reg i) \<Longrightarrow> general_reg (Suba.dest_reg i) \<Longrightarrow> raises E (Suba_execute i)"
  unfolding Suba_execute_def by (auto intro!: raises_intros)

lemma raises_Subi [raises_intros]:
  "general_reg (Subi.dest_reg i) \<Longrightarrow> raises E (Subi_execute i)"
  unfolding Subi_execute_def by (auto intro!: raises_intros)

lemma raises_Subq [raises_intros]:
  "general_reg (Subq.dest_reg i) \<Longrightarrow> raises E (Subq_execute i)"
  unfolding Subq_execute_def by (auto intro!: raises_intros)

lemma raises_Subx [raises_intros]:
  "general_reg (Subx.src_reg i) \<Longrightarrow> general_reg (Subx.dest_reg i) \<Longrightarrow> raises E (Subx_execute i)"
  unfolding Subx_execute_def by (auto intro!: raises_intros)

lemma raises_And [raises_intros]:
  "general_reg (And.src_reg i) \<Longrightarrow> general_reg (And.dest_reg i) \<Longrightarrow> raises E (And_execute i)"
  unfolding And_execute_def by (auto intro!: raises_intros)

lemma raises_Andi [raises_intros]:
  "general_reg (Andi.dest_reg i) \<Longrightarrow> raises E (Andi_execute i)"
  unfolding Andi_execute_def by (auto intro!: raises_intros)

lemma raises_Or [raises_intros]:
  "general_reg (Or.src_reg i) \<Longrightarrow> general_reg (Or.dest_reg i) \<Longrightarrow> raises E (Or_execute i)"
  unfolding Or_execute_def by (auto intro!: raises_intros)

lemma raises_Ori [raises_intros]:
  "general_reg (Ori.dest_reg i) \<Longrightarrow> raises E (Ori_execute i)"
  unfolding Ori_execute_def by (auto intro!: raises_intros)

lemma raises_Eor [raises_intros]:
  "general_reg (Eor.src_reg i) \<Longrightarrow> general_reg (Eor.dest_reg i) \<Longrightarrow> raises E (Eor_execute i)"
  unfolding Eor_execute_def by (auto intro!: raises_intros)

lemma raises_Eori [raises_intros]:
  "general_reg (Eori.dest_reg i) \<Longrightarrow> raises E (Eori_execute i)"
  unfolding Eori_execute_def by (auto intro!: raises_intros)

lemma raises_Cmp [raises_intros]:
  "general_reg (Cmp.src_reg i) \<Longrightarrow> general_reg (Cmp.dest_reg i) \<Longrightarrow> raises E (Cmp_execute i)"
  unfolding Cmp_execute_def by (auto intro!: raises_intros)

lemma raises_Cmpa [raises_intros]:
  "general_reg (Cmpa.src_reg i) \<Longrightarrow> general_reg (Cmpa.dest_reg i) \<Longrightarrow> raises E (Cmpa_execute i)"
  unfolding Cmpa_execute_def by (auto intro!: raises_intros)

lemma raises_Cmpi [raises_intros]:
  "general_reg (Cmpi.dest_reg i) \<Longrightarrow> raises E (Cmpi_execute i)"
  unfolding Cmpi_execute_def by (auto intro!: raises_intros)

lemma raises_Tst [raises_intros]:
  "general_reg (Tst.ea_reg i) \<Longrightarrow> raises E (Tst_execute i)"
  unfolding Tst_execute_def by (auto intro!: raises_intros)

lemma raises_Clr [raises_intros]:
  "general_reg (Clr.dest_reg i) \<Longrightarrow> raises E (Clr_execute i)"
  unfolding Clr_execute_def by (auto intro!: raises_intros)

lemma raises_Neg [raises_intros]:
  "general_reg (Neg.dest_reg i) \<Longrightarrow> raises E (Neg_execute i)"
  unfolding Neg_execute_def by (auto intro!: raises_intros)

lemma raises_Move [raises_intros]:
  "general_reg (Move.src_reg i) \<Longrightarrow> general_reg (Move.dest_reg i) \<Longrightarrow> raises E (Move_execute i)"
  unfolding Move_execute_def by (auto intro!: raises_intros)

lemma raises_Moveq [raises_intros]:
  "general_reg (Moveq.dest_reg i) \<Longrightarrow> raises E (Moveq_execute i)"
  unfolding Moveq_execute_def by (auto intro!: raises_intros)

lemma raises_Lea [raises_intros]:
  "general_reg (Lea.src_reg i) \<Longrightarrow> general_reg (Lea.addr_reg i) \<Longrightarrow> Lea.src_mode i \<noteq> ADDR_MODE_INDIRECT_INDEX \<or> Undefined_behaviour \<in> E \<Longrightarrow> raises E (Lea_execute i)"
  unfolding Lea_execute_def by (auto intro!: raises_intros)

lemma raises_Pea [raises_intros]:
  "general_reg (Pea.addr_reg i) \<Longrightarrow> Pea.addr_mode i \<noteq> ADDR_MODE_INDIRECT_INDEX \<or> Undefined_behaviour \<in> E \<Longrightarrow> raises E (Pea_execute i)"
  unfolding Pea_execute_def by (auto intro!: raises_intros)

lemma raises_Ext [raises_intros]:
  "general_reg (Ext.addr_reg i) \<Longrightarrow> raises E (Ext_execute i)"
  unfolding Ext_execute_def by (auto intro!: raises_intros)

lemma raises_Mul [raises_intros]:
  "general_reg (Mul.src_reg i) \<Longrightarrow> general_reg (Mul.dest_reg i) \<Longrightarrow> Mul.is_signed i \<or> Undefined_behaviour \<in> E \<Longrightarrow> raises E (Mul_execute i)"
  unfolding Mul_execute_def by (auto intro!: raises_intros)

lemma raises_BitManip [raises_intros]:
  "general_reg (BitManip.src_reg i) \<Longrightarrow> general_reg (BitManip.dest_reg i) \<Longrightarrow> raises E (BitManip_execute i)"
  unfolding BitManip_execute_def by (auto intro!: raises_intros)

lemma raises_Bcc [raises_intros]:
  "raises E (Bcc_execute i)"
  unfolding Bcc_execute_def by (cases "Bcc.condition i") (auto intro!: raises_intros)

lemma raises_Scc [raises_intros]:
  "general_reg (Scc.dest_reg i) \<Longrightarrow> raises E (Scc_execute i)"
  unfolding Scc_execute_def by (auto intro!: raises_intros)

lemma raises_Jmp [raises_intros]:
  "general_reg (Jmp.dest_reg i) \<Longrightarrow> Jmp.dest_mode i \<noteq> ADDR_MODE_INDIRECT_INDEX \<or> Undefined_behaviour \<in> E \<Longrightarrow> raises E (Jmp_execute i)"
  unfolding Jmp_execute_def by (auto intro!: raises_intros)

lemma raises_Jsr [raises_intros]:
  "general_reg (Jsr.dest_reg i) \<Longrightarrow> Jsr.dest_mode i \<noteq> ADDR_MODE_INDIRECT_INDEX \<or> Undefined_behaviour \<in> E \<Longrightarrow> raises E (Jsr_execute i)"
  unfolding Jsr_execute_def by (auto intro!: raises_intros)

lemma raises_Rts [raises_intros]:
  "raises E (Rts_execute i)"
  unfolding Rts_execute_def by (auto intro!: raises_intros)

lemma raises_Link [raises_intros]:
  "general_reg (Link.addr_reg i) \<Longrightarrow> raises E (Link_execute i)"
  unfolding Link_execute_def by (auto intro!: raises_intros)

lemma raises_Unlk [raises_intros]:
  "general_reg (Unlk.addr_reg i) \<Longrightarrow> raises E (Unlk_execute i)"
  unfolding Unlk_execute_def by (auto intro!: raises_intros)

lemma raises_Nop [raises_intros]:
  "raises E (Nop_execute i)"
  unfolding Nop_execute_def by (auto intro!: raises_intros)

end

section \<open>Without undefined behaviour\<close>

definition access_errors :: "exn set" where
  "access_errors = {Length_error, Out_of_range}"

interpretation access: error_set access_errors
  by unfold_locales (simp_all add: access_errors_def)

section \<open>With undefined behaviour\<close>

locale error_set_ub = error_set +
  assumes undefined: "Undefined_behaviour \<in> E"
begin

lemma raises_LSL [raises_intros]: "raises E (LSL a b)"
  by (simp add: LSL_def raises_return raises_throw undefined)

lemma raises_LSR [raises_intros]: "raises E (LSR a b)"
  by (simp add: LSR_def raises_return raises_throw undefined)

lemma raises_rotates [raises_intros]:
  "raises E (ROL_8 a b)" "raises E (ROL_9 a b)" "raises E (ROL_16 a b)" "raises E (ROL_17 a b)"
  "raises E (ROL_32 a b)" "raises E (ROL_33 a b)" "raises E (ROR_8 a b)" "raises E (ROR_9 a b)"
  "raises E (ROR_16 a b)" "raises E (ROR_17 a b)" "raises E (ROR_32 a b)" "raises E (ROR_33 a b)"
  unfolding ROL_8_def ROL_9_def ROL_16_def ROL_17_def ROL_32_def ROL_33_def
    ROR_8_def ROR_9_def ROR_16_def ROR_17_def ROR_32_def ROR_33_def
  by (intro raises_intros)+

lemma raises_ROL [raises_intros]: "raises E (ROL a b sz)"
  by (cases sz) (auto intro!: raises_intros)

lemma raises_ROR [raises_intros]: "raises E (ROR a b sz)"
  by (cases sz) (auto intro!: raises_intros)

lemma raises_shifts [raises_intros]:
  "raises E (shift_AS l sz a n)" "raises E (shift_LS l a n)" "raises E (shift_RO l sz a n)"
  unfolding shift_AS_def shift_LS_def shift_RO_def shift_flags_def by (auto intro!: raises_intros)

lemma raises_shift_ROX [raises_intros]: "raises E (shift_ROX l sz a n)"
  unfolding shift_ROX_def shift_flags_def by (cases sz) (auto intro!: raises_intros)

lemma raises_div_result [raises_intros]: "raises E (div_result sg a b)"
  unfolding div_result_def by (auto intro!: raises_intros undefined)

lemma raises_BitShift [raises_intros]:
  "general_reg (BitShift.addr_reg i) \<Longrightarrow> general_reg (BitShift.shift_reg i) \<Longrightarrow> raises E (BitShift_execute i)"
  unfolding BitShift_execute_def by (cases "BitShift.instruction_type i") (auto intro!: raises_intros)

lemma raises_Div [raises_intros]:
  "general_reg (Div.src_reg i) \<Longrightarrow> general_reg (Div.dest_reg i) \<Longrightarrow> raises E (Div_execute i)"
  unfolding Div_execute_def by (auto intro!: raises_intros)

end

interpretation any: error_set_ub "insert Undefined_behaviour access_errors"
  by unfold_locales (simp_all add: access_errors_def)

section \<open>The exceptions of an instruction\<close>

fun may_be_undefined :: "Ins \<Rightarrow> bool" where
  "may_be_undefined (I_Lea i) \<longleftrightarrow> Lea.src_mode i = ADDR_MODE_INDIRECT_INDEX"
| "may_be_undefined (I_Pea i) \<longleftrightarrow> Pea.addr_mode i = ADDR_MODE_INDIRECT_INDEX"
| "may_be_undefined (I_Jmp i) \<longleftrightarrow> Jmp.dest_mode i = ADDR_MODE_INDIRECT_INDEX"
| "may_be_undefined (I_Jsr i) \<longleftrightarrow> Jsr.dest_mode i = ADDR_MODE_INDIRECT_INDEX"
| "may_be_undefined (I_Mul i) \<longleftrightarrow> \<not> Mul.is_signed i"
| "may_be_undefined (I_Div i) \<longleftrightarrow> True"
| "may_be_undefined (I_BitShift i) \<longleftrightarrow> True"
| "may_be_undefined _ \<longleftrightarrow> False"

fun is_Illegal :: "Ins \<Rightarrow> bool" where
  "is_Illegal (I_Illegal i) = True"
| "is_Illegal _ = False"

lemma raises_defined:
  "regs_ok i \<Longrightarrow> \<not> may_be_undefined i \<Longrightarrow> \<not> is_Illegal i \<Longrightarrow> raises access_errors (execute i)"
  by (cases i) (auto intro: raises_intros)

lemma raises_not_illegal:
  "regs_ok i \<Longrightarrow> \<not> is_Illegal i \<Longrightarrow> raises (insert Undefined_behaviour access_errors) (execute i)"
  by (cases i) (auto intro: raises_intros)

lemma raises_illegal: "is_Illegal i \<Longrightarrow> fst (execute i s) = Inl Invalid_argument"
  by (cases i) (simp_all add: Illegal_execute_def)

text \<open>
  C14. What a decoded instruction can throw: never a failed assertion, so no register number is
  out of range; invalid_argument exactly for Illegal; and undefined behaviour of C++ only for the
  classes named in may_be_undefined (multiplication, division, shifts and the indexed control
  addressing mode).
\<close>

theorem instruction_errors:
  assumes "execute (Decode generateOpcodeTable opc) s = (Inl e, t)"
  shows "e \<noteq> Assertion_failed \<and>
    (e = Invalid_argument \<longleftrightarrow> is_Illegal (Decode generateOpcodeTable opc)) \<and>
    (e = Undefined_behaviour \<longrightarrow> may_be_undefined (Decode generateOpcodeTable opc))"
proof (cases "is_Illegal (decode_spec opc)")
  case True
  then have "e = Invalid_argument"
    using raises_illegal [of "decode_spec opc" s] assms by (simp add: Decode_spec)
  with True show ?thesis by (simp add: Decode_spec)
next
  case False
  from assms have ex: "execute (decode_spec opc) s = (Inl e, t)" by (simp add: Decode_spec)
  note e1 = raisesD [OF raises_not_illegal [OF decode_regs_ok False] ex]
  note e2 = raisesD [OF raises_defined [OF decode_regs_ok _ False] ex]
  show ?thesis using e1 e2 False by (auto simp: access_errors_def Decode_spec)
qed

end
