(* ===== verification/Ins_Text.thy ===== *)
theory Ins_Text
  imports Decoder
begin

text \<open>
  Disassembly and execution walk over the same bytes: where an instruction that does not transfer
  control runs, its text can be written, and both leave the program counter at the next instruction.
  The proof relates the two computations step by step with a small set of simulation rules.
\<close>

section \<open>Computations that walk together\<close>

text \<open>
  \<open>covers E m\<close>: wherever \<open>m\<close> ends normally, \<open>E\<close> does so too from any state with the same memory and
  program counter, without touching memory, and the program counters are equal again.
\<close>

definition covers :: "(CPUState, 'a) exec \<Rightarrow> (CPUState, 'b) exec \<Rightarrow> bool" where
  "covers E m \<longleftrightarrow> (\<forall>s x t u. m s = (Inr x, t) \<longrightarrow> memory u = memory s \<longrightarrow> pc_of u = pc_of s \<longrightarrow>
     (\<exists>y u'. E u = (Inr y, u') \<and> memory u' = memory u \<and> pc_of u' = pc_of t))"

definition same_pc :: "CPUState \<Rightarrow> CPUState \<Rightarrow> bool" where
  "same_pc s t \<longleftrightarrow> pc_of t = pc_of s"

definition same_memory :: "CPUState \<Rightarrow> CPUState \<Rightarrow> bool" where
  "same_memory s t \<longleftrightarrow> memory t = memory s"

interpretation pc: flag_frame same_pc
  by unfold_locales (auto simp: same_pc_def keeps_def)

interpretation mem: flag_frame same_memory
  by unfold_locales (auto simp: same_memory_def keeps_def)

lemma same_pc_writes [keeps_intros]:
  "keeps same_pc (mem_set a sz v)" "general_reg r \<Longrightarrow> keeps same_pc (regs_set r sz v)"
proof -
  show "keeps same_pc (mem_set a sz v)"
    by (auto simp: keeps_def same_pc_def mem_set_def pc_of_def split: sum.split)
  show "general_reg r \<Longrightarrow> keeps same_pc (regs_set r sz v)"
    by (auto simp: keeps_def same_pc_def regs_set_def pc_of_def bank_not elim!: Registers_set_cases split: sum.split)
qed

lemma same_pc_push [keeps_intros]: "keeps same_pc (stackPush sz v)"
  unfolding stackPush_def by (intro keeps_intros) simp

lemma same_pc_pop [keeps_intros]: "keeps same_pc (stackPop sz)"
  unfolding stackPop_def by (intro keeps_intros) simp

lemma same_memory_regs [keeps_intros]: "keeps same_memory (regs_set r sz v)"
  by (auto simp: keeps_def same_memory_def regs_set_def split: sum.split)

lemma same_memory_skip [keeps_intros]: "keeps same_memory skip_opcode"
  unfolding skip_opcode_def by (intro keeps_intros)

lemma same_memory_get [keeps_intros]: "keeps same_memory (getData m r sz)"
  by (cases m) (auto intro!: keeps_intros)

lemma same_memory_control [keeps_intros]: "keeps same_memory (getControlAddress m r sz)"
  by (cases m) (auto intro!: keeps_intros)

text \<open>The rules.\<close>

lemma coversI:
  "(\<And>s x t u. m s = (Inr x, t) \<Longrightarrow> memory u = memory s \<Longrightarrow> pc_of u = pc_of s \<Longrightarrow>
     \<exists>y u'. E u = (Inr y, u') \<and> memory u' = memory u \<and> pc_of u' = pc_of t) \<Longrightarrow> covers E m"
  by (simp add: covers_def)

lemma coversD:
  assumes "covers E m" and "m s = (Inr x, t)" and "memory u = memory s" and "pc_of u = pc_of s"
  obtains y u' where "E u = (Inr y, u')" and "memory u' = memory u" and "pc_of u' = pc_of t"
  using assms unfolding covers_def by blast

lemma covers_bind:
  assumes "covers E m" and "keeps same_memory m" and "\<And>x y. covers (F y) (f x)"
  shows "covers (bindE E F) (bindE m f)"
proof (rule coversI)
  fix s x t u
  assume run: "bindE m f s = (Inr x, t)" and mem: "memory u = memory s" and pc: "pc_of u = pc_of s"
  from run obtain a s' where m: "m s = (Inr a, s')" and f: "f a s' = (Inr x, t)" by (rule bindE_InrE)
  obtain y u' where E: "E u = (Inr y, u')" and u': "memory u' = memory u" "pc_of u' = pc_of s'"
    using assms(1) m mem pc by (rule coversD)
  have "memory s' = memory s" using keepsD [OF assms(2) m] by (simp add: same_memory_def)
  then obtain z v where "F y u' = (Inr z, v)" "memory v = memory u'" "pc_of v = pc_of t"
    using u' mem by (metis coversD [OF assms(3) f])
  with E u' show "\<exists>y u'. bindE E F u = (Inr y, u') \<and> memory u' = memory u \<and> pc_of u' = pc_of t" by simp
qed

lemma covers_peek:
  assumes "keeps (=) m" and "\<And>x. covers E (f x)"
  shows "covers E (bindE m f)"
proof (rule coversI)
  fix s x t u
  assume run: "bindE m f s = (Inr x, t)" and mem: "memory u = memory s" and pc: "pc_of u = pc_of s"
  from run obtain a s' where m: "m s = (Inr a, s')" and f: "f a s' = (Inr x, t)" by (rule bindE_InrE)
  have "s' = s" using keepsD [OF assms(1) m] by simp
  with f mem pc show "\<exists>y u'. E u = (Inr y, u') \<and> memory u' = memory u \<and> pc_of u' = pc_of t"
    by (metis coversD [OF assms(2)])
qed

lemma covers_end: "keeps same_pc m \<Longrightarrow> covers (returnE y) m"
  by (rule coversI) (use keepsD [of same_pc m] in \<open>fastforce simp: same_pc_def\<close>)

lemma covers_return:
  assumes "covers E m" shows "covers (bindE E (\<lambda>y. returnE (g y))) m"
proof (rule coversI)
  fix s x t u
  assume "m s = (Inr x, t)" "memory u = memory s" "pc_of u = pc_of s"
  with assms obtain y u' where "E u = (Inr y, u')" "memory u' = memory u" "pc_of u' = pc_of t" by (rule coversD)
  then show "\<exists>y u'. bindE E (\<lambda>y. returnE (g y)) u = (Inr y, u') \<and> memory u' = memory u \<and> pc_of u' = pc_of t"
    by simp
qed

lemma covers_trail:
  assumes "covers E m" and "\<And>x. keeps same_pc (f x)"
  shows "covers E (bindE m f)"
proof (rule coversI)
  fix s x t u
  assume run: "bindE m f s = (Inr x, t)" and mem: "memory u = memory s" and pc: "pc_of u = pc_of s"
  from run obtain a s' where m: "m s = (Inr a, s')" and f: "f a s' = (Inr x, t)" by (rule bindE_InrE)
  have "pc_of t = pc_of s'" using keepsD [OF assms(2) f] by (simp add: same_pc_def)
  then show "\<exists>y u'. E u = (Inr y, u') \<and> memory u' = memory u \<and> pc_of u' = pc_of t"
    using coversD [OF assms(1) m mem pc] by metis
qed

section \<open>Operands\<close>

lemma covers_skip: "covers skip_opcode skip_opcode"
  by (rule coversI) auto

text \<open>Whether an operand can be written depends on memory and program counter only.\<close>

lemma text_depends:
  assumes "effectiveAddress m r sz s = (Inr str, t)" and "memory s = memory u" and "pc_of s = pc_of u"
  shows "\<exists>v. effectiveAddress m r sz u = (Inr str, v)"
  using assms
  by (cases m; cases "sz = SIZE_LONG")
    (auto simp: read_iffs mem_get_apply Let_def bindE_apply split: sum.splits prod.splits)

lemma covers_operand:
  assumes "\<And>s x t. m s = (Inr x, t) \<Longrightarrow> \<exists>str u. effectiveAddress md r sz s = (Inr str, u)"
    and "\<And>s x t. m s = (Inr x, t) \<Longrightarrow> pc_of t = pc_of s + ext_bytes md sz"
  shows "covers (effectiveAddress md r sz) m"
proof (rule coversI)
  fix s x t u
  assume m: "m s = (Inr x, t)" and u: "memory u = memory s" "pc_of u = pc_of s"
  from assms(1) [OF m] obtain str v where "effectiveAddress md r sz s = (Inr str, v)" by blast
  from text_depends [OF this] u obtain w where "effectiveAddress md r sz u = (Inr str, w)" by metis
  with effectiveAddress_pc [OF this] assms(2) [OF m] u
  show "\<exists>y u'. effectiveAddress md r sz u = (Inr y, u') \<and> memory u' = memory u \<and> pc_of u' = pc_of t" by simp
qed

lemma covers_getData: "general_reg r \<Longrightarrow> covers (effectiveAddress md r sz) (getData md r sz)"
proof (rule covers_operand)
  fix s x t assume r: "general_reg r" and g: "getData md r sz s = (Inr x, t)"
  show "\<exists>str u. effectiveAddress md r sz s = (Inr str, u)"
    using g by (cases md; cases "sz = SIZE_LONG") (auto simp: read_iffs Let_def bindE_apply
        index_extension_def split: sum.splits prod.splits)
  show "pc_of t = pc_of s + ext_bytes md sz"
    using r g by (cases md) (auto simp: read_iffs Let_def bindE_apply split: sum.splits prod.splits if_splits)
qed

lemma regs_set_pc: "general_reg r \<Longrightarrow> regs_set r sz v s = (q, t) \<Longrightarrow> pc_of t = pc_of s"
  using keepsD [OF same_pc_writes(2)] by (simp add: same_pc_def)

lemma mem_set_pc: "mem_set a sz v s = (q, t) \<Longrightarrow> pc_of t = pc_of s"
  using keepsD [OF same_pc_writes(1)] by (simp add: same_pc_def)

text \<open>A destination is never an immediate, so the size in its text does not matter.\<close>

lemma covers_setData:
  "general_reg r \<Longrightarrow> IS_MEMORY_ALTERABLE md \<Longrightarrow> covers (effectiveAddress md r sz') (setData md r sz v)"
proof (rule covers_operand)
  fix s x t
  assume r: "general_reg r" and md: "IS_MEMORY_ALTERABLE md" and g: "setData md r sz v s = (Inr x, t)"
  show "\<exists>str u. effectiveAddress md r sz' s = (Inr str, u)"
    using g md by (cases md) (auto simp: IS_MEMORY_ALTERABLE_def read_iffs Let_def bindE_apply
        index_extension_def split: sum.splits prod.splits)
  show "pc_of t = pc_of s + ext_bytes md sz'"
    using r g md by (cases md) (auto simp: IS_MEMORY_ALTERABLE_def read_iffs Let_def bindE_apply
        dest: regs_set_pc mem_set_pc split: sum.splits prod.splits if_splits)
qed

lemma covers_setData_direct: "general_reg r \<Longrightarrow> covers (returnE y) (setData ADDR_MODE_DIRECT_ADDR r sz v)"
  by (rule covers_end) (simp add: keeps_intros)

lemma covers_control:
  "general_reg r \<Longrightarrow> IS_CONTROL_ADDR md \<Longrightarrow> covers (effectiveAddress md r sz') (getControlAddress md r sz)"
proof (rule covers_operand)
  fix s x t
  assume r: "general_reg r" and md: "IS_CONTROL_ADDR md" and g: "getControlAddress md r sz s = (Inr x, t)"
  show "\<exists>str u. effectiveAddress md r sz' s = (Inr str, u)"
    using g md by (cases md) (auto simp: IS_CONTROL_ADDR_def read_iffs Let_def bindE_apply
        index_extension_def split: sum.splits prod.splits)
  show "pc_of t = pc_of s + ext_bytes md sz'"
    using r g md by (cases md) (auto simp: IS_CONTROL_ADDR_def read_iffs Let_def bindE_apply int_add_def
        split: sum.splits prod.splits if_splits)
qed


section \<open>Instructions\<close>

text \<open>
  The instructions whose execution ends behind their own bytes.  Branches, jumps, calls and returns
  go elsewhere; \<open>Illegal\<close> throws; a shift of a memory operand does not step over the extension words
  of its operand, because it never writes the result back.
\<close>

fun straight :: "Ins \<Rightarrow> bool" where
  "straight (I_Bcc i) = False"
| "straight (I_Jmp i) = False"
| "straight (I_Jsr i) = False"
| "straight (I_Rts i) = False"
| "straight (I_Illegal i) = False"
| "straight (I_BitShift i) = (\<not> BitShift.is_memory i)"
| "straight _ = True"

lemma pure_results [keeps_intros]:
  "keeps (=) (mul_result sg a b)" "keeps (=) (div_result sg a b)" "keeps (=) (flag_get f)" "keeps (=) (checkCondition c)"
  by (auto simp: keeps_def mul_result_def div_result_def checkCondition_def)

lemma pure_direct [keeps_intros]:
  "keeps (=) (getData ADDR_MODE_DIRECT_DATA r sz)" "keeps (=) (getDataSilent m r sz)"
  by (auto intro!: keeps_intros pure_getDataSilent)

text \<open>The rules in the order in which they are tried.\<close>

lemmas covers_steps =
  covers_bind [OF covers_skip same_memory_skip]
  covers_bind [OF covers_getData same_memory_get]
  covers_bind [OF covers_control same_memory_control]
  covers_peek [OF pure_results(1)] covers_peek [OF pure_results(2)] covers_peek [OF pure_results(3)]
  covers_peek [OF pure_results(4)] covers_peek [OF pure_getDataSilent]
  covers_return covers_trail [OF covers_setData] covers_setData covers_end

lemmas execute_defs =
  Add_execute_def Adda_execute_def Addi_execute_def Addq_execute_def Addx_execute_def
  Sub_execute_def Suba_execute_def Subi_execute_def Subq_execute_def Subx_execute_def
  And_execute_def Andi_execute_def Or_execute_def Ori_execute_def Eor_execute_def
  Eori_execute_def Cmp_execute_def Cmpa_execute_def Cmpi_execute_def Tst_execute_def
  Clr_execute_def Neg_execute_def Move_execute_def Moveq_execute_def Lea_execute_def
  Pea_execute_def Ext_execute_def Mul_execute_def Div_execute_def BitManip_execute_def
  BitShift_execute_def Bcc_execute_def Scc_execute_def Jmp_execute_def Jsr_execute_def
  Rts_execute_def Link_execute_def Unlk_execute_def Nop_execute_def Illegal_execute_def

text \<open>The classes whose shape the rules do not see through at once.\<close>

lemma covers_Move: "regs_ok (I_Move i) \<Longrightarrow> modes_ok (I_Move i) \<Longrightarrow> covers (Move_disassembly i) (Move_execute i)"
  unfolding Move_disassembly_def Move_execute_def Let_def
  by (cases "is_movea i"; simp only: if_True if_False;
    (rule covers_steps | (simp del: getData.simps; fail) | (auto intro!: keeps_intros)[1])+)

lemma covers_Ext: "regs_ok (I_Ext i) \<Longrightarrow> modes_ok (I_Ext i) \<Longrightarrow> covers (Ext_disassembly i) (Ext_execute i)"
  unfolding Ext_disassembly_def Ext_execute_def Let_def
  by (rule covers_steps(1), rule covers_peek, (auto intro!: keeps_intros)[1],
    (rule covers_steps | (simp; fail) | (auto intro!: keeps_intros)[1])+)

lemma shift_keeps_pc [keeps_intros]:
  "keeps same_pc (case ty of AS \<Rightarrow> shift_AS l sz a n | LS \<Rightarrow> shift_LS l a n
     | ROX \<Rightarrow> shift_ROX l sz a n | RO \<Rightarrow> shift_RO l sz a n)"
  by (cases ty) (auto intro!: keeps_intros)

lemma covers_BitShift:
  assumes "\<not> BitShift.is_memory i" and "regs_ok (I_BitShift i)" and "modes_ok (I_BitShift i)"
  shows "covers (BitShift_disassembly i) (BitShift_execute i)"
proof -
  have d: "BitShift.addr_mode i = ADDR_MODE_DIRECT_DATA" using assms by simp
  show ?thesis
    unfolding BitShift_disassembly_def BitShift_execute_def Let_def d effectiveAddress.simps bindE_return
    by (cases "is_imm i"; simp only: if_True if_False; rule covers_steps(1), rule covers_end;
      (auto intro!: keeps_intros)[1])
qed

lemma covers_flow:
  "regs_ok (I_Link i) \<Longrightarrow> covers (Link_disassembly i) (Link_execute i)"
  "regs_ok (I_Unlk j) \<Longrightarrow> covers (Unlk_disassembly j) (Unlk_execute j)"
  "covers (Nop_disassembly k) (Nop_execute k)"
proof -
  show "regs_ok (I_Unlk j) \<Longrightarrow> covers (Unlk_disassembly j) (Unlk_execute j)"
    unfolding Unlk_disassembly_def Unlk_execute_def
    by (rule covers_steps | (simp; fail) | (auto intro!: keeps_intros)[1])+
  show "covers (Nop_disassembly k) (Nop_execute k)"
    unfolding Nop_disassembly_def Nop_execute_def
    by (rule covers_return) (rule covers_skip)
  assume r: "regs_ok (I_Link i)"
  show "covers (Link_disassembly i) (Link_execute i)"
  proof (rule coversI)
    let ?tail = "\<lambda>d. bindE (regs_get (Link.addr_reg i) SIZE_LONG) (\<lambda>addr_data.
       bindE (stackPush SIZE_LONG addr_data) (\<lambda>_.
       bindE (regs_get REG_USP SIZE_LONG) (\<lambda>stack_ptr.
       bindE (regs_set (Link.addr_reg i) SIZE_LONG stack_ptr) (\<lambda>_.
       regs_set REG_USP SIZE_LONG (stack_ptr + sext16 d)))))"
    have k: "keeps same_pc (?tail d)" for d using r by (auto intro!: keeps_intros)
    fix s x t u
    assume run: "Link_execute i s = (Inr x, t)" and u: "memory u = memory s" "pc_of u = pc_of s"
    from run obtain d where d: "mem_get (pc_of s + 2) (Link.data_size i) s = (Inr d, s)"
      and rest: "?tail d (rput s REG_PC (pc_of s + 4)) = (Inr x, t)"
      by (cases "fst (mem_get (pc_of s + 2) (Link.data_size i) s)")
        (auto simp: Link_execute_def Let_def mem_get_apply add.assoc elim: bindE_InrE)
    have "same_pc (rput s REG_PC (pc_of s + 4)) t" using keepsD [OF k, of d "rput s REG_PC (pc_of s + 4)"] rest by simp
    with d u show "\<exists>y u'. Link_disassembly i u = (Inr y, u') \<and> memory u' = memory u \<and> pc_of u' = pc_of t"
      by (simp add: Link_disassembly_def Let_def mem_get_apply same_pc_def add.assoc)
  qed
qed

lemma covers_classes:
  "regs_ok (I_Add i0) \<Longrightarrow> modes_ok (I_Add i0) \<Longrightarrow> covers (disassembly (I_Add i0)) (execute (I_Add i0))"
  "regs_ok (I_Adda i1) \<Longrightarrow> modes_ok (I_Adda i1) \<Longrightarrow> covers (disassembly (I_Adda i1)) (execute (I_Adda i1))"
  "regs_ok (I_Addi i2) \<Longrightarrow> modes_ok (I_Addi i2) \<Longrightarrow> covers (disassembly (I_Addi i2)) (execute (I_Addi i2))"
  "regs_ok (I_Addq i3) \<Longrightarrow> modes_ok (I_Addq i3) \<Longrightarrow> covers (disassembly (I_Addq i3)) (execute (I_Addq i3))"
  "regs_ok (I_Addx i4) \<Longrightarrow> modes_ok (I_Addx i4) \<Longrightarrow> covers (disassembly (I_Addx i4)) (execute (I_Addx i4))"
  "regs_ok (I_Sub i5) \<Longrightarrow> modes_ok (I_Sub i5) \<Longrightarrow> covers (disassembly (I_Sub i5)) (execute (I_Sub i5))"
  "regs_ok (I_Suba i6) \<Longrightarrow> modes_ok (I_Suba i6) \<Longrightarrow> covers (disassembly (I_Suba i6)) (execute (I_Suba i6))"
  "regs_ok (I_Subi i7) \<Longrightarrow> modes_ok (I_Subi i7) \<Longrightarrow> covers (disassembly (I_Subi i7)) (execute (I_Subi i7))"
  "regs_ok (I_Subq i8) \<Longrightarrow> modes_ok (I_Subq i8) \<Longrightarrow> covers (disassembly (I_Subq i8)) (execute (I_Subq i8))"
  "regs_ok (I_Subx i9) \<Longrightarrow> modes_ok (I_Subx i9) \<Longrightarrow> covers (disassembly (I_Subx i9)) (execute (I_Subx i9))"
  "regs_ok (I_And i10) \<Longrightarrow> modes_ok (I_And i10) \<Longrightarrow> covers (disassembly (I_And i10)) (execute (I_And i10))"
  "regs_ok (I_Andi i11) \<Longrightarrow> modes_ok (I_Andi i11) \<Longrightarrow> covers (disassembly (I_Andi i11)) (execute (I_Andi i11))"
  "regs_ok (I_Or i12) \<Longrightarrow> modes_ok (I_Or i12) \<Longrightarrow> covers (disassembly (I_Or i12)) (execute (I_Or i12))"
  "regs_ok (I_Ori i13) \<Longrightarrow> modes_ok (I_Ori i13) \<Longrightarrow> covers (disassembly (I_Ori i13)) (execute (I_Ori i13))"
  "regs_ok (I_Eor i14) \<Longrightarrow> modes_ok (I_Eor i14) \<Longrightarrow> covers (disassembly (I_Eor i14)) (execute (I_Eor i14))"
  "regs_ok (I_Eori i15) \<Longrightarrow> modes_ok (I_Eori i15) \<Longrightarrow> covers (disassembly (I_Eori i15)) (execute (I_Eori i15))"
  "regs_ok (I_Cmp i16) \<Longrightarrow> modes_ok (I_Cmp i16) \<Longrightarrow> covers (disassembly (I_Cmp i16)) (execute (I_Cmp i16))"
  "regs_ok (I_Cmpa i17) \<Longrightarrow> modes_ok (I_Cmpa i17) \<Longrightarrow> covers (disassembly (I_Cmpa i17)) (execute (I_Cmpa i17))"
  "regs_ok (I_Cmpi i18) \<Longrightarrow> modes_ok (I_Cmpi i18) \<Longrightarrow> covers (disassembly (I_Cmpi i18)) (execute (I_Cmpi i18))"
  "regs_ok (I_Tst i19) \<Longrightarrow> modes_ok (I_Tst i19) \<Longrightarrow> covers (disassembly (I_Tst i19)) (execute (I_Tst i19))"
  "regs_ok (I_Clr i20) \<Longrightarrow> modes_ok (I_Clr i20) \<Longrightarrow> covers (disassembly (I_Clr i20)) (execute (I_Clr i20))"
  "regs_ok (I_Neg i21) \<Longrightarrow> modes_ok (I_Neg i21) \<Longrightarrow> covers (disassembly (I_Neg i21)) (execute (I_Neg i21))"
  "regs_ok (I_Moveq i22) \<Longrightarrow> modes_ok (I_Moveq i22) \<Longrightarrow> covers (disassembly (I_Moveq i22)) (execute (I_Moveq i22))"
  "regs_ok (I_Lea i23) \<Longrightarrow> modes_ok (I_Lea i23) \<Longrightarrow> covers (disassembly (I_Lea i23)) (execute (I_Lea i23))"
  "regs_ok (I_Pea i24) \<Longrightarrow> modes_ok (I_Pea i24) \<Longrightarrow> covers (disassembly (I_Pea i24)) (execute (I_Pea i24))"
  "regs_ok (I_Mul i25) \<Longrightarrow> modes_ok (I_Mul i25) \<Longrightarrow> covers (disassembly (I_Mul i25)) (execute (I_Mul i25))"
  "regs_ok (I_Div i26) \<Longrightarrow> modes_ok (I_Div i26) \<Longrightarrow> covers (disassembly (I_Div i26)) (execute (I_Div i26))"
  "regs_ok (I_BitManip i27) \<Longrightarrow> modes_ok (I_BitManip i27) \<Longrightarrow> covers (disassembly (I_BitManip i27)) (execute (I_BitManip i27))"
  "regs_ok (I_Scc i28) \<Longrightarrow> modes_ok (I_Scc i28) \<Longrightarrow> covers (disassembly (I_Scc i28)) (execute (I_Scc i28))"
  unfolding execute.simps disassembly.simps disassembly_defs execute_defs Let_def
  by (rule covers_steps | (simp del: getData.simps; fail) | (auto intro!: keeps_intros)[1])+

lemma covers_execute:
  assumes "straight i" and "regs_ok i" and "modes_ok i"
  shows "covers (disassembly i) (execute i)"
  using assms covers_classes covers_Move covers_Ext covers_BitShift covers_flow
  by (cases i) (simp_all del: regs_ok.simps modes_ok.simps)

section \<open>Property\<close>

text \<open>
  C17. Disassembly and execution walk over the same bytes: wherever an instruction that does not
  transfer control (nor shifts a memory operand) ends normally, its disassembly succeeds in the
  same state, changes nothing but the program counter, and leaves it where the execution does, at
  the next instruction.
\<close>

theorem text_follows_execution:
  assumes "straight (Decode generateOpcodeTable opc)"
    and "execute (Decode generateOpcodeTable opc) s = (Inr (), t)"
  shows "\<exists>str u. disassembly (Decode generateOpcodeTable opc) s = (Inr str, u) \<and> pc_of u = pc_of t \<and>
    u = rput s REG_PC (pc_of t)"
proof -
  have "covers (disassembly (decode_spec opc)) (execute (decode_spec opc))"
    using assms(1) decode_regs_ok decode_modes_ok by (auto simp: Decode_spec intro: covers_execute)
  then obtain str u where d: "disassembly (decode_spec opc) s = (Inr str, u)" and "pc_of u = pc_of t"
    using assms(2) by (auto simp: Decode_spec elim: coversD)
  moreover have "only_pc s u"
    using disassembly_keeps d by (rule keepsD)
  ultimately show ?thesis by (auto simp: Decode_spec only_pc_def)
qed

end
