(* ===== verification/Ins_Failures.thy ===== *)
theory Ins_Failures
  imports Ins_Text Cpu
begin

text \<open>
  What an instruction that throws leaves behind.  \<open>fails R m\<close> is a postcondition of the exceptional
  exit alone: a state in which \<open>m\<close> throws is related by \<open>R\<close> to the one it started from.  \<open>no_throw m\<close>
  says that \<open>m\<close> has no such exit.  The order of accesses in \<open>CPUState\<close> and in every \<open>execute\<close> is such
  that what can throw comes before what is written, with the exception of the program counter and
  the address registers.
\<close>

section \<open>The exceptional exit\<close>

definition fails :: "('s \<Rightarrow> 's \<Rightarrow> bool) \<Rightarrow> ('s, 'a) exec \<Rightarrow> bool" where
  "fails R m \<longleftrightarrow> (\<forall>s e t. m s = (Inl e, t) \<longrightarrow> R s t)"

definition no_throw :: "('s, 'a) exec \<Rightarrow> bool" where
  "no_throw m \<longleftrightarrow> (\<forall>s. \<exists>x t. m s = (Inr x, t))"

lemma failsD: "fails R m \<Longrightarrow> m s = (Inl e, t) \<Longrightarrow> R s t"
  by (simp add: fails_def)

lemma failsD_snd: "fails R m \<Longrightarrow> fst (m s) = Inl e \<Longrightarrow> R s (snd (m s))"
  by (metis failsD prod.collapse)

lemma no_throw_fails: "no_throw m \<Longrightarrow> fails R m"
  by (auto simp: no_throw_def fails_def) (metis Inl_Inr_False prod.inject)

lemma keeps_fails: "keeps R m \<Longrightarrow> fails R m"
  by (auto simp: fails_def dest: keepsD)

named_theorems no_throw_intros "computations without an exceptional exit"

lemma no_throw_obtain:
  assumes "no_throw m"
  obtains x t where "m s = (Inr x, t)"
  using assms that unfolding no_throw_def by blast

lemma bindE_InlE:
  assumes "bindE m f s = (Inl e, t)"
  obtains "m s = (Inl e, t)" | x u where "m s = (Inr x, u)" and "f x u = (Inl e, t)"
proof (cases "m s")
  case (Pair r u)
  with assms show ?thesis by (cases r) (auto intro: that)
qed

lemma no_throw_bind [no_throw_intros]:
  assumes "no_throw m" and "\<And>x. no_throw (f x)"
  shows "no_throw (bindE m f)"
  unfolding no_throw_def
proof
  fix s
  obtain x t where m: "m s = (Inr x, t)" using assms(1) by (rule no_throw_obtain)
  obtain y u where "f x t = (Inr y, u)" using assms(2) by (rule no_throw_obtain)
  with m show "\<exists>y u. bindE m f s = (Inr y, u)" by simp
qed

lemma no_throw_return [no_throw_intros]: "no_throw (returnE x)"
  by (simp add: no_throw_def)

lemma no_throw_when [no_throw_intros]: "no_throw m \<Longrightarrow> no_throw (whenE c m)"
  by (simp add: no_throw_def)

lemma no_throw_if [no_throw_intros]: "(c \<Longrightarrow> no_throw m) \<Longrightarrow> (\<not> c \<Longrightarrow> no_throw n) \<Longrightarrow> no_throw (if c then m else n)"
  by simp

lemma no_throw_Let [no_throw_intros]: "(\<And>x. no_throw (f x)) \<Longrightarrow> no_throw (Let v f)"
  by (simp add: Let_def)

lemma no_throw_seq [no_throw_intros]: "(\<And>m. m \<in> set ms \<Longrightarrow> no_throw m) \<Longrightarrow> no_throw (seqE ms)"
  by (induction ms) (auto intro: no_throw_return no_throw_bind)

lemma no_throw_flag_set [no_throw_intros]: "no_throw (flag_set f b)"
  by (simp add: no_throw_def)

lemma no_throw_flag_get [no_throw_intros]: "no_throw (flag_get f)"
  by (simp add: no_throw_def)

lemma no_throw_shift_flags [no_throw_intros]: "no_throw (shift_flags b)"
  unfolding shift_flags_def by (intro no_throw_intros)

lemma no_throw_regs_long [no_throw_intros]:
  "general_reg r \<Longrightarrow> no_throw (regs_set r SIZE_LONG v)" "no_throw (regs_set REG_PC SIZE_LONG v)"
  "general_reg r \<Longrightarrow> no_throw (regs_get r SIZE_LONG)" "no_throw (regs_get REG_PC SIZE_LONG)"
  by (simp_all add: no_throw_def)

section \<open>Failures within a frame\<close>

text \<open>
  The contract of a relation that ignores the program counter and the address registers.  A single
  write that throws has changed nothing; an operation whose last part cannot throw fails where its
  first part does.
\<close>

definition address_reg :: "RegisterType \<Rightarrow> bool" where
  "address_reg r \<longleftrightarrow> general_reg r \<and> 8 \<le> reg_index r"

definition steps_reg :: "AddressingMode \<Rightarrow> bool" where
  "steps_reg m \<longleftrightarrow> m = ADDR_MODE_INDIRECT_POSTINCREMENT \<or> m = ADDR_MODE_INDIRECT_PREDECREMENT"

definition mode_reg :: "AddressingMode \<Rightarrow> RegisterType \<Rightarrow> bool" where
  "mode_reg m r \<longleftrightarrow> general_reg r \<and> (steps_reg m \<longrightarrow> address_reg r)"

lemma address_reg_A7 [simp]: "address_reg REG_A7"
  by (simp add: address_reg_def general_reg_def)

lemma address_general [simp]: "address_reg r \<Longrightarrow> general_reg r"
  by (simp add: address_reg_def)

lemma mode_reg_general: "mode_reg m r \<Longrightarrow> general_reg r"
  by (simp add: mode_reg_def)

locale failure_frame = read_frame R for R :: "CPUState \<Rightarrow> CPUState \<Rightarrow> bool" +
  assumes frame_address: "address_reg r \<Longrightarrow> keeps R (regs_set r SIZE_LONG v)"
    and frame_pc: "keeps R (regs_set REG_PC SIZE_LONG v)"
begin

lemmas frame_writes [keeps_intros] = frame_address frame_pc

lemma pure_keeps: "keeps (=) m \<Longrightarrow> keeps R m"
  by (simp add: keeps_def frame_refl)

lemma fails_bind:
  assumes "keeps R m" and "\<And>x. fails R (f x)"
  shows "fails R (bindE m f)"
  unfolding fails_def
proof (intro allI impI)
  fix s e t
  assume "bindE m f s = (Inl e, t)"
  then show "R s t"
  proof (cases rule: bindE_InlE)
    case 1
    with assms(1) show ?thesis by (rule keepsD)
  next
    case (2 x u)
    with keepsD [OF assms(1) 2(1)] failsD [OF assms(2) 2(2)] show ?thesis by (rule_tac frame_trans)
  qed
qed

lemma fails_then:
  assumes "fails R m" and "\<And>x. no_throw (f x)"
  shows "fails R (bindE m f)"
  unfolding fails_def
proof (intro allI impI)
  fix s e t
  assume "bindE m f s = (Inl e, t)"
  then show "R s t"
  proof (cases rule: bindE_InlE)
    case 1
    with assms(1) show ?thesis by (rule failsD)
  next
    case (2 x u)
    obtain y v where "f x u = (Inr y, v)" using assms(2) by (rule no_throw_obtain)
    with 2 show ?thesis by simp
  qed
qed

lemma fails_regs_set: "fails R (regs_set r sz v)"
  by (auto simp: fails_def regs_set_def frame_refl split: sum.splits)

lemma fails_mem_set: "fails R (mem_set a sz v)"
  by (auto simp: fails_def mem_set_def frame_refl split: sum.splits)

lemma fails_Let: "(\<And>x. fails R (f x)) \<Longrightarrow> fails R (Let v f)"
  by (simp add: Let_def)

lemma fails_if: "(c \<Longrightarrow> fails R m) \<Longrightarrow> (\<not> c \<Longrightarrow> fails R n) \<Longrightarrow> fails R (if c then m else n)"
  by simp

lemma fails_pair: "(\<And>a b. fails R (f a b)) \<Longrightarrow> fails R (case p of (a, b) \<Rightarrow> f a b)"
  by (cases p) simp

lemma keeps_skip [keeps_intros]: "keeps R skip_opcode"
  unfolding skip_opcode_def by (intro keeps_intros)

lemma keeps_getControlAddress [keeps_intros]: "keeps R (getControlAddress m r sz)"
  by (cases m) (auto intro!: keeps_intros)

lemma keeps_getData [keeps_intros]: "mode_reg m r \<Longrightarrow> keeps R (getData m r sz)"
  by (cases m) (auto simp: mode_reg_def steps_reg_def intro!: keeps_intros)

lemma keeps_stackPop [keeps_intros]: "keeps R (stackPop sz)"
  unfolding stackPop_def by (intro keeps_intros) simp_all

text \<open>Writes come last in \<open>setData\<close>, except for the update of an address register.\<close>

lemma fails_stackPush: "fails R (stackPush sz v)"
  unfolding stackPush_def by (intro fails_bind fails_Let fails_mem_set keeps_intros) simp_all

lemma fails_after_mem_set:
  "(\<And>x. no_throw (f x)) \<Longrightarrow> fails R (bindE (mem_set a sz v) f)"
  by (rule fails_then [OF fails_mem_set])

lemma fails_setData:
  assumes "general_reg r"
  shows "fails R (setData m r sz v)"
  by (cases m; simp only: setData.simps;
    (rule fails_regs_set fails_after_mem_set fails_mem_set fails_Let fails_pair
        no_throw_regs_long no_throw_return [THEN no_throw_fails] assms
      | rule fails_bind, (intro keeps_intros; fail))+)

end


section \<open>The register of a stepping mode\<close>

text \<open>
  A mode field of 3 or 4 selects post-increment or pre-decrement; since it is not 0, the register
  field is an address register.  So no decoded instruction steps a data register.
\<close>

lemma address_getRegisterType: "m \<noteq> 0 \<Longrightarrow> address_reg (getRegisterType m (w AND 7))"
  using and_7_less [of w] by (simp add: getRegisterType_def address_reg_def general_reg_def reg_index_of_nat)

lemma steps_reg_mode_0: "\<not> steps_reg (getAddressingMode 0 r)"
  by (simp add: getAddressingMode_def mode_table_def steps_reg_def)

lemma mode_reg_getRegisterType [simp]: "mode_reg (getAddressingMode m r) (getRegisterType m (w AND 7))"
  by (cases "m = 0") (simp_all add: mode_reg_def steps_reg_mode_0 address_getRegisterType)

lemma mode_reg_fixed [simp]:
  "general_reg r \<Longrightarrow> mode_reg ADDR_MODE_DIRECT_DATA r"
  "general_reg r \<Longrightarrow> mode_reg ADDR_MODE_DIRECT_ADDR r"
  "general_reg r \<Longrightarrow> mode_reg ADDR_MODE_IMMEDIATE r"
  "general_reg r \<Longrightarrow> mode_reg ADDR_MODE_UNKNOWN r"
  "address_reg r \<Longrightarrow> mode_reg ADDR_MODE_INDIRECT_PREDECREMENT r"
  by (simp_all add: mode_reg_def steps_reg_def)

text \<open>The operands an instruction reads with \<open>getData\<close>.\<close>

fun read_ok :: "Ins \<Rightarrow> bool" where
  "read_ok (I_Add i) \<longleftrightarrow> mode_reg (Add.src_mode i) (Add.src_reg i)"
| "read_ok (I_Adda i) \<longleftrightarrow> mode_reg (Adda.src_mode i) (Adda.src_reg i)"
| "read_ok (I_Addx i) \<longleftrightarrow> mode_reg (Addx.src_mode i) (Addx.src_reg i)"
| "read_ok (I_Sub i) \<longleftrightarrow> mode_reg (Sub.src_mode i) (Sub.src_reg i)"
| "read_ok (I_Suba i) \<longleftrightarrow> mode_reg (Suba.src_mode i) (Suba.src_reg i)"
| "read_ok (I_Subx i) \<longleftrightarrow> mode_reg (Subx.src_mode i) (Subx.src_reg i)"
| "read_ok (I_And i) \<longleftrightarrow> mode_reg (And.src_mode i) (And.src_reg i)"
| "read_ok (I_Or i) \<longleftrightarrow> mode_reg (Or.src_mode i) (Or.src_reg i)"
| "read_ok (I_Eor i) \<longleftrightarrow> mode_reg (Eor.src_mode i) (Eor.src_reg i)"
| "read_ok (I_Cmp i) \<longleftrightarrow> mode_reg (Cmp.src_mode i) (Cmp.src_reg i)"
| "read_ok (I_Cmpa i) \<longleftrightarrow> mode_reg (Cmpa.src_mode i) (Cmpa.src_reg i)"
| "read_ok (I_Cmpi i) \<longleftrightarrow> mode_reg (Cmpi.dest_mode i) (Cmpi.dest_reg i)"
| "read_ok (I_Tst i) \<longleftrightarrow> mode_reg (Tst.ea_mode i) (Tst.ea_reg i)"
| "read_ok (I_Move i) \<longleftrightarrow> mode_reg (Move.src_mode i) (Move.src_reg i)"
| "read_ok (I_Mul i) \<longleftrightarrow> mode_reg (Mul.src_mode i) (Mul.src_reg i)"
| "read_ok (I_Div i) \<longleftrightarrow> mode_reg (Div.src_mode i) (Div.src_reg i)"
| "read_ok (I_BitManip i) \<longleftrightarrow> mode_reg (BitManip.src_mode i) (BitManip.src_reg i)"
| "read_ok _ \<longleftrightarrow> True"

lemma read_ok_create:
  "read_ok (Add_create opc)"
  "read_ok (Adda_create opc)"
  "read_ok (Addi_create opc)"
  "read_ok (Addq_create opc)"
  "read_ok (Addx_create opc)"
  "read_ok (Sub_create opc)"
  "read_ok (Suba_create opc)"
  "read_ok (Subi_create opc)"
  "read_ok (Subq_create opc)"
  "read_ok (Subx_create opc)"
  "read_ok (And_create opc)"
  "read_ok (Andi_create opc)"
  "read_ok (Or_create opc)"
  "read_ok (Ori_create opc)"
  "read_ok (Eor_create opc)"
  "read_ok (Eori_create opc)"
  "read_ok (Cmp_create opc)"
  "read_ok (Cmpa_create opc)"
  "read_ok (Cmpi_create opc)"
  "read_ok (Tst_create opc)"
  "read_ok (Clr_create opc)"
  "read_ok (Neg_create opc)"
  "read_ok (Move_create opc)"
  "read_ok (Moveq_create opc)"
  "read_ok (Lea_create opc)"
  "read_ok (Pea_create opc)"
  "read_ok (Ext_create opc)"
  "read_ok (Mul_create opc)"
  "read_ok (Div_create opc)"
  "read_ok (BitManip_create opc)"
  "read_ok (BitShift_create opc)"
  "read_ok (Bcc_create opc)"
  "read_ok (Scc_create opc)"
  "read_ok (Jmp_create opc)"
  "read_ok (Jsr_create opc)"
  "read_ok (Rts_create opc)"
  "read_ok (Link_create opc)"
  "read_ok (Unlk_create opc)"
  "read_ok (Nop_create opc)"
  "read_ok (Illegal_create opc)"
  by (simp_all add: create_defs new_defs Let_def mode_0 address_getRegisterType)

lemma table_read_ok: "\<forall>e\<in>set opcode_mask_table. \<forall>opc. read_ok (create_function e opc)"
  by (simp add: opcode_mask_table_def row_def read_ok_create)

lemma decode_read_ok: "read_ok (decode_spec opc)"
  by (rule decode_spec_cases) (use table_read_ok read_ok_create in auto)

section \<open>Every instruction fails within the frame\<close>

context failure_frame
begin

lemma fails_store: "general_reg r \<Longrightarrow> (\<And>x. no_throw (f x)) \<Longrightarrow> fails R (bindE (setData m r sz v) f)"
  by (rule fails_then [OF fails_setData])

lemma fails_push: "(\<And>x. no_throw (f x)) \<Longrightarrow> fails R (bindE (stackPush sz v) f)"
  by (rule fails_then [OF fails_stackPush])

lemma keeps_words [keeps_intros]: "keeps R (mul_result sg a b)" "keeps R (div_result sg a b)"
  by (rule pure_keeps, rule pure_results)+

lemma keeps_Bcc_displacement [keeps_intros]: "keeps R (Bcc_displacement i)"
  unfolding Bcc_displacement_def by (cases "Bcc.data_size i") (auto intro!: keeps_intros)

text \<open>The rules in the order in which they are tried.\<close>

lemmas fails_steps =
  fails_store fails_push fails_setData fails_stackPush fails_Let fails_if
  no_throw_fails [OF no_throw_seq] no_throw_fails [OF no_throw_when]
  no_throw_fails [OF no_throw_regs_long(1)] no_throw_fails [OF no_throw_regs_long(2)]

lemmas general_rules = mode_reg_general general_reg_simps

text \<open>A shift throws before it sets a flag.\<close>

lemma keeps_shift_words [keeps_intros]: "keeps R (LSL a b)" "keeps R (LSR a b)"
  by (simp_all add: LSL_def LSR_def keeps_return keeps_throw)

lemma keeps_rotate_words [keeps_intros]:
  "keeps R (ROL_8 a b)" "keeps R (ROL_9 a b)" "keeps R (ROL_16 a b)" "keeps R (ROL_17 a b)"
  "keeps R (ROL_32 a b)" "keeps R (ROL_33 a b)" "keeps R (ROR_8 a b)" "keeps R (ROR_9 a b)"
  "keeps R (ROR_16 a b)" "keeps R (ROR_17 a b)" "keeps R (ROR_32 a b)" "keeps R (ROR_33 a b)"
  unfolding ROL_8_def ROL_9_def ROL_16_def ROL_17_def ROL_32_def ROL_33_def
    ROR_8_def ROR_9_def ROR_16_def ROR_17_def ROR_32_def ROR_33_def
  by (intro keeps_intros)+

lemma keeps_rotate [keeps_intros]: "keeps R (ROL a b sz)" "keeps R (ROR a b sz)"
  by (cases sz; auto intro!: keeps_intros)+

lemmas shift_steps =
  fails_Let fails_if no_throw_fails [OF no_throw_return]
  no_throw_fails [OF no_throw_bind [OF no_throw_shift_flags no_throw_return]]
  no_throw_fails [OF no_throw_bind [OF no_throw_flag_set no_throw_return]]

lemma fails_shift_AS: "fails R (shift_AS l sz a n)"
  unfolding shift_AS_def by (rule shift_steps | (rule fails_bind, (intro keeps_intros; fail)))+

lemma fails_shift_LS: "fails R (shift_LS l a n)"
  unfolding shift_LS_def by (rule shift_steps | (rule fails_bind, (intro keeps_intros; fail)))+

lemma fails_shift_ROX: "fails R (shift_ROX l sz a n)"
  unfolding shift_ROX_def
  by (cases sz; simp only: DataSize.case; (rule shift_steps | (rule fails_bind, (auto intro!: keeps_intros; fail)))+)

lemma fails_shift_RO: "fails R (shift_RO l sz a n)"
  unfolding shift_RO_def by (rule shift_steps | (rule fails_bind, (intro keeps_intros; fail)))+

lemma fails_BitShift: "regs_ok (I_BitShift i) \<Longrightarrow> fails R (BitShift_execute i)"
  unfolding BitShift_execute_def
  by (rule fails_steps | (rule fails_bind, (auto intro!: keeps_intros; fail))
    | (rule fails_then, (cases "instruction_type i"; simp add: fails_shift_AS fails_shift_LS fails_shift_ROX fails_shift_RO; fail))
    | (auto intro!: no_throw_intros; fail))+

lemma fails_Bcc: "fails R (Bcc_execute i)"
  unfolding Bcc_execute_def
  by (cases "Bcc.condition i"; simp only: Condition.case;
    (rule fails_steps | (rule fails_bind, (intro keeps_intros; fail)) | (auto intro!: no_throw_intros; fail))+)

lemma fails_Add: "regs_ok (I_Add i) \<Longrightarrow> modes_ok (I_Add i) \<Longrightarrow> read_ok (I_Add i) \<Longrightarrow> fails R (Add_execute i)"
  unfolding Add_execute_def
  by (rule fails_steps | (rule fails_bind, (intro keeps_intros; simp; fail)) | (auto intro!: no_throw_intros; fail))+

lemma fails_Adda: "regs_ok (I_Adda i) \<Longrightarrow> modes_ok (I_Adda i) \<Longrightarrow> read_ok (I_Adda i) \<Longrightarrow> fails R (Adda_execute i)"
  unfolding Adda_execute_def
  by (rule fails_steps | (rule fails_bind, (intro keeps_intros; simp; fail)) | (auto intro!: no_throw_intros; fail))+

lemma fails_Addi: "regs_ok (I_Addi i) \<Longrightarrow> modes_ok (I_Addi i) \<Longrightarrow> read_ok (I_Addi i) \<Longrightarrow> fails R (Addi_execute i)"
  unfolding Addi_execute_def
  by (rule fails_steps | (rule fails_bind, (intro keeps_intros; simp; fail)) | (auto intro!: no_throw_intros; fail))+

lemma fails_Addq: "regs_ok (I_Addq i) \<Longrightarrow> modes_ok (I_Addq i) \<Longrightarrow> read_ok (I_Addq i) \<Longrightarrow> fails R (Addq_execute i)"
  unfolding Addq_execute_def
  by (rule fails_steps | (rule fails_bind, (intro keeps_intros; simp; fail)) | (auto intro!: no_throw_intros; fail))+

lemma fails_Addx: "regs_ok (I_Addx i) \<Longrightarrow> modes_ok (I_Addx i) \<Longrightarrow> read_ok (I_Addx i) \<Longrightarrow> fails R (Addx_execute i)"
  unfolding Addx_execute_def
  by (rule fails_steps | (rule fails_bind, (intro keeps_intros; simp; fail)) | (auto intro!: no_throw_intros; fail))+

lemma fails_Sub: "regs_ok (I_Sub i) \<Longrightarrow> modes_ok (I_Sub i) \<Longrightarrow> read_ok (I_Sub i) \<Longrightarrow> fails R (Sub_execute i)"
  unfolding Sub_execute_def
  by (rule fails_steps | (rule fails_bind, (intro keeps_intros; simp; fail)) | (auto intro!: no_throw_intros; fail))+

lemma fails_Suba: "regs_ok (I_Suba i) \<Longrightarrow> modes_ok (I_Suba i) \<Longrightarrow> read_ok (I_Suba i) \<Longrightarrow> fails R (Suba_execute i)"
  unfolding Suba_execute_def
  by (rule fails_steps | (rule fails_bind, (intro keeps_intros; simp; fail)) | (auto intro!: no_throw_intros; fail))+

lemma fails_Subi: "regs_ok (I_Subi i) \<Longrightarrow> modes_ok (I_Subi i) \<Longrightarrow> read_ok (I_Subi i) \<Longrightarrow> fails R (Subi_execute i)"
  unfolding Subi_execute_def
  by (rule fails_steps | (rule fails_bind, (intro keeps_intros; simp; fail)) | (auto intro!: no_throw_intros; fail))+

lemma fails_Subq: "regs_ok (I_Subq i) \<Longrightarrow> modes_ok (I_Subq i) \<Longrightarrow> read_ok (I_Subq i) \<Longrightarrow> fails R (Subq_execute i)"
  unfolding Subq_execute_def
  by (rule fails_steps | (rule fails_bind, (intro keeps_intros; simp; fail)) | (auto intro!: no_throw_intros; fail))+

lemma fails_Subx: "regs_ok (I_Subx i) \<Longrightarrow> modes_ok (I_Subx i) \<Longrightarrow> read_ok (I_Subx i) \<Longrightarrow> fails R (Subx_execute i)"
  unfolding Subx_execute_def
  by (rule fails_steps | (rule fails_bind, (intro keeps_intros; simp; fail)) | (auto intro!: no_throw_intros; fail))+

lemma fails_And: "regs_ok (I_And i) \<Longrightarrow> modes_ok (I_And i) \<Longrightarrow> read_ok (I_And i) \<Longrightarrow> fails R (And_execute i)"
  unfolding And_execute_def
  by (rule fails_steps | (rule fails_bind, (intro keeps_intros; simp; fail)) | (auto intro!: no_throw_intros; fail))+

lemma fails_Andi: "regs_ok (I_Andi i) \<Longrightarrow> modes_ok (I_Andi i) \<Longrightarrow> read_ok (I_Andi i) \<Longrightarrow> fails R (Andi_execute i)"
  unfolding Andi_execute_def
  by (rule fails_steps | (rule fails_bind, (intro keeps_intros; simp; fail)) | (auto intro!: no_throw_intros; fail))+

lemma fails_Or: "regs_ok (I_Or i) \<Longrightarrow> modes_ok (I_Or i) \<Longrightarrow> read_ok (I_Or i) \<Longrightarrow> fails R (Or_execute i)"
  unfolding Or_execute_def
  by (rule fails_steps | (rule fails_bind, (intro keeps_intros; simp; fail)) | (auto intro!: no_throw_intros; fail))+

lemma fails_Ori: "regs_ok (I_Ori i) \<Longrightarrow> modes_ok (I_Ori i) \<Longrightarrow> read_ok (I_Ori i) \<Longrightarrow> fails R (Ori_execute i)"
  unfolding Ori_execute_def
  by (rule fails_steps | (rule fails_bind, (intro keeps_intros; simp; fail)) | (auto intro!: no_throw_intros; fail))+

lemma fails_Eor: "regs_ok (I_Eor i) \<Longrightarrow> modes_ok (I_Eor i) \<Longrightarrow> read_ok (I_Eor i) \<Longrightarrow> fails R (Eor_execute i)"
  unfolding Eor_execute_def
  by (rule fails_steps | (rule fails_bind, (intro keeps_intros; simp; fail)) | (auto intro!: no_throw_intros; fail))+

lemma fails_Eori: "regs_ok (I_Eori i) \<Longrightarrow> modes_ok (I_Eori i) \<Longrightarrow> read_ok (I_Eori i) \<Longrightarrow> fails R (Eori_execute i)"
  unfolding Eori_execute_def
  by (rule fails_steps | (rule fails_bind, (intro keeps_intros; simp; fail)) | (auto intro!: no_throw_intros; fail))+

lemma fails_Cmp: "regs_ok (I_Cmp i) \<Longrightarrow> modes_ok (I_Cmp i) \<Longrightarrow> read_ok (I_Cmp i) \<Longrightarrow> fails R (Cmp_execute i)"
  unfolding Cmp_execute_def
  by (rule fails_steps | (rule fails_bind, (intro keeps_intros; simp; fail)) | (auto intro!: no_throw_intros; fail))+

lemma fails_Cmpa: "regs_ok (I_Cmpa i) \<Longrightarrow> modes_ok (I_Cmpa i) \<Longrightarrow> read_ok (I_Cmpa i) \<Longrightarrow> fails R (Cmpa_execute i)"
  unfolding Cmpa_execute_def
  by (rule fails_steps | (rule fails_bind, (intro keeps_intros; simp; fail)) | (auto intro!: no_throw_intros; fail))+

lemma fails_Cmpi: "regs_ok (I_Cmpi i) \<Longrightarrow> modes_ok (I_Cmpi i) \<Longrightarrow> read_ok (I_Cmpi i) \<Longrightarrow> fails R (Cmpi_execute i)"
  unfolding Cmpi_execute_def
  by (rule fails_steps | (rule fails_bind, (intro keeps_intros; simp; fail)) | (auto intro!: no_throw_intros; fail))+

lemma fails_Tst: "regs_ok (I_Tst i) \<Longrightarrow> modes_ok (I_Tst i) \<Longrightarrow> read_ok (I_Tst i) \<Longrightarrow> fails R (Tst_execute i)"
  unfolding Tst_execute_def
  by (rule fails_steps | (rule fails_bind, (intro keeps_intros; simp; fail)) | (auto intro!: no_throw_intros; fail))+

lemma fails_Clr: "regs_ok (I_Clr i) \<Longrightarrow> modes_ok (I_Clr i) \<Longrightarrow> read_ok (I_Clr i) \<Longrightarrow> fails R (Clr_execute i)"
  unfolding Clr_execute_def
  by (rule fails_steps | (rule fails_bind, (intro keeps_intros; simp; fail)) | (auto intro!: no_throw_intros; fail))+

lemma fails_Neg: "regs_ok (I_Neg i) \<Longrightarrow> modes_ok (I_Neg i) \<Longrightarrow> read_ok (I_Neg i) \<Longrightarrow> fails R (Neg_execute i)"
  unfolding Neg_execute_def
  by (rule fails_steps | (rule fails_bind, (intro keeps_intros; simp; fail)) | (auto intro!: no_throw_intros; fail))+

lemma fails_Move: "regs_ok (I_Move i) \<Longrightarrow> modes_ok (I_Move i) \<Longrightarrow> read_ok (I_Move i) \<Longrightarrow> fails R (Move_execute i)"
  unfolding Move_execute_def
  by (rule fails_steps | (rule fails_bind, (intro keeps_intros; simp; fail)) | (auto intro!: no_throw_intros; fail))+

lemma fails_Moveq: "regs_ok (I_Moveq i) \<Longrightarrow> modes_ok (I_Moveq i) \<Longrightarrow> read_ok (I_Moveq i) \<Longrightarrow> fails R (Moveq_execute i)"
  unfolding Moveq_execute_def
  by (rule fails_steps | (rule fails_bind, (intro keeps_intros; simp; fail)) | (auto intro!: no_throw_intros; fail))+

lemma fails_Lea: "regs_ok (I_Lea i) \<Longrightarrow> modes_ok (I_Lea i) \<Longrightarrow> read_ok (I_Lea i) \<Longrightarrow> fails R (Lea_execute i)"
  unfolding Lea_execute_def
  by (rule fails_steps | (rule fails_bind, (intro keeps_intros; simp; fail)) | (auto intro!: no_throw_intros; fail))+

lemma fails_Pea: "regs_ok (I_Pea i) \<Longrightarrow> modes_ok (I_Pea i) \<Longrightarrow> read_ok (I_Pea i) \<Longrightarrow> fails R (Pea_execute i)"
  unfolding Pea_execute_def
  by (rule fails_steps | (rule fails_bind, (intro keeps_intros; simp; fail)) | (auto intro!: no_throw_intros; fail))+

lemma fails_Ext: "regs_ok (I_Ext i) \<Longrightarrow> modes_ok (I_Ext i) \<Longrightarrow> read_ok (I_Ext i) \<Longrightarrow> fails R (Ext_execute i)"
  unfolding Ext_execute_def
  by (rule fails_steps | (rule fails_bind, (intro keeps_intros; simp; fail)) | (auto intro!: no_throw_intros; fail))+

lemma fails_Mul: "regs_ok (I_Mul i) \<Longrightarrow> modes_ok (I_Mul i) \<Longrightarrow> read_ok (I_Mul i) \<Longrightarrow> fails R (Mul_execute i)"
  unfolding Mul_execute_def
  by (rule fails_steps | (rule fails_bind, (intro keeps_intros; simp; fail)) | (auto intro!: no_throw_intros; fail))+

lemma fails_Div: "regs_ok (I_Div i) \<Longrightarrow> modes_ok (I_Div i) \<Longrightarrow> read_ok (I_Div i) \<Longrightarrow> fails R (Div_execute i)"
  unfolding Div_execute_def
  by (rule fails_steps | (rule fails_bind, (intro keeps_intros; simp; fail)) | (auto intro!: no_throw_intros; fail))+

lemma fails_BitManip: "regs_ok (I_BitManip i) \<Longrightarrow> modes_ok (I_BitManip i) \<Longrightarrow> read_ok (I_BitManip i) \<Longrightarrow> fails R (BitManip_execute i)"
  unfolding BitManip_execute_def
  by (rule fails_steps | (rule fails_bind, (intro keeps_intros; simp; fail)) | (auto intro!: no_throw_intros; fail))+

lemma fails_Scc: "regs_ok (I_Scc i) \<Longrightarrow> modes_ok (I_Scc i) \<Longrightarrow> read_ok (I_Scc i) \<Longrightarrow> fails R (Scc_execute i)"
  unfolding Scc_execute_def
  by (rule fails_steps | (rule fails_bind, (intro keeps_intros; simp; fail)) | (auto intro!: no_throw_intros; fail))+

lemma fails_Jmp: "regs_ok (I_Jmp i) \<Longrightarrow> modes_ok (I_Jmp i) \<Longrightarrow> read_ok (I_Jmp i) \<Longrightarrow> fails R (Jmp_execute i)"
  unfolding Jmp_execute_def
  by (rule fails_steps | (rule fails_bind, (intro keeps_intros; simp; fail)) | (auto intro!: no_throw_intros; fail))+

lemma fails_Jsr: "regs_ok (I_Jsr i) \<Longrightarrow> modes_ok (I_Jsr i) \<Longrightarrow> read_ok (I_Jsr i) \<Longrightarrow> fails R (Jsr_execute i)"
  unfolding Jsr_execute_def
  by (rule fails_steps | (rule fails_bind, (intro keeps_intros; simp; fail)) | (auto intro!: no_throw_intros; fail))+

lemma fails_Rts: "regs_ok (I_Rts i) \<Longrightarrow> modes_ok (I_Rts i) \<Longrightarrow> read_ok (I_Rts i) \<Longrightarrow> fails R (Rts_execute i)"
  unfolding Rts_execute_def
  by (rule fails_steps | (rule fails_bind, (intro keeps_intros; simp; fail)) | (auto intro!: no_throw_intros; fail))+

lemma fails_Link: "regs_ok (I_Link i) \<Longrightarrow> modes_ok (I_Link i) \<Longrightarrow> read_ok (I_Link i) \<Longrightarrow> fails R (Link_execute i)"
  unfolding Link_execute_def
  by (rule fails_steps | (rule fails_bind, (intro keeps_intros; simp; fail)) | (auto intro!: no_throw_intros; fail))+

lemma fails_Unlk: "regs_ok (I_Unlk i) \<Longrightarrow> modes_ok (I_Unlk i) \<Longrightarrow> read_ok (I_Unlk i) \<Longrightarrow> fails R (Unlk_execute i)"
  unfolding Unlk_execute_def
  by (rule fails_steps | (rule fails_bind, (intro keeps_intros; simp; fail)) | (auto intro!: no_throw_intros; fail))+

lemma fails_Nop: "fails R (Nop_execute i)"
  unfolding Nop_execute_def by (intro keeps_fails keeps_intros)

lemma fails_Illegal: "fails R (Illegal_execute i)"
  unfolding Illegal_execute_def by (intro keeps_fails keeps_intros)

lemma execute_fails: "regs_ok i \<Longrightarrow> modes_ok i \<Longrightarrow> read_ok i \<Longrightarrow> fails R (execute i)"
  by (cases i; simp only: execute.simps;
    intro fails_Add fails_Adda fails_Addi fails_Addq fails_Addx fails_Sub fails_Suba fails_Subi
      fails_Subq fails_Subx fails_And fails_Andi fails_Or fails_Ori fails_Eor fails_Eori
      fails_Cmp fails_Cmpa fails_Cmpi fails_Tst fails_Clr fails_Neg fails_Move fails_Moveq
      fails_Lea fails_Pea fails_Ext fails_Mul fails_Div fails_BitManip fails_BitShift
      fails_Bcc fails_Scc fails_Jmp fails_Jsr fails_Rts fails_Link fails_Unlk fails_Nop
      fails_Illegal)

end

section \<open>A step that throws\<close>

text \<open>What is left of the state: all of memory, the data registers and the whole status register.\<close>

definition same_data :: "CPUState \<Rightarrow> CPUState \<Rightarrow> bool" where
  "same_data s t \<longleftrightarrow> memory t = memory s \<and>
     (\<forall>r. reg_index r < 8 \<or> r = REG_SR \<longrightarrow> reg_buffer (registers t) r = reg_buffer (registers s) r)"

interpretation data: failure_frame same_data
  by unfold_locales (auto simp: same_data_def keeps_def rput_def bank_def address_reg_def general_reg_def)

lemma step_fails:
  assumes "decoder_ok c" and "CPU_step c = (Inl e, d)"
  shows "same_data (state c) (state d)"
  using assms failsD_snd [OF data.execute_fails [OF decode_regs_ok decode_modes_ok decode_read_ok]]
  by (auto simp: CPU_step_eq on_state_apply data.frame_refl split: sum.splits)

text \<open>
  C15. A call of CPU::step that throws, whatever the instruction and the exception, has not
  written to memory, to a data register or to any bit of the status register, and has not touched
  the decoder: every instruction does what can throw before what it writes. Only the program
  counter and address registers can differ, which a caller that goes on stepping inherits.
\<close>

theorem failed_step_effects:
  assumes "decoder_ok c" and "CPU_step c = (Inl e, d)"
  shows "memory (state d) = memory (state c) \<and>
    (reg_index r < 8 \<longrightarrow> rval (state d) r = rval (state c) r) \<and>
    (\<forall>f. flag (state d) f = flag (state c) f) \<and>
    reg_buffer (registers (state d)) REG_SR = reg_buffer (registers (state c)) REG_SR \<and> instruction_decoder d = instruction_decoder c"
  using step_fails [OF assms] step_decoder [OF assms(2)]
  by (auto simp: same_data_def rval_def bank_def flag_def Registers_get_flag_def)

end
