(* ===== verification/Ins_Alu.thy ===== *)
theory Ins_Alu
  imports Decoder
begin

text \<open>
  The arithmetic and logical instructions against a specification over numbers: which operand is
  combined with which, what is written, and the condition codes X N Z V C as statements about
  the unsigned and signed values of the operands.
\<close>

section \<open>Condition codes over numbers\<close>

type_synonym ccr = "bool \<times> bool \<times> bool \<times> bool \<times> bool"

text \<open>
  The code computes sums in 32 bits before it widens them, so a long operation never carries.
  For a subtraction it takes the overflow of the sum of the operands.
\<close>

definition add_ccr :: "DataSize \<Rightarrow> 32 word \<Rightarrow> 32 word \<Rightarrow> ccr" where
  "add_ccr sz a b =
     (let c = (sz \<noteq> SIZE_LONG \<and> 2 ^ bits_of sz \<le> uval sz a + uval sz b) in
      (c, sval sz (a + b) < 0, uval sz (a + b) = 0, sval sz (a + b) \<noteq> sval sz a + sval sz b, c))"

definition sub_ccr :: "DataSize \<Rightarrow> 32 word \<Rightarrow> 32 word \<Rightarrow> ccr" where
  "sub_ccr sz a b =
     (let c = (sz \<noteq> SIZE_LONG \<and> uval sz b < uval sz a) in
      (c, sval sz (b - a) < 0, uval sz a = uval sz b, sval sz (a + b) \<noteq> sval sz a + sval sz b, c))"

definition neg_ccr :: "DataSize \<Rightarrow> 32 word \<Rightarrow> ccr" where
  "neg_ccr sz d =
     (let c = (sz \<noteq> SIZE_LONG \<and> uval sz d \<noteq> 0) in
      (c, sval sz (- d) < 0, uval sz d = 0, False, c))"

definition logic_ccr :: "DataSize \<Rightarrow> 32 word \<Rightarrow> ccr \<Rightarrow> ccr" where
  "logic_ccr sz r old = (fst old, sval sz r < 0, uval sz r = 0, False, False)"

lemma IS_ZERO_wide: "proper_size sz \<Longrightarrow> IS_ZERO (wide v) sz \<longleftrightarrow> uval sz v = 0"
  by (cases sz) (simp_all add: IS_ZERO_uval uval_def wide_def uint_up_ucast is_up del: IS_ZERO.simps)

lemma IS_NEGATIVE_wide: "proper_size sz \<Longrightarrow> IS_NEGATIVE (wide v) sz \<longleftrightarrow> sval sz v < 0"
  by (cases sz) (simp_all add: sval_neg sval_def wide_def uint_up_ucast is_up del: IS_NEGATIVE.simps)

lemma IS_CARRY_wide_add:
  assumes "proper_size sz" and "fits sz a" and "fits sz b"
  shows "IS_CARRY (wide (a + b)) sz \<longleftrightarrow> sz \<noteq> SIZE_LONG \<and> 2 ^ bits_of sz \<le> uval sz a + uval sz b"
  using assms IS_CARRY_add [of sz a b] IS_CARRY_long [of "a + b"]
  by (cases sz) (simp_all add: wide_def del: IS_CARRY.simps)

lemma IS_CARRY_wide_sub:
  assumes "proper_size sz" and "fits sz a" and "fits sz b"
  shows "IS_CARRY (wide (b - a)) sz \<longleftrightarrow> sz \<noteq> SIZE_LONG \<and> uval sz b < uval sz a"
  using assms IS_CARRY_sub [of sz a b] IS_CARRY_long [of "b - a"]
  by (cases sz) (simp_all add: wide_def del: IS_CARRY.simps)

lemma uval_diff_0: "proper_size sz \<Longrightarrow> uval sz (b - a) = 0 \<longleftrightarrow> uval sz a = uval sz b" for a b :: "32 word"
proof -
  assume p: "proper_size sz"
  have *: "(x - y) mod M = 0 \<longleftrightarrow> y = x" if "0 \<le> x" "x < M" "0 \<le> y" "y < M" for x y M :: int
    using that by (metis cancel_comm_monoid_add_class.diff_cancel mod_eq_dvd_iff mod_pos_pos_trivial
        mod_0_imp_dvd dvd_imp_mod_0)
  show ?thesis
    using * [OF uval_bounds uval_bounds, of sz b a] by (simp add: uval_add(2) [OF p])
qed

text \<open>The same with the extend flag as a carry in.\<close>

definition addx_ccr :: "DataSize \<Rightarrow> 32 word \<Rightarrow> 32 word \<Rightarrow> ccr \<Rightarrow> ccr" where
  "addx_ccr sz a b old =
     (let x = of_bool (fst old); r = a + b + of_bool (fst old);
          c = (sz \<noteq> SIZE_LONG \<and> 2 ^ bits_of sz \<le> uval sz a + uval sz b + x) in
      (c, sval sz r < 0, uval sz r = 0 \<and> fst (snd (snd old)), sval sz (a + b) \<noteq> sval sz a + sval sz b, c))"

definition subx_ccr :: "DataSize \<Rightarrow> 32 word \<Rightarrow> 32 word \<Rightarrow> ccr \<Rightarrow> ccr" where
  "subx_ccr sz a b old =
     (let x = of_bool (fst old); r = b - a - of_bool (fst old);
          c = (sz \<noteq> SIZE_LONG \<and> uval sz b < uval sz a + x) in
      (c, sval sz r < 0, uval sz r = 0 \<and> fst (snd (snd old)), sval sz (a + b) \<noteq> sval sz a + sval sz b, c))"

lemma IS_CARRY_wide: "proper_size sz \<Longrightarrow> IS_CARRY (wide w) sz \<longleftrightarrow> 2 ^ bits_of sz \<le> uint w"
  by (cases sz) (simp_all add: IS_CARRY_uint wide_def uint_up_ucast is_up del: IS_CARRY.simps)

lemma short_bound: "sz = SIZE_BYTE \<or> sz = SIZE_WORD \<Longrightarrow> (2::int) ^ bits_of sz \<le> 2 ^ 16"
  by auto

lemma carry_mod:
  fixes x y e P :: int
  assumes "0 \<le> x" "x < P" "0 \<le> y" "y < P" "0 \<le> e" "e \<le> 1" "P \<le> 2 ^ 16"
  shows "P \<le> (x + y + e) mod 2 ^ 32 \<longleftrightarrow> P \<le> x + y + e"
  using assms by (simp add: mod_pos_pos_trivial)

lemma borrow_mod:
  fixes x y e P :: int
  assumes "0 \<le> x" "x < P" "0 \<le> y" "y < P" "0 \<le> e" "e \<le> 1" "P \<le> 2 ^ 16"
  shows "P \<le> (y - x - e) mod 2 ^ 32 \<longleftrightarrow> y < x + e"
proof (cases "y < x + e")
  case True
  have "(y - x - e) mod 2 ^ 32 = (y - x - e + 2 ^ 32) mod 2 ^ 32" by (simp only: mod_add_self2)
  also have "\<dots> = y - x - e + 2 ^ 32" using assms True by (intro mod_pos_pos_trivial) simp_all
  finally show ?thesis using assms True by simp
next
  case False
  then show ?thesis using assms by (simp add: mod_pos_pos_trivial)
qed

lemma IS_CARRY_wide_addx:
  assumes "proper_size sz" and "fits sz a" and "fits sz b"
  shows "IS_CARRY (wide (a + b + of_bool x)) sz \<longleftrightarrow>
    sz \<noteq> SIZE_LONG \<and> 2 ^ bits_of sz \<le> uval sz a + uval sz b + of_bool x"
proof (cases "sz = SIZE_LONG")
  case True
  then show ?thesis using IS_CARRY_long [of "a + b + of_bool x"] by (simp add: wide_def)
next
  case False
  with assms(1) have s: "sz = SIZE_BYTE \<or> sz = SIZE_WORD" by (cases sz) simp_all
  have "uint (a + b + of_bool x) = (uint a + uint b + of_bool x) mod 2 ^ 32"
    by (cases x) (simp_all add: uint_word_ariths mod_simps)
  then show ?thesis
    using assms False carry_mod [OF _ _ _ _ _ _ short_bound [OF s], of "uint a" "uint b" "of_bool x"]
    by (simp add: IS_CARRY_wide fits_uval fits_def)
qed

lemma IS_CARRY_wide_subx:
  assumes "proper_size sz" and "fits sz a" and "fits sz b"
  shows "IS_CARRY (wide (b - a - of_bool x)) sz \<longleftrightarrow>
    sz \<noteq> SIZE_LONG \<and> uval sz b < uval sz a + of_bool x"
proof (cases "sz = SIZE_LONG")
  case True
  then show ?thesis using IS_CARRY_long [of "b - a - of_bool x"] by (simp add: wide_def)
next
  case False
  with assms(1) have s: "sz = SIZE_BYTE \<or> sz = SIZE_WORD" by (cases sz) simp_all
  have "uint (b - a - of_bool x) = (uint b - uint a - of_bool x) mod 2 ^ 32"
    by (cases x) (simp_all add: uint_word_ariths mod_simps)
  then show ?thesis
    using assms False borrow_mod [OF _ _ _ _ _ _ short_bound [OF s], of "uint a" "uint b" "of_bool x"]
    by (simp add: IS_CARRY_wide fits_uval fits_def)
qed

lemmas flag_tests = IS_ZERO_wide IS_NEGATIVE_wide IS_CARRY_wide_add IS_CARRY_wide_sub
  IS_CARRY_wide_addx IS_CARRY_wide_subx IS_OVERFLOW_sval uval_diff_0

lemma ccr_only_fput [simp]: "ccr_only s t \<Longrightarrow> user_flag f \<Longrightarrow> ccr_only s (fput t f b)"
  by (auto simp: ccr_only_def fput_def flag_set_bit user_flag_def)

lemma ccr_only_refl [simp]: "ccr_only s s"
  by (simp add: ccr_only_def)

section \<open>The specification\<close>

text \<open>
  An instruction of this group: its source operand, its destination and size, the function of
  the extend flag and the two operands that is written, and the condition codes as a function
  of the old ones and the two operands.
\<close>

record Alu =
  alu_src :: "(CPUState, 32 word) exec"
  alu_mode :: AddressingMode
  alu_reg :: RegisterType
  alu_size :: DataSize
  alu_fun :: "bool \<Rightarrow> 32 word \<Rightarrow> 32 word \<Rightarrow> 32 word"
  alu_ccr :: "ccr \<Rightarrow> 32 word \<Rightarrow> 32 word \<Rightarrow> ccr"

fun alu_spec :: "Ins \<Rightarrow> Alu option" where
  "alu_spec (I_Add i) = Some \<lparr>
     alu_src = getData (Add.src_mode i) (Add.src_reg i) (Add.data_size i),
     alu_mode = Add.dest_mode i, alu_reg = Add.dest_reg i, alu_size = Add.data_size i,
     alu_fun = (\<lambda>x a b. a + b),
     alu_ccr = (\<lambda>old a b. add_ccr (Add.data_size i) a b)\<rparr>"
| "alu_spec (I_Adda i) = Some \<lparr>
     alu_src = getData (Adda.src_mode i) (Adda.src_reg i) (Adda.data_size i),
     alu_mode = Adda.dest_mode i, alu_reg = Adda.dest_reg i, alu_size = Adda.data_size i,
     alu_fun = (\<lambda>x a b. a + b),
     alu_ccr = (\<lambda>old a b. old)\<rparr>"
| "alu_spec (I_Addi i) = Some \<lparr>
     alu_src = getData ADDR_MODE_IMMEDIATE REG_D0 (Addi.data_size i),
     alu_mode = Addi.dest_mode i, alu_reg = Addi.dest_reg i, alu_size = Addi.data_size i,
     alu_fun = (\<lambda>x a b. a + b),
     alu_ccr = (\<lambda>old a b. add_ccr (Addi.data_size i) a b)\<rparr>"
| "alu_spec (I_Addq i) = Some \<lparr>
     alu_src = returnE (ucast (Addq.imm_data i)),
     alu_mode = Addq.dest_mode i, alu_reg = Addq.dest_reg i, alu_size = Addq.data_size i,
     alu_fun = (\<lambda>x a b. a + b),
     alu_ccr = (\<lambda>old a b. if Addq.dest_mode i = ADDR_MODE_DIRECT_ADDR then old else add_ccr (Addq.data_size i) a b)\<rparr>"
| "alu_spec (I_Addx i) = Some \<lparr>
     alu_src = getData (Addx.src_mode i) (Addx.src_reg i) (Addx.data_size i),
     alu_mode = Addx.dest_mode i, alu_reg = Addx.dest_reg i, alu_size = Addx.data_size i,
     alu_fun = (\<lambda>x a b. a + b + of_bool x),
     alu_ccr = (\<lambda>old a b. addx_ccr (Addx.data_size i) a b old)\<rparr>"
| "alu_spec (I_Sub i) = Some \<lparr>
     alu_src = getData (Sub.src_mode i) (Sub.src_reg i) (Sub.data_size i),
     alu_mode = Sub.dest_mode i, alu_reg = Sub.dest_reg i, alu_size = Sub.data_size i,
     alu_fun = (\<lambda>x a b. b - a),
     alu_ccr = (\<lambda>old a b. sub_ccr (Sub.data_size i) a b)\<rparr>"
| "alu_spec (I_Suba i) = Some \<lparr>
     alu_src = getData (Suba.src_mode i) (Suba.src_reg i) (Suba.data_size i),
     alu_mode = Suba.dest_mode i, alu_reg = Suba.dest_reg i, alu_size = Suba.data_size i,
     alu_fun = (\<lambda>x a b. b - a),
     alu_ccr = (\<lambda>old a b. old)\<rparr>"
| "alu_spec (I_Subi i) = Some \<lparr>
     alu_src = getData ADDR_MODE_IMMEDIATE REG_D0 (Subi.data_size i),
     alu_mode = Subi.dest_mode i, alu_reg = Subi.dest_reg i, alu_size = Subi.data_size i,
     alu_fun = (\<lambda>x a b. b - a),
     alu_ccr = (\<lambda>old a b. sub_ccr (Subi.data_size i) a b)\<rparr>"
| "alu_spec (I_Subq i) = Some \<lparr>
     alu_src = returnE (ucast (Subq.imm_data i)),
     alu_mode = Subq.dest_mode i, alu_reg = Subq.dest_reg i, alu_size = Subq.data_size i,
     alu_fun = (\<lambda>x a b. b - a),
     alu_ccr = (\<lambda>old a b. if Subq.dest_mode i = ADDR_MODE_DIRECT_ADDR then old else sub_ccr (Subq.data_size i) a b)\<rparr>"
| "alu_spec (I_Subx i) = Some \<lparr>
     alu_src = getData (Subx.src_mode i) (Subx.src_reg i) (Subx.data_size i),
     alu_mode = Subx.dest_mode i, alu_reg = Subx.dest_reg i, alu_size = Subx.data_size i,
     alu_fun = (\<lambda>x a b. b - a - of_bool x),
     alu_ccr = (\<lambda>old a b. subx_ccr (Subx.data_size i) a b old)\<rparr>"
| "alu_spec (I_And i) = Some \<lparr>
     alu_src = getData (And.src_mode i) (And.src_reg i) (And.data_size i),
     alu_mode = And.dest_mode i, alu_reg = And.dest_reg i, alu_size = And.data_size i,
     alu_fun = (\<lambda>x a b. a AND b),
     alu_ccr = (\<lambda>old a b. logic_ccr (And.data_size i) (a AND b) old)\<rparr>"
| "alu_spec (I_Andi i) = Some \<lparr>
     alu_src = getData ADDR_MODE_IMMEDIATE REG_D0 (Andi.data_size i),
     alu_mode = Andi.dest_mode i, alu_reg = Andi.dest_reg i, alu_size = Andi.data_size i,
     alu_fun = (\<lambda>x a b. a AND b),
     alu_ccr = (\<lambda>old a b. logic_ccr (Andi.data_size i) (a AND b) old)\<rparr>"
| "alu_spec (I_Or i) = Some \<lparr>
     alu_src = getData (Or.src_mode i) (Or.src_reg i) (Or.data_size i),
     alu_mode = Or.dest_mode i, alu_reg = Or.dest_reg i, alu_size = Or.data_size i,
     alu_fun = (\<lambda>x a b. b OR a),
     alu_ccr = (\<lambda>old a b. logic_ccr (Or.data_size i) (b OR a) old)\<rparr>"
| "alu_spec (I_Ori i) = Some \<lparr>
     alu_src = getData ADDR_MODE_IMMEDIATE REG_D0 (Ori.data_size i),
     alu_mode = Ori.dest_mode i, alu_reg = Ori.dest_reg i, alu_size = Ori.data_size i,
     alu_fun = (\<lambda>x a b. b OR a),
     alu_ccr = (\<lambda>old a b. logic_ccr (Ori.data_size i) (b OR a) old)\<rparr>"
| "alu_spec (I_Eor i) = Some \<lparr>
     alu_src = getData (Eor.src_mode i) (Eor.src_reg i) (Eor.data_size i),
     alu_mode = Eor.dest_mode i, alu_reg = Eor.dest_reg i, alu_size = Eor.data_size i,
     alu_fun = (\<lambda>x a b. b XOR a),
     alu_ccr = (\<lambda>old a b. logic_ccr (Eor.data_size i) (b XOR a) old)\<rparr>"
| "alu_spec (I_Eori i) = Some \<lparr>
     alu_src = getData ADDR_MODE_IMMEDIATE REG_D0 (Eori.data_size i),
     alu_mode = Eori.dest_mode i, alu_reg = Eori.dest_reg i, alu_size = Eori.data_size i,
     alu_fun = (\<lambda>x a b. b XOR a),
     alu_ccr = (\<lambda>old a b. logic_ccr (Eori.data_size i) (b XOR a) old)\<rparr>"
| "alu_spec (I_Neg i) = Some \<lparr>
     alu_src = returnE 0,
     alu_mode = Neg.dest_mode i, alu_reg = Neg.dest_reg i, alu_size = Neg.data_size i,
     alu_fun = (\<lambda>x a b. a - b),
     alu_ccr = (\<lambda>old a b. neg_ccr (Neg.data_size i) b)\<rparr>"
| "alu_spec _ = None"

definition alu_meets :: "Alu \<Rightarrow> CPUState \<Rightarrow> CPUState \<Rightarrow> bool" where
  "alu_meets A s t \<longleftrightarrow>
     (\<exists>a b s1 s2. alu_src A (rput s REG_PC (pc_of s + 2)) = (Inr a, s1) \<and>
        getDataSilent (alu_mode A) (alu_reg A) (alu_size A) s1 = (Inr b, s1) \<and>
        setData (alu_mode A) (alu_reg A) (alu_size A)
          (alu_fun A (flag s SR_FLAG_EXTEND) a b) s1 = (Inr (), s2) \<and>
        ccr_only s2 t \<and> ccr_of t = alu_ccr A (ccr_of s) a b)"

lemma rmw_meets:
  assumes run: "rmw src dm dr sz f fl s = (Inr (), t)" and "proper_size sz" and "general_reg dr"
    and src: "\<And>s a s'. src s = (Inr a, s') \<Longrightarrow> fits sz a \<and> same_sr s s'"
    and fl: "\<And>a b s2 t. fits sz a \<Longrightarrow> fits sz b \<Longrightarrow> ccr_of s2 = ccr_of s \<Longrightarrow> fl a b s2 = (Inr (), t) \<Longrightarrow>
      ccr_only s2 t \<and> ccr_of t = c (ccr_of s2) a b"
  shows "\<exists>a b s1 s2. src (rput s REG_PC (pc_of s + 2)) = (Inr a, s1) \<and>
    getDataSilent dm dr sz s1 = (Inr b, s1) \<and> setData dm dr sz (f a b) s1 = (Inr (), s2) \<and>
    ccr_only s2 t \<and> ccr_of t = c (ccr_of s) a b"
proof -
  obtain a b s1 s2 where 1: "src (rput s REG_PC (pc_of s + 2)) = (Inr a, s1)"
    and 2: "getDataSilent dm dr sz s1 = (Inr b, s1)"
    and 3: "setData dm dr sz (f a b) s1 = (Inr (), s2)" and 4: "fl a b s2 = (Inr (), t)"
    using run by (rule rmw_cases)
  have "fits sz b" using 2 assms(2) by (simp add: fits_getDataSilent)
  moreover have a: "fits sz a" and sr1: "same_sr (rput s REG_PC (pc_of s + 2)) s1"
    using src [OF 1] by simp_all
  moreover have sr2: "same_sr s1 s2"
    using 3 keepsD [OF status.keeps_setData [OF assms(3)]] by blast
  have "ccr_of s2 = ccr_of s"
    unfolding ccr_of_def same_sr_flag [OF sr2] same_sr_flag [OF sr1] by simp
  ultimately have "ccr_only s2 t \<and> ccr_of t = c (ccr_of s) a b"
    using fl [OF _ _ _ 4] by simp
  with 1 2 3 show ?thesis by blast
qed

lemma src_data: "proper_size sz \<Longrightarrow> general_reg r \<Longrightarrow> getData m r sz s = (Inr a, s') \<Longrightarrow> fits sz a \<and> same_sr s s'"
  using fits_getData keepsD [OF status.keeps_getData] by blast

lemma src_imm: "proper_size sz \<Longrightarrow> getData ADDR_MODE_IMMEDIATE REG_D0 sz s = (Inr a, s') \<Longrightarrow> fits sz a \<and> same_sr s s'"
  by (rule src_data [where r = REG_D0 and m = ADDR_MODE_IMMEDIATE]; (assumption | rule general_reg_simps))

lemma src_imm8: "proper_size sz \<Longrightarrow> fits sz (ucast (v :: 8 word))"
  using uint_lt2p [of v] by (cases sz) (auto simp: fits_def uint_up_ucast is_up)

lemma same_sr_refl [simp]: "same_sr s s"
  by (simp add: same_sr_def)

lemma uval_0: "uval sz (0 :: 32 word) = 0"
  by (simp add: uval_def)

lemma neg_flags:
  "proper_size sz \<Longrightarrow> fits sz b \<Longrightarrow>
   IS_CARRY (wide (- b)) sz \<longleftrightarrow> sz \<noteq> SIZE_LONG \<and> uval sz b \<noteq> 0"
  "proper_size sz \<Longrightarrow> uval sz (- b) = 0 \<longleftrightarrow> uval sz b = 0" for b :: "32 word"
  using IS_CARRY_wide_sub [of sz b 0] uval_diff_0 [of sz 0 b] uval_bounds(1) [of sz b] uval_0 [of sz]
  by (auto simp: less_le)

section \<open>The flag writes of the code\<close>

definition arith_flags :: "DataSize \<Rightarrow> 32 word \<Rightarrow> 32 word \<Rightarrow> 32 word \<Rightarrow> (CPUState, unit) exec" where
  "arith_flags sz r a b =
     seqE [flag_set SR_FLAG_EXTEND (IS_CARRY (wide (r)) sz),
           flag_set SR_FLAG_NEGATIVE (IS_NEGATIVE (wide (r)) sz),
           flag_set SR_FLAG_ZERO (IS_ZERO (wide (r)) sz),
           flag_set SR_FLAG_OVERFLOW (IS_OVERFLOW a b sz),
           flag_set SR_FLAG_CARRY (IS_CARRY (wide (r)) sz)]"

definition logic_flags :: "DataSize \<Rightarrow> 32 word \<Rightarrow> (CPUState, unit) exec" where
  "logic_flags sz r =
     seqE [flag_set SR_FLAG_NEGATIVE (IS_NEGATIVE (wide (r)) sz),
           flag_set SR_FLAG_ZERO (IS_ZERO (wide (r)) sz),
           flag_set SR_FLAG_OVERFLOW False,
           flag_set SR_FLAG_CARRY False]"

definition extended_flags :: "DataSize \<Rightarrow> 32 word \<Rightarrow> 32 word \<Rightarrow> 32 word \<Rightarrow> (CPUState, unit) exec" where
  "extended_flags sz r a b =
     bindE (whenE (\<not> IS_ZERO (wide r) sz) (flag_set SR_FLAG_ZERO False)) (\<lambda>_.
     seqE [flag_set SR_FLAG_EXTEND (IS_CARRY (wide (r)) sz),
           flag_set SR_FLAG_NEGATIVE (IS_NEGATIVE (wide (r)) sz),
           flag_set SR_FLAG_OVERFLOW (IS_OVERFLOW a b sz),
           flag_set SR_FLAG_CARRY (IS_CARRY (wide (r)) sz)])"

lemmas flag_writes_defs = arith_flags_def logic_flags_def extended_flags_def

lemma add_flags:
  "proper_size sz \<Longrightarrow> fits sz a \<Longrightarrow> fits sz b \<Longrightarrow> arith_flags sz (a + b) a b s = (Inr (), t) \<Longrightarrow>
   ccr_only s t \<and> ccr_of t = add_ccr sz a b"
  by (auto simp: arith_flags_def add_ccr_def ccr_of_def flag_tests Let_def simp del: IS_OVERFLOW.simps)

lemma sub_flags:
  "proper_size sz \<Longrightarrow> fits sz a \<Longrightarrow> fits sz b \<Longrightarrow> arith_flags sz (b - a) a b s = (Inr (), t) \<Longrightarrow>
   ccr_only s t \<and> ccr_of t = sub_ccr sz a b"
  by (auto simp: arith_flags_def sub_ccr_def ccr_of_def flag_tests Let_def simp del: IS_OVERFLOW.simps)

lemma negate_flags:
  "proper_size sz \<Longrightarrow> fits sz b \<Longrightarrow> arith_flags sz (- b) 0 b s = (Inr (), t) \<Longrightarrow>
   ccr_only s t \<and> ccr_of t = neg_ccr sz b"
  using IS_OVERFLOW_sval [of sz 0 b]
  by (auto simp: arith_flags_def neg_ccr_def ccr_of_def flag_tests neg_flags sval_def Let_def
      simp del: IS_OVERFLOW.simps)

lemma logical_flags:
  "proper_size sz \<Longrightarrow> ccr_of s = ccr_of s0 \<Longrightarrow> logic_flags sz r s = (Inr (), t) \<Longrightarrow>
   ccr_only s t \<and> ccr_of t = logic_ccr sz r (ccr_of s0)"
  by (auto simp: logic_flags_def logic_ccr_def ccr_of_def flag_tests)

lemma addx_flags_x:
  "proper_size sz \<Longrightarrow> fits sz a \<Longrightarrow> fits sz b \<Longrightarrow> x = flag s SR_FLAG_EXTEND \<Longrightarrow>
   extended_flags sz (a + b + of_bool x) a b s = (Inr (), t) \<Longrightarrow>
   ccr_only s t \<and> ccr_of t = addx_ccr sz a b (ccr_of s)"
  by (cases x; cases "uval sz (a + b + of_bool x) = 0")
    (auto simp: extended_flags_def addx_ccr_def ccr_of_def flag_tests Let_def whenE_def
      IS_CARRY_wide_addx [where x = True, simplified] simp del: IS_OVERFLOW.simps)

lemma subx_flags_x:
  "proper_size sz \<Longrightarrow> fits sz a \<Longrightarrow> fits sz b \<Longrightarrow> x = flag s SR_FLAG_EXTEND \<Longrightarrow>
   extended_flags sz (b - a - of_bool x) a b s = (Inr (), t) \<Longrightarrow>
   ccr_only s t \<and> ccr_of t = subx_ccr sz a b (ccr_of s)"
  by (cases x; cases "uval sz (b - a - of_bool x) = 0")
    (auto simp: extended_flags_def subx_ccr_def ccr_of_def flag_tests Let_def whenE_def
      IS_CARRY_wide_subx [where x = True, simplified] simp del: IS_OVERFLOW.simps)

lemma subx_flags:
  "proper_size sz \<Longrightarrow> fits sz a \<Longrightarrow> fits sz b \<Longrightarrow> ccr_of s = ccr_of s0 \<Longrightarrow>
   extended_flags sz (b - a - of_bool (flag s0 SR_FLAG_EXTEND)) a b s = (Inr (), t) \<Longrightarrow>
   ccr_only s t \<and> ccr_of t = subx_ccr sz a b (ccr_of s0)"
  using subx_flags_x [of sz a b "flag s0 SR_FLAG_EXTEND" s t] by (simp add: ccr_of_def)

lemma addx_flags:
  "proper_size sz \<Longrightarrow> fits sz a \<Longrightarrow> fits sz b \<Longrightarrow> ccr_of s = ccr_of s0 \<Longrightarrow>
   extended_flags sz (a + b + of_bool (flag s0 SR_FLAG_EXTEND)) a b s = (Inr (), t) \<Longrightarrow>
   ccr_only s t \<and> ccr_of t = addx_ccr sz a b (ccr_of s0)"
  using addx_flags_x [of sz a b "flag s0 SR_FLAG_EXTEND" s t] by (simp add: ccr_of_def)

section \<open>The code has the shape of the specification\<close>

lemma bindE_unit: "bindE m returnE = m"
  by (auto simp: bindE_def returnE_def fun_eq_iff split: prod.split sum.split)

lemma Add_rmw:
  "Add_execute i = rmw (getData (Add.src_mode i) (Add.src_reg i) (Add.data_size i))
     (Add.dest_mode i) (Add.dest_reg i) (Add.data_size i)
     (\<lambda>a b. a + b)
     (\<lambda>a b. arith_flags (Add.data_size i) (a + b) a b)"
  by (simp add: Add_execute_def rmw_def flag_writes_defs Let_def)

lemma Adda_rmw:
  "Adda_execute i = rmw (getData (Adda.src_mode i) (Adda.src_reg i) (Adda.data_size i))
     (Adda.dest_mode i) (Adda.dest_reg i) (Adda.data_size i)
     (\<lambda>a b. a + b)
     (\<lambda>a b. returnE ())"
  by (simp add: Adda_execute_def rmw_def Let_def bindE_unit)

lemma Addi_rmw:
  "Addi_execute i = rmw (getData ADDR_MODE_IMMEDIATE REG_D0 (Addi.data_size i))
     (Addi.dest_mode i) (Addi.dest_reg i) (Addi.data_size i)
     (\<lambda>a b. a + b)
     (\<lambda>a b. arith_flags (Addi.data_size i) (a + b) a b)"
  by (simp add: Addi_execute_def rmw_def flag_writes_defs Let_def)

lemma Addq_rmw:
  "Addq_execute i = rmw (returnE (ucast (Addq.imm_data i)))
     (Addq.dest_mode i) (Addq.dest_reg i) (Addq.data_size i)
     (\<lambda>a b. a + b)
     (\<lambda>a b. if Addq.dest_mode i \<noteq> ADDR_MODE_DIRECT_ADDR then arith_flags (Addq.data_size i) (a + b) a b
        else returnE ())"
  unfolding Addq_execute_def rmw_def flag_writes_defs Let_def whenE_def by simp

lemma Addx_rmw:
  "Addx_execute i s = rmw (getData (Addx.src_mode i) (Addx.src_reg i) (Addx.data_size i))
     (Addx.dest_mode i) (Addx.dest_reg i) (Addx.data_size i)
     (\<lambda>a b. a + b + of_bool (flag s SR_FLAG_EXTEND))
     (\<lambda>a b. extended_flags (Addx.data_size i) (a + b + of_bool (flag s SR_FLAG_EXTEND)) a b) s"
  by (simp add: Addx_execute_def rmw_def flag_writes_defs Let_def of_bool_def)

lemma Sub_rmw:
  "Sub_execute i = rmw (getData (Sub.src_mode i) (Sub.src_reg i) (Sub.data_size i))
     (Sub.dest_mode i) (Sub.dest_reg i) (Sub.data_size i)
     (\<lambda>a b. b - a)
     (\<lambda>a b. arith_flags (Sub.data_size i) (b - a) a b)"
  by (simp add: Sub_execute_def rmw_def flag_writes_defs Let_def)

lemma Suba_rmw:
  "Suba_execute i = rmw (getData (Suba.src_mode i) (Suba.src_reg i) (Suba.data_size i))
     (Suba.dest_mode i) (Suba.dest_reg i) (Suba.data_size i)
     (\<lambda>a b. b - a)
     (\<lambda>a b. returnE ())"
  by (simp add: Suba_execute_def rmw_def Let_def bindE_unit)

lemma Subi_rmw:
  "Subi_execute i = rmw (getData ADDR_MODE_IMMEDIATE REG_D0 (Subi.data_size i))
     (Subi.dest_mode i) (Subi.dest_reg i) (Subi.data_size i)
     (\<lambda>a b. b - a)
     (\<lambda>a b. arith_flags (Subi.data_size i) (b - a) a b)"
  by (simp add: Subi_execute_def rmw_def flag_writes_defs Let_def)

lemma Subq_rmw:
  "Subq_execute i = rmw (returnE (ucast (Subq.imm_data i)))
     (Subq.dest_mode i) (Subq.dest_reg i) (Subq.data_size i)
     (\<lambda>a b. b - a)
     (\<lambda>a b. if Subq.dest_mode i \<noteq> ADDR_MODE_DIRECT_ADDR then arith_flags (Subq.data_size i) (b - a) a b
        else returnE ())"
  unfolding Subq_execute_def rmw_def flag_writes_defs Let_def whenE_def by simp

lemma Subx_rmw:
  "Subx_execute i s = rmw (getData (Subx.src_mode i) (Subx.src_reg i) (Subx.data_size i))
     (Subx.dest_mode i) (Subx.dest_reg i) (Subx.data_size i)
     (\<lambda>a b. b - a - of_bool (flag s SR_FLAG_EXTEND))
     (\<lambda>a b. extended_flags (Subx.data_size i) (b - a - of_bool (flag s SR_FLAG_EXTEND)) a b) s"
  by (simp add: Subx_execute_def rmw_def flag_writes_defs Let_def of_bool_def)

lemma And_rmw:
  "And_execute i = rmw (getData (And.src_mode i) (And.src_reg i) (And.data_size i))
     (And.dest_mode i) (And.dest_reg i) (And.data_size i)
     (\<lambda>a b. a AND b)
     (\<lambda>a b. logic_flags (And.data_size i) (a AND b))"
  by (simp add: And_execute_def rmw_def flag_writes_defs Let_def)

lemma Andi_rmw:
  "Andi_execute i = rmw (getData ADDR_MODE_IMMEDIATE REG_D0 (Andi.data_size i))
     (Andi.dest_mode i) (Andi.dest_reg i) (Andi.data_size i)
     (\<lambda>a b. a AND b)
     (\<lambda>a b. logic_flags (Andi.data_size i) (a AND b))"
  by (simp add: Andi_execute_def rmw_def flag_writes_defs Let_def)

lemma Eor_rmw:
  "Eor_execute i = rmw (getData (Eor.src_mode i) (Eor.src_reg i) (Eor.data_size i))
     (Eor.dest_mode i) (Eor.dest_reg i) (Eor.data_size i)
     (\<lambda>a b. b XOR a)
     (\<lambda>a b. logic_flags (Eor.data_size i) (b XOR a))"
  by (simp add: Eor_execute_def rmw_def flag_writes_defs Let_def)

lemma Eori_rmw:
  "Eori_execute i = rmw (getData ADDR_MODE_IMMEDIATE REG_D0 (Eori.data_size i))
     (Eori.dest_mode i) (Eori.dest_reg i) (Eori.data_size i)
     (\<lambda>a b. b XOR a)
     (\<lambda>a b. logic_flags (Eori.data_size i) (b XOR a))"
  by (simp add: Eori_execute_def rmw_def flag_writes_defs Let_def)

lemma Or_rmw:
  "Or_execute i = rmw (getData (Or.src_mode i) (Or.src_reg i) (Or.data_size i))
     (Or.dest_mode i) (Or.dest_reg i) (Or.data_size i)
     (\<lambda>a b. b OR a)
     (\<lambda>a b. logic_flags (Or.data_size i) (b OR a))"
  by (simp add: Or_execute_def rmw_def flag_writes_defs Let_def)

lemma Ori_rmw:
  "Ori_execute i = rmw (getData ADDR_MODE_IMMEDIATE REG_D0 (Ori.data_size i))
     (Ori.dest_mode i) (Ori.dest_reg i) (Ori.data_size i)
     (\<lambda>a b. b OR a)
     (\<lambda>a b. logic_flags (Ori.data_size i) (b OR a))"
  by (simp add: Ori_execute_def rmw_def flag_writes_defs Let_def)

lemma Neg_rmw:
  "Neg_execute i = rmw (returnE 0)
     (Neg.dest_mode i) (Neg.dest_reg i) (Neg.data_size i)
     (\<lambda>a b. a - b)
     (\<lambda>a b. arith_flags (Neg.data_size i) (- b) 0 b)"
  by (simp add: Neg_execute_def rmw_def flag_writes_defs Let_def)

lemmas rmw_forms =
  Add_rmw Adda_rmw Addi_rmw Addq_rmw Addx_rmw Sub_rmw
  Suba_rmw Subi_rmw Subq_rmw Subx_rmw And_rmw Andi_rmw
  Or_rmw Ori_rmw Eor_rmw Eori_rmw Neg_rmw

lemma alu_meetsI:
  assumes "rmw (alu_src A) (alu_mode A) (alu_reg A) (alu_size A) (alu_fun A (flag s SR_FLAG_EXTEND)) fl s = (Inr (), t)"
    and "proper_size (alu_size A)" and "general_reg (alu_reg A)"
    and "\<And>s a s'. alu_src A s = (Inr a, s') \<Longrightarrow> fits (alu_size A) a \<and> same_sr s s'"
    and "\<And>a b s2 t. fits (alu_size A) a \<Longrightarrow> fits (alu_size A) b \<Longrightarrow> ccr_of s2 = ccr_of s \<Longrightarrow>
      fl a b s2 = (Inr (), t) \<Longrightarrow> ccr_only s2 t \<and> ccr_of t = alu_ccr A (ccr_of s2) a b"
  shows "alu_meets A s t"
  unfolding alu_meets_def by (rule rmw_meets [OF assms])

lemma Add_meets:
  "execute (I_Add i) s = (Inr (), t) \<Longrightarrow> regs_ok (I_Add i) \<Longrightarrow>
   proper_size (alu_size (the (alu_spec (I_Add i)))) \<Longrightarrow> alu_meets (the (alu_spec (I_Add i))) s t"
  by (rule alu_meetsI [where fl = "\<lambda>a b. arith_flags (Add.data_size i) (a + b) a b"])
    (simp_all add: Add_rmw del: getData.simps, ((elim conjE)?, (rule src_data | rule add_flags); assumption)+)

lemma Adda_meets:
  "execute (I_Adda i) s = (Inr (), t) \<Longrightarrow> regs_ok (I_Adda i) \<Longrightarrow>
   proper_size (alu_size (the (alu_spec (I_Adda i)))) \<Longrightarrow> alu_meets (the (alu_spec (I_Adda i))) s t"
  by (rule alu_meetsI [where fl = "\<lambda>a b. returnE ()"])
    (simp_all add: Adda_rmw del: getData.simps, ((elim conjE)?, (rule src_data); assumption)+)

lemma Addi_meets:
  "execute (I_Addi i) s = (Inr (), t) \<Longrightarrow> regs_ok (I_Addi i) \<Longrightarrow>
   proper_size (alu_size (the (alu_spec (I_Addi i)))) \<Longrightarrow> alu_meets (the (alu_spec (I_Addi i))) s t"
  by (rule alu_meetsI [where fl = "\<lambda>a b. arith_flags (Addi.data_size i) (a + b) a b"])
    (simp_all add: Addi_rmw del: getData.simps, ((elim conjE)?, (rule src_imm | rule add_flags); assumption)+)

lemma Addq_meets:
  "execute (I_Addq i) s = (Inr (), t) \<Longrightarrow> regs_ok (I_Addq i) \<Longrightarrow>
   proper_size (alu_size (the (alu_spec (I_Addq i)))) \<Longrightarrow> alu_meets (the (alu_spec (I_Addq i))) s t"
  by (rule alu_meetsI [where fl = "\<lambda>a b. if Addq.dest_mode i \<noteq> ADDR_MODE_DIRECT_ADDR then arith_flags (Addq.data_size i) (a + b) a b
    else returnE ()"])
    (simp_all add: Addq_rmw del: getData.simps, (clarsimp simp: src_imm8)?, (cases "Addq.dest_mode i = ADDR_MODE_DIRECT_ADDR", simp, simp, rule add_flags; assumption))

lemma Addx_meets:
  "execute (I_Addx i) s = (Inr (), t) \<Longrightarrow> regs_ok (I_Addx i) \<Longrightarrow>
   proper_size (alu_size (the (alu_spec (I_Addx i)))) \<Longrightarrow> alu_meets (the (alu_spec (I_Addx i))) s t"
  by (rule alu_meetsI [where fl = "\<lambda>a b. extended_flags (Addx.data_size i) (a + b + of_bool (flag s SR_FLAG_EXTEND)) a b"])
    (simp_all add: Addx_rmw del: getData.simps, ((elim conjE)?, (rule src_data | rule addx_flags); assumption)+)

lemma Sub_meets:
  "execute (I_Sub i) s = (Inr (), t) \<Longrightarrow> regs_ok (I_Sub i) \<Longrightarrow>
   proper_size (alu_size (the (alu_spec (I_Sub i)))) \<Longrightarrow> alu_meets (the (alu_spec (I_Sub i))) s t"
  by (rule alu_meetsI [where fl = "\<lambda>a b. arith_flags (Sub.data_size i) (b - a) a b"])
    (simp_all add: Sub_rmw del: getData.simps, ((elim conjE)?, (rule src_data | rule sub_flags); assumption)+)

lemma Suba_meets:
  "execute (I_Suba i) s = (Inr (), t) \<Longrightarrow> regs_ok (I_Suba i) \<Longrightarrow>
   proper_size (alu_size (the (alu_spec (I_Suba i)))) \<Longrightarrow> alu_meets (the (alu_spec (I_Suba i))) s t"
  by (rule alu_meetsI [where fl = "\<lambda>a b. returnE ()"])
    (simp_all add: Suba_rmw del: getData.simps, ((elim conjE)?, (rule src_data); assumption)+)

lemma Subi_meets:
  "execute (I_Subi i) s = (Inr (), t) \<Longrightarrow> regs_ok (I_Subi i) \<Longrightarrow>
   proper_size (alu_size (the (alu_spec (I_Subi i)))) \<Longrightarrow> alu_meets (the (alu_spec (I_Subi i))) s t"
  by (rule alu_meetsI [where fl = "\<lambda>a b. arith_flags (Subi.data_size i) (b - a) a b"])
    (simp_all add: Subi_rmw del: getData.simps, ((elim conjE)?, (rule src_imm | rule sub_flags); assumption)+)

lemma Subq_meets:
  "execute (I_Subq i) s = (Inr (), t) \<Longrightarrow> regs_ok (I_Subq i) \<Longrightarrow>
   proper_size (alu_size (the (alu_spec (I_Subq i)))) \<Longrightarrow> alu_meets (the (alu_spec (I_Subq i))) s t"
  by (rule alu_meetsI [where fl = "\<lambda>a b. if Subq.dest_mode i \<noteq> ADDR_MODE_DIRECT_ADDR then arith_flags (Subq.data_size i) (b - a) a b
    else returnE ()"])
    (simp_all add: Subq_rmw del: getData.simps, (clarsimp simp: src_imm8)?, (cases "Subq.dest_mode i = ADDR_MODE_DIRECT_ADDR", simp, simp, rule sub_flags; assumption))

lemma Subx_meets:
  "execute (I_Subx i) s = (Inr (), t) \<Longrightarrow> regs_ok (I_Subx i) \<Longrightarrow>
   proper_size (alu_size (the (alu_spec (I_Subx i)))) \<Longrightarrow> alu_meets (the (alu_spec (I_Subx i))) s t"
  by (rule alu_meetsI [where fl = "\<lambda>a b. extended_flags (Subx.data_size i) (b - a - of_bool (flag s SR_FLAG_EXTEND)) a b"])
    (simp_all add: Subx_rmw del: getData.simps, ((elim conjE)?, (rule src_data | rule subx_flags); assumption)+)

lemma And_meets:
  "execute (I_And i) s = (Inr (), t) \<Longrightarrow> regs_ok (I_And i) \<Longrightarrow>
   proper_size (alu_size (the (alu_spec (I_And i)))) \<Longrightarrow> alu_meets (the (alu_spec (I_And i))) s t"
  by (rule alu_meetsI [where fl = "\<lambda>a b. logic_flags (And.data_size i) (a AND b)"])
    (simp_all add: And_rmw del: getData.simps, ((elim conjE)?, (rule src_data | rule logical_flags); assumption)+)

lemma Andi_meets:
  "execute (I_Andi i) s = (Inr (), t) \<Longrightarrow> regs_ok (I_Andi i) \<Longrightarrow>
   proper_size (alu_size (the (alu_spec (I_Andi i)))) \<Longrightarrow> alu_meets (the (alu_spec (I_Andi i))) s t"
  by (rule alu_meetsI [where fl = "\<lambda>a b. logic_flags (Andi.data_size i) (a AND b)"])
    (simp_all add: Andi_rmw del: getData.simps, ((elim conjE)?, (rule src_imm | rule logical_flags); assumption)+)

lemma Eor_meets:
  "execute (I_Eor i) s = (Inr (), t) \<Longrightarrow> regs_ok (I_Eor i) \<Longrightarrow>
   proper_size (alu_size (the (alu_spec (I_Eor i)))) \<Longrightarrow> alu_meets (the (alu_spec (I_Eor i))) s t"
  by (rule alu_meetsI [where fl = "\<lambda>a b. logic_flags (Eor.data_size i) (b XOR a)"])
    (simp_all add: Eor_rmw del: getData.simps, ((elim conjE)?, (rule src_data | rule logical_flags); assumption)+)

lemma Eori_meets:
  "execute (I_Eori i) s = (Inr (), t) \<Longrightarrow> regs_ok (I_Eori i) \<Longrightarrow>
   proper_size (alu_size (the (alu_spec (I_Eori i)))) \<Longrightarrow> alu_meets (the (alu_spec (I_Eori i))) s t"
  by (rule alu_meetsI [where fl = "\<lambda>a b. logic_flags (Eori.data_size i) (b XOR a)"])
    (simp_all add: Eori_rmw del: getData.simps, ((elim conjE)?, (rule src_imm | rule logical_flags); assumption)+)

lemma Or_meets:
  "execute (I_Or i) s = (Inr (), t) \<Longrightarrow> regs_ok (I_Or i) \<Longrightarrow>
   proper_size (alu_size (the (alu_spec (I_Or i)))) \<Longrightarrow> alu_meets (the (alu_spec (I_Or i))) s t"
  by (rule alu_meetsI [where fl = "\<lambda>a b. logic_flags (Or.data_size i) (b OR a)"])
    (simp_all add: Or_rmw del: getData.simps, ((elim conjE)?, (rule src_data | rule logical_flags); assumption)+)

lemma Ori_meets:
  "execute (I_Ori i) s = (Inr (), t) \<Longrightarrow> regs_ok (I_Ori i) \<Longrightarrow>
   proper_size (alu_size (the (alu_spec (I_Ori i)))) \<Longrightarrow> alu_meets (the (alu_spec (I_Ori i))) s t"
  by (rule alu_meetsI [where fl = "\<lambda>a b. logic_flags (Ori.data_size i) (b OR a)"])
    (simp_all add: Ori_rmw del: getData.simps, ((elim conjE)?, (rule src_imm | rule logical_flags); assumption)+)

lemma Neg_meets:
  "execute (I_Neg i) s = (Inr (), t) \<Longrightarrow> regs_ok (I_Neg i) \<Longrightarrow>
   proper_size (alu_size (the (alu_spec (I_Neg i)))) \<Longrightarrow> alu_meets (the (alu_spec (I_Neg i))) s t"
  by (rule alu_meetsI [where fl = "\<lambda>a b. arith_flags (Neg.data_size i) (- b) 0 b"])
    (simp_all add: Neg_rmw del: getData.simps, ((elim conjE)?, (rule negate_flags); assumption)+)

lemmas meets =
  Add_meets Adda_meets Addi_meets Addq_meets Addx_meets Sub_meets
  Suba_meets Subi_meets Subq_meets Subx_meets And_meets Andi_meets
  Or_meets Ori_meets Eor_meets Eori_meets Neg_meets

lemma alu_execute_meets:
  "execute i s = (Inr (), t) \<Longrightarrow> regs_ok i \<Longrightarrow> proper_size (alu_size (the (alu_spec i))) \<Longrightarrow>
   alu_spec i \<noteq> None \<Longrightarrow> alu_meets (the (alu_spec i)) s t"
  by (induction i) ((rule meets; assumption) | simp)+

section \<open>Decoded instructions\<close>

lemma alu_size_ins: "alu_spec i = Some A \<Longrightarrow> ins_size i = Some (alu_size A)"
  by (induction i) (simp_all, (auto)?)

text \<open>
  C3. Every decoded ADD, ADDA, ADDI, ADDQ, ADDX, SUB, SUBA, SUBI, SUBQ, SUBX, AND, ANDI, OR, ORI,
  EOR, EORI and NEG that ends normally reads its source operand, reads its destination, writes
  back the specified function of the two (and of the extend flag), and leaves the five condition
  codes the specification gives as relations between the unsigned and signed values of the
  operands. The specification records the code: for long operands carry and extend are never set,
  and subtraction takes the overflow of the sum.
\<close>

theorem alu_instructions_meet_spec:
  assumes "alu_spec (Decode generateOpcodeTable opc) = Some A"
    and "execute (Decode generateOpcodeTable opc) s = (Inr (), t)"
  shows "alu_meets A s t"
proof -
  have "proper_size (alu_size A)"
    using decode_size_ok [of opc] decode_spec_valid [of opc] alu_size_ins [OF assms(1)]
    by (simp add: size_ok_def Decode_spec)
  then show ?thesis
    using alu_execute_meets [of "decode_spec opc" s t] decode_regs_ok [of opc] assms
    by (simp add: Decode_spec)
qed

end
