(* ===== verification/Ins_Effects.thy ===== *)
theory Ins_Effects
  imports Ins_Alu
begin

text \<open>
  The instructions that test, compare or store a value without reading the old contents of their
  destination: TST, CLR, MOVEQ, EXT, Scc, CMP, CMPI and CMPA, against one specification.
\<close>

section \<open>The specification\<close>

text \<open>
  The operands, in the order the code reads them; where and what is written; the condition codes
  as a function of the old ones and the operands.  An instruction with one operand has 0 for the
  other.
\<close>

record Effect =
  ef_ops :: "(CPUState, 32 word \<times> 32 word) exec"
  ef_put :: "(AddressingMode \<times> RegisterType \<times> DataSize) option"
  ef_val :: "32 word \<Rightarrow> 32 word"
  ef_ccr :: "ccr \<Rightarrow> 32 word \<Rightarrow> 32 word \<Rightarrow> ccr"

definition one_operand :: "(CPUState, 32 word) exec \<Rightarrow> (CPUState, 32 word \<times> 32 word) exec" where
  "one_operand m = bindE m (\<lambda>a. returnE (a, 0))"

definition two_operands :: "(CPUState, 32 word) exec \<Rightarrow> (CPUState, 32 word) exec \<Rightarrow> (CPUState, 32 word \<times> 32 word) exec" where
  "two_operands m n = bindE m (\<lambda>a. bindE n (\<lambda>b. returnE (a, b)))"

text \<open>EXT extends from a byte for both of its sizes.\<close>

definition ext_value :: "DataSize \<Rightarrow> 32 word \<Rightarrow> 32 word" where
  "ext_value sz d = take_bit (bits_of sz) (word_of_int (sval SIZE_BYTE d))"

definition cmp_ccr :: "DataSize \<Rightarrow> ccr \<Rightarrow> 32 word \<Rightarrow> 32 word \<Rightarrow> ccr" where
  "cmp_ccr sz old a b = (fst old, snd (sub_ccr sz a b))"

text \<open>
  CMPA.W subtracts the sign-extended source from the low word of the register, and tests the
  result at 16 bits: for a negative source the carry is inverted.
\<close>

definition cmpa_ccr :: "DataSize \<Rightarrow> ccr \<Rightarrow> 32 word \<Rightarrow> 32 word \<Rightarrow> ccr" where
  "cmpa_ccr sz old a b =
     (if sz = SIZE_WORD \<and> sval sz a < 0
      then (fst old, sval sz (b - a) < 0, uval sz a = uval sz b, sval sz (a + b) \<noteq> sval sz a + sval sz b,
            uval sz a \<le> uval sz b)
      else cmp_ccr sz old a b)"

fun effect_spec :: "Ins \<Rightarrow> Effect option" where
  "effect_spec (I_Tst i) = Some \<lparr>
     ef_ops = one_operand (getData (Tst.ea_mode i) (Tst.ea_reg i) (Tst.data_size i)),
     ef_put = None, ef_val = (\<lambda>a. a),
     ef_ccr = (\<lambda>old a b. logic_ccr (Tst.data_size i) a old)\<rparr>"
| "effect_spec (I_Clr i) = Some \<lparr>
     ef_ops = one_operand (returnE 0),
     ef_put = Some (Clr.dest_mode i, Clr.dest_reg i, Clr.data_size i), ef_val = (\<lambda>a. a),
     ef_ccr = (\<lambda>old a b. (fst old, False, True, False, False))\<rparr>"
| "effect_spec (I_Moveq i) = Some \<lparr>
     ef_ops = one_operand (returnE (ucast (Moveq.imm_data i))),
     ef_put = Some (ADDR_MODE_DIRECT_DATA, Moveq.dest_reg i, SIZE_LONG), ef_val = (\<lambda>a. a),
     ef_ccr = (\<lambda>old a b. (fst old, False, a = 0, False, False))\<rparr>"
| "effect_spec (I_Ext i) = Some \<lparr>
     ef_ops = one_operand (getData ADDR_MODE_DIRECT_DATA (Ext.addr_reg i)
       (if Ext.data_size i = SIZE_WORD then SIZE_BYTE else SIZE_WORD)),
     ef_put = Some (ADDR_MODE_DIRECT_DATA, Ext.addr_reg i, Ext.data_size i), ef_val = ext_value (Ext.data_size i),
     ef_ccr = (\<lambda>old a b. logic_ccr (Ext.data_size i) (ext_value (Ext.data_size i) a) old)\<rparr>"
| "effect_spec (I_Scc i) = Some \<lparr>
     ef_ops = one_operand (bindE (checkCondition (Scc.condition i)) (\<lambda>c. returnE (if c then 0xFF else 0))),
     ef_put = Some (Scc.dest_mode i, Scc.dest_reg i, SIZE_BYTE), ef_val = (\<lambda>a. a),
     ef_ccr = (\<lambda>old a b. old)\<rparr>"
| "effect_spec (I_Cmp i) = Some \<lparr>
     ef_ops = two_operands (getData (Cmp.src_mode i) (Cmp.src_reg i) (Cmp.data_size i))
       (getData ADDR_MODE_DIRECT_DATA (Cmp.dest_reg i) (Cmp.data_size i)),
     ef_put = None, ef_val = (\<lambda>a. a), ef_ccr = cmp_ccr (Cmp.data_size i)\<rparr>"
| "effect_spec (I_Cmpi i) = Some \<lparr>
     ef_ops = two_operands (getData ADDR_MODE_IMMEDIATE REG_D0 (Cmpi.data_size i))
       (getData (Cmpi.dest_mode i) (Cmpi.dest_reg i) (Cmpi.data_size i)),
     ef_put = None, ef_val = (\<lambda>a. a), ef_ccr = cmp_ccr (Cmpi.data_size i)\<rparr>"
| "effect_spec (I_Cmpa i) = Some \<lparr>
     ef_ops = two_operands (getData (Cmpa.src_mode i) (Cmpa.src_reg i) (Cmpa.data_size i))
       (getData ADDR_MODE_DIRECT_ADDR (Cmpa.dest_reg i) (Cmpa.data_size i)),
     ef_put = None, ef_val = (\<lambda>a. a), ef_ccr = cmpa_ccr (Cmpa.data_size i)\<rparr>"
| "effect_spec _ = None"

definition store :: "Effect \<Rightarrow> 32 word \<Rightarrow> (CPUState, unit) exec" where
  "store E a = (case ef_put E of None \<Rightarrow> returnE () | Some (m, r, sz) \<Rightarrow> setData m r sz (ef_val E a))"

definition effect_meets :: "Effect \<Rightarrow> CPUState \<Rightarrow> CPUState \<Rightarrow> bool" where
  "effect_meets E s t \<longleftrightarrow>
     (\<exists>a b s1 s2. ef_ops E (rput s REG_PC (pc_of s + 2)) = (Inr (a, b), s1) \<and>
        store E a s1 = (Inr (), s2) \<and> ccr_only s2 t \<and> ccr_of t = ef_ccr E (ccr_of s) a b)"

section \<open>The code has the shape of the specification\<close>

lemma same_sr_ccr: "same_sr s t \<Longrightarrow> ccr_of t = ccr_of s"
  by (simp add: ccr_of_def same_sr_flag)

definition effect_form :: "Effect \<Rightarrow> (32 word \<Rightarrow> 32 word \<Rightarrow> (CPUState, unit) exec) \<Rightarrow> (CPUState, unit) exec" where
  "effect_form E fl = bindE skip_opcode (\<lambda>_. bindE (ef_ops E) (\<lambda>(a, b). bindE (store E a) (\<lambda>_. fl a b)))"

lemma effect_run:
  assumes run: "effect_form E fl s = (Inr (), t)"
    and ops: "keeps same_sr (ef_ops E)" and put: "\<And>a. keeps same_sr (store E a)"
    and fl: "\<And>s' a b s1 s2 t. ef_ops E s' = (Inr (a, b), s1) \<Longrightarrow> ccr_of s2 = ccr_of s \<Longrightarrow> fl a b s2 = (Inr (), t) \<Longrightarrow>
      ccr_only s2 t \<and> ccr_of t = ef_ccr E (ccr_of s) a b"
  shows "effect_meets E s t"
proof -
  from run obtain a b s1 where 1: "ef_ops E (rput s REG_PC (pc_of s + 2)) = (Inr (a, b), s1)"
    and "bindE (store E a) (\<lambda>_. fl a b) s1 = (Inr (), t)"
    by (auto simp: effect_form_def elim!: bindE_InrE)
  then obtain s2 where 2: "store E a s1 = (Inr (), s2)" and 3: "fl a b s2 = (Inr (), t)"
    by (auto elim: bindE_InrE)
  have "ccr_of s2 = ccr_of (rput s REG_PC (pc_of s + 2))"
    using same_sr_ccr [OF keepsD [OF ops 1]] same_sr_ccr [OF keepsD [OF put 2]] by simp
  then have "ccr_of s2 = ccr_of s" by (simp add: ccr_of_def)
  from fl [OF 1 this 3] 1 2 show ?thesis by (auto simp: effect_meets_def)
qed

lemma returnE_Inr: "returnE x s = (Inr y, t) \<longleftrightarrow> y = x \<and> t = s"
  by (auto simp: returnE_def)

lemma one_operand_return: "one_operand (returnE a) s = (Inr (x, y), t) \<longleftrightarrow> x = a \<and> y = 0 \<and> t = s"
  by (auto simp: one_operand_def returnE_def)

lemma keeps_operands [keeps_intros]:
  "keeps same_sr m \<Longrightarrow> keeps same_sr (one_operand m)"
  "keeps same_sr m \<Longrightarrow> keeps same_sr n \<Longrightarrow> keeps same_sr (two_operands m n)"
  unfolding one_operand_def two_operands_def by (auto intro!: status.keeps_bind status.keeps_return)

lemma keeps_store: "(\<And>m r sz. ef_put E = Some (m, r, sz) \<Longrightarrow> general_reg r) \<Longrightarrow> keeps same_sr (store E a)"
  by (auto simp: store_def intro: status.keeps_setData status.keeps_return split: option.split)

definition test_flags :: "DataSize \<Rightarrow> 32 word \<Rightarrow> (CPUState, unit) exec" where
  "test_flags sz v =
     seqE [flag_set SR_FLAG_NEGATIVE (IS_NEGATIVE v sz),
           flag_set SR_FLAG_ZERO (IS_ZERO v sz),
           flag_set SR_FLAG_OVERFLOW False,
           flag_set SR_FLAG_CARRY False]"

lemma test_flags:
  "proper_size sz \<Longrightarrow> ccr_of s = old \<Longrightarrow> test_flags sz v s = (Inr (), t) \<Longrightarrow> ccr_only s t \<and> ccr_of t = logic_ccr sz v old"
  by (auto simp: test_flags_def logic_ccr_def ccr_of_def sval_neg IS_ZERO_uval simp del: IS_ZERO.simps IS_NEGATIVE.simps)

definition compare_flag_writes :: "DataSize \<Rightarrow> 32 word \<Rightarrow> 32 word \<Rightarrow> (CPUState, unit) exec" where
  "compare_flag_writes sz a b =
     seqE [flag_set SR_FLAG_NEGATIVE (IS_NEGATIVE (wide (b - a)) sz),
           flag_set SR_FLAG_ZERO (IS_ZERO (wide (b - a)) sz),
           flag_set SR_FLAG_OVERFLOW (IS_OVERFLOW a b sz),
           flag_set SR_FLAG_CARRY (IS_CARRY (wide (b - a)) sz)]"

lemma compare_flag_writes:
  "proper_size sz \<Longrightarrow> fits sz a \<Longrightarrow> fits sz b \<Longrightarrow> ccr_of s = old \<Longrightarrow> compare_flag_writes sz a b s = (Inr (), t) \<Longrightarrow>
   ccr_only s t \<and> ccr_of t = cmp_ccr sz old a b"
  by (auto simp: compare_flag_writes_def cmp_ccr_def sub_ccr_def ccr_of_def flag_tests Let_def simp del: IS_OVERFLOW.simps)

lemmas form_simps = effect_form_def one_operand_def two_operands_def store_def bindE_assoc bindE_return
  effect_spec.simps option.sel option.case Effect.select_convs prod.case Let_def

lemma Tst_form:
  "Tst_execute i = effect_form (the (effect_spec (I_Tst i))) (\<lambda>a b. test_flags (Tst.data_size i) a)"
  by (simp only: Tst_execute_def form_simps test_flags_def)

lemma Clr_form:
  "Clr_execute i = effect_form (the (effect_spec (I_Clr i)))
     (\<lambda>a b. seqE [flag_set SR_FLAG_NEGATIVE False, flag_set SR_FLAG_ZERO True, flag_set SR_FLAG_OVERFLOW False, flag_set SR_FLAG_CARRY False])"
  by (simp only: Clr_execute_def form_simps )

lemma Moveq_form:
  "modes_ok (I_Moveq i) \<Longrightarrow> Moveq_execute i = effect_form (the (effect_spec (I_Moveq i)))
     (\<lambda>a b. seqE [flag_set SR_FLAG_NEGATIVE (IS_NEGATIVE (Moveq.imm_data i) SIZE_LONG), flag_set SR_FLAG_ZERO (Moveq.imm_data i = 0),
        flag_set SR_FLAG_OVERFLOW False, flag_set SR_FLAG_CARRY False])"
  by (simp only: Moveq_execute_def form_simps modes_ok.simps)

lemma Scc_form: "Scc_execute i = effect_form (the (effect_spec (I_Scc i))) (\<lambda>a b. returnE ())"
proof -
  have unit: "bindE m (\<lambda>_. returnE ()) = m" for m :: "(CPUState, unit) exec"
    by (simp add: bindE_unit)
  have cond: "(if c then f x else f y) = f (if c then x else y)" for c and f :: "32 word \<Rightarrow> (CPUState, unit) exec" and x y
    by simp
  show ?thesis
    by (simp only: Scc_execute_def form_simps unit cond)
qed

lemma Cmp_form:
  "modes_ok (I_Cmp i) \<Longrightarrow> Cmp_execute i = effect_form (the (effect_spec (I_Cmp i))) (compare_flag_writes (Cmp.data_size i))"
  by (simp only: Cmp_execute_def form_simps compare_flag_writes_def modes_ok.simps)

lemma Cmpi_form:
  "Cmpi_execute i = effect_form (the (effect_spec (I_Cmpi i))) (compare_flag_writes (Cmpi.data_size i))"
  by (simp only: Cmpi_execute_def form_simps compare_flag_writes_def)

lemma Cmpa_form:
  "modes_ok (I_Cmpa i) \<Longrightarrow> Cmpa_execute i = effect_form (the (effect_spec (I_Cmpa i)))
     (\<lambda>a b. compare_flag_writes (Cmpa.data_size i) (if Cmpa.data_size i = SIZE_WORD then sext16 a else a) b)"
  by (simp only: Cmpa_execute_def form_simps compare_flag_writes_def modes_ok.simps)

lemma ext_values:
  "ucast (scast (ucast d :: 8 word) :: 16 word) = ext_value SIZE_WORD d"
  "scast (ucast (ucast d :: 16 word) :: 8 word) = ext_value SIZE_LONG d"
proof -
  show "ucast (scast (ucast d :: 8 word) :: 16 word) = ext_value SIZE_WORD d"
    by (rule bit_word_eqI) (auto simp: ext_value_def sval_def bit_simps bit_word_of_int_iff bit_uint_iff min_def)
  show "scast (ucast (ucast d :: 16 word) :: 8 word) = ext_value SIZE_LONG d"
    by (rule bit_word_eqI) (auto simp: ext_value_def sval_def bit_simps bit_word_of_int_iff bit_uint_iff min_def)
qed

lemma Ext_form:
  assumes "modes_ok (I_Ext i)"
  shows "Ext_execute i = effect_form (the (effect_spec (I_Ext i)))
    (\<lambda>a b. test_flags (Ext.data_size i) (ext_value (Ext.data_size i) a))"
proof -
  have m: "Ext.addr_mode i = ADDR_MODE_DIRECT_DATA" using assms by simp
  consider "Ext.data_size i = SIZE_WORD" | "Ext.data_size i = SIZE_LONG" using assms by auto
  then show ?thesis
    by cases (simp only: Ext_execute_def form_simps m test_flags_def ext_values DataSize.distinct simp_thms if_True if_False)+
qed

text \<open>The comparison with a sign-extended source.\<close>

lemma sext16_uint:
  assumes "fits SIZE_WORD a"
  shows "uint (sext16 a) = (if sval SIZE_WORD a < 0 then uint a + 2 ^ 32 - 2 ^ 16 else uint a)"
    and "uval SIZE_WORD (sext16 a) = uval SIZE_WORD a"
proof -
  have neg: "x mod 2 ^ 32 = x + 2 ^ 32" if "x < 0" "- (2 ^ 32) \<le> x" for x :: int
    using that mod_pos_pos_trivial [of "x + 2 ^ 32" "2 ^ 32"] by simp
  have "sext16 a = word_of_int (sval SIZE_WORD a)"
    by (rule bit_word_eqI) (auto simp: sext16_def sval_def bit_simps bit_word_of_int_iff bit_uint_iff min_def)
  then have "uint (sext16 a) = sval SIZE_WORD a mod 2 ^ 32"
    by (simp add: uint_word_of_int)
  moreover have "sval SIZE_WORD a = (if 2 ^ 15 \<le> uint a then uint a - 2 ^ 16 else uint a)"
    using sval_uval [of SIZE_WORD a] fits_uval [OF assms] by simp
  moreover have "0 \<le> uint a" "uint a < 2 ^ 16" using assms by (simp_all add: fits_def)
  ultimately show u: "uint (sext16 a) = (if sval SIZE_WORD a < 0 then uint a + 2 ^ 32 - 2 ^ 16 else uint a)"
    using neg [of "uint a - 2 ^ 16"] by (auto simp: mod_pos_pos_trivial)
  show "uval SIZE_WORD (sext16 a) = uval SIZE_WORD a"
  proof -
    have "take_bit 16 (sext16 a) = take_bit 16 a"
      by (rule bit_word_eqI) (auto simp: sext16_def bit_simps)
    then show ?thesis by (simp add: uval_def flip: unsigned_take_bit_eq)
  qed
qed

lemma cmpa_tests:
  assumes "fits SIZE_WORD a" and "fits SIZE_WORD b"
  shows "uval SIZE_WORD (b - sext16 a) = uval SIZE_WORD (b - a)" "sval SIZE_WORD (b - sext16 a) = sval SIZE_WORD (b - a)"
    "sval SIZE_WORD (sext16 a + b) = sval SIZE_WORD (a + b)" "sval SIZE_WORD (sext16 a) = sval SIZE_WORD a"
    and "IS_CARRY (wide (b - sext16 a)) SIZE_WORD \<longleftrightarrow>
      (if sval SIZE_WORD a < 0 then uval SIZE_WORD a \<le> uval SIZE_WORD b else uval SIZE_WORD b < uval SIZE_WORD a)"
proof -
  note u = sext16_uint [OF assms(1)]
  show 1: "uval SIZE_WORD (b - sext16 a) = uval SIZE_WORD (b - a)"
    by (simp only: uval_add proper_size.simps u)
  have 2: "uval SIZE_WORD (sext16 a + b) = uval SIZE_WORD (a + b)"
    by (simp only: uval_add proper_size.simps u)
  have s: "sval SIZE_WORD v = sval SIZE_WORD w" if "uval SIZE_WORD v = uval SIZE_WORD w" for v w :: "32 word"
    using that by (simp add: sval_uval)
  show "sval SIZE_WORD (b - sext16 a) = sval SIZE_WORD (b - a)" "sval SIZE_WORD (sext16 a + b) = sval SIZE_WORD (a + b)"
    "sval SIZE_WORD (sext16 a) = sval SIZE_WORD a"
    using s [OF 1] s [OF 2] s [OF u(2)] by simp_all
  have a: "0 \<le> uint a" "uint a < 65536" "0 \<le> uint b" "uint b < 65536" using assms by (simp_all add: fits_def)
  have d: "uint (b - sext16 a) = (uint b - uint (sext16 a)) mod 2 ^ 32" by (simp add: uint_word_ariths)
  show "IS_CARRY (wide (b - sext16 a)) SIZE_WORD \<longleftrightarrow>
      (if sval SIZE_WORD a < 0 then uval SIZE_WORD a \<le> uval SIZE_WORD b else uval SIZE_WORD b < uval SIZE_WORD a)"
  proof (cases "sval SIZE_WORD a < 0")
    case True
    then have "uint b - uint (sext16 a) = (uint b - uint a + 2 ^ 16) - 2 ^ 32" by (simp add: u(1))
    then have "uint (b - sext16 a) = (uint b - uint a + 2 ^ 16) mod 2 ^ 32" by (simp only: d minus_mod_self2)
    moreover have "(uint b - uint a + 65536) mod 4294967296 = uint b - uint a + 65536"
      using a by (intro mod_pos_pos_trivial) linarith+
    ultimately show ?thesis using True by (simp add: IS_CARRY_wide fits_uval [OF assms(1)] fits_uval [OF assms(2)] del: IS_CARRY.simps)
  next
    case False
    then have "uint (b - sext16 a) = uint (b - a)" by (simp add: d u(1) uint_word_ariths)
    then show ?thesis using False IS_CARRY_wide_sub [of SIZE_WORD a b] assms by (simp add: IS_CARRY_wide del: IS_CARRY.simps)
  qed
qed

lemma cmpa_flag_writes:
  "fits SIZE_WORD a \<Longrightarrow> fits SIZE_WORD b \<Longrightarrow> ccr_of s = old \<Longrightarrow> compare_flag_writes SIZE_WORD (sext16 a) b s = (Inr (), t) \<Longrightarrow>
   ccr_only s t \<and> ccr_of t = cmpa_ccr SIZE_WORD old a b"
  by (auto simp: compare_flag_writes_def cmpa_ccr_def cmp_ccr_def sub_ccr_def ccr_of_def Let_def cmpa_tests
      IS_ZERO_wide IS_NEGATIVE_wide IS_OVERFLOW_sval uval_diff_0
      simp del: IS_OVERFLOW.simps IS_ZERO.simps IS_NEGATIVE.simps IS_CARRY.simps)

lemma Tst_effect:
  "Tst_execute i s = (Inr (), t) \<Longrightarrow> regs_ok (I_Tst i) \<Longrightarrow> proper_size (Tst.data_size i) \<Longrightarrow>
   effect_meets (the (effect_spec (I_Tst i))) s t"
  unfolding Tst_form
  by (erule effect_run) (auto simp: test_flags simp del: getData.simps intro!: keeps_intros keeps_store status.keeps_getData)

lemma Clr_effect:
  "Clr_execute i s = (Inr (), t) \<Longrightarrow> regs_ok (I_Clr i) \<Longrightarrow> effect_meets (the (effect_spec (I_Clr i))) s t"
  unfolding Clr_form
  by (erule effect_run) (auto simp: ccr_of_def intro!: keeps_intros keeps_store)

lemma Moveq_effect:
  assumes "Moveq_execute i s = (Inr (), t)" and "regs_ok (I_Moveq i)" and m: "modes_ok (I_Moveq i)"
  shows "effect_meets (the (effect_spec (I_Moveq i))) s t"
proof -
  have "\<not> IS_NEGATIVE v SIZE_LONG" for v :: "8 word"
    by (auto simp: msb_eq_bit bit_simps dest: bit_imp_le_length)
  moreover have "ucast v = (0 :: 32 word) \<longleftrightarrow> v = 0" for v :: "8 word"
    by (auto simp: bit_eq_iff bit_simps) (use bit_imp_le_length in force)
  ultimately show ?thesis
    using assms unfolding Moveq_form [OF m]
    by (elim effect_run) (auto simp: ccr_of_def one_operand_return intro!: keeps_intros keeps_store simp del: IS_NEGATIVE.simps)
qed

lemma Ext_effect:
  assumes "Ext_execute i s = (Inr (), t)" and "regs_ok (I_Ext i)" and m: "modes_ok (I_Ext i)"
  shows "effect_meets (the (effect_spec (I_Ext i))) s t"
proof -
  have "proper_size (Ext.data_size i)" using m by auto
  then show ?thesis
    using assms unfolding Ext_form [OF m]
    by (elim effect_run) (auto simp: test_flags simp del: getData.simps intro!: keeps_intros keeps_store status.keeps_getData)
qed

lemma Scc_effect:
  "Scc_execute i s = (Inr (), t) \<Longrightarrow> regs_ok (I_Scc i) \<Longrightarrow> effect_meets (the (effect_spec (I_Scc i))) s t"
  unfolding Scc_form
  by (erule effect_run) (auto simp: returnE_Inr intro!: keeps_intros keeps_store)

lemma two_operands_fit:
  assumes "two_operands (getData m r sz) (getData m' r' sz) s = (Inr (a, b), t)"
    and "proper_size sz" and "general_reg r" and "general_reg r'"
  shows "fits sz a" and "fits sz b"
  using assms src_data by (auto simp: two_operands_def returnE_def simp del: getData.simps elim!: bindE_InrE)

lemma Cmp_effect:
  "Cmp_execute i s = (Inr (), t) \<Longrightarrow> regs_ok (I_Cmp i) \<Longrightarrow> modes_ok (I_Cmp i) \<Longrightarrow> proper_size (Cmp.data_size i) \<Longrightarrow>
   effect_meets (the (effect_spec (I_Cmp i))) s t"
  by (simp only: Cmp_form, erule effect_run)
    (auto simp del: getData.simps dest: two_operands_fit compare_flag_writes intro!: keeps_intros keeps_store status.keeps_getData)

lemma Cmpi_effect:
  "Cmpi_execute i s = (Inr (), t) \<Longrightarrow> regs_ok (I_Cmpi i) \<Longrightarrow> proper_size (Cmpi.data_size i) \<Longrightarrow>
   effect_meets (the (effect_spec (I_Cmpi i))) s t"
  by (simp only: Cmpi_form, erule effect_run)
    (auto simp del: getData.simps dest: two_operands_fit [OF _ _ general_reg_simps(1)] compare_flag_writes
      intro!: keeps_intros keeps_store status.keeps_getData)

lemma Cmpa_effect:
  assumes "Cmpa_execute i s = (Inr (), t)" and "regs_ok (I_Cmpa i)" and m: "modes_ok (I_Cmpa i)"
    and p: "proper_size (Cmpa.data_size i)"
  shows "effect_meets (the (effect_spec (I_Cmpa i))) s t"
proof -
  have fit: "fits (Cmpa.data_size i) a \<and> fits (Cmpa.data_size i) b"
    if "two_operands (getData (Cmpa.src_mode i) (Cmpa.src_reg i) (Cmpa.data_size i))
      (getData ADDR_MODE_DIRECT_ADDR (Cmpa.dest_reg i) (Cmpa.data_size i)) s' = (Inr (a, b), s1)" for s' a b s1
    using two_operands_fit [OF that p] assms(2) by simp
  consider "Cmpa.data_size i = SIZE_WORD" | "Cmpa.data_size i = SIZE_LONG" using m p by (cases "Cmpa.data_size i") auto
  then show ?thesis
  proof cases
    case 1
    note fit = fit [unfolded 1]
    from 1 assms(1,2) m p show ?thesis unfolding Cmpa_form [OF m]
      by (elim effect_run) (auto simp del: getData.simps dest!: fit dest: cmpa_flag_writes
          intro!: keeps_intros keeps_store status.keeps_getData)
  next
    case 2
    then have c: "cmpa_ccr (Cmpa.data_size i) = cmp_ccr (Cmpa.data_size i)" by (intro ext) (simp add: cmpa_ccr_def)
    have flags: "ccr_only s t \<and> ccr_of t = cmp_ccr SIZE_LONG old a b"
      if "compare_flag_writes SIZE_LONG a b s = (Inr (), t)" "ccr_of s = old" for s t old a b
      using compare_flag_writes [OF _ _ _ that(2,1)] by simp
    from c 2 assms(1,2) m p show ?thesis unfolding Cmpa_form [OF m]
      by (elim effect_run) (auto simp del: getData.simps dest: flags
          intro!: keeps_intros keeps_store status.keeps_getData)
  qed
qed

lemma effect_execute_meets:
  assumes "effect_spec i \<noteq> None" and "execute i s = (Inr (), t)" and "regs_ok i" and "modes_ok i"
    and "case ins_size i of None \<Rightarrow> True | Some sz \<Rightarrow> proper_size sz"
  shows "effect_meets (the (effect_spec i)) s t"
  using assms
  by (cases i)
    (simp_all only: execute.simps ins_size.simps option.case Tst_effect Clr_effect Moveq_effect Ext_effect Scc_effect
      Cmp_effect Cmpi_effect Cmpa_effect, simp_all only: effect_spec.simps simp_thms)

text \<open>
  C4. Every decoded TST, CLR, MOVEQ, EXT, Scc, CMP, CMPI and CMPA that ends normally reads the
  operands its specification names, stores the specified value (nothing for the tests and
  comparisons), and leaves the five condition codes the specification gives as relations between
  the unsigned and signed values. The specification records the code: EXT extends a byte for both
  sizes, MOVEQ does not sign-extend, comparisons take the overflow of the sum, and CMPA.W inverts
  the carry for a negative source.
\<close>

theorem effects_meet_spec:
  assumes "effect_spec (Decode generateOpcodeTable opc) = Some E"
    and "execute (Decode generateOpcodeTable opc) s = (Inr (), t)"
  shows "effect_meets E s t"
  using assms effect_execute_meets [of "decode_spec opc" s t] decode_regs_ok [of opc] decode_modes_ok [of opc]
    decode_size_ok [of opc] decode_spec_valid [of opc]
  by (simp add: Decode_spec size_ok_def)

end
