(* ===== verification/Ins_Chains.thy ===== *)
theory Ins_Chains
  imports Ins_Alu
begin

text \<open>
  Chains of additions: ADD followed by ADDX on registers, which is how programs add numbers of more
  than one operand.
\<close>

section \<open>Numbers of several limbs\<close>

fun number :: "int \<Rightarrow> int list \<Rightarrow> int" where
  "number B [] = 0"
| "number B (d # ds) = d + B * number B ds"

definition limb :: "DataSize \<Rightarrow> CPUState \<Rightarrow> RegisterType \<Rightarrow> int" where
  "limb sz s r = uval sz (rval s r)"

definition adds :: "DataSize \<Rightarrow> RegisterType \<Rightarrow> RegisterType \<Rightarrow> Ins \<Rightarrow> bool" where
  "adds sz q r ins \<longleftrightarrow> general_reg q \<and> general_reg r \<and> (case ins of
     I_Add i \<Rightarrow> Add.src_mode i = ADDR_MODE_DIRECT_DATA \<and> Add.src_reg i = q \<and>
       Add.dest_mode i = ADDR_MODE_DIRECT_DATA \<and> Add.dest_reg i = r \<and> Add.data_size i = sz
   | _ \<Rightarrow> False)"

definition adds_extended :: "DataSize \<Rightarrow> RegisterType \<times> RegisterType \<Rightarrow> Ins \<Rightarrow> bool" where
  "adds_extended sz = (\<lambda>(q, r) ins. general_reg q \<and> general_reg r \<and> (case ins of
     I_Addx i \<Rightarrow> Addx.src_mode i = ADDR_MODE_DIRECT_DATA \<and> Addx.src_reg i = q \<and>
       Addx.dest_mode i = ADDR_MODE_DIRECT_DATA \<and> Addx.dest_reg i = r \<and> Addx.data_size i = sz
   | _ \<Rightarrow> False))"

section \<open>One addition\<close>

text \<open>What an addition with a carry in leaves: the limb of the sum, and the carry out in the extend flag.\<close>

definition added :: "DataSize \<Rightarrow> RegisterType \<Rightarrow> RegisterType \<Rightarrow> bool \<Rightarrow> CPUState \<Rightarrow> CPUState \<Rightarrow> bool" where
  "added sz q r x s t \<longleftrightarrow>
     limb sz t r = (limb sz s q + limb sz s r + of_bool x) mod 2 ^ bits_of sz \<and>
     (flag t SR_FLAG_EXTEND \<longleftrightarrow> sz \<noteq> SIZE_LONG \<and> 2 ^ bits_of sz \<le> limb sz s q + limb sz s r + of_bool x) \<and>
     (\<forall>r'. general_reg r' \<and> r' \<noteq> r \<longrightarrow> rval t r' = rval s r') \<and> memory t = memory s"

lemma alu_meets_added:
  assumes "alu_meets A s t" and "proper_size sz" and "general_reg q" and "general_reg r"
    and "alu_src A = getData ADDR_MODE_DIRECT_DATA q sz" and "alu_mode A = ADDR_MODE_DIRECT_DATA" "alu_reg A = r" "alu_size A = sz"
    and f: "\<And>a b. alu_fun A (flag s SR_FLAG_EXTEND) a b = a + b + of_bool x"
    and c: "\<And>a b. fst (alu_ccr A (ccr_of s) a b) \<longleftrightarrow> sz \<noteq> SIZE_LONG \<and> 2 ^ bits_of sz \<le> uval sz a + uval sz b + of_bool x"
  shows "added sz q r x s t"
proof -
  let ?s = "rput s REG_PC (pc_of s + 2)"
  define a b where "a = take_bit (bits_of sz) (rval s q)" and "b = take_bit (bits_of sz) (rval s r)"
  have "rval ?s q = rval s q" "rval ?s r = rval s r" using assms(3,4) by (auto simp: general_reg_neq)
  with assms have t: "ccr_only (rput ?s r (merge sz (rval s r) (a + b + of_bool x))) t"
    and x: "fst (ccr_of t) \<longleftrightarrow> sz \<noteq> SIZE_LONG \<and> 2 ^ bits_of sz \<le> uval sz a + uval sz b + of_bool x"
    by (auto simp: alu_meets_def regs_get_rval regs_set_rput general_reg_index general_reg_neq a_def b_def)
  have l: "uval sz a = limb sz s q" "uval sz b = limb sz s r"
    by (simp_all add: a_def b_def limb_def uval_def flip: unsigned_take_bit_eq)
  have m: "uval sz (merge sz w v) = uval sz v" for w v
    by (simp add: uval_def flip: unsigned_take_bit_eq)
  note v = ccr_only_view(3) [OF t]
  have "limb sz t r = uval sz (a + b + of_bool x)"
    using v [of r] assms(4) by (simp add: limb_def m)
  also have "\<dots> = (uval sz a + uval sz b + uval sz (of_bool x :: 32 word)) mod 2 ^ bits_of sz"
    by (simp only: uval_add [OF assms(2)] mod_add_left_eq)
  also have "uval sz (of_bool x :: 32 word) = of_bool x"
    using assms(2) by (cases sz) (simp_all add: uval_def)
  finally show ?thesis
    using v x assms(4) t by (auto simp: added_def l ccr_of_def ccr_only_def)
qed

lemma add_added:
  assumes "adds sz q r ins" and "proper_size sz" and "execute ins s = (Inr (), t)"
  shows "added sz q r False s t"
proof -
  obtain i where i: "ins = I_Add i" "Add.src_mode i = ADDR_MODE_DIRECT_DATA" "Add.src_reg i = q"
    "Add.dest_mode i = ADDR_MODE_DIRECT_DATA" "Add.dest_reg i = r" "Add.data_size i = sz" and g: "general_reg q" "general_reg r"
    using assms(1) by (auto simp: adds_def split: Ins.splits)
  have "alu_meets (the (alu_spec ins)) s t"
    using assms(2,3) g by (intro alu_execute_meets) (simp_all add: i)
  then show ?thesis
    by (rule alu_meets_added [OF _ assms(2) g]) (simp_all add: i add_ccr_def Let_def)
qed

lemma addx_added:
  assumes "adds_extended sz (q, r) ins" and "proper_size sz" and "execute ins s = (Inr (), t)"
  shows "added sz q r (flag s SR_FLAG_EXTEND) s t"
proof -
  obtain i where i: "ins = I_Addx i" "Addx.src_mode i = ADDR_MODE_DIRECT_DATA" "Addx.src_reg i = q"
    "Addx.dest_mode i = ADDR_MODE_DIRECT_DATA" "Addx.dest_reg i = r" "Addx.data_size i = sz" and g: "general_reg q" "general_reg r"
    using assms(1) by (auto simp: adds_extended_def split: Ins.splits)
  have "alu_meets (the (alu_spec ins)) s t"
    using assms(2,3) g by (intro alu_execute_meets) (simp_all add: i)
  then show ?thesis
    by (rule alu_meets_added [OF _ assms(2) g]) (simp_all add: i addx_ccr_def ccr_of_def Let_def)
qed

lemma add_runs:
  assumes "adds sz q r ins" and "proper_size sz"
  shows "\<exists>t. execute ins s = (Inr (), t) \<and> added sz q r False s t"
proof -
  have "\<exists>t. execute ins s = (Inr (), t)"
    using assms by (auto simp: adds_def Add_execute_def exec_simps general_reg_index general_reg_neq Let_def split: Ins.splits)
  with add_added [OF assms] show ?thesis by blast
qed

lemma addx_runs:
  assumes "adds_extended sz (q, r) ins" and "proper_size sz"
  shows "\<exists>t. execute ins s = (Inr (), t) \<and> added sz q r (flag s SR_FLAG_EXTEND) s t"
proof -
  have "\<exists>t. execute ins s = (Inr (), t)"
    using assms by (auto simp: adds_extended_def Addx_execute_def exec_simps general_reg_index general_reg_neq Let_def whenE_def
      split: Ins.splits)
  with addx_added [OF assms] show ?thesis by blast
qed

section \<open>Chains\<close>

text \<open>The registers of the chain: no destination twice, and none that is a source too.\<close>

definition apart_regs :: "(RegisterType \<times> RegisterType) list \<Rightarrow> bool" where
  "apart_regs ps \<longleftrightarrow> distinct (map snd ps) \<and> fst ` set ps \<inter> snd ` set ps = {}"

lemma limb_bounds: "0 \<le> limb sz s r" "limb sz s r < 2 ^ bits_of sz"
  by (simp_all add: limb_def uval_def take_bit_int_less_exp)

lemma carry_out:
  assumes "added sz q r x s t" and "sz \<noteq> SIZE_LONG"
  shows "limb sz t r + 2 ^ bits_of sz * of_bool (flag t SR_FLAG_EXTEND) = limb sz s q + limb sz s r + of_bool x"
proof -
  let ?B = "2 ^ bits_of sz :: int" let ?v = "limb sz s q + limb sz s r + of_bool x"
  have "0 \<le> ?v" "?v < ?B + ?B" using limb_bounds [of sz s q] limb_bounds [of sz s r] by (auto split: split_of_bool)
  then have "?v mod ?B = (if ?v < ?B then ?v else ?v - ?B)"
    using mod_pos_pos_trivial [of "?v - ?B" ?B] by (auto simp: mod_pos_pos_trivial)
  with assms show ?thesis by (auto simp: added_def)
qed

lemma added_long:
  assumes "added SIZE_LONG q r False s t"
  shows "rval t r = rval s q + rval s r" and "\<not> flag t SR_FLAG_EXTEND"
proof -
  have "limb SIZE_LONG u r' = uint (rval u r')" for u r'
    using fits_uval [of SIZE_LONG "rval u r'"] by (simp add: limb_def)
  with assms show "rval t r = rval s q + rval s r"
    by (intro word_uint_eqI) (simp add: added_def uint_word_ariths)
  show "\<not> flag t SR_FLAG_EXTEND" using assms by (simp add: added_def)
qed

lemma combine_limbs:
  fixes B :: int
  assumes "d + B * x1 = c" and "n + B ^ k * x2 = m + x1"
  shows "d + B * n + B ^ Suc k * x2 = c + B * m"
proof -
  have "d + B * n + B ^ Suc k * x2 = d + B * (n + B ^ k * x2)" by (simp add: algebra_simps)
  also have "\<dots> = d + B * x1 + B * m" unfolding assms(2) by (simp add: algebra_simps)
  finally show ?thesis by (simp add: assms(1))
qed

lemma limb_same: "rval t r = rval s r \<Longrightarrow> limb sz t r = limb sz s r"
  by (simp add: limb_def)

lemma adds_general: "adds_extended sz p ins \<Longrightarrow> general_reg (fst p) \<and> general_reg (snd p)"
  by (cases p) (simp add: adds_extended_def)

lemma chain_general: "list_all2 (adds_extended sz) ps is \<Longrightarrow> p \<in> set ps \<Longrightarrow> general_reg (fst p) \<and> general_reg (snd p)"
  by (induction rule: list_all2_induct) (auto dest: adds_general)

lemma apart_regs_Cons:
  "apart_regs (p # ps) \<Longrightarrow> apart_regs ps \<and> fst p \<noteq> snd p \<and> snd p \<notin> snd ` set ps \<and>
     (\<forall>p' \<in> set ps. fst p' \<noteq> snd p \<and> snd p' \<noteq> snd p)"
  by (simp add: apart_regs_def image_iff) metis

lemma chain_keeps:
  assumes "list_all2 (adds_extended sz) ps is" and "proper_size sz" and "seqE (map execute is) s = (Inr (), t)"
  shows "(\<forall>r. general_reg r \<and> r \<notin> snd ` set ps \<longrightarrow> rval t r = rval s r) \<and> memory t = memory s"
  using assms(1,3)
proof (induction ps "is" arbitrary: s rule: list_all2_induct)
  case (Cons p ps ins "is")
  then obtain s1 where "execute ins s = (Inr (), s1)" and "seqE (map execute is) s1 = (Inr (), t)"
    by (auto elim: bindE_InrE)
  with Cons addx_added [of sz "fst p" "snd p" ins s s1] assms(2) show ?case by (auto simp: added_def)
qed (simp add: returnE_def)

lemma chain_runs:
  assumes "list_all2 (adds_extended sz) ps is" and "proper_size sz"
  shows "\<exists>t. seqE (map execute is) s = (Inr (), t)"
  using assms(1)
proof (induction ps "is" arbitrary: s rule: list_all2_induct)
  case (Cons p ps ins "is")
  then show ?case using addx_runs [of sz "fst p" "snd p" ins s] assms(2) by (auto simp: bindE_def)
qed (simp add: returnE_def)

lemma number_cong: "(\<And>p. p \<in> set ps \<Longrightarrow> f p = g p) \<Longrightarrow> number B (map f ps) = number B (map g ps)"
  by (metis map_eq_conv)

lemma extended_chain:
  assumes "list_all2 (adds_extended sz) ps is" and "apart_regs ps" and "proper_size sz" and "sz \<noteq> SIZE_LONG"
    and "seqE (map execute is) s = (Inr (), t)"
  shows "number (2 ^ bits_of sz) (map (limb sz t \<circ> snd) ps) + (2 ^ bits_of sz) ^ length ps * of_bool (flag t SR_FLAG_EXTEND) =
      number (2 ^ bits_of sz) (map (limb sz s \<circ> fst) ps) + number (2 ^ bits_of sz) (map (limb sz s \<circ> snd) ps) +
      of_bool (flag s SR_FLAG_EXTEND)"
  using assms(1,2,5)
proof (induction ps "is" arbitrary: s rule: list_all2_induct)
  case (Cons p ps ins "is")
  let ?B = "2 ^ bits_of sz :: int"
  obtain s1 where 1: "execute ins s = (Inr (), s1)" and 2: "seqE (map execute is) s1 = (Inr (), t)"
    using Cons.prems(2) by (auto elim: bindE_InrE)
  have a: "added sz (fst p) (snd p) (flag s SR_FLAG_EXTEND) s s1"
    using addx_added [of sz "fst p" "snd p" ins s s1] Cons.hyps(1) assms(3) 1 by simp
  have g: "general_reg (fst p)" "general_reg (snd p)" "\<And>p'. p' \<in> set ps \<Longrightarrow> general_reg (fst p') \<and> general_reg (snd p')"
    using adds_general [OF Cons.hyps(1)] chain_general [OF Cons.hyps(2)] by simp_all
  note ap = apart_regs_Cons [OF Cons.prems(1)]
  have "limb sz t (snd p) = limb sz s1 (snd p)"
    using chain_keeps [OF Cons.hyps(2) assms(3) 2] g(2) ap by (intro limb_same) simp
  moreover have same: "limb sz s1 r = limb sz s r" if "general_reg r" "r \<noteq> snd p" for r
    using a that by (intro limb_same) (simp add: added_def)
  have "number ?B (map (limb sz s1 \<circ> fst) ps) = number ?B (map (limb sz s \<circ> fst) ps)"
    "number ?B (map (limb sz s1 \<circ> snd) ps) = number ?B (map (limb sz s \<circ> snd) ps)"
    using g(3) ap by (intro number_cong; simp add: same)+
  moreover have "apart_regs ps" using ap by simp
  note combine_limbs [OF carry_out [OF a assms(4)] Cons.IH [OF this 2]]
  ultimately show ?case by (simp add: comp_def distrib_left)
qed (simp add: returnE_def)

lemma long_chain:
  assumes "list_all2 (adds_extended SIZE_LONG) ps is" and "apart_regs ps" and "seqE (map execute is) s = (Inr (), t)"
    and "\<not> flag s SR_FLAG_EXTEND"
  shows "\<not> flag t SR_FLAG_EXTEND \<and> (\<forall>p \<in> set ps. rval t (snd p) = rval s (fst p) + rval s (snd p))"
  using assms
proof (induction ps "is" arbitrary: s rule: list_all2_induct)
  case (Cons p ps ins "is")
  obtain s1 where 1: "execute ins s = (Inr (), s1)" and 2: "seqE (map execute is) s1 = (Inr (), t)"
    using Cons.prems(2) by (auto elim: bindE_InrE)
  have a: "added SIZE_LONG (fst p) (snd p) False s s1"
    using addx_added [of SIZE_LONG "fst p" "snd p" ins s s1] Cons.hyps(1) Cons.prems(3) 1 by simp
  have g: "general_reg (fst p)" "general_reg (snd p)" "\<And>p'. p' \<in> set ps \<Longrightarrow> general_reg (fst p') \<and> general_reg (snd p')"
    using adds_general [OF Cons.hyps(1)] chain_general [OF Cons.hyps(2)] by simp_all
  have keep: "\<And>r. general_reg r \<Longrightarrow> r \<noteq> snd p \<Longrightarrow> rval s1 r = rval s r" and x: "\<not> flag s1 SR_FLAG_EXTEND"
    using a by (simp_all add: added_def)
  have "rval s1 (snd p) = rval s (fst p) + rval s (snd p)" using added_long(1) [OF a] .
  moreover note ap = apart_regs_Cons [OF Cons.prems(1)]
  moreover have "rval t (snd p) = rval s1 (snd p)"
    using chain_keeps [OF Cons.hyps(2) _ 2] g(2) ap by simp
  moreover have "\<forall>p' \<in> set ps. rval s1 (fst p') = rval s (fst p') \<and> rval s1 (snd p') = rval s (snd p')"
    using g(3) ap by (simp add: keep)
  ultimately show ?case using Cons.IH [OF _ 2 x] by simp
qed (simp add: returnE_def)

section \<open>Properties\<close>

text \<open>
  C11. An ADD on data registers followed by any number of ADDX adds numbers of several limbs: for
  bytes and words the limbs of the result, with the extend flag as the next limb, are the exact
  sum of the two numbers, no other data or address register changes, and memory stays as it is.
  For long words every limb is only summed by itself, because the extend flag is never set.
\<close>

theorem multi_precision_add:
  assumes "adds sz q r ins" and "list_all2 (adds_extended sz) ps is" and "apart_regs ((q, r) # ps)" and "proper_size sz"
  shows "\<exists>t. seqE (map execute (ins # is)) s = (Inr (), t) \<and>
    (if sz = SIZE_LONG
     then \<not> flag t SR_FLAG_EXTEND \<and> (\<forall>(a, b) \<in> set ((q, r) # ps). rval t b = rval s a + rval s b)
     else number (2 ^ bits_of sz) (map (limb sz t \<circ> snd) ((q, r) # ps)) +
        (2 ^ bits_of sz) ^ length ((q, r) # ps) * of_bool (flag t SR_FLAG_EXTEND) =
      number (2 ^ bits_of sz) (map (limb sz s \<circ> fst) ((q, r) # ps)) +
      number (2 ^ bits_of sz) (map (limb sz s \<circ> snd) ((q, r) # ps))) \<and>
    (\<forall>b. general_reg b \<and> b \<notin> snd ` set ((q, r) # ps) \<longrightarrow> rval t b = rval s b) \<and> memory t = memory s"
proof -
  obtain s1 where 1: "execute ins s = (Inr (), s1)" and a: "added sz q r False s s1"
    using add_runs [OF assms(1,4)] by blast
  obtain t where 2: "seqE (map execute is) s1 = (Inr (), t)" using chain_runs [OF assms(2,4)] by blast
  note ap = apart_regs_Cons [OF assms(3), simplified] and k = chain_keeps [OF assms(2,4) 2]
  have g: "general_reg q" "general_reg r" "\<And>p'. p' \<in> set ps \<Longrightarrow> general_reg (fst p') \<and> general_reg (snd p')"
    using assms(1) chain_general [OF assms(2)] by (simp_all add: adds_def)
  have keep: "rval s1 b = rval s b" if "general_reg b" "b \<noteq> r" for b using a that by (simp add: added_def)
  have r: "rval t r = rval s1 r" using k g(2) ap by simp
  have same: "\<forall>p' \<in> set ps. rval s1 (fst p') = rval s (fst p') \<and> rval s1 (snd p') = rval s (snd p')"
    using g(3) ap by (simp add: keep)
  have long: "\<not> flag t SR_FLAG_EXTEND \<and> (\<forall>(a, b) \<in> set ((q, r) # ps). rval t b = rval s a + rval s b)" if "sz = SIZE_LONG"
  proof -
    have "\<not> flag s1 SR_FLAG_EXTEND" "rval s1 r = rval s q + rval s r" using a that added_long by blast+
    with long_chain [of ps "is" s1 t] assms(2) 2 ap same r that show ?thesis by (auto simp: split_beta)
  qed
  have exact: "number (2 ^ bits_of sz) (map (limb sz t \<circ> snd) ((q, r) # ps)) +
        (2 ^ bits_of sz) ^ length ((q, r) # ps) * of_bool (flag t SR_FLAG_EXTEND) =
      number (2 ^ bits_of sz) (map (limb sz s \<circ> fst) ((q, r) # ps)) +
      number (2 ^ bits_of sz) (map (limb sz s \<circ> snd) ((q, r) # ps))" if "sz \<noteq> SIZE_LONG"
  proof -
    have "number (2 ^ bits_of sz) (map (limb sz s1 \<circ> fst) ps) = number (2 ^ bits_of sz) (map (limb sz s \<circ> fst) ps)"
      "number (2 ^ bits_of sz) (map (limb sz s1 \<circ> snd) ps) = number (2 ^ bits_of sz) (map (limb sz s \<circ> snd) ps)"
      using same by (intro number_cong; simp add: limb_def)+
    moreover have "apart_regs ps" using ap by simp
    note combine_limbs [OF carry_out [OF a that] extended_chain [OF assms(2) this assms(4) that 2]]
    ultimately show ?thesis using limb_same [OF r, of sz] by (simp add: comp_def distrib_left)
  qed
  have "seqE (map execute (ins # is)) s = (Inr (), t)" using 1 2 by (simp add: bindE_def)
  moreover have "\<forall>b. general_reg b \<and> b \<notin> snd ` set ((q, r) # ps) \<longrightarrow> rval t b = rval s b" "memory t = memory s"
    using k a by (auto simp: keep added_def)
  ultimately show ?thesis using long exact unfolding if_bool_eq_conj by blast
qed

end
