(* ===== verification/Ins_Control.thy ===== *)
theory Ins_Control
  imports Decoder
begin

text \<open>
  The instructions that transfer control or build stack frames: what is on the stack after a
  call, where a return goes, what a branch does, and that LINK and UNLK undo each other.
\<close>

lemma rput_PC_last [simp]:
  assumes "general_reg r"
  shows "rput (rput s REG_PC p) r v = rput (rput s r v) REG_PC p"
proof -
  have "bank (registers (rput s REG_PC p)) r = bank (registers s) r" by simp
  then show ?thesis
    using assms by (simp add: rput_def) (simp add: fun_upd_twist)
qed

section \<open>Calls and returns\<close>

lemma getControlAddress_state:
  assumes "IS_CONTROL_ADDR m" and "general_reg r" and "getControlAddress m r sz s = (Inr a, s')"
  shows "s' = rput s REG_PC (pc_of s + ext_bytes m sz)"
  using assms
  by (cases m) (auto simp: IS_CONTROL_ADDR_def Let_def read_iffs bindE_apply int_add_def
      split: sum.splits prod.splits if_splits)

text \<open>The machine after a long word has been pushed and the program counter set.\<close>

lemma return_after_push:
  assumes "BaseMemory_set (memory s) (ucast (rval s REG_USP - 4)) SIZE_LONG d = Inr m"
    and "t = rput ((rput s REG_USP (rval s REG_USP - 4))\<lparr>memory := m\<rparr>) REG_PC q"
  shows "Rts_execute j t = (Inr (), rput (rput t REG_USP (rval s REG_USP)) REG_PC d)"
proof -
  have "BaseMemory_get (memory t) (ucast (rval t REG_USP)) SIZE_LONG = Inr d"
    using base.read_back [OF assms(1)] by (simp add: assms(2))
  then show ?thesis by (simp add: Rts_execute_def stackPop_eq) (simp add: assms(2))
qed

lemma Jsr_state:
  assumes "Jsr_execute i s = (Inr (), t)" and "IS_CONTROL_ADDR (Jsr.dest_mode i)" and "general_reg (Jsr.dest_reg i)"
  shows "\<exists>a m. fst (getControlAddress (Jsr.dest_mode i) (Jsr.dest_reg i) (Jsr.data_size i)
        (rput s REG_PC (pc_of s + 2))) = Inr a \<and>
    BaseMemory_set (memory s) (ucast (rval s REG_USP - 4)) SIZE_LONG
      (pc_of s + 2 + ext_bytes (Jsr.dest_mode i) (Jsr.data_size i)) = Inr m \<and>
    t = rput ((rput s REG_USP (rval s REG_USP - 4))\<lparr>memory := m\<rparr>) REG_PC a"
proof -
  obtain a s1 where a: "getControlAddress (Jsr.dest_mode i) (Jsr.dest_reg i) (Jsr.data_size i)
        (rput s REG_PC (pc_of s + 2)) = (Inr a, s1)"
    and rest: "bindE (regs_get REG_PC SIZE_LONG) (\<lambda>pc. bindE (stackPush SIZE_LONG pc)
        (\<lambda>_. regs_set REG_PC SIZE_LONG a)) s1 = (Inr (), t)"
    using assms(1) by (auto simp: Jsr_execute_def elim: bindE_InrE)
  from getControlAddress_state [OF assms(2,3) a]
  have s1: "s1 = rput s REG_PC (pc_of s + 2 + ext_bytes (Jsr.dest_mode i) (Jsr.data_size i))" by simp
  from rest obtain s2 where "stackPush SIZE_LONG (pc_of s1) s1 = (Inr (), s2)" and t: "t = rput s2 REG_PC a"
    by (auto elim: bindE_InrE)
  then show ?thesis using a unfolding stackPush_Inr
    by (auto simp: s1)
qed

text \<open>What a caller sees when it gets control back: everything but the memory below its stack.\<close>

definition resumed :: "CPUState \<Rightarrow> CPUState \<Rightarrow> 32 word \<Rightarrow> bool" where
  "resumed s u p \<longleftrightarrow> pc_of u = p \<and> (\<forall>r. general_reg r \<longrightarrow> rval u r = rval s r) \<and>
     (\<forall>f. flag u f = flag s f) \<and>
     (\<forall>a sz. separate (ucast (rval s REG_USP - 4)) SIZE_LONG a sz \<longrightarrow>
        BaseMemory_get (memory u) a sz = BaseMemory_get (memory s) a sz)"

lemma resumed_after_push:
  assumes "BaseMemory_set (memory s) (ucast (rval s REG_USP - 4)) SIZE_LONG d = Inr m"
    and "t = rput ((rput s REG_USP (rval s REG_USP - 4))\<lparr>memory := m\<rparr>) REG_PC q"
  shows "\<exists>u. Rts_execute j t = (Inr (), u) \<and> resumed s u d"
  using return_after_push [OF assms, of j] base.rd_wr_separate [OF assms(1)]
  by (simp add: resumed_def) (simp add: assms(2))

theorem call_then_return:
  assumes "Decode generateOpcodeTable opc = I_Jsr i" and "execute (I_Jsr i) s = (Inr (), t)"
  shows "\<exists>u. execute (I_Rts j) t = (Inr (), u) \<and>
    resumed s u (pc_of s + 2 + ext_bytes (Jsr.dest_mode i) (Jsr.data_size i))"
proof -
  have "IS_CONTROL_ADDR (Jsr.dest_mode i)" and "general_reg (Jsr.dest_reg i)"
    using decode_modes_ok [of opc] decode_regs_ok [of opc] assms(1) by (simp_all add: Decode_spec)
  with assms(2) Jsr_state [of i s t] show ?thesis by (auto intro: resumed_after_push)
qed

section \<open>Branches\<close>

fun bcc_bytes :: "Bcc \<Rightarrow> 32 word" where
  "bcc_bytes i = (case Bcc.data_size i of SIZE_WORD \<Rightarrow> 2 | SIZE_LONG \<Rightarrow> 4 | _ \<Rightarrow> 0)"

lemma Bcc_displacement_state:
  "Bcc_displacement i s = (Inr d, s') \<Longrightarrow> s' = rput s REG_PC (pc_of s + bcc_bytes i)"
  by (cases "Bcc.data_size i")
    (auto simp: Bcc_displacement_def Let_def read_iffs bindE_apply split: sum.splits prod.splits)

lemma checkCondition_apply: "checkCondition c s = (fst (checkCondition c s), s)"
  by (simp add: checkCondition_def)

lemma checkCondition_rput [simp]: "r \<noteq> REG_SR \<Longrightarrow> fst (checkCondition c (rput s r v)) = fst (checkCondition c s)"
  by (simp add: checkCondition_def)

lemma checkCondition_True: "fst (checkCondition COND_TRUE s) = Inr True"
  by (simp add: checkCondition_def)

lemma Bcc_run:
  assumes "Bcc_execute i s = (Inr (), t)"
  obtains d where "Bcc_displacement i (rput s REG_PC (pc_of s + 2)) =
      (Inr d, rput s REG_PC (pc_of s + 2 + bcc_bytes i))"
    and "(case Bcc.condition i of
       COND_TRUE \<Rightarrow> regs_set REG_PC SIZE_LONG (pc_of s + 2 + d)
     | COND_FALSE \<Rightarrow>
         bindE (stackPush SIZE_LONG (pc_of s + 2)) (\<lambda>_.
         regs_set REG_PC SIZE_LONG (pc_of s + 2 + d))
     | _ \<Rightarrow>
         bindE (checkCondition (Bcc.condition i)) (\<lambda>cond_result.
         whenE cond_result (regs_set REG_PC SIZE_LONG (pc_of s + 2 + d))))
     (rput s REG_PC (pc_of s + 2 + bcc_bytes i)) = (Inr (), t)"
proof -
  obtain d s1 where d: "Bcc_displacement i (rput s REG_PC (pc_of s + 2)) = (Inr d, s1)"
    and rest: "(case Bcc.condition i of
       COND_TRUE \<Rightarrow> regs_set REG_PC SIZE_LONG (pc_of s + 2 + d)
     | COND_FALSE \<Rightarrow>
         bindE (stackPush SIZE_LONG (pc_of s + 2)) (\<lambda>_.
         regs_set REG_PC SIZE_LONG (pc_of s + 2 + d))
     | _ \<Rightarrow>
         bindE (checkCondition (Bcc.condition i)) (\<lambda>cond_result.
         whenE cond_result (regs_set REG_PC SIZE_LONG (pc_of s + 2 + d)))) s1 = (Inr (), t)"
    using assms by (auto simp: Bcc_execute_def Let_def elim: bindE_InrE)
  from Bcc_displacement_state [OF d] have "s1 = rput s REG_PC (pc_of s + 2 + bcc_bytes i)" by simp
  with d rest show ?thesis by (auto intro: that)
qed

lemma branch_outcome:
  assumes "Bcc_execute i s = (Inr (), t)" and "Bcc.condition i \<noteq> COND_FALSE"
  shows "\<exists>d. fst (Bcc_displacement i (rput s REG_PC (pc_of s + 2))) = Inr d \<and>
    t = rput s REG_PC (if fst (checkCondition (Bcc.condition i) s) = Inr True
                       then pc_of s + 2 + d else pc_of s + 2 + bcc_bytes i)"
proof -
  obtain d where d: "Bcc_displacement i (rput s REG_PC (pc_of s + 2)) =
      (Inr d, rput s REG_PC (pc_of s + 2 + bcc_bytes i))"
    and rest: "(case Bcc.condition i of
       COND_TRUE \<Rightarrow> regs_set REG_PC SIZE_LONG (pc_of s + 2 + d)
     | COND_FALSE \<Rightarrow>
         bindE (stackPush SIZE_LONG (pc_of s + 2)) (\<lambda>_.
         regs_set REG_PC SIZE_LONG (pc_of s + 2 + d))
     | _ \<Rightarrow>
         bindE (checkCondition (Bcc.condition i)) (\<lambda>cond_result.
         whenE cond_result (regs_set REG_PC SIZE_LONG (pc_of s + 2 + d))))
     (rput s REG_PC (pc_of s + 2 + bcc_bytes i)) = (Inr (), t)"
    using assms(1) by (rule Bcc_run)
  have "t = rput s REG_PC (if fst (checkCondition (Bcc.condition i) s) = Inr True
                       then pc_of s + 2 + d else pc_of s + 2 + bcc_bytes i)"
    using rest assms(2)
    by (cases "Bcc.condition i") (auto simp: checkCondition_def split: if_splits)
  with d show ?thesis by auto
qed

text \<open>The displacement as a number: from the opcode, or from the words behind it.\<close>

lemma low_byte: "ucast (w AND 0xFF) = (ucast w :: 8 word)" for w :: "16 word"
proof -
  have "w AND 0xFF = take_bit 8 w" by (simp add: take_bit_eq_mask mask_eq_exp_minus_1)
  then show ?thesis by (simp only:) (rule bit_word_eqI, auto simp: bit_simps)
qed

lemma Bcc_new_fields:
  "Bcc.displacement_8 (Bcc_new opc) = ucast opc" "Bcc.condition (Bcc_new opc) = getCondition (drop_bit 8 opc AND 0xF)"
  "Bcc.data_size (Bcc_new opc) = (if ucast opc = (0 :: 8 word) then SIZE_WORD else if ucast opc = (0xFF :: 8 word) then SIZE_LONG else SIZE_BYTE)"
  by (simp_all add: Bcc_new_def low_byte Let_def)

lemma Bcc_displacement_value:
  assumes "fst (Bcc_displacement (Bcc_new opc) (rput s REG_PC p)) = Inr d"
  shows "if ucast opc = (0 :: 8 word) then \<exists>w. BaseMemory_get (memory s) (ucast p) SIZE_WORD = Inr w \<and> d = of_int (sint (ucast w :: 16 word))
    else if ucast opc = (0xFF :: 8 word) then BaseMemory_get (memory s) (ucast p) SIZE_LONG = Inr d
    else d = of_int (sint (ucast opc :: 8 word))"
  using assms
  by (auto simp: Bcc_displacement_def Bcc_new_fields Let_def bindE_apply mem_get_apply sext16_def
      split: sum.splits if_splits)

text \<open>
  C25. BRA and Bcc change nothing but the program counter. The displacement is the low byte of the
  opcode as a signed number; when that byte is 0 it is the signed word behind the opcode, and when
  it is 0xFF the long word there. When the condition in the opcode holds, the program counter
  becomes the address after the opcode word plus the displacement, and otherwise the address
  behind the displacement.
\<close>

theorem branch_taken_or_not:
  assumes "Bcc_execute (Bcc_new opc) s = (Inr (), t)" and "Bcc.condition (Bcc_new opc) \<noteq> COND_FALSE"
  defines "byte \<equiv> ucast opc :: 8 word"
    and "extension \<equiv> BaseMemory_get (memory s) (ucast (pc_of s + 2))"
  shows "\<exists>d n. (if byte = 0 then \<exists>w. extension SIZE_WORD = Inr w \<and> d = sint (ucast w :: 16 word) \<and> n = 2
      else if byte = 0xFF then \<exists>w. extension SIZE_LONG = Inr w \<and> d = sint w \<and> n = 4
      else d = sint byte \<and> n = 0) \<and>
    t = rput s REG_PC (if fst (checkCondition (getCondition (drop_bit 8 opc AND 0xF)) s) = Inr True
                       then pc_of s + 2 + of_int d else pc_of s + 2 + n)"
proof -
  obtain d where d: "fst (Bcc_displacement (Bcc_new opc) (rput s REG_PC (pc_of s + 2))) = Inr d"
    and t: "t = rput s REG_PC (if fst (checkCondition (Bcc.condition (Bcc_new opc)) s) = Inr True
                       then pc_of s + 2 + d else pc_of s + 2 + bcc_bytes (Bcc_new opc))"
    using branch_outcome [OF assms(1,2)] by auto
  have n: "bcc_bytes (Bcc_new opc) = (if byte = 0 then 2 else if byte = 0xFF then 4 else 0)"
    by (simp add: Bcc_new_fields byte_def)
  show ?thesis
    using Bcc_displacement_value [OF d] unfolding t n Bcc_new_fields(2) byte_def [symmetric] extension_def
    by (cases "byte = 0"; cases "byte = 0xFF") auto
qed

text \<open>The text of a branch names the address a taken branch goes to.\<close>

text \<open>
  C26. The disassembly of a BRA or Bcc ends with the hexadecimal number of the address to which
  the taken branch goes, and consumes the same bytes.
\<close>

theorem branch_text_is_target:
  assumes "Bcc_execute i s = (Inr (), t)" and "Bcc.condition i \<noteq> COND_FALSE"
    and "fst (checkCondition (Bcc.condition i) s) = Inr True"
  shows "\<exists>mnemonic u. Bcc_disassembly i s = (Inr (mnemonic @ '' $'' @ hex (pc_of t)), u) \<and>
    u = rput s REG_PC (pc_of s + 2 + bcc_bytes i)"
proof -
  obtain d where d: "Bcc_displacement i (rput s REG_PC (pc_of s + 2)) =
      (Inr d, rput s REG_PC (pc_of s + 2 + bcc_bytes i))"
    using assms(1) by (rule Bcc_run)
  moreover have "pc_of t = pc_of s + 2 + d"
    using branch_outcome [OF assms(1,2)] d assms(3) by auto
  ultimately show ?thesis by (auto simp: Bcc_disassembly_def Bcc_copies_agree Let_def)
qed

text \<open>
  BSR pushes the address after the opcode word, whatever the size of the displacement: a return
  from a BSR with an extension word goes to that extension word.
\<close>

lemma Bsr_state:
  assumes "Bcc_execute i s = (Inr (), t)" and "Bcc.condition i = COND_FALSE"
  shows "\<exists>m a. BaseMemory_set (memory s) (ucast (rval s REG_USP - 4)) SIZE_LONG (pc_of s + 2) = Inr m \<and>
    t = rput ((rput s REG_USP (rval s REG_USP - 4))\<lparr>memory := m\<rparr>) REG_PC a"
proof -
  obtain d where "bindE (stackPush SIZE_LONG (pc_of s + 2)) (\<lambda>_. regs_set REG_PC SIZE_LONG (pc_of s + 2 + d))
     (rput s REG_PC (pc_of s + 2 + bcc_bytes i)) = (Inr (), t)"
    using Bcc_run [OF assms(1)] assms(2) by auto
  then obtain s2 where "stackPush SIZE_LONG (pc_of s + 2) (rput s REG_PC (pc_of s + 2 + bcc_bytes i)) = (Inr (), s2)"
    and "t = rput s2 REG_PC (pc_of s + 2 + d)"
    by (auto elim: bindE_InrE)
  then show ?thesis unfolding stackPush_Inr by auto
qed

theorem subroutine_branch_return:
  assumes "Bcc_execute i s = (Inr (), t)" and "Bcc.condition i = COND_FALSE"
  shows "\<exists>u. Rts_execute j t = (Inr (), u) \<and> resumed s u (pc_of s + 2)"
  using Bsr_state [OF assms] by (auto intro: resumed_after_push)

section \<open>Stack frames\<close>

lemma Link_state:
  assumes "Link_execute i s = (Inr (), t)" and "general_reg (Link.addr_reg i)" and "Link.addr_reg i \<noteq> REG_A7"
  shows "\<exists>m d. BaseMemory_set (memory s) (ucast (rval s REG_A7 - 4)) SIZE_LONG (rval s (Link.addr_reg i)) = Inr m \<and>
    memory t = m \<and> rval t (Link.addr_reg i) = rval s REG_A7 - 4 \<and> rval t REG_A7 = rval s REG_A7 - 4 + d"
  using assms
  by (auto simp: Link_execute_def Let_def stackPush_Inr mem_get_iff elim!: bindE_InrE)

lemma Unlk_state:
  assumes "BaseMemory_get (memory s) (ucast (rval s (Unlk.addr_reg j))) SIZE_LONG = Inr d"
    and "general_reg (Unlk.addr_reg j)" and "Unlk.addr_reg j \<noteq> REG_A7"
  shows "\<exists>u. Unlk_execute j s = (Inr (), u) \<and> rval u (Unlk.addr_reg j) = d \<and>
    rval u REG_A7 = rval s (Unlk.addr_reg j) + 4 \<and> pc_of u = pc_of s + 2"
  using assms by (simp add: Unlk_execute_def stackPop_eq)

text \<open>
  C27. An UNLK of the same address register undoes a LINK of an address register other than A7,
  whatever happened in between, as long as the register and the saved long word it points to are
  as LINK left them: the register and the stack pointer are those before the LINK.
\<close>

theorem link_then_unlk:
  assumes "Decode generateOpcodeTable opc = I_Link i" and "execute (I_Link i) s = (Inr (), t)"
    and "Link.addr_reg i \<noteq> REG_A7" and "Unlk.addr_reg j = Link.addr_reg i"
    and "rval t' (Link.addr_reg i) = rval t (Link.addr_reg i)"
    and "BaseMemory_get (memory t') (ucast (rval t (Link.addr_reg i))) SIZE_LONG =
         BaseMemory_get (memory t) (ucast (rval t (Link.addr_reg i))) SIZE_LONG"
  shows "\<exists>u. execute (I_Unlk j) t' = (Inr (), u) \<and>
    rval u (Link.addr_reg i) = rval s (Link.addr_reg i) \<and> rval u REG_A7 = rval s REG_A7 \<and>
    pc_of u = pc_of t' + 2"
proof -
  have g: "general_reg (Link.addr_reg i)"
    using decode_regs_ok [of opc] assms(1) by (simp add: Decode_spec)
  obtain m where m: "BaseMemory_set (memory s) (ucast (rval s REG_A7 - 4)) SIZE_LONG (rval s (Link.addr_reg i)) = Inr m"
    and t: "memory t = m" "rval t (Link.addr_reg i) = rval s REG_A7 - 4"
    using Link_state [of i s t] assms(2,3) g by auto
  have "BaseMemory_get (memory t') (ucast (rval t' (Unlk.addr_reg j))) SIZE_LONG = Inr (rval s (Link.addr_reg i))"
    using assms(4-6) t base.read_back [OF m] by simp
  from Unlk_state [OF this] show ?thesis using g assms(3-5) t by auto
qed

end
