(* ===== verification/Cells.thy ===== *)
theory Cells
  imports Cpu_View
begin

text \<open>
  The full memory seen as cells: long words at even addresses below 16 MB, with reads and writes as
  total functions.  Programs are run on this view.
\<close>

section \<open>Addresses as numbers\<close>

definition full :: "BaseMemory \<Rightarrow> bool" where
  "full m \<longleftrightarrow> memSize m = MEMORY_SIZE"

abbreviation cell :: "nat \<Rightarrow> bool" where
  "cell k \<equiv> even k \<and> k + 4 \<le> 2 ^ 24"

lemma phys_of_nat: "k < 2 ^ 24 \<Longrightarrow> phys (ucast (of_nat k :: 32 word)) = k"
  by (simp add: phys_mod unsigned_ucast_eq unsigned_of_nat take_bit_nat_eq_self)

section \<open>Reading and writing\<close>

definition lread :: "BaseMemory \<Rightarrow> nat \<Rightarrow> 32 word" where
  "lread m k = projr (BaseMemory_get m (ucast (of_nat k :: 32 word)) SIZE_LONG)"

definition lwrite :: "BaseMemory \<Rightarrow> nat \<Rightarrow> 32 word \<Rightarrow> BaseMemory" where
  "lwrite m k v = projr (BaseMemory_set m (ucast (of_nat k :: 32 word)) SIZE_LONG v)"

lemma full_size: "full m \<Longrightarrow> unat (memSize m) = 2 ^ 24"
  by (simp add: full_def MEMORY_SIZE_nat)

lemma get_cell:
  assumes "full m" and "cell k"
  shows "BaseMemory_get m (ucast (of_nat k :: 32 word)) SIZE_LONG = Inr (lread m k)"
  using assms full_size [of m] phys_of_nat [of k] by (simp add: lread_def BaseMemory_get_eq Let_def)

lemma set_cell:
  assumes "full m" and "cell k"
  shows "BaseMemory_set m (ucast (of_nat k :: 32 word)) SIZE_LONG v = Inr (lwrite m k v)"
  using assms full_size [of m] phys_of_nat [of k] by (simp add: lwrite_def BaseMemory_set_eq)

lemma mem_set_cell [simp]:
  "full (memory s) \<Longrightarrow> cell k \<Longrightarrow> mem_set (of_nat k) SIZE_LONG v s = (Inr (), s\<lparr>memory := lwrite (memory s) k v\<rparr>)"
  by (simp add: mem_set_def set_cell)

lemma mem_get_cell [simp]:
  "full (memory s) \<Longrightarrow> cell k \<Longrightarrow> mem_get (of_nat k) SIZE_LONG s = (Inr (lread (memory s) k), s)"
  by (simp add: mem_get_apply get_cell)

lemma full_lwrite [simp]: "full m \<Longrightarrow> cell k \<Longrightarrow> full (lwrite m k v)"
  using BaseMemory_set_memSize [OF set_cell] by (simp add: full_def)

lemma lread_lwrite_same: "full m \<Longrightarrow> cell k \<Longrightarrow> lread (lwrite m k v) k = v"
  using base.read_back [OF set_cell [of m k v]] by (simp add: lread_def)

lemma apart:
  assumes "i + size_val sz \<le> j \<or> j + size_val sz' \<le> i" and "i < 2 ^ 24" and "j < 2 ^ 24"
  shows "separate (ucast (of_nat i :: 32 word)) sz (ucast (of_nat j :: 32 word)) sz'"
  using assms by (simp add: separate_def phys_of_nat)

lemma lread_lwrite_other:
  "full m \<Longrightarrow> cell k \<Longrightarrow> cell j \<Longrightarrow> j + 4 \<le> k \<or> k + 4 \<le> j \<Longrightarrow> lread (lwrite m k v) j = lread m j"
  using base.rd_wr_separate [OF set_cell [of m k v] apart [of k SIZE_LONG j SIZE_LONG]]
  by (auto simp: lread_def)

section \<open>Memories that agree outside a region\<close>

text \<open>\<open>m'\<close> is \<open>m\<close> with some long words inside the set of addresses \<open>A\<close> overwritten.\<close>

inductive altered :: "nat set \<Rightarrow> BaseMemory \<Rightarrow> BaseMemory \<Rightarrow> bool" for A m where
  same: "altered A m m"
| store: "altered A m m' \<Longrightarrow> cell k \<Longrightarrow> {k..<k + 4} \<subseteq> A \<Longrightarrow> altered A m (lwrite m' k v)"

lemma altered_trans: "altered A m' m'' \<Longrightarrow> altered A m m' \<Longrightarrow> altered A m m''"
  by (induction rule: altered.induct) (auto intro: altered.intros)

lemma altered_mono: "altered A m m' \<Longrightarrow> A \<subseteq> B \<Longrightarrow> altered B m m'"
  by (induction rule: altered.induct) (blast intro: altered.intros)+

lemma altered_full: "altered A m m' \<Longrightarrow> full m \<Longrightarrow> full m'"
  by (induction rule: altered.induct) auto

lemma apart_cells: "{j..<j + n} \<inter> A = {} \<Longrightarrow> {k..<k + 4} \<subseteq> A \<Longrightarrow> 0 < n \<Longrightarrow> j + n \<le> k \<or> k + 4 \<le> (j :: nat)"
proof (rule ccontr)
  assume a: "{j..<j + n} \<inter> A = {}" "{k..<k + 4} \<subseteq> A" "0 < n" and "\<not> (j + n \<le> k \<or> k + 4 \<le> j)"
  then have "max j k \<in> {j..<j + n}" "max j k \<in> {k..<k + 4}" by auto
  with a show False by blast
qed

lemma altered_get:
  "altered A m m' \<Longrightarrow> full m \<Longrightarrow> j < 2 ^ 24 \<Longrightarrow> {j..<j + size_val sz} \<inter> A = {} \<Longrightarrow> 0 < size_val sz \<Longrightarrow>
   BaseMemory_get m' (ucast (of_nat j :: 32 word)) sz = BaseMemory_get m (ucast (of_nat j :: 32 word)) sz"
proof (induction rule: altered.induct)
  case (store m' k v)
  moreover have "full m'" using store by (auto dest: altered_full)
  moreover have "j + size_val sz \<le> k \<or> k + 4 \<le> j" using apart_cells store by blast
  ultimately show ?case
    using base.rd_wr_separate [OF set_cell [of m' k v] apart [of k SIZE_LONG j sz]] by auto
qed simp

lemma altered_lread: "altered A m m' \<Longrightarrow> full m \<Longrightarrow> cell j \<Longrightarrow> {j..<j + 4} \<inter> A = {} \<Longrightarrow> lread m' j = lread m j"
  using altered_get [of A m m' j SIZE_LONG] by (simp add: lread_def)

text \<open>The set is often an interval.\<close>

abbreviation changed :: "nat \<Rightarrow> nat \<Rightarrow> BaseMemory \<Rightarrow> BaseMemory \<Rightarrow> bool" where
  "changed lo hi \<equiv> altered {lo..<hi}"

lemma changed_store: "changed lo hi m m' \<Longrightarrow> cell k \<Longrightarrow> lo \<le> k \<Longrightarrow> k + 4 \<le> hi \<Longrightarrow> changed lo hi m (lwrite m' k v)"
  by (rule altered.store) auto

lemmas changed_intros = altered.same changed_store

lemma changed_mono: "changed lo hi m m' \<Longrightarrow> lo' \<le> lo \<Longrightarrow> hi \<le> hi' \<Longrightarrow> changed lo' hi' m m'"
  by (rule altered_mono) auto

lemma changed_lread: "changed lo hi m m' \<Longrightarrow> full m \<Longrightarrow> cell j \<Longrightarrow> j + 4 \<le> lo \<or> hi \<le> j \<Longrightarrow> lread m' j = lread m j"
  by (rule altered_lread) auto

lemma changed_get:
  "changed lo hi m m' \<Longrightarrow> full m \<Longrightarrow> j < 2 ^ 24 \<Longrightarrow> j + size_val sz \<le> lo \<or> hi \<le> j \<Longrightarrow>
   BaseMemory_get m' (ucast (of_nat j :: 32 word)) sz = BaseMemory_get m (ucast (of_nat j :: 32 word)) sz"
proof (induction rule: altered.induct)
  case (store m' k v)
  moreover have "full m'" using store by (auto dest: altered_full)
  moreover have "lo \<le> k" "k + 4 \<le> hi" using store by (auto dest: subsetD [where c = "k + 3"] subsetD [where c = k])
  ultimately show ?case
    using base.rd_wr_separate [OF set_cell [of m' k v] apart [of k SIZE_LONG j sz]] by auto
qed simp

end
