(* ===== verification/Call_Stack.thy ===== *)
theory Call_Stack
  imports Ins_Control Cells Cpu
begin

text \<open>
  Subroutines over whole runs: the long words above the stack pointer implement a stack of return
  addresses, on which JSR and BSR push, RTS pops, and every other step that leaves the stack alone
  does nothing.  So calls and returns nest, however many steps lie between them.
\<close>

section \<open>The stack of return addresses\<close>

definition sp_of :: "CPUState \<Rightarrow> nat" where
  "sp_of s = unat (rval s REG_A7)"

definition return_stack :: "CPUState \<Rightarrow> 32 word list \<Rightarrow> bool" where
  "return_stack s rs \<longleftrightarrow> full (memory s) \<and> even (sp_of s) \<and> sp_of s + 4 * length rs \<le> 2 ^ 24 \<and>
     map (\<lambda>k. lread (memory s) (sp_of s + 4 * k)) [0..<length rs] = rs"

lemma rval_sp: "rval s REG_A7 = of_nat (sp_of s)"
  by (simp add: sp_of_def)

lemma return_stack_Cons:
  "return_stack s (q # qs) \<longleftrightarrow> full (memory s) \<and> cell (sp_of s) \<and> lread (memory s) (sp_of s) = q \<and>
     sp_of s + 4 + 4 * length qs \<le> 2 ^ 24 \<and>
     map (\<lambda>k. lread (memory s) (sp_of s + 4 + 4 * k)) [0..<length qs] = qs"
proof -
  have "[0..<Suc (length qs)] = 0 # map Suc [0..<length qs]"
    by (simp add: upt_conv_Cons map_Suc_upt del: upt_Suc)
  then show ?thesis
    by (auto simp: return_stack_def o_def add.assoc simp del: upt_Suc)
qed

text \<open>A push puts its value on top; a pop uncovers the rest.\<close>

lemma return_stack_push:
  assumes "return_stack s qs" and "4 \<le> sp_of s"
    and "BaseMemory_set (memory s) (ucast (rval s REG_A7 - 4)) SIZE_LONG d = Inr m"
    and "t = rput ((rput s REG_A7 (rval s REG_A7 - 4))\<lparr>memory := m\<rparr>) REG_PC q"
  shows "return_stack t (d # qs)"
proof -
  let ?k = "sp_of s - 4"
  have s: "full (memory s)" "even (sp_of s)" "sp_of s + 4 * length qs \<le> 2 ^ 24"
    "map (\<lambda>k. lread (memory s) (sp_of s + 4 * k)) [0..<length qs] = qs"
    using assms(1) by (simp_all add: return_stack_def)
  have c: "cell ?k" using s(2,3) assms(2) by auto
  have "rval s REG_A7 - 4 = of_nat ?k" using assms(2) by (simp add: sp_of_def of_nat_diff)
  with assms(3) set_cell [OF s(1) c] have m: "m = lwrite (memory s) ?k d"
    and sp: "sp_of t = ?k" and mt: "memory t = m"
    using c by (auto simp: assms(4) sp_of_def unsigned_of_nat take_bit_nat_eq_self)
  have "lread m (?k + 4 + 4 * k) = lread (memory s) (sp_of s + 4 * k)" if "k < length qs" for k
    using lread_lwrite_other [OF s(1) c, of "sp_of s + 4 * k" d] s(2,3) that assms(2) by (simp add: m)
  then have "map (\<lambda>k. lread m (?k + 4 + 4 * k)) [0..<length qs] = qs"
    using s(4) by (metis (mono_tags, lifting) atLeastLessThan_iff map_eq_conv set_upt)
  then show ?thesis
    using s(1-3) c assms(2) by (simp add: return_stack_Cons sp mt) (simp add: m lread_lwrite_same)
qed

lemma return_stack_pop:
  assumes "return_stack s (q # qs)"
  shows "Rts_execute j s = (Inr (), rput (rput s REG_A7 (rval s REG_A7 + 4)) REG_PC q) \<and>
    return_stack (rput (rput s REG_A7 (rval s REG_A7 + 4)) REG_PC q) qs"
proof -
  have s: "full (memory s)" "cell (sp_of s)" "lread (memory s) (sp_of s) = q"
    "sp_of s + 4 + 4 * length qs \<le> 2 ^ 24"
    "map (\<lambda>k. lread (memory s) (sp_of s + 4 + 4 * k)) [0..<length qs] = qs"
    using assms by (simp_all add: return_stack_Cons)
  have "BaseMemory_get (memory s) (ucast (rval s REG_A7)) SIZE_LONG = Inr q"
    using get_cell [OF s(1,2)] s(3) by (simp add: rval_sp)
  then have 1: "Rts_execute j s = (Inr (), rput (rput s REG_A7 (rval s REG_A7 + 4)) REG_PC q)"
    by (simp add: Rts_execute_def stackPop_eq)
  have "rval s REG_A7 + 4 = of_nat (sp_of s + 4)" by (simp add: rval_sp)
  moreover have "sp_of s + 4 < 2 ^ 32" using s(4) by simp
  ultimately have "sp_of (rput (rput s REG_A7 (rval s REG_A7 + 4)) REG_PC q) = sp_of s + 4"
    by (simp add: sp_of_def unsigned_of_nat take_bit_nat_eq_self del: of_nat_add)
  with 1 s show ?thesis by (simp add: return_stack_def)
qed

text \<open>Whatever leaves the stack pointer and the memory above it alone leaves the stack as it is.\<close>

definition stack_untouched :: "CPUState \<Rightarrow> CPUState \<Rightarrow> bool" where
  "stack_untouched s t \<longleftrightarrow> rval t REG_A7 = rval s REG_A7 \<and> memSize (memory t) = memSize (memory s) \<and>
     (\<forall>k. cell k \<longrightarrow> sp_of s \<le> k \<longrightarrow> lread (memory t) k = lread (memory s) k)"

lemma return_stack_untouched:
  assumes "return_stack s qs" and "stack_untouched s t"
  shows "return_stack t qs"
proof -
  have sp: "sp_of t = sp_of s" using assms(2) by (simp add: sp_of_def stack_untouched_def)
  have "lread (memory t) (sp_of s + 4 * k) = lread (memory s) (sp_of s + 4 * k)" if "k < length qs" for k
  proof -
    have "cell (sp_of s + 4 * k)" using assms(1) that by (auto simp: return_stack_def)
    with assms(2) show ?thesis by (auto simp: stack_untouched_def)
  qed
  then have "map (\<lambda>k. lread (memory t) (sp_of s + 4 * k)) [0..<length qs] =
      map (\<lambda>k. lread (memory s) (sp_of s + 4 * k)) [0..<length qs]" by simp
  also have "\<dots> = qs" using assms(1) by (simp add: return_stack_def)
  finally show ?thesis using sp assms by (simp add: return_stack_def stack_untouched_def full_def)
qed

section \<open>Runs with calls\<close>

text \<open>The instruction the next step of a machine will execute.\<close>

definition at_instruction :: "CPU \<Rightarrow> Ins \<Rightarrow> bool" where
  "at_instruction c i \<longleftrightarrow> (\<exists>w. BaseMemory_get (memory (state c)) (ucast (pc_of (state c))) SIZE_WORD = Inr w \<and>
     Decode (instruction_decoder c) (ucast w) = i)"

lemma step_at: "at_instruction c i \<Longrightarrow> CPU_step c = on_state (execute i) c"
  by (auto simp: at_instruction_def CPU_step_def bindE_apply on_state_apply mem_get_apply)

text \<open>
  \<open>nested c rs d qs\<close>: a run from \<open>c\<close> to \<open>d\<close>, in which the return addresses on the stack, \<open>rs\<close> at
  the start, have become \<open>qs\<close>.  A call is an instruction of class JSR or the BSR form of Bcc; the
  return address of a BSR is the one the code pushes.  Between calls and returns there can be any
  steps, which may use the stack for data of their own, as long as they restore the stack pointer
  and have not written above it.
\<close>

inductive nested :: "CPU \<Rightarrow> 32 word list \<Rightarrow> CPU \<Rightarrow> 32 word list \<Rightarrow> bool" for c rs where
  start: "nested c rs c rs"
| jsr: "nested c rs d qs \<Longrightarrow> at_instruction d (I_Jsr i) \<Longrightarrow> CPU_step d = (Inr (), e) \<Longrightarrow> 4 \<le> sp_of (state d) \<Longrightarrow>
    nested c rs e ((pc_of (state d) + 2 + ext_bytes (Jsr.dest_mode i) (Jsr.data_size i)) # qs)"
| bsr: "nested c rs d qs \<Longrightarrow> at_instruction d (I_Bcc b) \<Longrightarrow> Bcc.condition b = COND_FALSE \<Longrightarrow>
    CPU_step d = (Inr (), e) \<Longrightarrow> 4 \<le> sp_of (state d) \<Longrightarrow> nested c rs e ((pc_of (state d) + 2) # qs)"
| rts: "nested c rs d (q # qs) \<Longrightarrow> at_instruction d (I_Rts j) \<Longrightarrow> CPU_step d = (Inr (), e) \<Longrightarrow> nested c rs e qs"
| local: "nested c rs d qs \<Longrightarrow> reachable d e \<Longrightarrow> stack_untouched (state d) (state e) \<Longrightarrow> nested c rs e qs"

lemma reachable_decoder: "reachable d e \<Longrightarrow> decoder_ok d \<Longrightarrow> decoder_ok e"
  by (induction rule: reachable.induct) (auto simp: decoder_ok_def dest: step_decoder)

lemma step_state: "at_instruction d i \<Longrightarrow> CPU_step d = (r, e) \<Longrightarrow> execute i (state d) = (r, state e)"
  by (auto simp: step_at on_state_apply)

lemma decoded_jsr:
  assumes "at_instruction d (I_Jsr i)" and "decoder_ok d"
  shows "IS_CONTROL_ADDR (Jsr.dest_mode i) \<and> general_reg (Jsr.dest_reg i)"
proof -
  obtain opc where "decode_spec opc = I_Jsr i"
    using assms by (auto simp: at_instruction_def decoder_ok_def Decode_spec)
  then show ?thesis using decode_modes_ok [of opc] decode_regs_ok [of opc] by simp
qed

lemma nested_return_stack:
  assumes "nested c rs d qs" and "decoder_ok c" and "return_stack (state c) rs"
  shows "decoder_ok d \<and> return_stack (state d) qs"
  using assms(1)
proof (induction rule: nested.induct)
  case start
  then show ?case using assms(2,3) by simp
next
  case (jsr d qs i e)
  then have "decoder_ok e" using step_decoder by (auto simp: decoder_ok_def)
  moreover have "Jsr_execute i (state d) = (Inr (), state e)" using step_state [OF jsr(2,3)] by simp
  from Jsr_state [OF this] decoded_jsr [OF jsr(2)] jsr return_stack_push
  have "return_stack (state e) ((pc_of (state d) + 2 + ext_bytes (Jsr.dest_mode i) (Jsr.data_size i)) # qs)" by blast
  ultimately show ?case by simp
next
  case (bsr d qs b e)
  then have "decoder_ok e" using step_decoder by (auto simp: decoder_ok_def)
  moreover have "Bcc_execute b (state d) = (Inr (), state e)" using step_state [OF bsr(2,4)] by simp
  from Bsr_state [OF this bsr(3)] bsr return_stack_push
  have "return_stack (state e) ((pc_of (state d) + 2) # qs)" by blast
  ultimately show ?case by simp
next
  case (rts d q qs j e)
  then have "decoder_ok e" using step_decoder by (auto simp: decoder_ok_def)
  moreover have "Rts_execute j (state d) = (Inr (), state e)" using step_state [OF rts(2,3)] by simp
  with return_stack_pop [of "state d" q qs j] rts have "return_stack (state e) qs" by simp
  ultimately show ?case by simp
next
  case (local d qs e)
  then show ?case using reachable_decoder return_stack_untouched by blast
qed

text \<open>
  C24. Calls and returns nest. Over any run of CPU::step in which JSR and BSR call, RTS returns,
  and whatever steps lie between restore the stack pointer and the memory above it, the long words
  at the stack pointer implement the stack of return addresses: each call has pushed the address
  the code takes for its return (behind the extension words for JSR, two bytes behind the opcode
  for BSR), and when the machine is at an RTS, the step ends normally, continues at the return
  address of the innermost open call, pops it, and changes nothing else.
\<close>

theorem calls_and_returns_nest:
  assumes "decoder_ok c" and "return_stack (state c) rs" and "nested c rs d (q # qs)" and "at_instruction d (I_Rts j)"
  shows "\<exists>e. CPU_step d = (Inr (), e) \<and> return_stack (state e) qs \<and>
    state e = rput (rput (state d) REG_A7 (rval (state d) REG_A7 + 4)) REG_PC q"
  using return_stack_pop [of "state d" q qs j] nested_return_stack [OF assms(3,1,2)]
  by (simp add: step_at [OF assms(4)] on_state_apply)

end
