(* ===== verification/Ins_Data.thy ===== *)
theory Ins_Data
  imports Ins_Alu
begin

text \<open>
  The bit instructions, multiplication and division, comparison, MOVE and the shifts against what
  they mean for bits and numbers.
\<close>

section \<open>Bit instructions\<close>

fun new_bit :: "BitOp \<Rightarrow> bool \<Rightarrow> bool" where
  "new_bit BTST b = b"
| "new_bit BCHG b = (\<not> b)"
| "new_bit BCLR b = False"
| "new_bit BSET b = True"

lemma bit_result_bits:
  assumes "unat k < 32"
  shows "bit (narrow (bit_result op k (bit v (unat k)) (wide v))) j \<longleftrightarrow>
    (if j = unat k then new_bit op (bit v (unat k)) else bit v j)"
  using assms
  by (cases op) (auto simp: bit_result_def narrow_def wide_def bit_simps dest: bit_imp_le_length)

lemma test_bit_value: "(drop_bit n v AND 1 \<noteq> 0) = bit v n" for v :: "32 word"
  by (metis and_one_eq bit_iff_odd_drop_bit odd_iff_mod_2_eq_one mod2_eq_if zero_neq_one)

lemma BitManip_new_size:
  "unat (n mod ucast (BitManip.data_bits_modulo (BitManip_new opc))) =
   unat n mod bits_of (BitManip.data_size (BitManip_new opc))" for n :: "32 word"
  by (simp add: BitManip_new_def Let_def unat_mod)

lemma BitManip_size_cases:
  "BitManip.data_size (BitManip_new opc) = SIZE_LONG \<or> BitManip.data_size (BitManip_new opc) = SIZE_BYTE"
  by (simp add: BitManip_new_def Let_def)

text \<open>
  C37. BTST, BCHG, BCLR and BSET write back the destination with only the bit at the source
  operand modulo 32 (data register) or 8 (memory) kept, inverted, cleared or set, and put the
  complement of the old bit into the zero flag; no other flag changes.
\<close>

theorem bit_instruction_changes_one_bit:
  assumes "execute (BitManip_create opc) s = (Inr (), t)"
  defines "i \<equiv> BitManip_new opc"
  shows "\<exists>n v s1 s2 r. 
    getData (BitManip.src_mode i) (BitManip.src_reg i) (BitManip.data_size i)
      (rput s REG_PC (pc_of s + 2)) = (Inr n, s1) \<and>
    getDataSilent (BitManip.dest_mode i) (BitManip.dest_reg i) (BitManip.data_size i) s1 = (Inr v, s1) \<and>
    setData (BitManip.dest_mode i) (BitManip.dest_reg i) (BitManip.data_size i) r s1 = (Inr (), s2) \<and>
    (let k = unat n mod bits_of (BitManip.data_size i) in
     (\<forall>j. bit r j = (if j = k then new_bit (BitManip.instruction_type i) (bit v k) else bit v j)) \<and>
     t = fput s2 SR_FLAG_ZERO (\<not> bit v k))"
proof -
  let ?mid = "bindE (getData (BitManip.src_mode i) (BitManip.src_reg i) (BitManip.data_size i))"
  obtain n s1 where 1: "getData (BitManip.src_mode i) (BitManip.src_reg i) (BitManip.data_size i)
      (rput s REG_PC (pc_of s + 2)) = (Inr n, s1)"
    and r1: "(let shift = n mod ucast (BitManip.data_bits_modulo i) in
     bindE (getDataSilent (BitManip.dest_mode i) (BitManip.dest_reg i) (BitManip.data_size i)) (\<lambda>dest_data.
     let test_bit_value = (drop_bit (unat shift) dest_data AND 0x1 \<noteq> 0);
         result = bit_result (BitManip.instruction_type i) shift test_bit_value (wide dest_data) in
     bindE (setData (BitManip.dest_mode i) (BitManip.dest_reg i) (BitManip.data_size i) (narrow result)) (\<lambda>_.
     flag_set SR_FLAG_ZERO (\<not> test_bit_value)))) s1 = (Inr (), t)"
    using assms(1) by (auto simp: BitManip_create_def i_def BitManip_execute_def elim: bindE_InrE)
  define k where "k = n mod ucast (BitManip.data_bits_modulo i)"
  have k: "unat k = unat n mod bits_of (BitManip.data_size i)"
    by (simp add: k_def i_def BitManip_new_size)
  then have "unat k < 32" using BitManip_size_cases [of opc] by (auto simp: i_def)
  obtain v s1' where 2: "getDataSilent (BitManip.dest_mode i) (BitManip.dest_reg i) (BitManip.data_size i) s1 = (Inr v, s1')"
    and r2: "bindE (setData (BitManip.dest_mode i) (BitManip.dest_reg i) (BitManip.data_size i)
        (narrow (bit_result (BitManip.instruction_type i) k (bit v (unat k)) (wide v)))) (\<lambda>_.
      flag_set SR_FLAG_ZERO (\<not> bit v (unat k))) s1' = (Inr (), t)"
    using r1 unfolding Let_def k_def [symmetric] test_bit_value by (rule bindE_InrE)
  have "s1' = s1" using getDataSilent_state [of "BitManip.dest_mode i"] 2 by (metis snd_conv)
  define r where "r = narrow (bit_result (BitManip.instruction_type i) k (bit v (unat k)) (wide v))"
  have bits: "\<forall>j. bit r j = (if j = unat k then new_bit (BitManip.instruction_type i) (bit v (unat k)) else bit v j)"
    using bit_result_bits [OF \<open>unat k < 32\<close>] by (simp add: r_def)
  obtain s2 where 3: "setData (BitManip.dest_mode i) (BitManip.dest_reg i) (BitManip.data_size i) r s1 = (Inr (), s2)"
    and 4: "t = fput s2 SR_FLAG_ZERO (\<not> bit v (unat k))"
    using r2 unfolding \<open>s1' = s1\<close> r_def [symmetric] by (auto elim: bindE_InrE)
  show ?thesis unfolding Let_def
    by (intro exI conjI)
      (rule 1, rule 2 [unfolded \<open>s1' = s1\<close>], rule 3, rule bits [unfolded k], rule 4 [unfolded k])
qed

section \<open>Multiplication and division\<close>

lemma sint16_bounds: "- (2 ^ 15) \<le> sint (a :: 16 word)" "sint (a :: 16 word) < 2 ^ 15"
  using sint_ge [of a] sint_lt [of a] by simp_all

lemma abs_mult_bound:
  fixes x y :: int
  assumes "\<bar>x\<bar> \<le> 2 ^ 15" "\<bar>y\<bar> \<le> 2 ^ 15"
  shows "\<bar>x * y\<bar> \<le> 2 ^ 30"
proof -
  have "\<bar>x\<bar> * \<bar>y\<bar> \<le> 2 ^ 15 * 2 ^ 15" using assms by (intro mult_mono) simp_all
  then show ?thesis by (simp add: abs_mult)
qed

lemma sint_word_of_int_small: "\<bar>x\<bar> \<le> 2 ^ 30 \<Longrightarrow> sint (word_of_int x :: 32 word) = x"
  by (simp add: int_word_sint mod_pos_pos_trivial abs_le_iff)

lemma mul_signed:
  "\<exists>w. mul_result True a b s = (Inr w, s) \<and> sint w = sint a * sint b"
proof -
  have "\<bar>sint a * sint b\<bar> \<le> 2 ^ 30"
    using sint16_bounds [of a] sint16_bounds [of b] by (intro abs_mult_bound) auto
  then have "sint (word_of_int (sint a * sint b) :: 32 word) = sint a * sint b"
    by (rule sint_word_of_int_small)
  then show ?thesis by (simp add: mul_result_def)
qed

lemma mul_unsigned:
  "mul_result False a b s = (Inr w, s') \<Longrightarrow> s' = s \<and> uint w = uint a * uint b"
proof -
  assume m: "mul_result False a b s = (Inr w, s')"
  then have l: "uint a * uint b < 2 ^ 31" and w: "w = word_of_int (uint a * uint b)" and s: "s' = s"
    by (auto simp: mul_result_def split: if_splits)
  have "uint (word_of_int (uint a * uint b) :: 32 word) = (uint a * uint b) mod 2 ^ 32"
    by (simp only: uint_word_of_int len_num1 len_bit0 mult_1_right) simp
  also have "\<dots> = uint a * uint b" using l by (intro mod_pos_pos_trivial) simp_all
  finally show ?thesis using w s by simp
qed

text \<open>The two halves of the result of a division.\<close>

definition low_half :: "32 word \<Rightarrow> 16 word" where "low_half w = ucast w"
definition high_half :: "32 word \<Rightarrow> 16 word" where "high_half w = ucast (drop_bit 16 w)"

lemma halves:
  "low_half (ucast q OR push_bit 16 (ucast r)) = q" "high_half (ucast q OR push_bit 16 (ucast r)) = r"
  for q r :: "16 word"
proof -
  have "\<not> bit q (16 + n)" for n using bit_imp_le_length [of q "16 + n"] by auto
  then show "low_half (ucast q OR push_bit 16 (ucast r)) = q"
    and "high_half (ucast q OR push_bit 16 (ucast r)) = r"
    by (auto intro!: bit_word_eqI simp: low_half_def high_half_def bit_simps)
qed

lemma div_unsigned:
  assumes "div_result False a b s = (Inr w, s')"
  shows "s' = s \<and> uint b = uint (low_half w) * uint a + uint (high_half w) \<and> uint (high_half w) < uint a"
proof -
  have a: "a \<noteq> 0" and s: "s' = s" and w: "w = word_of_int (uint b div uint a) OR push_bit 16 (word_of_int (uint b mod uint a))"
    using assms by (auto simp: div_result_def Let_def split: if_splits)
  have "word_of_int (uint b div uint a) = (ucast (b div a) :: 32 word)"
    and "word_of_int (uint b mod uint a) = (ucast (b mod a) :: 32 word)"
    by (simp_all only: ucast_eq uint_div uint_mod)
  then have "low_half w = b div a" and "high_half w = b mod a" using w by (simp_all add: halves)
  moreover have "0 < uint a" using a by (simp add: word_neq_0_conv word_less_def)
  ultimately show ?thesis using s by (simp add: uint_div uint_mod)
qed

lemma smod_bound: "y \<noteq> 0 \<Longrightarrow> \<bar>x smod y\<bar> < \<bar>y\<bar>" for x y :: int
  by (simp add: signed_modulo_int_def abs_mult abs_sgn_eq)

lemma smod_abs_le: "\<bar>x smod y\<bar> \<le> \<bar>x\<bar>" for x y :: int
  by (cases "y = 0") (simp_all add: signed_modulo_int_def abs_mult abs_sgn_eq zmod_le_nonneg_dividend)

lemma sdiv_abs_le: "\<bar>x sdiv y\<bar> \<le> \<bar>x\<bar>" for x y :: int
proof -
  have "\<bar>x\<bar> div \<bar>y\<bar> \<le> \<bar>x\<bar>"
    by (cases "y = 0") (simp, use zdiv_mono2 [of "\<bar>x\<bar>" 1 "\<bar>y\<bar>"] in simp)
  then show ?thesis by (auto simp: signed_divide_int_def abs_mult sgn_if pos_imp_zdiv_nonneg_iff)
qed

lemma sint_word16: "- (2 ^ 15) \<le> x \<Longrightarrow> x < 2 ^ 15 \<Longrightarrow> sint (word_of_int x :: 16 word) = x"
  by (simp add: int_word_sint mod_pos_pos_trivial)

lemma div_signed:
  assumes "div_result True a b s = (Inr w, s')"
  shows "s' = s \<and> \<bar>sint (high_half w)\<bar> < \<bar>sint a\<bar> \<and>
    (sint (high_half w) \<noteq> 0 \<longrightarrow> sgn (sint (high_half w)) = sgn (sint b)) \<and>
    (if sint b = - (2 ^ 15) \<and> sint a = - 1 then low_half w = 0x8000
     else sint b = sint (low_half w) * sint a + sint (high_half w))"
proof -
  have a: "a \<noteq> 0" and s: "s' = s"
    and w: "w = ucast (word_of_int (sint b sdiv sint a) :: 16 word) OR
      push_bit 16 (ucast (word_of_int (sint b smod sint a) :: 16 word))"
    using assms by (auto simp: div_result_def Let_def split: if_splits)
  have l: "low_half w = word_of_int (sint b sdiv sint a)" and h: "high_half w = word_of_int (sint b smod sint a)"
    unfolding w by (rule halves)+
  have a0: "sint a \<noteq> 0"
  proof
    assume "sint a = 0"
    then have "word_of_int (sint a) = (0 :: 16 word)" by simp
    with a show False by simp
  qed
  have "\<bar>sint b smod sint a\<bar> < \<bar>sint a\<bar>" using a0 by (rule smod_bound)
  moreover from this have hs: "sint (high_half w) = sint b smod sint a"
    unfolding h using sint16_bounds [of a] by (intro sint_word16) auto
  moreover have "sgn (sint b smod sint a) = sgn (sint b)" if "sint b smod sint a \<noteq> 0"
  proof -
    have "0 \<le> x mod \<bar>sint a\<bar>" for x using a0 by simp
    then show ?thesis using that
      by (auto simp: signed_modulo_int_def sgn_mult sgn_if less_le not_le [symmetric] split: if_splits)
        (metis order_antisym)+
  qed
  moreover have "low_half w = 0x8000" if "sint b = - (2 ^ 15)" "sint a = - 1"
    using that by (simp add: l)
  moreover have "sint (low_half w) = sint b sdiv sint a" if "\<not> (sint b = - (2 ^ 15) \<and> sint a = - 1)"
    unfolding l
  proof (rule sint_word16)
    have le: "\<bar>sint b sdiv sint a\<bar> \<le> \<bar>sint b\<bar>" by (rule sdiv_abs_le)
    then show "- (2 ^ 15) \<le> sint b sdiv sint a" using sint16_bounds [of b] by linarith
    show "sint b sdiv sint a < 2 ^ 15"
    proof (rule ccontr)
      assume "\<not> sint b sdiv sint a < 2 ^ 15"
      with le sint16_bounds [of b] have b: "sint b = - (2 ^ 15)" and q: "sint b sdiv sint a = - sint b" by linarith+
      have "sint b \<noteq> 0" using b by simp
      then have "sint a = - 1" using int_sdiv_negated_is_minus1 [of "sint b" "sint a"] q by blast
      with that b show False by simp
    qed
  qed
  ultimately show ?thesis
    using s sdiv_mult_smod_eq [of "sint b" "sint a"] by auto
qed

lemma word_operand:
  "general_reg r \<Longrightarrow> getDataSilent ADDR_MODE_DIRECT_DATA r SIZE_WORD s = (Inr (take_bit 16 (rval s r)), s)"
  "(ucast (take_bit 16 v) :: 16 word) = ucast v" for v :: "32 word"
  by (simp add: regs_get_rval general_reg_index) (rule bit_word_eqI, auto simp: bit_simps)

lemma IS_ZERO_long: "IS_ZERO (w :: 32 word) SIZE_LONG \<longleftrightarrow> w = 0"
  by (simp add: mask_eq_take_bit)

text \<open>What MUL and DIV share: the source operand, the register operand, the write of a long word.\<close>

lemma reg_result_run:
  fixes f :: "16 word \<Rightarrow> 16 word \<Rightarrow> (CPUState, 32 word) exec"
  assumes "bindE skip_opcode (\<lambda>_. bindE src (\<lambda>a. bindE (getDataSilent ADDR_MODE_DIRECT_DATA r SIZE_WORD) (\<lambda>b.
      bindE (f (ucast a) (ucast b)) (\<lambda>w. bindE (setData ADDR_MODE_DIRECT_DATA r SIZE_LONG w) (\<lambda>_. fl w))))) s = (Inr (), t)"
    and "general_reg r" and pure: "\<And>a b s w s'. f a b s = (Inr w, s') \<Longrightarrow> s' = s"
  obtains v s1 w where "src (rput s REG_PC (pc_of s + 2)) = (Inr v, s1)"
    and "f (ucast v) (ucast (rval s1 r)) s1 = (Inr w, s1)" and "fl w (rput s1 r w) = (Inr (), t)"
proof -
  let ?rest = "\<lambda>a. bindE (getDataSilent ADDR_MODE_DIRECT_DATA r SIZE_WORD) (\<lambda>b.
      bindE (f (ucast a) (ucast b)) (\<lambda>w. bindE (setData ADDR_MODE_DIRECT_DATA r SIZE_LONG w) (\<lambda>_. fl w)))"
  from assms(1) have "bindE src ?rest (rput s REG_PC (pc_of s + 2)) = (Inr (), t)" by simp
  then obtain v s1 where 1: "src (rput s REG_PC (pc_of s + 2)) = (Inr v, s1)" and "?rest v s1 = (Inr (), t)"
    by (rule bindE_InrE)
  from this(2) have "bindE (f (ucast v) (ucast (rval s1 r)))
      (\<lambda>w. bindE (setData ADDR_MODE_DIRECT_DATA r SIZE_LONG w) (\<lambda>_. fl w)) s1 = (Inr (), t)"
    by (simp add: word_operand assms(2) del: getDataSilent.simps setData.simps)
  then obtain w s2 where 2: "f (ucast v) (ucast (rval s1 r)) s1 = (Inr w, s2)"
    and 3: "bindE (setData ADDR_MODE_DIRECT_DATA r SIZE_LONG w) (\<lambda>_. fl w) s2 = (Inr (), t)"
    by (rule bindE_InrE)
  have "s2 = s1" using pure [OF 2] .
  with 1 2 3 assms(2) show ?thesis by (auto intro: that)
qed

lemma mul_state: "mul_result sg a b s = (Inr w, s') \<Longrightarrow> s' = s"
  by (auto simp: mul_result_def split: if_splits)

lemma div_state: "div_result sg a b s = (Inr w, s') \<Longrightarrow> s' = s"
  by (auto simp: div_result_def Let_def split: if_splits)

text \<open>
  C38. When MULS or MULU returns, the destination register holds the exact product of the two
  16-bit operands as a 32-bit number, the other registers and the memory are as the operand access
  left them, and the flags describe the product.
\<close>

theorem multiply_exact:
  assumes "execute (Mul_create opc) s = (Inr (), t)"
  defines "i \<equiv> Mul_new opc"
  shows "\<exists>v s1 w. getData (Mul.src_mode i) (Mul.src_reg i) SIZE_WORD (rput s REG_PC (pc_of s + 2)) = (Inr v, s1) \<and>
    (let a = ucast v :: 16 word; b = ucast (rval s1 (Mul.dest_reg i)) :: 16 word in
     if Mul.is_signed i then sint w = sint a * sint b else uint w = uint a * uint b) \<and>
    memory t = memory s1 \<and> pc_of t = pc_of s1 \<and>
    (\<forall>r. general_reg r \<longrightarrow> rval t r = (if r = Mul.dest_reg i then w else rval s1 r)) \<and>
    ccr_of t = (flag s SR_FLAG_EXTEND, sval SIZE_LONG w < 0, w = 0, False, False)"
proof -
  have gs: "general_reg (Mul.src_reg i)" and gd: "general_reg (Mul.dest_reg i)"
    using regs_ok_create(28) [of opc] by (simp_all add: Mul_create_def i_def)
  obtain v s1 w where 1: "getData (Mul.src_mode i) (Mul.src_reg i) SIZE_WORD (rput s REG_PC (pc_of s + 2)) = (Inr v, s1)"
    and 2: "mul_result (Mul.is_signed i) (ucast v) (ucast (rval s1 (Mul.dest_reg i))) s1 = (Inr w, s1)"
    and 3: "seqE [flag_set SR_FLAG_NEGATIVE (IS_NEGATIVE w SIZE_LONG), flag_set SR_FLAG_ZERO (IS_ZERO w SIZE_LONG),
           flag_set SR_FLAG_OVERFLOW False, flag_set SR_FLAG_CARRY False] (rput s1 (Mul.dest_reg i) w) = (Inr (), t)"
  proof (rule reg_result_run)
    show "bindE skip_opcode (\<lambda>_. bindE (getData (Mul.src_mode i) (Mul.src_reg i) SIZE_WORD) (\<lambda>a.
      bindE (getDataSilent ADDR_MODE_DIRECT_DATA (Mul.dest_reg i) SIZE_WORD) (\<lambda>b.
      bindE (mul_result (Mul.is_signed i) (ucast a) (ucast b)) (\<lambda>w.
      bindE (setData ADDR_MODE_DIRECT_DATA (Mul.dest_reg i) SIZE_LONG w) (\<lambda>_.
      seqE [flag_set SR_FLAG_NEGATIVE (IS_NEGATIVE w SIZE_LONG), flag_set SR_FLAG_ZERO (IS_ZERO w SIZE_LONG),
           flag_set SR_FLAG_OVERFLOW False, flag_set SR_FLAG_CARRY False]))))) s = (Inr (), t)"
      using assms(1)
      by (simp add: Mul_create_def Mul_execute_def i_def Let_def Mul_new_def del: getDataSilent.simps setData.simps seqE.simps)
  qed (use gd mul_state in auto)
  have sr: "same_sr (rput s REG_PC (pc_of s + 2)) s1"
    using keepsD [OF status.keeps_getData [OF gs] 1] .
  have t: "t = fput (fput (fput (fput (rput s1 (Mul.dest_reg i) w) SR_FLAG_NEGATIVE (IS_NEGATIVE w SIZE_LONG))
      SR_FLAG_ZERO (IS_ZERO w SIZE_LONG)) SR_FLAG_OVERFLOW False) SR_FLAG_CARRY False"
    using 3 by simp
  have "if Mul.is_signed i then sint w = sint (ucast v :: 16 word) * sint (ucast (rval s1 (Mul.dest_reg i)) :: 16 word)
     else uint w = uint (ucast v :: 16 word) * uint (ucast (rval s1 (Mul.dest_reg i)) :: 16 word)"
    using 2 mul_signed [of "ucast v" "ucast (rval s1 (Mul.dest_reg i))" s1] mul_unsigned by (cases "Mul.is_signed i") auto
  moreover have "ccr_of t = (flag s SR_FLAG_EXTEND, sval SIZE_LONG w < 0, w = 0, False, False)"
    using gd same_sr_flag [OF sr] by (simp add: t ccr_of_def sval_neg IS_ZERO_long general_not_SR del: IS_NEGATIVE.simps IS_ZERO.simps)
  ultimately show ?thesis using 1 gd by (auto simp: t Let_def)
qed

text \<open>
  Quotient \<open>q\<close> in the low and remainder \<open>r\<close> in the high half: \<open>b = q * a + r\<close> with \<open>r\<close> smaller than
  \<open>a\<close> in size and of the sign of \<open>b\<close>.  The quotient of \<open>-32768\<close> by \<open>-1\<close> wraps around.
\<close>

definition division_result :: "bool \<Rightarrow> 16 word \<Rightarrow> 16 word \<Rightarrow> 32 word \<Rightarrow> bool" where
  "division_result sg a b w \<longleftrightarrow>
     (if sg then
        \<bar>sint (high_half w)\<bar> < \<bar>sint a\<bar> \<and>
        (sint (high_half w) \<noteq> 0 \<longrightarrow> sgn (sint (high_half w)) = sgn (sint b)) \<and>
        (if sint b = - (2 ^ 15) \<and> sint a = - 1 then low_half w = 0x8000
         else sint b = sint (low_half w) * sint a + sint (high_half w))
      else uint b = uint (low_half w) * uint a + uint (high_half w) \<and> uint (high_half w) < uint a)"

lemma low_half_flags:
  "IS_ZERO (MASK_16 w) SIZE_WORD \<longleftrightarrow> low_half w = 0"
  "IS_NEGATIVE (MASK_16 w) SIZE_WORD \<longleftrightarrow> sval SIZE_WORD (low_half w) < 0"
proof -
  have "take_bit 16 w = ucast (low_half w)" "take_bit 16 (ucast (low_half w)) = (ucast (low_half w) :: 32 word)"
    "(ucast (low_half w) :: 32 word) = 0 \<longleftrightarrow> low_half w = 0"
    by (auto intro!: bit_word_eqI simp: low_half_def bit_simps bit_eq_iff)
  then show "IS_ZERO (MASK_16 w) SIZE_WORD \<longleftrightarrow> low_half w = 0"
    by (simp add: mask_eq_take_bit)
  show "IS_NEGATIVE (MASK_16 w) SIZE_WORD \<longleftrightarrow> sval SIZE_WORD (low_half w) < 0"
    by (simp add: msb_eq_bit mask_eq_take_bit sval_def bit_simps low_half_def)
qed

text \<open>
  C39. When DIVS or DIVU returns, the low half of the destination register holds the quotient and
  the high half the remainder of the 16-bit destination by the 16-bit source, rounded towards zero
  when signed, with the remainder smaller than the divisor.
\<close>

theorem divide_exact:
  assumes "execute (Div_create opc) s = (Inr (), t)"
  defines "i \<equiv> Div_new opc"
  shows "\<exists>v s1 w. getData (Div.src_mode i) (Div.src_reg i) SIZE_WORD (rput s REG_PC (pc_of s + 2)) = (Inr v, s1) \<and>
    (let a = ucast v :: 16 word; b = ucast (rval s1 (Div.dest_reg i)) :: 16 word in
     division_result (Div.is_signed i) a b w) \<and>
    memory t = memory s1 \<and> pc_of t = pc_of s1 \<and>
    (\<forall>r. general_reg r \<longrightarrow> rval t r = (if r = Div.dest_reg i then w else rval s1 r)) \<and>
    ccr_of t = (flag s SR_FLAG_EXTEND, sval SIZE_WORD (low_half w) < 0, low_half w = 0, False, False)"
proof -
  have gs: "general_reg (Div.src_reg i)" and gd: "general_reg (Div.dest_reg i)"
    using regs_ok_create(29) [of opc] by (simp_all add: Div_create_def i_def)
  obtain v s1 w where 1: "getData (Div.src_mode i) (Div.src_reg i) SIZE_WORD (rput s REG_PC (pc_of s + 2)) = (Inr v, s1)"
    and 2: "div_result (Div.is_signed i) (ucast v) (ucast (rval s1 (Div.dest_reg i))) s1 = (Inr w, s1)"
    and 3: "seqE [flag_set SR_FLAG_NEGATIVE (IS_NEGATIVE (MASK_16 w) SIZE_WORD), flag_set SR_FLAG_ZERO (IS_ZERO (MASK_16 w) SIZE_WORD),
           flag_set SR_FLAG_OVERFLOW False, flag_set SR_FLAG_CARRY False] (rput s1 (Div.dest_reg i) w) = (Inr (), t)"
  proof (rule reg_result_run)
    show "bindE skip_opcode (\<lambda>_. bindE (getData (Div.src_mode i) (Div.src_reg i) SIZE_WORD) (\<lambda>a.
      bindE (getDataSilent ADDR_MODE_DIRECT_DATA (Div.dest_reg i) SIZE_WORD) (\<lambda>b.
      bindE (div_result (Div.is_signed i) (ucast a) (ucast b)) (\<lambda>w.
      bindE (setData ADDR_MODE_DIRECT_DATA (Div.dest_reg i) SIZE_LONG w) (\<lambda>_.
      seqE [flag_set SR_FLAG_NEGATIVE (IS_NEGATIVE (MASK_16 w) SIZE_WORD), flag_set SR_FLAG_ZERO (IS_ZERO (MASK_16 w) SIZE_WORD),
           flag_set SR_FLAG_OVERFLOW False, flag_set SR_FLAG_CARRY False]))))) s = (Inr (), t)"
      using assms(1)
      by (simp add: Div_create_def Div_execute_def i_def Let_def Div_new_def del: getDataSilent.simps setData.simps seqE.simps)
  qed (use gd div_state in auto)
  have sr: "same_sr (rput s REG_PC (pc_of s + 2)) s1"
    using keepsD [OF status.keeps_getData [OF gs] 1] .
  have t: "t = fput (fput (fput (fput (rput s1 (Div.dest_reg i) w) SR_FLAG_NEGATIVE (IS_NEGATIVE (MASK_16 w) SIZE_WORD))
      SR_FLAG_ZERO (IS_ZERO (MASK_16 w) SIZE_WORD)) SR_FLAG_OVERFLOW False) SR_FLAG_CARRY False"
    using 3 by simp
  have "division_result (Div.is_signed i) (ucast v) (ucast (rval s1 (Div.dest_reg i))) w"
    using 2 div_signed div_unsigned unfolding division_result_def by (cases "Div.is_signed i") auto
  moreover have "ccr_of t = (flag s SR_FLAG_EXTEND, sval SIZE_WORD (low_half w) < 0, low_half w = 0, False, False)"
    using gd same_sr_flag [OF sr] by (simp add: t ccr_of_def low_half_flags general_not_SR del: IS_NEGATIVE.simps IS_ZERO.simps)
  ultimately show ?thesis using 1 gd by (auto simp: t Let_def)
qed

theorem divide_by_zero_undefined:
  assumes "getData (Div.src_mode (Div_new opc)) (Div.src_reg (Div_new opc)) SIZE_WORD
      (rput s REG_PC (pc_of s + 2)) = (Inr v, s1)" and "(ucast v :: 16 word) = 0"
  shows "execute (Div_create opc) s = (Inl Undefined_behaviour, s1)"
proof -
  have gd: "general_reg (Div.dest_reg (Div_new opc))"
    using regs_ok_create(29) [of opc] by (simp add: Div_create_def)
  moreover have "Div.dest_mode (Div_new opc) = ADDR_MODE_DIRECT_DATA" "Div.data_size (Div_new opc) = SIZE_WORD"
    by (simp_all add: Div_new_def Let_def)
  ultimately show ?thesis
    using assms by (simp add: Div_create_def Div_execute_def Let_def word_operand div_result_def
        del: getDataSilent.simps setData.simps getData.simps)
qed

end
