(* ===== verification/Ins_Test.thy ===== *)
theory Ins_Test
  imports Ins_Alu
begin

text \<open>
  The instructions that write condition codes only, or whose result is a copy: CMP, TST, MOVE,
  and the shifts, whose result the code never writes back.
\<close>

section \<open>Comparison\<close>



lemma Cmp_run:
  assumes "Cmp_execute i s = (Inr (), t)" and "proper_size (Cmp.data_size i)"
    and "general_reg (Cmp.src_reg i)" and "general_reg (Cmp.dest_reg i)" and "Cmp.dest_mode i = ADDR_MODE_DIRECT_DATA"
  obtains a b s1 where "getData (Cmp.src_mode i) (Cmp.src_reg i) (Cmp.data_size i) (rput s REG_PC (pc_of s + 2)) = (Inr a, s1)"
    and "b = take_bit (bits_of (Cmp.data_size i)) (rval s1 (Cmp.dest_reg i))"
    and "fits (Cmp.data_size i) a" and "fits (Cmp.data_size i) b" and "ccr_only s1 t"
    and "ccr_of t = (flag s SR_FLAG_EXTEND, snd (sub_ccr (Cmp.data_size i) a b))"
proof -
  let ?sz = "Cmp.data_size i"
  let ?fl = "\<lambda>a b. seqE [flag_set SR_FLAG_NEGATIVE (IS_NEGATIVE (wide (b - a)) ?sz),
           flag_set SR_FLAG_ZERO (IS_ZERO (wide (b - a)) ?sz),
           flag_set SR_FLAG_OVERFLOW (IS_OVERFLOW a b ?sz),
           flag_set SR_FLAG_CARRY (IS_CARRY (wide (b - a)) ?sz)]"
  let ?rest = "\<lambda>a. bindE (getData (Cmp.dest_mode i) (Cmp.dest_reg i) ?sz) (\<lambda>b. ?fl a b)"
  from assms(1) have "bindE (getData (Cmp.src_mode i) (Cmp.src_reg i) ?sz) ?rest (rput s REG_PC (pc_of s + 2)) = (Inr (), t)"
    by (simp add: Cmp_execute_def Let_def)
  then obtain a s1 where 1: "getData (Cmp.src_mode i) (Cmp.src_reg i) ?sz (rput s REG_PC (pc_of s + 2)) = (Inr a, s1)"
    and r: "?rest a s1 = (Inr (), t)" by (rule bindE_InrE)
  define b where "b = take_bit (bits_of ?sz) (rval s1 (Cmp.dest_reg i))"
  have fa: "fits ?sz a" and sr: "same_sr (rput s REG_PC (pc_of s + 2)) s1"
    using src_data [OF assms(2,3) 1] by simp_all
  have fb: "fits ?sz b" by (simp add: b_def)
  have "?fl a b s1 = (Inr (), t)"
    using r assms(2,4,5) by (simp add: regs_get_rval general_reg_index b_def)
  then have "ccr_only s1 t" and "ccr_of t = (flag s1 SR_FLAG_EXTEND, snd (sub_ccr ?sz a b))"
    using assms(2) fa fb
    by (auto simp: sub_ccr_def ccr_of_def flag_tests Let_def simp del: IS_OVERFLOW.simps IS_NEGATIVE.simps
        IS_ZERO.simps IS_CARRY.simps)
  with 1 fa fb same_sr_flag [OF sr] show ?thesis by (auto intro: that simp: b_def)
qed

lemma Cmp_new_ok:
  assumes "ins_is_valid (Cmp_create opc)"
  shows "proper_size (Cmp.data_size (Cmp_new opc))" "general_reg (Cmp.src_reg (Cmp_new opc))"
    "general_reg (Cmp.dest_reg (Cmp_new opc))" "Cmp.dest_mode (Cmp_new opc) = ADDR_MODE_DIRECT_DATA"
  using assms by (simp_all add: Cmp_create_def Cmp_new_def Let_def)


text \<open>
  The overflow flag is that of the sum of the operands, and a long comparison leaves the carry
  clear, so other conditions can go wrong.  When each of the sixteen comes out right:
\<close>

definition overflows_alike :: "DataSize \<Rightarrow> 32 word \<Rightarrow> 32 word \<Rightarrow> bool" where
  "overflows_alike sz b a \<longleftrightarrow>
     (sval sz (b + a) = sval sz b + sval sz a) = (sval sz (b - a) = sval sz b - sval sz a)"

fun comes_out :: "Condition \<Rightarrow> DataSize \<Rightarrow> 32 word \<Rightarrow> 32 word \<Rightarrow> bool" where
  "comes_out COND_OVERFLOW_CLEAR sz b a = overflows_alike sz b a"
| "comes_out COND_OVERFLOW_SET sz b a = overflows_alike sz b a"
| "comes_out COND_GREATER_EQUAL sz b a = overflows_alike sz b a"
| "comes_out COND_LESS_THAN sz b a = overflows_alike sz b a"
| "comes_out COND_GREATER_THAN sz b a = (overflows_alike sz b a \<or> b = a)"
| "comes_out COND_LESS_EQUAL sz b a = (overflows_alike sz b a \<or> b = a)"
| "comes_out COND_HIGHER sz b a = (sz \<noteq> SIZE_LONG \<or> a \<le> b)"
| "comes_out COND_LOWER_SAME sz b a = (sz \<noteq> SIZE_LONG \<or> a \<le> b)"
| "comes_out COND_CARRY_CLEAR sz b a = (sz \<noteq> SIZE_LONG \<or> a \<le> b)"
| "comes_out COND_CARRY_SET sz b a = (sz \<noteq> SIZE_LONG \<or> a \<le> b)"
| "comes_out _ sz b a = True"

lemma uval_fits:
  assumes "fits sz a" and "fits sz b"
  shows "uval sz a = uval sz b \<longleftrightarrow> a = b" and "uval sz a < uval sz b \<longleftrightarrow> a < b"
  using assms by (simp_all add: uval_def fits_def take_bit_int_eq_self word_uint_eq_iff word_less_def)

lemma compare_comes_out:
  assumes "proper_size sz" and "fits sz a" and "fits sz b"
    and "ccr_of t = (x, snd (sub_ccr sz a b))"
  shows "checkCondition cond t = (Inr (compare_spec cond sz b a), t) \<longleftrightarrow> comes_out cond sz b a"
proof -
  have f: "flag t SR_FLAG_NEGATIVE \<longleftrightarrow> sval sz (b - a) < 0" "flag t SR_FLAG_ZERO \<longleftrightarrow> b = a"
    "flag t SR_FLAG_OVERFLOW \<longleftrightarrow> sval sz (b + a) \<noteq> sval sz b + sval sz a"
    "flag t SR_FLAG_CARRY \<longleftrightarrow> sz \<noteq> SIZE_LONG \<and> b < a"
    using assms(4) uval_fits [OF assms(2,3)] uval_fits(2) [OF assms(3,2)]
    by (simp_all add: ccr_of_def sub_ccr_def Let_def add.commute eq_commute)
  have lt: "sval sz b < sval sz a \<longleftrightarrow> (sval sz (b - a) < 0) \<noteq> (sval sz (b - a) \<noteq> sval sz b - sval sz a)"
    using signed_less_flags [OF assms(1), of b a] by simp
  have eq: "sval sz b = sval sz a \<longleftrightarrow> b = a"
    using sval_eq_iff [OF assms(1), of b a] uval_fits(1) [OF assms(3,2)] by simp
  have gt: "sval sz a < sval sz b \<longleftrightarrow> \<not> sval sz b < sval sz a \<and> b \<noteq> a" using eq by auto
  have le: "sval sz a \<le> sval sz b \<longleftrightarrow> \<not> sval sz b < sval sz a" "sval sz b \<le> sval sz a \<longleftrightarrow> \<not> sval sz a < sval sz b" by auto
  note u = uval_fits [OF assms(2,3)] uval_fits [OF assms(3,2)]
  have ule: "uval sz a \<le> uval sz b \<longleftrightarrow> a \<le> b" "uval sz b \<le> uval sz a \<longleftrightarrow> b \<le> a"
    using u by (simp_all add: not_less [symmetric])
  show ?thesis
    by (cases cond) (auto simp: checkCondition_flags f overflows_alike_def lt gt le u ule)
qed

text \<open>
  C23. When a condition tested after a CMP comes out right. After any valid CMP, of any size, each
  of the sixteen conditions decides the relation between the two compared numbers that it is named
  after exactly in these cases: greater-equal, less-than and the overflow conditions when the sum
  and the difference of the operands overflow alike, because CMP takes the overflow of the sum;
  greater-than and less-equal then, or when the operands are equal; higher, lower-same and the
  carry conditions unless the operands are long and the destination is below the source, because a
  long comparison never sets the carry; the others always.
\<close>

theorem compare_condition_exact:
  assumes "ins_is_valid (Cmp_create opc)" and "execute (Cmp_create opc) s = (Inr (), t)"
  defines "i \<equiv> Cmp_new opc"
  shows "\<exists>a b s1. getData (Cmp.src_mode i) (Cmp.src_reg i) (Cmp.data_size i) (rput s REG_PC (pc_of s + 2)) = (Inr a, s1) \<and>
    b = take_bit (bits_of (Cmp.data_size i)) (rval s1 (Cmp.dest_reg i)) \<and>
    (\<forall>cond. checkCondition cond t = (Inr (compare_spec cond (Cmp.data_size i) b a), t) \<longleftrightarrow>
       comes_out cond (Cmp.data_size i) b a)"
proof -
  have ex: "Cmp_execute i s = (Inr (), t)" using assms(2) by (simp add: Cmp_create_def i_def)
  note ok = Cmp_new_ok [OF assms(1), folded i_def]
  obtain a b s1 where "getData (Cmp.src_mode i) (Cmp.src_reg i) (Cmp.data_size i) (rput s REG_PC (pc_of s + 2)) = (Inr a, s1)"
    and "b = take_bit (bits_of (Cmp.data_size i)) (rval s1 (Cmp.dest_reg i))"
    and fits: "fits (Cmp.data_size i) a" "fits (Cmp.data_size i) b"
    and c: "ccr_of t = (flag s SR_FLAG_EXTEND, snd (sub_ccr (Cmp.data_size i) a b))"
    using Cmp_run [OF ex ok] .
  with compare_comes_out [OF ok(1) fits c] show ?thesis by blast
qed

end
