(* ===== verification/Ins_Transfer.thy ===== *)
theory Ins_Transfer
  imports Ins_Alu Ins_Control
begin

text \<open>
  Instructions whose result is a copy or an address.
\<close>

section \<open>MOVE\<close>

text \<open>
  What MOVE does after it has read its operand: MOVEA puts the sign-extended value into the whole
  address register and leaves the flags alone, MOVE writes the value and sets the flags from it.
\<close>

lemma sign_extended:
  fixes v :: "32 word"
  shows "scast (ucast v :: 16 word) = (word_of_int (signed_take_bit 15 (uint v)) :: 32 word)"
    and "v = word_of_int (signed_take_bit 31 (uint v))"
proof -
  show "scast (ucast v :: 16 word) = (word_of_int (signed_take_bit 15 (uint v)) :: 32 word)"
    by (rule bit_word_eqI) (auto simp: bit_simps bit_word_of_int_iff bit_uint_iff min_def)
  have "signed_take_bit 31 (uint v) = sint v" by (simp add: sint_uint)
  then show "v = word_of_int (signed_take_bit 31 (uint v))" by simp
qed

text \<open>
  C33. A decoded MOVE or MOVEA that ends normally reads its source at its size. MOVEA then
  replaces the whole address register by the sign-extended value and changes no flag; MOVE writes
  the value to its destination, clears overflow and carry, keeps extend, and sets negative and
  zero from the signed and unsigned value.
\<close>

theorem move_copies:
  assumes "Decode generateOpcodeTable opc = I_Move i" and "execute (I_Move i) s = (Inr (), t)"
  shows "\<exists>v s1. getData (Move.src_mode i) (Move.src_reg i) (Move.data_size i) (rput s REG_PC (pc_of s + 2)) = (Inr v, s1) \<and>
    (if is_movea i
     then t = rput s1 (Move.dest_reg i) (word_of_int (sval (Move.data_size i) v))
     else \<exists>s2. setData (Move.dest_mode i) (Move.dest_reg i) (Move.data_size i) v s1 = (Inr (), s2) \<and> ccr_only s2 t \<and>
       ccr_of t = (flag s SR_FLAG_EXTEND, sval (Move.data_size i) v < 0, uval (Move.data_size i) v = 0, False, False))"
proof -
  let ?sz = "Move.data_size i"
  have ok: "regs_ok (I_Move i)" "modes_ok (I_Move i)" "proper_size ?sz"
    using decode_regs_ok [of opc] decode_modes_ok [of opc] decode_size_ok [of opc] decode_spec_valid [of opc] assms(1)
    by (simp_all add: Decode_spec size_ok_def)
  define tail where "tail = (\<lambda>v. if is_movea i then setData (Move.dest_mode i) (Move.dest_reg i) SIZE_LONG
        (if ?sz = SIZE_WORD then sext16 v else v)
      else bindE (setData (Move.dest_mode i) (Move.dest_reg i) ?sz v) (\<lambda>_.
        seqE [flag_set SR_FLAG_NEGATIVE (IS_NEGATIVE v ?sz), flag_set SR_FLAG_ZERO (v = 0),
              flag_set SR_FLAG_OVERFLOW False, flag_set SR_FLAG_CARRY False]))"
  have "execute (I_Move i) = bindE skip_opcode (\<lambda>_. bindE (getData (Move.src_mode i) (Move.src_reg i) ?sz) tail)"
    unfolding execute.simps Move_execute_def tail_def Let_def ..
  with assms(2) obtain v s1 where g: "getData (Move.src_mode i) (Move.src_reg i) ?sz (rput s REG_PC (pc_of s + 2)) = (Inr v, s1)"
    and t: "tail v s1 = (Inr (), t)"
    by (auto elim: bindE_InrE simp del: getData.simps)
  have v: "fits ?sz v" and sr: "same_sr (rput s REG_PC (pc_of s + 2)) s1"
    using src_data [OF ok(3) _ g] ok(1) by simp_all
  show ?thesis
  proof (cases "is_movea i")
    case True
    have "(if ?sz = SIZE_WORD then sext16 v else v) = word_of_int (sval ?sz v)"
      using ok(2,3) True by (cases ?sz) (auto simp: sval_def sext16_def sign_extended(1) intro: sign_extended(2))
    with t True ok(1,2) have "t = rput s1 (Move.dest_reg i) (word_of_int (sval ?sz v))"
      by (simp add: tail_def)
    with g True show ?thesis by auto
  next
    case False
    with t obtain s2 where w: "setData (Move.dest_mode i) (Move.dest_reg i) ?sz v s1 = (Inr (), s2)"
      and t2: "t = fput (fput (fput (fput s2 SR_FLAG_NEGATIVE (IS_NEGATIVE v ?sz)) SR_FLAG_ZERO (v = 0))
        SR_FLAG_OVERFLOW False) SR_FLAG_CARRY False"
      by (auto simp: tail_def elim: bindE_InrE simp del: setData.simps)
    have "same_sr s1 s2" using w keepsD [OF status.keeps_setData] ok(1) by auto
    then have "flag s2 SR_FLAG_EXTEND = flag s SR_FLAG_EXTEND"
      using same_sr_flag [OF sr] by (simp add: same_sr_flag)
    moreover have "v = 0 \<longleftrightarrow> uval ?sz v = 0"
      using fits_uval [OF v] by (simp add: uint_0_iff)
    ultimately have "ccr_of t = (flag s SR_FLAG_EXTEND, sval ?sz v < 0, uval ?sz v = 0, False, False)"
      unfolding t2 by (simp add: ccr_of_def sval_neg [OF ok(3)] del: IS_NEGATIVE.simps)
    with g w False t2 show ?thesis by auto
  qed
qed

section \<open>LEA, PEA, JMP\<close>

text \<open>
  The instructions that use the address of an operand and not its contents: one loads it into an
  address register, one pushes it, one jumps to it; none of them touches a flag.
\<close>

definition address_used :: "AddressingMode \<Rightarrow> RegisterType \<Rightarrow> CPUState \<Rightarrow> 32 word \<Rightarrow> bool" where
  "address_used m r s a \<longleftrightarrow>
     fst (getControlAddress m r SIZE_LONG (rput s REG_PC (pc_of s + 2))) = Inr a"

lemma control_size: "getControlAddress m r sz = getControlAddress m r SIZE_LONG"
  by (cases m) simp_all

lemma address_run:
  assumes "bindE skip_opcode (\<lambda>_. bindE (getControlAddress m r sz) f) s = (Inr x, t)"
    and "IS_CONTROL_ADDR m" and "general_reg r"
  obtains a q where "address_used m r s a" and "f a (rput s REG_PC q) = (Inr x, t)"
    and "q = pc_of s + 2 + ext_bytes m sz"
proof -
  from assms(1) obtain a s1 where g: "getControlAddress m r sz (rput s REG_PC (pc_of s + 2)) = (Inr a, s1)"
    and f: "f a s1 = (Inr x, t)" by (auto elim: bindE_InrE)
  have "s1 = rput s REG_PC (pc_of s + 2 + ext_bytes m sz)"
    using getControlAddress_state [OF assms(2,3) g] by simp
  with f g show ?thesis by (auto simp: address_used_def control_size [of m r sz] intro: that)
qed

text \<open>
  C34. LEA loads the address of its operand into an address register and changes nothing else, PEA
  pushes it on the stack, so that a long word read at the new stack pointer gives it, and JMP
  makes it the program counter; LEA and PEA continue behind the extension words.
\<close>

theorem address_instructions:
  assumes "execute (Decode generateOpcodeTable opc) s = (Inr (), t)"
  shows "case Decode generateOpcodeTable opc of
      I_Lea i \<Rightarrow> \<exists>a. address_used (Lea.src_mode i) (Lea.src_reg i) s a \<and>
        t = rput (rput s REG_PC (pc_of s + 2 + ext_bytes (Lea.src_mode i) SIZE_LONG)) (Lea.addr_reg i) a
    | I_Pea i \<Rightarrow> \<exists>a. address_used (Pea.addr_mode i) (Pea.addr_reg i) s a \<and>
        rval t REG_A7 = rval s REG_A7 - 4 \<and> pc_of t = pc_of s + 2 + ext_bytes (Pea.addr_mode i) SIZE_LONG \<and>
        BaseMemory_get (memory t) (ucast (rval t REG_A7)) SIZE_LONG = Inr a
    | I_Jmp i \<Rightarrow> \<exists>a. address_used (Jmp.dest_mode i) (Jmp.dest_reg i) s a \<and> t = rput s REG_PC a
    | _ \<Rightarrow> True"
proof (cases "Decode generateOpcodeTable opc")
  case (I_Lea i)
  have ok: "general_reg (Lea.src_reg i)" "general_reg (Lea.addr_reg i)" "IS_CONTROL_ADDR (Lea.src_mode i)" "Lea.data_size i = SIZE_LONG"
    using decode_regs_ok [of opc] decode_modes_ok [of opc] I_Lea by (simp_all add: Decode_spec)
  from assms obtain a q where "address_used (Lea.src_mode i) (Lea.src_reg i) s a"
    and "setData ADDR_MODE_DIRECT_ADDR (Lea.addr_reg i) SIZE_LONG a (rput s REG_PC q) = (Inr (), t)"
    and "q = pc_of s + 2 + ext_bytes (Lea.src_mode i) SIZE_LONG"
    unfolding I_Lea execute.simps Lea_execute_def ok(4) by (rule address_run [OF _ ok(3,1)])
  then show ?thesis using ok I_Lea by auto
next
  case (I_Pea i)
  have ok: "general_reg (Pea.addr_reg i)" "IS_CONTROL_ADDR (Pea.addr_mode i)" "proper_size (Pea.data_size i)"
    using decode_regs_ok [of opc] decode_modes_ok [of opc] decode_size_ok [of opc] decode_spec_valid [of opc] I_Pea
    by (simp_all add: Decode_spec size_ok_def)
  from assms obtain a q where a: "address_used (Pea.addr_mode i) (Pea.addr_reg i) s a"
    and p: "stackPush SIZE_LONG a (rput s REG_PC q) = (Inr (), t)"
    and q: "q = pc_of s + 2 + ext_bytes (Pea.addr_mode i) (Pea.data_size i)"
    unfolding I_Pea execute.simps Pea_execute_def by (rule address_run [OF _ ok(2,1)])
  have "ext_bytes (Pea.addr_mode i) (Pea.data_size i) = ext_bytes (Pea.addr_mode i) SIZE_LONG"
    using ok(2) by (cases "Pea.addr_mode i") (simp_all add: IS_CONTROL_ADDR_def)
  with a p q I_Pea show ?thesis by (auto simp: stackPush_Inr dest: base.read_back)
next
  case (I_Jmp i)
  have ok: "general_reg (Jmp.dest_reg i)" "IS_CONTROL_ADDR (Jmp.dest_mode i)"
    using decode_regs_ok [of opc] decode_modes_ok [of opc] I_Jmp by (simp_all add: Decode_spec)
  from assms obtain a q where "address_used (Jmp.dest_mode i) (Jmp.dest_reg i) s a"
    and "regs_set REG_PC SIZE_LONG a (rput s REG_PC q) = (Inr (), t)"
    unfolding I_Jmp execute.simps Jmp_execute_def by (rule address_run [OF _ ok(2,1)])
  then show ?thesis using I_Jmp by auto
qed auto

end
