(* ===== verification/Ins_Shifts.thy ===== *)
theory Ins_Shifts
  imports Ins_Alu
begin

text \<open>
  The condition codes of the arithmetic and logical shifts, as numbers: which bit the code takes for
  carry and extend, and what the sign and zero of the discarded result are.
\<close>

section \<open>Shifted words as numbers\<close>

lemma IS_ZERO_unat:
  assumes "proper_size sz"
  shows "IS_ZERO v sz \<longleftrightarrow> take_bit (bits_of sz) (unat v) = 0"
proof -
  have "uval sz v = int (take_bit (bits_of sz) (unat v))"
    unfolding uval_def by (simp only: of_nat_take_bit of_nat_unat)
  then show ?thesis unfolding IS_ZERO_uval [OF assms] by simp
qed

lemma bit_top:
  fixes x :: nat
  assumes "x < 2 ^ Suc k"
  shows "bit x k \<longleftrightarrow> 2 ^ k \<le> x"
proof (cases "2 ^ k \<le> x")
  case True
  then have "x div 2 ^ k = 1" using assms by (intro div_nat_eqI) simp_all
  with True show ?thesis by (simp add: bit_iff_odd)
qed (simp add: bit_iff_odd)

lemma IS_NEGATIVE_unat:
  assumes "proper_size sz"
  shows "IS_NEGATIVE v sz \<longleftrightarrow> 2 ^ (bits_of sz - 1) \<le> take_bit (bits_of sz) (unat v)"
proof -
  obtain k where k: "bits_of sz = Suc k" using assms by (cases sz) auto
  have "bit v k \<longleftrightarrow> bit (take_bit (Suc k) (unat v)) k"
    by (simp add: bit_simps)
  also have "\<dots> \<longleftrightarrow> 2 ^ k \<le> take_bit (Suc k) (unat v)"
    by (rule bit_top [OF take_bit_nat_less_exp])
  finally show ?thesis
    using assms by (simp add: IS_NEGATIVE_bit k del: IS_NEGATIVE.simps)
qed

lemma unat_wide [simp]: "unat (wide d) = unat d"
proof -
  have "unat d < 2 ^ 32" using unsigned_less [of d, where 'a = nat] by simp
  then show ?thesis by (simp add: wide_def unsigned_ucast_eq take_bit_nat_eq_self)
qed

lemma low_push:
  assumes "proper_size sz"
  shows "take_bit (bits_of sz) (unat (push_bit n (wide d))) = take_bit (bits_of sz) (unat d * 2 ^ n)"
proof -
  have "bits_of sz \<le> 64" using assms by (cases sz) simp_all
  moreover have "unat (push_bit n (wide d)) = take_bit 64 (push_bit n (unat d))"
    by (simp only: unsigned_push_bit_eq unat_wide len_num1 len_bit0 len_bit1) simp
  ultimately show ?thesis by (simp add: push_bit_eq_mult min_def)
qed

lemma unat_drop: "unat (drop_bit n (wide d)) = unat d div 2 ^ n"
proof -
  have "unat d < 2 ^ 32" using unsigned_less [of d, where 'a = nat] by simp
  then have "take_bit 64 (unat d) = unat d" by (simp add: take_bit_nat_eq_self)
  then have "unat (drop_bit n (wide d)) = drop_bit n (unat d)" by (subst unsigned_drop_bit_eq) simp
  then show ?thesis by (simp add: drop_bit_eq_div)
qed

lemma low_sign_fill:
  fixes v :: "64 word"
  assumes "proper_size sz" and "n + bits_of sz \<le> 64"
  shows "take_bit (bits_of sz) (unat (drop_bit n v OR NOT (drop_bit n (- 1)))) = take_bit (bits_of sz) (unat (drop_bit n v))"
  by (rule bit_eqI) (use assms in \<open>auto simp: bit_simps\<close>)

lemma and_1_bit: "(v :: 64 word) AND 1 \<noteq> 0 \<longleftrightarrow> bit v 0"
  by (simp add: and_one_eq odd_iff_mod_2_eq_one bit_0)

lemma bit_0_wide: "bit (drop_bit n (wide d)) 0 \<longleftrightarrow> odd (unat d div 2 ^ n)"
proof -
  have "bit (drop_bit n (wide d)) 0 \<longleftrightarrow> bit (unat (drop_bit n (wide d))) 0"
    by (simp add: bit_unsigned_iff del: bit_0)
  then show ?thesis by (simp only: unat_drop bit_0)
qed

section \<open>What a shift computes\<close>

text \<open>
  The condition codes X N Z V C after the shift of a \<open>d\<close> by \<open>n\<close> places: to the left, carry and
  extend are the lowest bit of the result; to the right, the last bit shifted out.  The shift to the
  right is the logical one for both kinds.
\<close>

definition shift_ccr :: "bool \<Rightarrow> DataSize \<Rightarrow> nat \<Rightarrow> nat \<Rightarrow> ccr" where
  "shift_ccr left sz d n =
     (let r = (if left then take_bit (bits_of sz) (d * 2 ^ n) else d div 2 ^ n);
          c = (if left then n = 0 \<and> odd d else odd (d div 2 ^ (n - 1)))
      in (c, 2 ^ (bits_of sz - 1) \<le> r, r = 0, False, c))"

definition shift_tail :: "DataSize \<Rightarrow> 64 word \<Rightarrow> CPUState \<Rightarrow> CPUState" where
  "shift_tail sz r s = fput (fput (fput s SR_FLAG_NEGATIVE (IS_NEGATIVE r sz)) SR_FLAG_ZERO (IS_ZERO r sz)) SR_FLAG_OVERFLOW False"

definition shift_result :: "bool \<Rightarrow> 64 word \<Rightarrow> nat \<Rightarrow> 64 word" where
  "shift_result left v n = (if left then push_bit n v else drop_bit n v)"

definition shift_carry :: "bool \<Rightarrow> 64 word \<Rightarrow> nat \<Rightarrow> bool" where
  "shift_carry left v n = (if left then push_bit n v AND 1 \<noteq> 0 else drop_bit (n - 1) v AND 1 \<noteq> 0)"

text \<open>Both kinds set the flags from the same bit; to the right by 0 places both are undefined.\<close>

lemma shift_flags_apply [simp]: "shift_flags b s = (Inr (), fput (fput s SR_FLAG_CARRY b) SR_FLAG_EXTEND b)"
  by (simp add: shift_flags_def)

lemma right_count:
  assumes "k - 1 < (64 :: 64 word)" and "k < 64"
  shows "unat (k - 1) = unat k - 1" and "0 < unat k"
proof -
  have "k \<noteq> 0" using assms(1) by auto
  then show "0 < unat k" by (simp add: unat_gt_0)
  then show "unat (k - 1) = unat k - 1" using unat_minus_one [OF \<open>k \<noteq> 0\<close>] by simp
qed

lemma shift_LS_run:
  assumes "shift_LS left v k s = (Inr r, t)"
  shows "k < 64 \<and> (\<not> left \<longrightarrow> 0 < unat k) \<and> r = shift_result left v (unat k) \<and>
    t = fput (fput s SR_FLAG_CARRY (shift_carry left v (unat k))) SR_FLAG_EXTEND (shift_carry left v (unat k))"
  using assms right_count [of k]
  by (auto simp: shift_LS_def LSL_def LSR_def shift_result_def shift_carry_def bindE_apply split: if_splits)

lemma shift_AS_run:
  assumes "shift_AS left sz v k s = (Inr r, t)"
  shows "k < 64 \<and> (\<not> left \<longrightarrow> 0 < unat k) \<and>
    r = (if \<not> left \<and> IS_NEGATIVE v sz then drop_bit (unat k) v OR NOT (drop_bit (unat k) (- 1))
         else shift_result left v (unat k)) \<and>
    t = fput (fput s SR_FLAG_CARRY (shift_carry left v (unat k))) SR_FLAG_EXTEND (shift_carry left v (unat k))"
  using assms right_count [of k]
  by (auto simp: shift_AS_def LSL_def LSR_def shift_result_def shift_carry_def bindE_apply
      simp del: IS_NEGATIVE.simps split: if_splits)

lemma shift_tail_ccr:
  assumes "proper_size sz" and "fits sz d" and "\<not> left \<longrightarrow> 0 < n"
    and "take_bit (bits_of sz) (unat r) = take_bit (bits_of sz) (unat (shift_result left (wide d) n))"
    and "c = shift_carry left (wide d) n"
  shows "ccr_of (shift_tail sz r (fput (fput s SR_FLAG_CARRY c) SR_FLAG_EXTEND c)) = shift_ccr left sz (unat d) n"
proof -
  have d: "unat d < 2 ^ bits_of sz" 
    using assms(2) unfolding fits_def by (metis of_nat_less_iff of_nat_unat of_nat_power of_nat_numeral)
  have low: "take_bit (bits_of sz) (unat r) =
      (if left then take_bit (bits_of sz) (unat d * 2 ^ n) else unat d div 2 ^ n)"
    using low_push [OF assms(1)] d
    by (auto simp: assms(4) shift_result_def unat_drop intro!: take_bit_nat_eq_self le_less_trans [OF div_le_dividend])
  have c: "c = (if left then n = 0 \<and> odd (unat d) else odd (unat d div 2 ^ (n - 1)))"
  proof (cases left)
    case True
    have "bit (push_bit n (wide d)) 0 \<longleftrightarrow> n = 0 \<and> bit (drop_bit 0 (wide d)) 0"
      by (auto simp: bit_push_bit_iff simp del: bit_0)
    then show ?thesis using True unfolding assms(5) shift_carry_def and_1_bit bit_0_wide by simp
  next
    case False
    then show ?thesis unfolding assms(5) shift_carry_def and_1_bit bit_0_wide by simp
  qed
  show ?thesis
    by (simp add: shift_tail_def ccr_of_def shift_ccr_def IS_ZERO_unat [OF assms(1)] IS_NEGATIVE_unat [OF assms(1)] low c Let_def
        del: IS_ZERO.simps IS_NEGATIVE.simps)
qed


section \<open>The instruction\<close>

text \<open>The operand of a shift, read behind the opcode word, and the number of places.\<close>

definition shift_operand :: "BitShift \<Rightarrow> CPUState \<Rightarrow> exn + 32 word" where
  "shift_operand i s = fst (getDataSilent (BitShift.addr_mode i) (BitShift.addr_reg i) (BitShift.data_size i)
     (rput s REG_PC (pc_of s + 2)))"

definition shift_count :: "BitShift \<Rightarrow> CPUState \<Rightarrow> nat" where
  "shift_count i s =
     (if is_memory i \<or> is_imm i then unat (imm_shift i)
      else take_bit (bits_of (BitShift.data_size i)) (unat (rval s (shift_reg i))) mod 64)"

lemma BitShift_run:
  assumes "BitShift_execute i s = (Inr (), t)" and "proper_size (BitShift.data_size i)" and "general_reg (shift_reg i)"
  obtains d k r s1 where "shift_operand i s = Inr d" and "fits (BitShift.data_size i) d" and "unat k = shift_count i s"
    and "(case BitShift.instruction_type i of
              AS \<Rightarrow> shift_AS (direction_left i) (BitShift.data_size i) (wide d) k
            | LS \<Rightarrow> shift_LS (direction_left i) (wide d) k
            | ROX \<Rightarrow> shift_ROX (direction_left i) (BitShift.data_size i) (wide d) k
            | RO \<Rightarrow> shift_RO (direction_left i) (BitShift.data_size i) (wide d) k) (rput s REG_PC (pc_of s + 2)) = (Inr r, s1)"
    and "t = shift_tail (BitShift.data_size i) r s1"
proof -
  let ?s = "rput s REG_PC (pc_of s + 2)" and ?sz = "BitShift.data_size i"
  define count where "count = (if \<not> is_memory i \<and> \<not> is_imm i then
      bindE (getData ADDR_MODE_DIRECT_DATA (shift_reg i) ?sz) (\<lambda>n. returnE (wide (n mod 64)))
      else returnE (ucast (imm_shift i)))"
  obtain d s' where g: "getDataSilent (BitShift.addr_mode i) (BitShift.addr_reg i) ?sz ?s = (Inr d, s')"
    and rest: "bindE count (\<lambda>k. bindE (case BitShift.instruction_type i of
              AS \<Rightarrow> shift_AS (direction_left i) ?sz (wide d) k
            | LS \<Rightarrow> shift_LS (direction_left i) (wide d) k
            | ROX \<Rightarrow> shift_ROX (direction_left i) ?sz (wide d) k
            | RO \<Rightarrow> shift_RO (direction_left i) ?sz (wide d) k) (\<lambda>result.
       seqE [flag_set SR_FLAG_NEGATIVE (IS_NEGATIVE result ?sz),
             flag_set SR_FLAG_ZERO (IS_ZERO result ?sz),
             flag_set SR_FLAG_OVERFLOW False])) s' = (Inr (), t)"
    using assms(1) unfolding BitShift_execute_def count_def Let_def
    by (auto elim!: bindE_InrE [of skip_opcode] elim: bindE_InrE simp del: IS_NEGATIVE.simps IS_ZERO.simps getData.simps seqE.simps)
  have s': "s' = ?s" using getDataSilent_state [of "BitShift.addr_mode i" "BitShift.addr_reg i" ?sz ?s] g by simp
  have n: "count ?s = (Inr (if is_memory i \<or> is_imm i then ucast (imm_shift i)
       else wide (take_bit (bits_of ?sz) (rval s (shift_reg i)) mod 64)), ?s)"
    using assms(2,3) by (simp add: count_def regs_get_rval general_reg_index)
  have k: "unat (if is_memory i \<or> is_imm i then ucast (imm_shift i) :: 64 word
       else wide (take_bit (bits_of ?sz) (rval s (shift_reg i)) mod 64)) = shift_count i s"
    by (simp add: shift_count_def unat_mod unsigned_take_bit_eq unsigned_ucast_eq take_bit_nat_eq_self_iff
        less_le_trans [OF unsigned_less [of "imm_shift i"]])
  show ?thesis
    using rest unfolding s' bindE_Inr [where m = count, OF n]
  proof (elim bindE_InrE, goal_cases)
    case (1 r s1)
    show ?case
    proof (rule that [OF _ _ k 1(1)])
      show "shift_operand i s = Inr d" using g by (simp add: shift_operand_def)
      show "fits ?sz d" using fits_getDataSilent [OF assms(2) g] .
      show "t = shift_tail ?sz r s1" using 1(2) by (simp add: shift_tail_def del: IS_NEGATIVE.simps IS_ZERO.simps)
    qed
  qed
qed

lemma BitShift_new_ok: "proper_size (BitShift.data_size (BitShift_new opc))" "general_reg (shift_reg (BitShift_new opc))"
  by (simp_all add: BitShift_new_def Let_def shift_size_ok)


text \<open>Behind the opcode a shift writes condition codes only: its result is never stored.\<close>

lemma shift_ccr_only [keeps_intros]:
  "keeps ccr_only (case ty of AS \<Rightarrow> shift_AS l sz a n | LS \<Rightarrow> shift_LS l a n
     | ROX \<Rightarrow> shift_ROX l sz a n | RO \<Rightarrow> shift_RO l sz a n)"
  by (cases ty) (auto intro!: keeps_intros)

text \<open>
  C35. No shift or rotate changes its operand: whenever one ends normally, memory and all data and
  address registers are as before, the program counter has advanced by two bytes even if the
  operand has extension words, and overflow is clear. The result the code computes only reaches
  the condition codes.
\<close>

theorem shift_result_discarded:
  assumes "execute (BitShift_create opc) s = (Inr (), t)"
  shows "memory t = memory s \<and> pc_of t = pc_of s + 2 \<and> (\<forall>r. general_reg r \<longrightarrow> rval t r = rval s r) \<and>
    \<not> flag t SR_FLAG_OVERFLOW"
proof -
  have "BitShift_execute (BitShift_new opc) s = (Inr (), t)" using assms by (simp add: BitShift_create_def)
  then obtain d k r s1 where
    b: "(case BitShift.instruction_type (BitShift_new opc) of
              AS \<Rightarrow> shift_AS (direction_left (BitShift_new opc)) (BitShift.data_size (BitShift_new opc)) (wide d) k
            | LS \<Rightarrow> shift_LS (direction_left (BitShift_new opc)) (wide d) k
            | ROX \<Rightarrow> shift_ROX (direction_left (BitShift_new opc)) (BitShift.data_size (BitShift_new opc)) (wide d) k
            | RO \<Rightarrow> shift_RO (direction_left (BitShift_new opc)) (BitShift.data_size (BitShift_new opc)) (wide d) k)
         (rput s REG_PC (pc_of s + 2)) = (Inr r, s1)"
    and t: "t = shift_tail (BitShift.data_size (BitShift_new opc)) r s1"
    by (rule BitShift_run [OF _ BitShift_new_ok])
  show ?thesis
    using ccr_only_view [OF keepsD [OF shift_ccr_only b]] by (simp add: t shift_tail_def del: IS_NEGATIVE.simps IS_ZERO.simps)
qed

text \<open>
  C36. The condition codes of the arithmetic and logical shifts of d by n places. To the right: n
  is positive, carry and extend are the last bit shifted out, bit n - 1 of d, zero is that of d
  div 2^n, and the result is never negative, for the arithmetic shift too, because it is filled
  with ones from bit 63 down and not from the top of the operand. To the left: negative and zero
  are those of the low bits of d times 2^n, and carry and extend are bit 0 of the result, so they
  are clear for every positive n. For the arithmetic shift to the right the count is at most 64
  minus the width of the operand.
\<close>

theorem shift_condition_codes:
  assumes "Decode generateOpcodeTable opc = I_BitShift i" and "execute (I_BitShift i) s = (Inr (), t)"
    and "BitShift.instruction_type i \<in> {AS, LS}"
    and "BitShift.instruction_type i = LS \<or> direction_left i \<or> shift_count i s + bits_of (BitShift.data_size i) \<le> 64"
  shows "\<exists>d. shift_operand i s = Inr d \<and>
    ccr_of t = shift_ccr (direction_left i) (BitShift.data_size i) (unat d) (shift_count i s) \<and>
    (\<not> direction_left i \<longrightarrow> 0 < shift_count i s)"
proof -
  let ?sz = "BitShift.data_size i" and ?l = "direction_left i"
  have ok: "proper_size ?sz" "general_reg (shift_reg i)"
    using decode_size_ok [of opc] decode_spec_valid [of opc] decode_regs_ok [of opc] assms(1)
    by (simp_all add: Decode_spec size_ok_def)
  have "BitShift_execute i s = (Inr (), t)" using assms(2) by simp
  then obtain d k r s1 where d: "shift_operand i s = Inr d" "fits ?sz d" and k: "unat k = shift_count i s"
    and b: "(case BitShift.instruction_type i of AS \<Rightarrow> shift_AS ?l ?sz (wide d) k | LS \<Rightarrow> shift_LS ?l (wide d) k
            | ROX \<Rightarrow> shift_ROX ?l ?sz (wide d) k | RO \<Rightarrow> shift_RO ?l ?sz (wide d) k)
         (rput s REG_PC (pc_of s + 2)) = (Inr r, s1)"
    and t: "t = shift_tail ?sz r s1"
    by (rule BitShift_run [OF _ ok])
  have run: "(\<not> ?l \<longrightarrow> 0 < unat k) \<and>
      take_bit (bits_of ?sz) (unat r) = take_bit (bits_of ?sz) (unat (shift_result ?l (wide d) (unat k))) \<and>
      s1 = fput (fput (rput s REG_PC (pc_of s + 2)) SR_FLAG_CARRY (shift_carry ?l (wide d) (unat k)))
        SR_FLAG_EXTEND (shift_carry ?l (wide d) (unat k))"
  proof (cases "BitShift.instruction_type i")
    case AS
    with b have "shift_AS ?l ?sz (wide d) k (rput s REG_PC (pc_of s + 2)) = (Inr r, s1)" by simp
    note run = shift_AS_run [OF this]
    show ?thesis
    proof (cases "\<not> ?l \<and> IS_NEGATIVE (wide d) ?sz")
      case True
      then have "unat k + bits_of ?sz \<le> 64" using assms(4) AS k by auto
      from low_sign_fill [OF ok(1) this, of "wide d"] run show ?thesis
        unfolding if_P [OF True] using True by (simp only: shift_result_def if_False simp_thms)
    next
      case False
      with run show ?thesis by (simp only: if_not_P [OF False] if_False) blast
    qed
  next
    case LS
    with b shift_LS_run [of ?l "wide d" k _ r s1] show ?thesis by auto
  qed (use assms(3) in auto)
  with shift_tail_ccr [OF ok(1) d(2), of ?l "unat k" r _ "rput s REG_PC (pc_of s + 2)"]
  have "ccr_of t = shift_ccr ?l ?sz (unat d) (unat k)" unfolding t by simp
  with run d(1) k show ?thesis by auto
qed

end
