(* ===== verification/Program.thy ===== *)
theory Program
  imports Ins_Control Ins_Alu Cpu
begin

text \<open>
  The components together: a small machine-code program run by \<open>CPU::step\<close>, from the fetch through
  the opcode table to the instructions and the branch.
\<close>

section \<open>Several steps\<close>

fun steps :: "nat \<Rightarrow> (CPU, unit) exec" where
  "steps 0 = returnE ()"
| "steps (Suc n) = bindE CPU_step (\<lambda>_. steps n)"

lemma steps_add: "steps (m + n) = bindE (steps m) (\<lambda>_. steps n)"
  by (induction m) (simp_all add: bindE_assoc)

lemma step_runs:
  assumes "decoder_ok c" and "BaseMemory_get (memory (state c)) (ucast (pc_of (state c))) SIZE_WORD = Inr w"
    and "decode_spec (ucast w) = i" and "execute i (state c) = (Inr (), t)"
  shows "CPU_step c = (Inr (), c\<lparr>state := t\<rparr>)"
  using assms by (simp add: CPU_step_eq on_state_apply)

section \<open>A loop that sums\<close>

text \<open>
  \<open>add.l d1, d0\<close>; \<open>subq.l #1, d1\<close>; \<open>bne.s\<close> back to the first.  The fields of the decoded
  instructions are computed from the opcodes.
\<close>

lemma add_fields:
  "Add.src_mode (Add_new 0xD081) = ADDR_MODE_DIRECT_DATA" "Add.src_reg (Add_new 0xD081) = REG_D1"
  "Add.dest_mode (Add_new 0xD081) = ADDR_MODE_DIRECT_DATA" "Add.dest_reg (Add_new 0xD081) = REG_D0"
  "Add.data_size (Add_new 0xD081) = SIZE_LONG"
  by code_simp+

lemma subq_fields:
  "Subq.dest_mode (Subq_new 0x5381) = ADDR_MODE_DIRECT_DATA" "Subq.dest_reg (Subq_new 0x5381) = REG_D1"
  "Subq.data_size (Subq_new 0x5381) = SIZE_LONG" "Subq.imm_data (Subq_new 0x5381) = 1"
  by code_simp+

lemma bne_fields:
  "Bcc.condition (Bcc_new 0x66FA) = COND_NOT_EQUAL" "Bcc.data_size (Bcc_new 0x66FA) = SIZE_BYTE"
  "scast (Bcc.displacement_8 (Bcc_new 0x66FA)) = (-6 :: 32 word)"
  by code_simp+

lemma loop_decodes:
  "decode_spec 0xD081 = I_Add (Add_new 0xD081)" "decode_spec 0x5381 = I_Subq (Subq_new 0x5381)"
  "decode_spec 0x66FA = I_Bcc (Bcc_new 0x66FA)"
  by code_simp+

lemma add_d1_d0:
  "\<exists>t. execute (I_Add (Add_new 0xD081)) s = (Inr (), t) \<and> memory t = memory s \<and> pc_of t = pc_of s + 2 \<and>
     rval t REG_D0 = rval s REG_D1 + rval s REG_D0 \<and> rval t REG_D1 = rval s REG_D1"
  by (simp add: Add_execute_def add_fields Let_def)

lemma subq_1_d1:
  "\<exists>t. execute (I_Subq (Subq_new 0x5381)) s = (Inr (), t) \<and> memory t = memory s \<and> pc_of t = pc_of s + 2 \<and>
     rval t REG_D0 = rval s REG_D0 \<and> rval t REG_D1 = rval s REG_D1 - 1 \<and> flag t SR_FLAG_ZERO = (rval s REG_D1 = 1)"
proof -
  have "IS_ZERO (wide (v - 1)) SIZE_LONG \<longleftrightarrow> v = 1" for v :: "32 word"
    using fits_uval [of SIZE_LONG "v - 1"] by (simp add: IS_ZERO_wide uint_0_iff del: IS_ZERO.simps)
  then show ?thesis
    by (simp add: Subq_execute_def subq_fields Let_def del: IS_ZERO.simps)
qed

lemma bne_back:
  "execute (I_Bcc (Bcc_new 0x66FA)) s = (Inr (), rput s REG_PC (if flag s SR_FLAG_ZERO then pc_of s + 2 else pc_of s - 4))"
  by (simp add: Bcc_execute_def bne_fields Let_def Bcc_displacement_def checkCondition_flags)


text \<open>The program is in memory at \<open>p\<close>.\<close>

definition sum_loop :: "BaseMemory \<Rightarrow> 32 word \<Rightarrow> bool" where
  "sum_loop m p \<longleftrightarrow> BaseMemory_get m (ucast p) SIZE_WORD = Inr 0xD081 \<and>
     BaseMemory_get m (ucast (p + 2)) SIZE_WORD = Inr 0x5381 \<and>
     BaseMemory_get m (ucast (p + 4)) SIZE_WORD = Inr 0x66FA"

text \<open>One round: three steps.\<close>

lemma sum_round:
  assumes "decoder_ok c" and "sum_loop (memory (state c)) (pc_of (state c))"
  shows "\<exists>d. steps 3 c = (Inr (), d) \<and> decoder_ok d \<and> memory (state d) = memory (state c) \<and>
    pc_of (state d) = (if rval (state c) REG_D1 = 1 then pc_of (state c) + 6 else pc_of (state c)) \<and>
    rval (state d) REG_D0 = rval (state c) REG_D0 + rval (state c) REG_D1 \<and>
    rval (state d) REG_D1 = rval (state c) REG_D1 - 1"
proof -
  let ?s = "state c"
  note m = assms(2) [unfolded sum_loop_def]
  obtain t1 where 1: "execute (I_Add (Add_new 0xD081)) ?s = (Inr (), t1)" "memory t1 = memory ?s" "pc_of t1 = pc_of ?s + 2"
    "rval t1 REG_D0 = rval ?s REG_D1 + rval ?s REG_D0" "rval t1 REG_D1 = rval ?s REG_D1"
    using add_d1_d0 by blast
  obtain t2 where 2: "execute (I_Subq (Subq_new 0x5381)) t1 = (Inr (), t2)" "memory t2 = memory t1" "pc_of t2 = pc_of t1 + 2"
    "rval t2 REG_D0 = rval t1 REG_D0" "rval t2 REG_D1 = rval t1 REG_D1 - 1" "flag t2 SR_FLAG_ZERO = (rval t1 REG_D1 = 1)"
    using subq_1_d1 by blast
  let ?t3 = "rput t2 REG_PC (if flag t2 SR_FLAG_ZERO then pc_of t2 + 2 else pc_of t2 - 4)"
  have "CPU_step c = (Inr (), c\<lparr>state := t1\<rparr>)"
    using m 1 loop_decodes(1) by (intro step_runs [OF assms(1), where w = "0xD081"]) auto
  moreover have "CPU_step (c\<lparr>state := t1\<rparr>) = (Inr (), c\<lparr>state := t2\<rparr>)"
    using m 1 2 loop_decodes(2) assms(1)
    by (intro step_runs [where c = "c\<lparr>state := t1\<rparr>" and w = "0x5381", simplified]) (auto simp: decoder_ok_def)
  moreover have "BaseMemory_get (memory t2) (ucast (pc_of t2)) SIZE_WORD = Inr 0x66FA"
  proof -
    have "pc_of t2 = pc_of ?s + 4" using 1 2 by simp
    then show ?thesis using m 1 2 by (simp only:)
  qed
  then have "CPU_step (c\<lparr>state := t2\<rparr>) = (Inr (), c\<lparr>state := ?t3\<rparr>)"
    using loop_decodes(3) assms(1) bne_back [of t2]
    by (intro step_runs [where c = "c\<lparr>state := t2\<rparr>" and w = "0x66FA", simplified]) (auto simp: decoder_ok_def)
  ultimately have "steps 3 c = (Inr (), c\<lparr>state := ?t3\<rparr>)"
    by (simp add: numeral_3_eq_3)
  then show ?thesis using 1 2 assms(1) by (auto simp: decoder_ok_def)
qed

theorem sum_loop_runs:
  assumes "decoder_ok c" and "sum_loop (memory (state c)) (pc_of (state c))" and "rval (state c) REG_D1 \<noteq> 0"
  shows "\<exists>d. steps (3 * unat (rval (state c) REG_D1)) c = (Inr (), d) \<and>
    pc_of (state d) = pc_of (state c) + 6 \<and> memory (state d) = memory (state c) \<and>
    rval (state d) REG_D0 = rval (state c) REG_D0 + of_nat (\<Sum>k \<le> unat (rval (state c) REG_D1). k)"
  using assms
proof (induction "unat (rval (state c) REG_D1)" arbitrary: c)
  case 0
  then show ?case by (simp add: unat_eq_0)
next
  case (Suc n)
  let ?b = "rval (state c) REG_D1"
  obtain e where e: "steps 3 c = (Inr (), e)" "decoder_ok e" "memory (state e) = memory (state c)"
    "pc_of (state e) = (if ?b = 1 then pc_of (state c) + 6 else pc_of (state c))"
    "rval (state e) REG_D0 = rval (state c) REG_D0 + ?b" "rval (state e) REG_D1 = ?b - 1"
    using sum_round [OF Suc.prems(1,2)] by blast
  have n: "unat (?b - 1) = n" using Suc.hyps(2) Suc.prems(3) by (metis diff_Suc_1 unat_minus_one)
  have b: "?b = of_nat (Suc n)" unfolding Suc.hyps(2) by simp
  show ?case
  proof (cases "?b = 1")
    case True
    with e show ?thesis by (auto simp: atMost_Suc)
  next
    case False
    with e Suc.prems n obtain d where d: "steps (3 * n) e = (Inr (), d)" "pc_of (state d) = pc_of (state e) + 6"
      "memory (state d) = memory (state e)" "rval (state d) REG_D0 = rval (state e) REG_D0 + of_nat (\<Sum>k \<le> n. k)"
      using Suc.hyps(1) [of e] by auto
    have "steps (3 * Suc n) c = (Inr (), d)"
      using steps_add [of 3 "3 * n"] e(1) d(1) by (simp add: algebra_simps)
    with d e False show ?thesis unfolding Suc.hyps(2) [symmetric] by (auto simp: b)
  qed
qed

end
