(* ===== verification/Machine_Code.thy ===== *)
theory Machine_Code
  imports Cells Program
begin

text \<open>
  Running the machine until the program counter reaches an address, and the rule by which machine
  code is verified: one instruction at a time, on what a program sees of the state.
\<close>

section \<open>Running up to an address\<close>

text \<open>
  The loop of the test programs, \<open>while (pc != halt) cpu.step();\<close>.  It need not end, and an
  exception leaves it.
\<close>

partial_function (option) run_until :: "32 word \<Rightarrow> CPU \<Rightarrow> ((exn + unit) \<times> CPU) option" where
  "run_until halt c =
     (if pc_of (state c) = halt then Some (Inr (), c)
      else case CPU_step c of (r, d) \<Rightarrow>
        (case r of Inl e \<Rightarrow> Some (Inl e, d) | Inr _ \<Rightarrow> run_until halt d))"

lemma run_until_halt: "pc_of (state c) = halt \<Longrightarrow> run_until halt c = Some (Inr (), c)"
  by (simp add: run_until.simps)

lemma run_until_step:
  "pc_of (state c) \<noteq> halt \<Longrightarrow> CPU_step c = (Inr (), d) \<Longrightarrow> run_until halt c = run_until halt d"
  by (subst run_until.simps) simp

section \<open>What a program sees\<close>

text \<open>The program counter, the zero flag, the data and address registers, and the memory.\<close>

type_synonym view = "32 word \<times> bool \<times> (RegisterType \<Rightarrow> 32 word) \<times> BaseMemory"

definition gregs :: "CPUState \<Rightarrow> RegisterType \<Rightarrow> 32 word" where
  "gregs s r = (if general_reg r then rval s r else 0)"

definition view_of :: "CPUState \<Rightarrow> view" where
  "view_of s = (pc_of s, flag s SR_FLAG_ZERO, gregs s, memory s)"

lemma gregs_simps [simp]:
  "general_reg r \<Longrightarrow> gregs (rput s r v) = (gregs s)(r := v)"
  "gregs (rput s REG_PC v) = gregs s"
  "f \<noteq> SR_FLAG_SUPERVISOR \<Longrightarrow> gregs (fput s f b) = gregs s"
  "gregs (s\<lparr>memory := m\<rparr>) = gregs s"
  by (auto simp: gregs_def)

lemma rval_gregs: "general_reg r \<Longrightarrow> rval s r = gregs s r"
  by (simp add: gregs_def)

section \<open>Reaching one view from another\<close>

definition goes :: "32 word \<Rightarrow> view \<Rightarrow> view \<Rightarrow> bool" where
  "goes halt v w \<longleftrightarrow> (\<forall>c. decoder_ok c \<and> view_of (state c) = v \<longrightarrow>
     (\<exists>d. decoder_ok d \<and> view_of (state d) = w \<and> run_until halt c = run_until halt d))"

lemma goes_refl: "goes h v v"
  by (auto simp: goes_def)

lemma goes_trans: "goes h u v \<Longrightarrow> goes h v w \<Longrightarrow> goes h u w"
  unfolding goes_def by metis

lemma goes_halt:
  assumes "goes h v (h, z, R, m)" and "decoder_ok c" and "view_of (state c) = v"
  obtains d where "run_until h c = Some (Inr (), d)" and "view_of (state d) = (h, z, R, m)"
proof -
  from assms obtain d where "view_of (state d) = (h, z, R, m)" "run_until h c = run_until h d"
    unfolding goes_def by blast
  moreover from this have "run_until h d = Some (Inr (), d)"
    by (intro run_until_halt) (simp add: view_of_def)
  ultimately show ?thesis by (auto intro: that)
qed

text \<open>What an instruction does to the view.\<close>

definition does :: "16 word \<Rightarrow> view \<Rightarrow> view \<Rightarrow> bool" where
  "does opc v w \<longleftrightarrow> (\<forall>s. view_of s = v \<longrightarrow> (\<exists>t. execute (decode_spec opc) s = (Inr (), t) \<and> view_of t = w))"

lemma goes_step:
  assumes "BaseMemory_get m (ucast p) SIZE_WORD = Inr w" and "p \<noteq> h"
    and "does (ucast w) (p, z, R, m) v" and "goes h v v'"
  shows "goes h (p, z, R, m) v'"
proof -
  have "goes h (p, z, R, m) v"
    unfolding goes_def
  proof (intro allI impI)
    fix c assume c: "decoder_ok c \<and> view_of (state c) = (p, z, R, m)"
    with assms(3) obtain t where t: "execute (decode_spec (ucast w)) (state c) = (Inr (), t)" "view_of t = v"
      unfolding does_def by blast
    have "CPU_step c = (Inr (), c\<lparr>state := t\<rparr>)"
      using c assms(1) t(1) by (intro step_runs) (auto simp: view_of_def)
    then have "run_until h c = run_until h (c\<lparr>state := t\<rparr>)"
      using c assms(2) by (intro run_until_step) (auto simp: view_of_def)
    with c t(2) show "\<exists>d. decoder_ok d \<and> view_of (state d) = v \<and> run_until h c = run_until h d"
      by (intro exI [of _ "c\<lparr>state := t\<rparr>"]) (simp add: decoder_ok_def)
  qed
  then show ?thesis using assms(4) by (rule goes_trans)
qed

lemmas [trans] = goes_trans

lemma goes_by:
  assumes "BaseMemory_get m (ucast p) SIZE_WORD = Inr w" and "p \<noteq> h" and "does (ucast w) (p, z, R, m) v" and "v = v'"
  shows "goes h (p, z, R, m) v'"
  using assms goes_step goes_refl by blast

lemma doesI:
  "(\<And>s. pc_of s = p \<Longrightarrow> flag s SR_FLAG_ZERO = z \<Longrightarrow> gregs s = R \<Longrightarrow> memory s = m \<Longrightarrow>
     \<exists>t. execute (decode_spec opc) s = (Inr (), t) \<and> view_of t = w) \<Longrightarrow> does opc (p, z, R, m) w"
  by (auto simp: does_def view_of_def)

end
