(* ===== verification/Code_Rules.thy ===== *)
theory Code_Rules
  imports Machine_Code
begin

text \<open>
  The instructions a compiler emits for simple code, as rules about what a program sees: for each
  a predicate on opcodes, decided by evaluation of the decoder, and the effect of the opcodes that
  satisfy it.
\<close>

lemma general_regs [simp]:
  "general_reg REG_D0" "general_reg REG_D2" "general_reg REG_A6" "general_reg REG_A7"
  by (simp_all add: general_reg_def)

lemma flag_rput_general [simp]: "general_reg r \<Longrightarrow> flag (rput s r v) f = flag s f"
  by (simp add: general_not_SR)

lemma IS_ZERO_wide_long [simp]: "IS_ZERO (wide v) SIZE_LONG \<longleftrightarrow> v = 0" "IS_ZERO (ucast (v :: 32 word) :: 64 word) SIZE_LONG \<longleftrightarrow> v = 0"
  using fits_uval [of SIZE_LONG v] by (simp_all add: IS_ZERO_wide uint_0_iff flip: wide_def del: IS_ZERO.simps)

lemma IS_ZERO_long_32 [simp]: "IS_ZERO (v :: 32 word) SIZE_LONG \<longleftrightarrow> v = 0"
  by (simp add: mask_eq_take_bit)

declare IS_ZERO.simps [simp del] IS_NEGATIVE.simps [simp del] IS_CARRY.simps [simp del] IS_OVERFLOW.simps [simp del]

lemmas run_simps = Let_def view_of_def rval_gregs inc_step_def mem_get_apply stackPush_def

section \<open>Moves\<close>

definition move_l :: "16 word \<Rightarrow> AddressingMode \<Rightarrow> RegisterType \<Rightarrow> AddressingMode \<Rightarrow> RegisterType \<Rightarrow> bool" where
  "move_l opc sm sr dm dr \<longleftrightarrow> (case decode_spec opc of
     I_Move i \<Rightarrow> Move.src_mode i = sm \<and> Move.src_reg i = sr \<and> Move.dest_mode i = dm \<and> Move.dest_reg i = dr \<and>
       Move.data_size i = SIZE_LONG \<and> \<not> is_movea i
   | _ \<Rightarrow> False)"

lemma move_lE:
  assumes "move_l opc sm sr dm dr"
  obtains i where "decode_spec opc = I_Move i" and "Move.src_mode i = sm" and "Move.src_reg i = sr"
    and "Move.dest_mode i = dm" and "Move.dest_reg i = dr" and "Move.data_size i = SIZE_LONG" and "\<not> is_movea i"
  using assms by (auto simp: move_l_def split: Ins.splits)

lemma does_move_reg:
  assumes "move_l opc ADDR_MODE_DIRECT_DATA q ADDR_MODE_DIRECT_DATA r" and "general_reg q" and "general_reg r"
  shows "does opc (p, z, R, m) (p + 2, R q = 0, R(r := R q), m)"
  using assms by (elim move_lE, intro doesI) (auto simp: run_simps Move_execute_def)

lemma does_push:
  assumes "move_l opc ADDR_MODE_DIRECT_DATA q ADDR_MODE_INDIRECT_PREDECREMENT REG_A7" and "general_reg q"
    and "full m" and "cell S" and "R REG_A7 = of_nat S + 4"
  shows "does opc (p, z, R, m) (p + 2, R q = 0, R(REG_A7 := of_nat S), lwrite m S (R q))"
  using assms by (elim move_lE, intro doesI) (auto simp: run_simps Move_execute_def)

lemma does_load:
  assumes "move_l opc ADDR_MODE_INDIRECT_DISPLACEMENT q ADDR_MODE_DIRECT_DATA r" and "general_reg q" and "general_reg r"
    and "BaseMemory_get m (ucast (p + 2)) SIZE_WORD = Inr d" and "R q + sext16 d = of_nat k" and "full m" and "cell k"
  shows "does opc (p, z, R, m) (p + 4, lread m k = 0, R(r := lread m k), m)"
  using assms by (elim move_lE, intro doesI) (auto simp: run_simps Move_execute_def get_cell)

lemma does_store_abs:
  assumes "move_l opc ADDR_MODE_DIRECT_DATA q ADDR_MODE_ABS_LONG r" and "general_reg q"
    and "BaseMemory_get m (ucast (p + 2)) SIZE_LONG = Inr (of_nat k)" and "full m" and "cell k"
  shows "does opc (p, z, R, m) (p + 6, R q = 0, R, lwrite m k (R q))"
  using assms by (elim move_lE, intro doesI) (auto simp: run_simps Move_execute_def)

definition moveq :: "16 word \<Rightarrow> RegisterType \<Rightarrow> 8 word \<Rightarrow> bool" where
  "moveq opc r v \<longleftrightarrow> (case decode_spec opc of
     I_Moveq i \<Rightarrow> Moveq.dest_mode i = ADDR_MODE_DIRECT_DATA \<and> Moveq.dest_reg i = r \<and> Moveq.imm_data i = v \<and>
       Moveq.data_size i = SIZE_LONG
   | _ \<Rightarrow> False)"

lemma does_moveq:
  assumes "moveq opc r v" and "general_reg r"
  shows "does opc (p, z, R, m) (p + 2, v = 0, R(r := ucast v), m)"
  using assms by (intro doesI) (auto simp: run_simps Moveq_execute_def moveq_def split: Ins.splits)

section \<open>Branches and comparisons\<close>

definition bcc_s :: "16 word \<Rightarrow> Condition \<Rightarrow> 32 word \<Rightarrow> bool" where
  "bcc_s opc c d \<longleftrightarrow> (case decode_spec opc of
     I_Bcc i \<Rightarrow> Bcc.condition i = c \<and> Bcc.data_size i = SIZE_BYTE \<and> scast (Bcc.displacement_8 i) = d
   | _ \<Rightarrow> False)"

lemma does_bra: "bcc_s opc COND_TRUE d \<Longrightarrow> does opc (p, z, R, m) (p + 2 + d, z, R, m)"
  by (intro doesI) (auto simp: run_simps Bcc_execute_def bcc_s_def Bcc_displacement_def split: Ins.splits)

lemma does_bne: "bcc_s opc COND_NOT_EQUAL d \<Longrightarrow> does opc (p, z, R, m) (if z then p + 2 else p + 2 + d, z, R, m)"
  by (intro doesI) (auto simp: run_simps Bcc_execute_def bcc_s_def Bcc_displacement_def checkCondition_flags split: Ins.splits)

definition tst_l :: "16 word \<Rightarrow> RegisterType \<Rightarrow> bool" where
  "tst_l opc r \<longleftrightarrow> (case decode_spec opc of
     I_Tst i \<Rightarrow> Tst.ea_mode i = ADDR_MODE_INDIRECT_DISPLACEMENT \<and> Tst.ea_reg i = r \<and> Tst.data_size i = SIZE_LONG
   | _ \<Rightarrow> False)"

lemma does_tst:
  assumes "tst_l opc q" and "general_reg q"
    and "BaseMemory_get m (ucast (p + 2)) SIZE_WORD = Inr d" and "R q + sext16 d = of_nat k" and "full m" and "cell k"
  shows "does opc (p, z, R, m) (p + 4, lread m k = 0, R, m)"
  using assms by (intro doesI) (auto simp: run_simps Tst_execute_def tst_l_def get_cell split: Ins.splits)

definition cmp_l :: "16 word \<Rightarrow> RegisterType \<Rightarrow> RegisterType \<Rightarrow> bool" where
  "cmp_l opc q r \<longleftrightarrow> (case decode_spec opc of
     I_Cmp i \<Rightarrow> Cmp.src_mode i = ADDR_MODE_INDIRECT_DISPLACEMENT \<and> Cmp.src_reg i = q \<and>
       Cmp.dest_mode i = ADDR_MODE_DIRECT_DATA \<and> Cmp.dest_reg i = r \<and> Cmp.data_size i = SIZE_LONG
   | _ \<Rightarrow> False)"

lemma does_cmp:
  assumes "cmp_l opc q r" and "general_reg q" and "general_reg r"
    and "BaseMemory_get m (ucast (p + 2)) SIZE_WORD = Inr d" and "R q + sext16 d = of_nat k" and "full m" and "cell k"
  shows "does opc (p, z, R, m) (p + 4, R r = lread m k, R, m)"
  using assms by (intro doesI) (auto simp: run_simps Cmp_execute_def cmp_l_def get_cell split: Ins.splits)

section \<open>Arithmetic\<close>

definition subq_l :: "16 word \<Rightarrow> RegisterType \<Rightarrow> 32 word \<Rightarrow> bool" where
  "subq_l opc r v \<longleftrightarrow> (case decode_spec opc of
     I_Subq i \<Rightarrow> Subq.dest_mode i = ADDR_MODE_DIRECT_DATA \<and> Subq.dest_reg i = r \<and> ucast (Subq.imm_data i) = v \<and>
       Subq.data_size i = SIZE_LONG
   | _ \<Rightarrow> False)"

lemma does_subq:
  "subq_l opc r v \<Longrightarrow> general_reg r \<Longrightarrow> does opc (p, z, R, m) (p + 2, R r = v, R(r := R r - v), m)"
  by (intro doesI) (auto simp: run_simps Subq_execute_def subq_l_def split: Ins.splits)

definition addq_a :: "16 word \<Rightarrow> RegisterType \<Rightarrow> 32 word \<Rightarrow> bool" where
  "addq_a opc r v \<longleftrightarrow> (case decode_spec opc of
     I_Addq i \<Rightarrow> Addq.dest_mode i = ADDR_MODE_DIRECT_ADDR \<and> Addq.dest_reg i = r \<and> ucast (Addq.imm_data i) = v \<and>
       Addq.data_size i = SIZE_LONG
   | _ \<Rightarrow> False)"

lemma does_addq_a:
  "addq_a opc r v \<Longrightarrow> general_reg r \<Longrightarrow> does opc (p, z, R, m) (p + 2, z, R(r := R r + v), m)"
  by (intro doesI) (auto simp: run_simps add.commute [of v] Addq_execute_def addq_a_def split: Ins.splits)

definition add_l :: "16 word \<Rightarrow> RegisterType \<Rightarrow> RegisterType \<Rightarrow> bool" where
  "add_l opc q r \<longleftrightarrow> (case decode_spec opc of
     I_Add i \<Rightarrow> Add.src_mode i = ADDR_MODE_DIRECT_DATA \<and> Add.src_reg i = q \<and>
       Add.dest_mode i = ADDR_MODE_DIRECT_DATA \<and> Add.dest_reg i = r \<and> Add.data_size i = SIZE_LONG
   | _ \<Rightarrow> False)"

lemma does_add:
  "add_l opc q r \<Longrightarrow> general_reg q \<Longrightarrow> general_reg r \<Longrightarrow>
   does opc (p, z, R, m) (p + 2, R q + R r = 0, R(r := R q + R r), m)"
  by (intro doesI) (auto simp: run_simps Add_execute_def add_l_def split: Ins.splits)

section \<open>Calls and stack frames\<close>

definition link_w :: "16 word \<Rightarrow> RegisterType \<Rightarrow> bool" where
  "link_w opc r \<longleftrightarrow> (case decode_spec opc of
     I_Link i \<Rightarrow> Link.addr_reg i = r \<and> Link.data_size i = SIZE_WORD | _ \<Rightarrow> False)"

lemma does_link:
  assumes "link_w opc r" and "general_reg r" and "r \<noteq> REG_A7"
    and "BaseMemory_get m (ucast (p + 2)) SIZE_WORD = Inr d" and "full m" and "cell S" and "R REG_A7 = of_nat S + 4"
  shows "does opc (p, z, R, m) (p + 4, z, R(r := of_nat S, REG_A7 := of_nat S + sext16 d), lwrite m S (R r))"
  using assms by (intro doesI) (auto simp: run_simps Link_execute_def link_w_def split: Ins.splits)

definition unlk :: "16 word \<Rightarrow> RegisterType \<Rightarrow> bool" where
  "unlk opc r \<longleftrightarrow> (case decode_spec opc of I_Unlk i \<Rightarrow> Unlk.addr_reg i = r | _ \<Rightarrow> False)"

lemma does_unlk:
  assumes "unlk opc r" and "general_reg r" and "r \<noteq> REG_A7" and "full m" and "cell S" and "R r = of_nat S"
  shows "does opc (p, z, R, m) (p + 2, z, R(REG_A7 := of_nat S + 4, r := lread m S), m)"
  using assms by (intro doesI) (auto simp: run_simps Unlk_execute_def unlk_def stackPop_eq get_cell split: Ins.splits)

definition jsr_pc :: "16 word \<Rightarrow> bool" where
  "jsr_pc opc \<longleftrightarrow> (case decode_spec opc of I_Jsr i \<Rightarrow> Jsr.dest_mode i = ADDR_MODE_PC_DISPLACEMENT | _ \<Rightarrow> False)"

lemma does_jsr:
  assumes "jsr_pc opc" and "BaseMemory_get m (ucast (p + 2)) SIZE_WORD = Inr d"
    and "full m" and "cell S" and "R REG_A7 = of_nat S + 4"
  shows "does opc (p, z, R, m) (p + 2 + sext16 d, z, R(REG_A7 := of_nat S), lwrite m S (4 + p))"
  using assms by (intro doesI) (auto simp: run_simps Jsr_execute_def jsr_pc_def split: Ins.splits)

definition rts :: "16 word \<Rightarrow> bool" where
  "rts opc \<longleftrightarrow> (case decode_spec opc of I_Rts i \<Rightarrow> True | _ \<Rightarrow> False)"

lemma does_rts:
  assumes "rts opc" and "full m" and "cell S" and "R REG_A7 = of_nat S"
  shows "does opc (p, z, R, m) (lread m S, z, R(REG_A7 := of_nat S + 4), m)"
  using assms by (intro doesI) (auto simp: run_simps Rts_execute_def rts_def stackPop_eq get_cell split: Ins.splits)

definition pea_w :: "16 word \<Rightarrow> bool" where
  "pea_w opc \<longleftrightarrow> (case decode_spec opc of I_Pea i \<Rightarrow> Pea.addr_mode i = ADDR_MODE_ABS_WORD | _ \<Rightarrow> False)"

lemma does_pea:
  assumes "pea_w opc" and "BaseMemory_get m (ucast (p + 2)) SIZE_WORD = Inr d"
    and "full m" and "cell S" and "R REG_A7 = of_nat S + 4"
  shows "does opc (p, z, R, m) (p + 4, z, R(REG_A7 := of_nat S), lwrite m S d)"
  using assms by (intro doesI) (auto simp: run_simps Pea_execute_def pea_w_def split: Ins.splits)

section \<open>Steps of a run\<close>

lemmas goes_move_reg = goes_by [OF _ _ does_move_reg]
lemmas goes_push = goes_by [OF _ _ does_push]
lemmas goes_load = goes_by [OF _ _ does_load]
lemmas goes_store_abs = goes_by [OF _ _ does_store_abs]
lemmas goes_moveq = goes_by [OF _ _ does_moveq]
lemmas goes_bra = goes_by [OF _ _ does_bra]
lemmas goes_bne = goes_by [OF _ _ does_bne]
lemmas goes_tst = goes_by [OF _ _ does_tst]
lemmas goes_cmp = goes_by [OF _ _ does_cmp]
lemmas goes_subq = goes_by [OF _ _ does_subq]
lemmas goes_addq_a = goes_by [OF _ _ does_addq_a]
lemmas goes_add = goes_by [OF _ _ does_add]
lemmas goes_link = goes_by [OF _ _ does_link]
lemmas goes_unlk = goes_by [OF _ _ does_unlk]
lemmas goes_jsr = goes_by [OF _ _ does_jsr]
lemmas goes_rts = goes_by [OF _ _ does_rts]
lemmas goes_pea = goes_by [OF _ _ does_pea]

text \<open>Code in memory: words and long words at addresses.\<close>

definition has_code :: "(nat \<times> DataSize \<times> 32 word) list \<Rightarrow> BaseMemory \<Rightarrow> bool" where
  "has_code cs m \<longleftrightarrow> list_all (\<lambda>(a, sz, w). BaseMemory_get m (ucast (of_nat a :: 32 word)) sz = Inr w) cs"

lemma has_code_altered:
  assumes "has_code cs m" and "full m" and "altered A m m'"
    and "list_all (\<lambda>(a, sz, w). a < 2 ^ 24 \<and> 0 < size_val sz \<and> {a..<a + size_val sz} \<inter> A = {}) cs"
  shows "has_code cs m'"
  using assms(1,4) altered_get [OF assms(3,2)] by (fastforce simp: has_code_def list_all_iff)

end
