(* ===== verification/Fibonacci.thy ===== *)
theory Fibonacci
  imports Code_Rules
begin

text \<open>
  The program of \<open>src/test/binary/fibonacci.elf\<close>, compiled from \<open>src/test/src/fibonacci/src/fibonacci.c\<close>:
  a recursive function on the stack and a \<open>main\<close> that calls it with 20.  The routine is verified for
  every argument for which there is room on the stack.
\<close>

section \<open>The code\<close>

text \<open>
  \<^item> \<open>0x10000\<close>: \<open>link a6, #0\<close>; \<open>move.l d2, -(sp)\<close>; \<open>tst.l 8(a6)\<close>; \<open>bne 0x10010\<close>;
  \<^item> \<open>0x1000C\<close>: \<open>moveq #0, d0\<close>; \<open>bra 0x1003C\<close>;
  \<^item> \<open>0x10010\<close>: \<open>moveq #1, d0\<close>; \<open>cmp.l 8(a6), d0\<close>; \<open>bne 0x1001C\<close>;
  \<^item> \<open>0x10018\<close>: \<open>moveq #1, d0\<close>; \<open>bra 0x1003C\<close>;
  \<^item> \<open>0x1001C\<close>: \<open>move.l 8(a6), d0\<close>; \<open>subq.l #2, d0\<close>; \<open>move.l d0, -(sp)\<close>; \<open>jsr 0x10000\<close>;
  \<^item> \<open>0x10028\<close>: \<open>addq.l #4, sp\<close>; \<open>move.l d0, d2\<close>; \<open>move.l 8(a6), d0\<close>; \<open>subq.l #1, d0\<close>;
    \<open>move.l d0, -(sp)\<close>; \<open>jsr 0x10000\<close>;
  \<^item> \<open>0x10038\<close>: \<open>addq.l #4, sp\<close>; \<open>add.l d2, d0\<close>;
  \<^item> \<open>0x1003C\<close>: \<open>move.l -4(a6), d2\<close>; \<open>unlk a6\<close>; \<open>rts\<close>;
  \<^item> \<open>0x10044\<close>: \<open>link a6, #0\<close>; \<open>pea 20\<close>; \<open>jsr 0x10000\<close>; \<open>addq.l #4, sp\<close>; \<open>move.l d0, 0x4000\<close>;
  \<^item> \<open>0x10058\<close>: \<open>bra 0x10058\<close>.
\<close>

definition fib_code :: "(nat \<times> DataSize \<times> 32 word) list" where
  "fib_code =
    [(0x10000, SIZE_WORD, 0x4E56), (0x10002, SIZE_WORD, 0x0000),
     (0x10004, SIZE_WORD, 0x2F02),
     (0x10006, SIZE_WORD, 0x4AAE), (0x10008, SIZE_WORD, 0x0008),
     (0x1000A, SIZE_WORD, 0x6604),
     (0x1000C, SIZE_WORD, 0x7000),
     (0x1000E, SIZE_WORD, 0x602C),
     (0x10010, SIZE_WORD, 0x7001),
     (0x10012, SIZE_WORD, 0xB0AE), (0x10014, SIZE_WORD, 0x0008),
     (0x10016, SIZE_WORD, 0x6604),
     (0x10018, SIZE_WORD, 0x7001),
     (0x1001A, SIZE_WORD, 0x6020),
     (0x1001C, SIZE_WORD, 0x202E), (0x1001E, SIZE_WORD, 0x0008),
     (0x10020, SIZE_WORD, 0x5580),
     (0x10022, SIZE_WORD, 0x2F00),
     (0x10024, SIZE_WORD, 0x4EBA), (0x10026, SIZE_WORD, 0xFFDA),
     (0x10028, SIZE_WORD, 0x588F),
     (0x1002A, SIZE_WORD, 0x2400),
     (0x1002C, SIZE_WORD, 0x202E), (0x1002E, SIZE_WORD, 0x0008),
     (0x10030, SIZE_WORD, 0x5380),
     (0x10032, SIZE_WORD, 0x2F00),
     (0x10034, SIZE_WORD, 0x4EBA), (0x10036, SIZE_WORD, 0xFFCA),
     (0x10038, SIZE_WORD, 0x588F),
     (0x1003A, SIZE_WORD, 0xD082),
     (0x1003C, SIZE_WORD, 0x242E), (0x1003E, SIZE_WORD, 0xFFFC),
     (0x10040, SIZE_WORD, 0x4E5E),
     (0x10042, SIZE_WORD, 0x4E75),
     (0x10044, SIZE_WORD, 0x4E56), (0x10046, SIZE_WORD, 0x0000),
     (0x10048, SIZE_WORD, 0x4878), (0x1004A, SIZE_WORD, 0x0014),
     (0x1004C, SIZE_WORD, 0x4EBA), (0x1004E, SIZE_WORD, 0xFFB2),
     (0x10050, SIZE_WORD, 0x588F),
     (0x10052, SIZE_WORD, 0x23C0), (0x10054, SIZE_LONG, 0x4000),
     (0x10058, SIZE_WORD, 0x60FE)]"

definition fib_loaded :: "BaseMemory \<Rightarrow> bool" where
  "fib_loaded m \<longleftrightarrow> has_code fib_code m"

lemma fib_loaded_changed:
  assumes "changed lo hi m m'" and "fib_loaded m" and "full m" and "0x1005A \<le> lo \<or> hi \<le> 0x10000"
  shows "fib_loaded m'"
  using assms(2,3,1) unfolding fib_loaded_def
  by (rule has_code_altered) (use assms(4) in \<open>auto simp: fib_code_def\<close>)


lemmas fetched = fib_loaded_def [THEN iffD1, unfolded has_code_def fib_code_def, simplified]

lemma ops:
  "link_w 0x4E56 REG_A6" "unlk 0x4E5E REG_A6" "rts 0x4E75" "jsr_pc 0x4EBA" "pea_w 0x4878"
  "move_l 0x2F02 ADDR_MODE_DIRECT_DATA REG_D2 ADDR_MODE_INDIRECT_PREDECREMENT REG_A7"
  "move_l 0x2F00 ADDR_MODE_DIRECT_DATA REG_D0 ADDR_MODE_INDIRECT_PREDECREMENT REG_A7"
  "move_l 0x202E ADDR_MODE_INDIRECT_DISPLACEMENT REG_A6 ADDR_MODE_DIRECT_DATA REG_D0"
  "move_l 0x242E ADDR_MODE_INDIRECT_DISPLACEMENT REG_A6 ADDR_MODE_DIRECT_DATA REG_D2"
  "move_l 0x2400 ADDR_MODE_DIRECT_DATA REG_D0 ADDR_MODE_DIRECT_DATA REG_D2"
  "move_l 0x23C0 ADDR_MODE_DIRECT_DATA REG_D0 ADDR_MODE_ABS_LONG REG_A1"
  "moveq 0x7000 REG_D0 0" "moveq 0x7001 REG_D0 1"
  "tst_l 0x4AAE REG_A6" "cmp_l 0xB0AE REG_A6 REG_D0"
  "bcc_s 0x6604 COND_NOT_EQUAL 4" "bcc_s 0x602C COND_TRUE 0x2C" "bcc_s 0x6020 COND_TRUE 0x20"
  "subq_l 0x5580 REG_D0 2" "subq_l 0x5380 REG_D0 1" "addq_a 0x588F REG_A7 4" "add_l 0xD082 REG_D2 REG_D0"
  by code_simp+

lemma sext16_lits: "sext16 0 = 0" "sext16 8 = 8" "sext16 0xFFDA = - 0x26" "sext16 0xFFCA = - 0x36" "sext16 0xFFB2 = - 0x4E"
  "sext16 0xFFFC = - 4"
  by code_simp+

section \<open>The routine\<close>

fun fib :: "nat \<Rightarrow> nat" where
  "fib 0 = 0"
| "fib (Suc 0) = 1"
| "fib (Suc (Suc n)) = fib n + fib (Suc n)"

text \<open>
  Memory with an argument and a return address pushed above \<open>C\<close>; memory between entry and exit, with
  the saved registers in place; what the caller of the routine provides.  \<open>B\<close> is the address at which
  the routine saves \<open>d2\<close>: its frame pointer is \<open>B + 4\<close>, its return address at \<open>B + 8\<close>, its argument
  at \<open>B + 12\<close>.
\<close>

definition call_frame :: "BaseMemory \<Rightarrow> nat \<Rightarrow> 32 word \<Rightarrow> 32 word \<Rightarrow> BaseMemory" where
  "call_frame m C v ret = lwrite (lwrite m (C + 12) v) (C + 8) ret"

definition framed :: "nat \<Rightarrow> (RegisterType \<Rightarrow> 32 word) \<Rightarrow> BaseMemory \<Rightarrow> bool" where
  "framed B R m \<longleftrightarrow> fib_loaded m \<and> full m \<and> lread m (B + 4) = R REG_A6 \<and> lread m B = R REG_D2"

definition called :: "nat \<Rightarrow> nat \<Rightarrow> (RegisterType \<Rightarrow> 32 word) \<Rightarrow> BaseMemory \<Rightarrow> bool" where
  "called n B R m \<longleftrightarrow> fib_loaded m \<and> full m \<and> cell (B + 12) \<and> 0x1005A + 16 * n \<le> B \<and>
     R REG_A7 = of_nat B + 8 \<and> lread m (B + 12) = of_nat n"

text \<open>
  The contract of the routine: called with the argument above the return address on the stack, it
  returns with the result in \<open>d0\<close>, every other register but the stack pointer as it was, and
  memory changed only in the \<open>16 n + 8\<close> bytes below the return address.
\<close>

definition returns :: "32 word \<Rightarrow> nat \<Rightarrow> bool" where
  "returns halt n \<longleftrightarrow> (\<forall>B R m z. called n B R m \<longrightarrow> (\<exists>z' m'.
     goes halt (0x10000, z, R, m)
       (lread m (B + 8), z', R(REG_D0 := of_nat (fib n), REG_A7 := of_nat B + 12), m') \<and>
     changed (B - 16 * n) (B + 8) m m'))"

text \<open>
  The routine is verified for every address \<open>halt\<close> outside it at which the run is to stop: for the
  test it is the end of the program, for a call it is the return address.
\<close>

locale fib_routine =
  fixes halt :: "32 word"
  assumes outside: "halt < 0x10000 \<or> 0x10044 \<le> halt"
begin

lemma not_halted [simp]: "0x10000 \<le> p \<Longrightarrow> p < 0x10044 \<Longrightarrow> p \<noteq> halt"
  using outside by auto

lemma entry:
  assumes "fib_loaded m" and "full m" and "cell (B + 12)" and "0x1005A \<le> B" and "R REG_A7 = of_nat B + 8"
    and "lread m (B + 12) = of_nat n"
  shows "goes halt (0x10000, z, R, m)
    (0x1000A, of_nat n = (0 :: 32 word), R(REG_A6 := of_nat B + 4, REG_A7 := of_nat B),
       lwrite (lwrite m (B + 4) (R REG_A6)) B (R REG_D2))"
proof -
  let ?m1 = "lwrite m (B + 4) (R REG_A6)" let ?m2 = "lwrite ?m1 B (R REG_D2)"
  have f: "full ?m1" "full ?m2" using assms by simp_all
  have "changed B (B + 8) m ?m1" using assms by (intro changed_intros) auto
  then have "changed B (B + 8) m ?m2" using assms by (intro changed_intros) auto
  have c1: "fib_loaded ?m1" using fib_loaded_changed [OF \<open>changed B (B + 8) m ?m1\<close>] assms by simp
  have c2: "fib_loaded ?m2" using fib_loaded_changed [OF \<open>changed B (B + 8) m ?m2\<close>] assms by simp
  have l: "lread ?m2 (B + 12) = of_nat n"
    using changed_lread [OF \<open>changed B (B + 8) m ?m2\<close>, of "B + 12"] assms by simp
  note [simp] = ops sext16_lits fetched [OF assms(1)] fetched [OF c1] fetched [OF c2] f l
  have "goes halt (0x10000, z, R, m) (0x10004, z, R(REG_A6 := of_nat B + 4, REG_A7 := of_nat B + 4), ?m1)"
    by (rule goes_link [where S = "B + 4" and r = REG_A6]) (use assms in \<open>simp add: add.assoc; fail\<close>)+
  also have "goes halt \<dots> (0x10006, R REG_D2 = 0, R(REG_A6 := of_nat B + 4, REG_A7 := of_nat B), ?m2)"
    by (rule goes_push [where S = B and q = REG_D2]) (use assms in \<open>simp add: add.assoc; fail\<close>)+
  also have "goes halt \<dots> (0x1000A, of_nat n = (0 :: 32 word), R(REG_A6 := of_nat B + 4, REG_A7 := of_nat B), ?m2)"
    by (rule goes_tst [where k = "B + 12" and q = REG_A6]) (use assms in \<open>simp add: add.assoc; fail\<close>)+
  finally show ?thesis .
qed

lemma leave:
  assumes "fib_loaded m" and "full m" and "cell (B + 12)" and "0x1005A \<le> B" and "R REG_A6 = of_nat B + 4"
  shows "goes halt (0x1003C, z, R, m)
    (lread m (B + 8), lread m B = 0, R(REG_D2 := lread m B, REG_A6 := lread m (B + 4), REG_A7 := of_nat B + 12), m)"
proof -
  note [simp] = ops sext16_lits fetched [OF assms(1)] assms(2)
  have "goes halt (0x1003C, z, R, m) (0x10040, lread m B = 0, R(REG_D2 := lread m B), m)"
    by (rule goes_load [where k = B and q = REG_A6 and r = REG_D2]) (use assms in \<open>simp add: add.assoc; fail\<close>)+
  also have "goes halt \<dots> (0x10042, lread m B = 0,
      R(REG_D2 := lread m B, REG_A7 := of_nat B + 8, REG_A6 := lread m (B + 4)), m)"
    by (rule goes_unlk [where S = "B + 4" and r = REG_A6]) (use assms in \<open>simp add: add.assoc; fail\<close>)+
  also have "goes halt \<dots>
    (lread m (B + 8), lread m B = 0, R(REG_D2 := lread m B, REG_A6 := lread m (B + 4), REG_A7 := of_nat B + 12), m)"
    by (rule goes_rts [where S = "B + 8"]) (use assms in \<open>simp add: add.assoc fun_upd_twist; fail\<close>)+
  finally show ?thesis .
qed

text \<open>The two recursive calls, from the test to the entry of the routine.\<close>

lemma call_frame:
  assumes "fib_loaded m" and "full m" and "cell (C + 28)" and "0x1005A \<le> C"
  shows "fib_loaded (call_frame m C v ret)" "full (call_frame m C v ret)"
    "changed (C + 8) (C + 16) m (call_frame m C v ret)"
    "lread (call_frame m C v ret) (C + 12) = v" "lread (call_frame m C v ret) (C + 8) = ret"
    "fib_loaded (lwrite m (C + 12) v)" "full (lwrite m (C + 12) v)"
proof -
  have 1: "changed (C + 8) (C + 16) m (lwrite m (C + 12) v)"
    using assms by (intro changed_intros) auto
  then show 2: "changed (C + 8) (C + 16) m (call_frame m C v ret)"
    unfolding call_frame_def using assms by (intro changed_intros) auto
  show "fib_loaded (call_frame m C v ret)" "fib_loaded (lwrite m (C + 12) v)"
    using fib_loaded_changed [OF 1] fib_loaded_changed [OF 2] assms by simp_all
  show "full (lwrite m (C + 12) v)" "full (call_frame m C v ret)"
    using assms by (simp_all add: call_frame_def)
  show "lread (call_frame m C v ret) (C + 12) = v" "lread (call_frame m C v ret) (C + 8) = ret"
    using assms by (simp_all add: call_frame_def lread_lwrite_same lread_lwrite_other)
qed

lemma first_call:
  assumes "fib_loaded m" and "full m" and "cell (C + 28)" and "0x1005A \<le> C"
    and "R REG_A6 = of_nat C + 20" and "R REG_A7 = of_nat C + 16"
  shows "\<exists>z'. goes halt (0x1001C, z, R, m)
    (0x10000, z', R(REG_D0 := lread m (C + 28) - 2, REG_A7 := of_nat C + 8), call_frame m C (lread m (C + 28) - 2) 0x10028)"
proof -
  let ?v = "lread m (C + 28)"
  note [simp] = ops sext16_lits fetched [OF assms(1)] assms(2) fetched [OF call_frame(6) [OF assms(1-4)]] call_frame(7) [OF assms(1-4)]
  have "goes halt (0x1001C, z, R, m) (0x10020, ?v = 0, R(REG_D0 := ?v), m)"
    by (rule goes_load [where k = "C + 28" and q = REG_A6 and r = REG_D0]) (use assms in \<open>simp add: add.assoc; fail\<close>)+
  also have "goes halt \<dots> (0x10022, ?v = 2, R(REG_D0 := ?v - 2), m)"
    by (rule goes_subq [where r = REG_D0 and v = 2]) (use assms in \<open>simp add: add.assoc; fail\<close>)+
  also have "goes halt \<dots> (0x10024, ?v = 2, R(REG_D0 := ?v - 2, REG_A7 := of_nat C + 12), lwrite m (C + 12) (?v - 2))"
    by (rule goes_push [where S = "C + 12" and q = REG_D0]) (use assms in \<open>simp add: add.assoc; fail\<close>)+
  also have "goes halt \<dots> (0x10000, ?v = 2, R(REG_D0 := ?v - 2, REG_A7 := of_nat C + 8), call_frame m C (?v - 2) 0x10028)"
    by (rule goes_jsr [where S = "C + 8"]) (use assms in \<open>simp add: add.assoc call_frame_def; fail\<close>)+
  finally show ?thesis ..
qed

lemma second_call:
  assumes "fib_loaded m" and "full m" and "cell (C + 28)" and "0x1005A \<le> C"
    and "R REG_A6 = of_nat C + 20" and "R REG_A7 = of_nat C + 12"
  shows "\<exists>z'. goes halt (0x10028, z, R, m)
    (0x10000, z', R(REG_D0 := lread m (C + 28) - 1, REG_D2 := R REG_D0, REG_A7 := of_nat C + 8),
     call_frame m C (lread m (C + 28) - 1) 0x10038)"
proof -
  let ?v = "lread m (C + 28)" let ?R = "R(REG_D2 := R REG_D0, REG_A7 := of_nat C + 16)"
  note [simp] = ops sext16_lits fetched [OF assms(1)] assms(2) fetched [OF call_frame(6) [OF assms(1-4)]] call_frame(7) [OF assms(1-4)]
  have "goes halt (0x10028, z, R, m) (0x1002A, z, R(REG_A7 := of_nat C + 16), m)"
    by (rule goes_addq_a [where r = REG_A7 and v = 4]) (use assms in \<open>simp add: add.assoc; fail\<close>)+
  also have "goes halt \<dots> (0x1002C, R REG_D0 = 0, ?R, m)"
    by (rule goes_move_reg [where q = REG_D0 and r = REG_D2]) (use assms in \<open>simp add: add.assoc fun_upd_twist; fail\<close>)+
  also have "goes halt \<dots> (0x10030, ?v = 0, ?R(REG_D0 := ?v), m)"
    by (rule goes_load [where k = "C + 28" and q = REG_A6 and r = REG_D0]) (use assms in \<open>simp add: add.assoc; fail\<close>)+
  also have "goes halt \<dots> (0x10032, ?v = 1, ?R(REG_D0 := ?v - 1), m)"
    by (rule goes_subq [where r = REG_D0 and v = 1]) (use assms in \<open>simp add: add.assoc; fail\<close>)+
  also have "goes halt \<dots> (0x10034, ?v = 1, ?R(REG_D0 := ?v - 1, REG_A7 := of_nat C + 12), lwrite m (C + 12) (?v - 1))"
    by (rule goes_push [where S = "C + 12" and q = REG_D0]) (use assms in \<open>simp add: add.assoc; fail\<close>)+
  also have "goes halt \<dots> (0x10000, ?v = 1, R(REG_D0 := ?v - 1, REG_D2 := R REG_D0, REG_A7 := of_nat C + 8),
      call_frame m C (?v - 1) 0x10038)"
    by (rule goes_jsr [where S = "C + 8"]) (use assms in \<open>simp add: add.assoc call_frame_def fun_upd_twist; fail\<close>)+
  finally show ?thesis ..
qed

lemma sum_results:
  assumes "fib_loaded m" and "R REG_A7 = of_nat C + 12"
  shows "\<exists>z'. goes halt (0x10038, z, R, m) (0x1003C, z', R(REG_D0 := R REG_D2 + R REG_D0, REG_A7 := of_nat C + 16), m)"
proof -
  note [simp] = ops fetched [OF assms(1)]
  have "goes halt (0x10038, z, R, m) (0x1003A, z, R(REG_A7 := of_nat C + 16), m)"
    by (rule goes_addq_a [where r = REG_A7 and v = 4]) (use assms in \<open>simp add: add.assoc; fail\<close>)+
  also have "goes halt \<dots> (0x1003C, R REG_D2 + R REG_D0 = 0, R(REG_D0 := R REG_D2 + R REG_D0, REG_A7 := of_nat C + 16), m)"
    by (rule goes_add [where q = REG_D2 and r = REG_D0]) (use assms in \<open>simp add: add.assoc fun_upd_twist; fail\<close>)+
  finally show ?thesis ..
qed

text \<open>The tests for 0 and 1.\<close>

lemma argument_0:
  assumes "fib_loaded m"
  shows "\<exists>z'. goes halt (0x1000A, True, R, m) (0x1003C, z', R(REG_D0 := 0), m)"
proof -
  note [simp] = ops fetched [OF assms(1)]
  have "goes halt (0x1000A, True, R, m) (0x1000C, True, R, m)"
    by (rule goes_bne [where d = 4]) (use assms in \<open>simp add: add.assoc; fail\<close>)+
  also have "goes halt \<dots> (0x1000E, True, R(REG_D0 := 0), m)"
    by (rule goes_moveq [where r = REG_D0 and v = 0]) (use assms in \<open>simp add: add.assoc; fail\<close>)+
  also have "goes halt \<dots> (0x1003C, True, R(REG_D0 := 0), m)"
    by (rule goes_bra [where d = "0x2C"]) (use assms in \<open>simp add: add.assoc; fail\<close>)+
  finally show ?thesis ..
qed

lemma test_1:
  assumes "fib_loaded m" and "full m" and "cell (B + 12)" and "R REG_A6 = of_nat B + 4"
  shows "goes halt (0x1000A, False, R, m) (0x10016, 1 = lread m (B + 12), R(REG_D0 := 1), m)"
proof -
  note [simp] = ops sext16_lits fetched [OF assms(1)] assms(2)
  have "goes halt (0x1000A, False, R, m) (0x10010, False, R, m)"
    by (rule goes_bne [where d = 4]) (use assms in \<open>simp add: add.assoc; fail\<close>)+
  also have "goes halt \<dots> (0x10012, False, R(REG_D0 := 1), m)"
    by (rule goes_moveq [where r = REG_D0 and v = 1]) (use assms in \<open>simp add: add.assoc; fail\<close>)+
  also have "goes halt \<dots> (0x10016, 1 = lread m (B + 12), R(REG_D0 := 1), m)"
    by (rule goes_cmp [where k = "B + 12" and q = REG_A6 and r = REG_D0]) (use assms in \<open>simp add: add.assoc; fail\<close>)+
  finally show ?thesis .
qed

lemma argument_1:
  assumes "fib_loaded m"
  shows "\<exists>z'. goes halt (0x10016, True, R, m) (0x1003C, z', R(REG_D0 := 1), m)"
proof -
  note [simp] = ops fetched [OF assms(1)]
  have "goes halt (0x10016, True, R, m) (0x10018, True, R, m)"
    by (rule goes_bne [where d = 4]) (use assms in \<open>simp add: add.assoc; fail\<close>)+
  also have "goes halt \<dots> (0x1001A, False, R(REG_D0 := 1), m)"
    by (rule goes_moveq [where r = REG_D0 and v = 1]) (use assms in \<open>simp add: add.assoc; fail\<close>)+
  also have "goes halt \<dots> (0x1003C, False, R(REG_D0 := 1), m)"
    by (rule goes_bra [where d = "0x20"]) (use assms in \<open>simp add: add.assoc; fail\<close>)+
  finally show ?thesis ..
qed

lemma argument_large:
  assumes "fib_loaded m"
  shows "goes halt (0x10016, False, R, m) (0x1001C, False, R, m)"
  by (rule goes_bne [where d = 4]) (use assms in \<open>simp add: ops fetched; fail\<close>)+


lemma framed_changed:
  assumes "changed lo B m m'" and "framed B R m" and "cell (B + 12)" and "0x1005A \<le> lo"
  shows "framed B R m'"
  using assms fib_loaded_changed [OF assms(1)] altered_full [OF assms(1)]
    changed_lread [OF assms(1), of B] changed_lread [OF assms(1), of "B + 4"]
  by (simp add: framed_def)

lemma framed_entry:
  assumes "fib_loaded m" and "full m" and "cell (B + 12)" and "0x1005A \<le> B" and "R REG_A7 = of_nat B + 8"
    and "lread m (B + 12) = of_nat n"
  obtains m2 where "goes halt (0x10000, z, R, m) (0x1000A, of_nat n = (0 :: 32 word), R(REG_A6 := of_nat B + 4, REG_A7 := of_nat B), m2)"
    and "framed B R m2" and "changed B (B + 8) m m2"
proof -
  let ?m1 = "lwrite m (B + 4) (R REG_A6)" let ?m2 = "lwrite ?m1 B (R REG_D2)"
  have "changed B (B + 8) m ?m1" using assms by (intro changed_intros) auto
  then have c: "changed B (B + 8) m ?m2" using assms by (intro changed_intros) auto
  have "framed B R ?m2"
    using assms fib_loaded_changed [OF c] by (simp add: framed_def lread_lwrite_same lread_lwrite_other)
  with c entry [of m B R n z] assms show ?thesis by (auto intro: that)
qed

lemma framed_leave:
  assumes "framed B R m" and "cell (B + 12)" and "0x1005A \<le> B"
    and "\<forall>r. r \<notin> {REG_D0, REG_D2, REG_A6, REG_A7} \<longrightarrow> R' r = R r" and "R' REG_A6 = of_nat B + 4" and "R' REG_D0 = v"
  shows "\<exists>z'. goes halt (0x1003C, z, R', m) (lread m (B + 8), z', R(REG_D0 := v, REG_A7 := of_nat B + 12), m)"
proof -
  have "goes halt (0x1003C, z, R', m)
    (lread m (B + 8), lread m B = 0, R'(REG_D2 := lread m B, REG_A6 := lread m (B + 4), REG_A7 := of_nat B + 12), m)"
    using assms by (intro leave) (auto simp: framed_def)
  moreover have "R'(REG_D2 := lread m B, REG_A6 := lread m (B + 4), REG_A7 := of_nat B + 12) =
      R(REG_D0 := v, REG_A7 := of_nat B + 12)"
    using assms by (auto simp: framed_def fun_eq_iff)
  ultimately show ?thesis by auto
qed


lemma returnsD:
  assumes "returns halt n" and "called n B R m"
  obtains z' m' where "goes halt (0x10000, z, R, m)
       (lread m (B + 8), z', R(REG_D0 := of_nat (fib n), REG_A7 := of_nat B + 12), m')"
    and "changed (B - 16 * n) (B + 8) m m'"
  using assms unfolding returns_def by blast

lemma called_entry:
  assumes "called n B R m"
  obtains m2 where "goes halt (0x10000, z, R, m) (0x1000A, of_nat n = (0 :: 32 word), R(REG_A6 := of_nat B + 4, REG_A7 := of_nat B), m2)"
    and "framed B R m2" and "changed B (B + 8) m m2" and "lread m2 (B + 8) = lread m (B + 8)" and "lread m2 (B + 12) = of_nat n"
proof -
  obtain m2 where m2: "goes halt (0x10000, z, R, m) (0x1000A, of_nat n = (0 :: 32 word), R(REG_A6 := of_nat B + 4, REG_A7 := of_nat B), m2)"
    and "framed B R m2" and c: "changed B (B + 8) m m2"
    using assms by (auto simp: called_def intro: framed_entry [of m B R n z])
  moreover have "lread m2 (B + 8) = lread m (B + 8)" "lread m2 (B + 12) = of_nat n"
    using changed_lread [OF c] assms by (simp_all add: called_def)
  ultimately show ?thesis using that by blast
qed

lemma returns_by:
  assumes "called n B R m" and "goes halt (0x10000, z, R, m) (0x1003C, z1, R', m1)"
    and "framed B R m1" and "changed (B - 16 * n) (B + 8) m m1"
    and "\<forall>r. r \<notin> {REG_D0, REG_D2, REG_A6, REG_A7} \<longrightarrow> R' r = R r" and "R' REG_A6 = of_nat B + 4" and "R' REG_D0 = of_nat (fib n)"
  shows "\<exists>z' m'. goes halt (0x10000, z, R, m)
       (lread m (B + 8), z', R(REG_D0 := of_nat (fib n), REG_A7 := of_nat B + 12), m') \<and>
     changed (B - 16 * n) (B + 8) m m'"
proof -
  have B: "cell (B + 12)" "0x1005A \<le> B" and m: "full m" using assms(1) by (auto simp: called_def)
  have "lread m1 (B + 8) = lread m (B + 8)"
    using B m by (intro changed_lread [OF assms(4)]) auto
  then obtain z' where "goes halt (0x1003C, z1, R', m1)
      (lread m (B + 8), z', R(REG_D0 := of_nat (fib n), REG_A7 := of_nat B + 12), m1)"
    using framed_leave [OF assms(3) B assms(5-7)] by metis
  from goes_trans [OF assms(2) this] assms(4) show ?thesis by blast
qed

lemma returns_0: "returns halt 0"
  unfolding returns_def
proof (intro allI impI)
  fix B R m z assume called: "called 0 B R m"
  then obtain m2 where m2: "goes halt (0x10000, z, R, m) (0x1000A, True, R(REG_A6 := of_nat B + 4, REG_A7 := of_nat B), m2)"
    "framed B R m2" "changed B (B + 8) m m2"
    using called_entry [of 0 B R m z] by auto
  note m2(1)
  also obtain z1 where "goes halt (0x1000A, True, R(REG_A6 := of_nat B + 4, REG_A7 := of_nat B), m2)
      (0x1003C, z1, R(REG_A6 := of_nat B + 4, REG_A7 := of_nat B, REG_D0 := 0), m2)"
    using argument_0 m2(2) unfolding framed_def by blast
  finally have g: "goes halt (0x10000, z, R, m)
      (0x1003C, z1, R(REG_A6 := of_nat B + 4, REG_A7 := of_nat B, REG_D0 := 0), m2)" .
  show "\<exists>z' m'. goes halt (0x10000, z, R, m)
       (lread m (B + 8), z', R(REG_D0 := of_nat (fib 0), REG_A7 := of_nat B + 12), m') \<and>
     changed (B - 16 * 0) (B + 8) m m'"
    by (rule returns_by [OF called g m2(2)]) (use m2(3) in simp_all)
qed

text \<open>From the entry to the comparison with 1.\<close>

lemma compared:
  assumes "called n B R m" and "n \<noteq> 0"
  obtains m2 where "goes halt (0x10000, z, R, m) (0x10016, n = 1, R(REG_A6 := of_nat B + 4, REG_A7 := of_nat B, REG_D0 := 1), m2)"
    and "framed B R m2" and "changed B (B + 8) m m2" and "lread m2 (B + 12) = of_nat n"
proof -
  have n: "n < 2 ^ 32" and B: "cell (B + 12)" using assms by (auto simp: called_def)
  then have z: "of_nat n = (0 :: 32 word) \<longleftrightarrow> n = 0" "1 = (of_nat n :: 32 word) \<longleftrightarrow> n = 1"
    by (auto simp: word_unat_eq_iff unsigned_of_nat take_bit_nat_eq_self)
  obtain m2 where m2: "goes halt (0x10000, z, R, m) (0x1000A, of_nat n = (0 :: 32 word), R(REG_A6 := of_nat B + 4, REG_A7 := of_nat B), m2)"
    and f: "framed B R m2" and c: "changed B (B + 8) m m2" and l: "lread m2 (B + 12) = of_nat n"
    using called_entry [OF assms(1)] by blast
  note m2
  also have "goes halt (0x1000A, of_nat n = (0 :: 32 word), R(REG_A6 := of_nat B + 4, REG_A7 := of_nat B), m2)
      (0x10016, n = 1, R(REG_A6 := of_nat B + 4, REG_A7 := of_nat B, REG_D0 := 1), m2)"
    using test_1 [of m2 B "R(REG_A6 := of_nat B + 4, REG_A7 := of_nat B)"] f B l assms(2) by (simp add: framed_def z)
  finally show ?thesis using f c l by (rule that)
qed

lemma returns_1: "returns halt (Suc 0)"
  unfolding returns_def
proof (intro allI impI)
  fix B R m z assume called: "called (Suc 0) B R m"
  then obtain m2 where m2: "goes halt (0x10000, z, R, m)
      (0x10016, True, R(REG_A6 := of_nat B + 4, REG_A7 := of_nat B, REG_D0 := 1), m2)"
    "framed B R m2" "changed B (B + 8) m m2"
    using compared [of "Suc 0" B R m z] by auto
  note m2(1)
  also obtain z1 where "goes halt (0x10016, True, R(REG_A6 := of_nat B + 4, REG_A7 := of_nat B, REG_D0 := 1), m2)
      (0x1003C, z1, R(REG_A6 := of_nat B + 4, REG_A7 := of_nat B, REG_D0 := 1, REG_D0 := 1), m2)"
    using argument_1 m2(2) unfolding framed_def by blast
  finally have g: "goes halt (0x10000, z, R, m)
      (0x1003C, z1, R(REG_A6 := of_nat B + 4, REG_A7 := of_nat B, REG_D0 := 1, REG_D0 := 1), m2)" .
  show "\<exists>z' m'. goes halt (0x10000, z, R, m)
       (lread m (B + 8), z', R(REG_D0 := of_nat (fib (Suc 0)), REG_A7 := of_nat B + 12), m') \<and>
     changed (B - 16 * Suc 0) (B + 8) m m'"
    by (rule returns_by [OF called g m2(2) changed_mono [OF m2(3)]]) simp_all
qed

text \<open>One recursive call with its argument and return address pushed.\<close>

lemma call_returns:
  assumes "returns halt n" and "framed (C + 16) R m" and "cell (C + 28)" and "0x1005A + 16 * n \<le> C"
    and "R' REG_A7 = of_nat C + 8"
  obtains z' m' where "goes halt (0x10000, z, R', call_frame m C (of_nat n) ret)
      (ret, z', R'(REG_D0 := of_nat (fib n), REG_A7 := of_nat C + 12), m')"
    and "changed (C - 16 * n) (C + 16) m m'" and "framed (C + 16) R m'"
proof -
  let ?m1 = "call_frame m C (of_nat n) ret"
  have m: "fib_loaded m" "full m" "0x1005A \<le> C" using assms by (auto simp: framed_def)
  note f = call_frame [OF m(1,2) assms(3) m(3)]
  have "called n C R' ?m1" using f assms by (simp add: called_def)
  then obtain z' m' where g: "goes halt (0x10000, z, R', ?m1)
       (lread ?m1 (C + 8), z', R'(REG_D0 := of_nat (fib n), REG_A7 := of_nat C + 12), m')"
    and c: "changed (C - 16 * n) (C + 8) ?m1 m'"
    by (rule returnsD [OF assms(1)])
  have d: "changed (C - 16 * n) (C + 16) m m'"
    by (rule altered_trans [OF changed_mono [OF c] changed_mono [OF f(3)]]) simp_all
  moreover have "framed (C + 16) R m'"
    using framed_changed [OF d assms(2)] assms(3,4) by simp
  ultimately show ?thesis using g f(5) that by auto
qed


text \<open>The two halves of the recursive case.\<close>

lemma first_result:
  assumes "returns halt n" and "framed (C + 16) R m" and "cell (C + 28)" and "0x1005A + 16 * n \<le> C"
    and "lread m (C + 28) = of_nat (Suc (Suc n))" and "R1 REG_A6 = of_nat C + 20" and "R1 REG_A7 = of_nat C + 16"
  obtains z' m' where "goes halt (0x1001C, z, R1, m)
      (0x10028, z', R1(REG_D0 := of_nat (fib n), REG_A7 := of_nat C + 12), m')"
    and "changed (C - 16 * n) (C + 16) m m'" and "framed (C + 16) R m'" and "lread m' (C + 28) = of_nat (Suc (Suc n))"
proof -
  have m: "fib_loaded m" "full m" "0x1005A \<le> C" using assms(2,4) by (auto simp: framed_def)
  define R2 where "R2 = R1(REG_D0 := of_nat n, REG_A7 := of_nat C + 8)"
  obtain z1 where "goes halt (0x1001C, z, R1, m) (0x10000, z1, R2, call_frame m C (of_nat n) 0x10028)"
    using first_call [OF m(1,2) assms(3) m(3) assms(6,7), of z] by (auto simp: assms(5) R2_def)
  also obtain z2 m' where "goes halt (0x10000, z1, R2, call_frame m C (of_nat n) 0x10028)
      (0x10028, z2, R1(REG_D0 := of_nat (fib n), REG_A7 := of_nat C + 12), m')"
    and c: "changed (C - 16 * n) (C + 16) m m'" and f: "framed (C + 16) R m'"
    using call_returns [OF assms(1-4), of R2 z1 "0x10028"] unfolding R2_def by auto
  note this(1)
  finally have g: "goes halt (0x1001C, z, R1, m) (0x10028, z2, R1(REG_D0 := of_nat (fib n), REG_A7 := of_nat C + 12), m')" .
  have "lread m' (C + 28) = of_nat (Suc (Suc n))"
    using changed_lread [OF c m(2)] assms(3,5) by simp
  with g c f show ?thesis by (rule that)
qed

lemma second_result:
  assumes "returns halt (Suc n)" and "framed (C + 16) R m" and "cell (C + 28)" and "0x1005A + 16 * Suc n \<le> C"
    and "lread m (C + 28) = of_nat (Suc (Suc n))" and "R1 REG_A6 = of_nat C + 20" and "R1 REG_A7 = of_nat C + 12"
  obtains z' m' where "goes halt (0x10028, z, R1, m)
      (0x1003C, z', R1(REG_D0 := R1 REG_D0 + of_nat (fib (Suc n)), REG_D2 := R1 REG_D0, REG_A7 := of_nat C + 16), m')"
    and "changed (C - 16 * Suc n) (C + 16) m m'" and "framed (C + 16) R m'"
proof -
  have m: "fib_loaded m" "full m" "0x1005A \<le> C" using assms(2,4) by (auto simp: framed_def)
  define R2 where "R2 = R1(REG_D0 := of_nat (Suc n), REG_D2 := R1 REG_D0, REG_A7 := of_nat C + 8)"
  define R3 where "R3 = R2(REG_D0 := of_nat (fib (Suc n)), REG_A7 := of_nat C + 12)"
  obtain z1 where "goes halt (0x10028, z, R1, m) (0x10000, z1, R2, call_frame m C (of_nat (Suc n)) 0x10038)"
    using second_call [OF m(1,2) assms(3) m(3) assms(6,7), of z] by (auto simp: assms(5) R2_def)
  also obtain z2 m' where "goes halt (0x10000, z1, R2, call_frame m C (of_nat (Suc n)) 0x10038) (0x10038, z2, R3, m')"
    and c: "changed (C - 16 * Suc n) (C + 16) m m'" and f: "framed (C + 16) R m'"
    using call_returns [OF assms(1-4), of R2 z1 "0x10038"] unfolding R3_def R2_def by auto
  note this(1)
  also have "R3(REG_D0 := R3 REG_D2 + R3 REG_D0, REG_A7 := of_nat C + 16) =
      R1(REG_D0 := R1 REG_D0 + of_nat (fib (Suc n)), REG_D2 := R1 REG_D0, REG_A7 := of_nat C + 16)"
    by (auto simp: R3_def R2_def fun_eq_iff)
  then obtain z3 where "goes halt (0x10038, z2, R3, m')
      (0x1003C, z3, R1(REG_D0 := R1 REG_D0 + of_nat (fib (Suc n)), REG_D2 := R1 REG_D0, REG_A7 := of_nat C + 16), m')"
    using sum_results [of m' R3 C z2] f by (auto simp: framed_def R3_def)
  note this
  finally show ?thesis using c f by (rule that)
qed

lemma returns_Suc:
  assumes "returns halt n" and "returns halt (Suc n)"
  shows "returns halt (Suc (Suc n))"
  unfolding returns_def
proof (intro allI impI)
  fix B R m z assume called: "called (Suc (Suc n)) B R m"
  let ?N = "Suc (Suc n)"
  have "0x1005A + 16 * ?N \<le> B" and "cell (B + 12)" using called by (auto simp: called_def)
  then obtain C where B: "B = C + 16" and C: "cell (C + 28)" "0x1005A + 16 * n \<le> C" "0x1005A + 16 * Suc n \<le> C"
    by (auto intro: that [of "B - 16"])
  define R1 where "R1 = R(REG_A6 := of_nat B + 4, REG_A7 := of_nat B, REG_D0 := 1)"
  obtain m2 where "goes halt (0x10000, z, R, m) (0x10016, False, R1, m2)"
    and f2: "framed (C + 16) R m2" and c2: "changed B (B + 8) m m2" and l2: "lread m2 (C + 28) = of_nat ?N"
    using compared [OF called] unfolding R1_def B by (auto simp: add.commute)
  note this(1)
  also have "goes halt (0x10016, False, R1, m2) (0x1001C, False, R1, m2)"
    using f2 by (intro argument_large) (simp add: framed_def)
  also define R2 where "R2 = R1(REG_D0 := of_nat (fib n), REG_A7 := of_nat C + 12)"
  obtain z3 m3 where "goes halt (0x1001C, False, R1, m2) (0x10028, z3, R2, m3)"
    and c3: "changed (C - 16 * n) (C + 16) m2 m3" and f3: "framed (C + 16) R m3" and l3: "lread m3 (C + 28) = of_nat ?N"
    unfolding R2_def by (rule first_result [OF assms(1) f2 C(1,2) l2, of R1 False]) (simp_all add: R1_def B)
  note this(1)
  also obtain z4 m4 where "goes halt (0x10028, z3, R2, m3)
      (0x1003C, z4, R2(REG_D0 := R2 REG_D0 + of_nat (fib (Suc n)), REG_D2 := R2 REG_D0, REG_A7 := of_nat C + 16), m4)"
    and c4: "changed (C - 16 * Suc n) (C + 16) m3 m4" and f4: "framed (C + 16) R m4"
    by (rule second_result [OF assms(2) f3 C(1,3) l3, of R2 z3]) (simp_all add: R1_def R2_def B)
  note this(1)
  finally have g: "goes halt (0x10000, z, R, m)
      (0x1003C, z4, R2(REG_D0 := R2 REG_D0 + of_nat (fib (Suc n)), REG_D2 := R2 REG_D0, REG_A7 := of_nat C + 16), m4)" .
  have "changed (B - 16 * ?N) (B + 8) m m4"
    by (rule altered_trans [OF changed_mono [OF c4] altered_trans [OF changed_mono [OF c3] changed_mono [OF c2]]]) (simp_all add: B)
  then show "\<exists>z' m'. goes halt (0x10000, z, R, m)
       (lread m (B + 8), z', R(REG_D0 := of_nat (fib ?N), REG_A7 := of_nat B + 12), m') \<and>
     changed (B - 16 * ?N) (B + 8) m m'"
    by (rule returns_by [OF called g f4 [folded B]]) (simp_all add: R1_def R2_def B)
qed

lemma fib_returns: "returns halt n"
  by (induction n rule: fib.induct) (simp_all add: returns_0 returns_1 returns_Suc)

end

interpretation test: fib_routine "0x10058"
  by unfold_locales simp

end
