(* ===== verification/Test_Programs.thy ===== *)
theory Test_Programs
  imports Code_Rules
begin

text \<open>
  Loading the programs of \<open>src/test/binary\<close>: the constants of the ELF standard, files as their tables
  of sections, and what \<open>load_elf\<close> makes of them.
\<close>

text \<open>The constants ELFIO takes from the ELF standard.\<close>

definition elf_std :: ElfConsts where
  "elf_std = \<lparr>ELFCLASS32 = 1, ELFDATA2MSB = 2, ET_EXEC = 2, EM_68K = 4, PT_LOAD = 1, SHF_ALLOC = 2\<rparr>"

text \<open>
  The sections of a program: contents of the program with their flags and address, and sections
  \<open>load_elf\<close> does not read, whose data is left open.
\<close>

definition contents :: "string \<Rightarrow> 64 word \<Rightarrow> nat \<Rightarrow> 64 word \<Rightarrow> 64 word \<Rightarrow> 8 word list \<Rightarrow> ElfSection" where
  "contents nm fl a off align bs =
     \<lparr>get_name = nm, get_type = 1, get_flags = fl, get_address = of_nat a, get_offset = off, get_size = of_nat (length bs),
      get_link = 0, get_info = 0, get_addr_align = align, get_data = Some (\<lambda>i. bs ! i)\<rparr>"

definition unread :: "string \<Rightarrow> 32 word \<Rightarrow> 64 word \<Rightarrow> 64 word \<Rightarrow> 64 word \<Rightarrow> 64 word \<Rightarrow> 32 word \<Rightarrow> 32 word \<Rightarrow> 64 word \<Rightarrow>
    (nat \<Rightarrow> 8 word) option \<Rightarrow> ElfSection" where
  "unread nm ty fl a off n link info align other =
     \<lparr>get_name = nm, get_type = ty, get_flags = fl, get_address = a, get_offset = off, get_size = n,
      get_link = link, get_info = info, get_addr_align = align, get_data = other\<rparr>"

text \<open>A line of the listing, from the texts of its columns.\<close>

fun row :: "string list \<Rightarrow> string" where
  "row [] = endl"
| "row [txt] = txt @ endl"
| "row (txt # txts) = txt @ tab @ row txts"

definition program_file :: "64 word \<Rightarrow> ElfSection list \<Rightarrow> ElfFile" where
  "program_file entry secs = \<lparr>get_class = 1, get_encoding = 2, get_file_type = 2, get_machine = 4, get_entry = entry,
     sections = secs\<rparr>"

section \<open>Loading\<close>

lemma image_block:
  assumes "b + n \<le> 2 ^ 24"
  shows "image (map (\<lambda>i. (of_nat (b + i) :: 32 word, d i)) [0..<n]) m =
    (\<lambda>k. if b \<le> k \<and> k < b + n then d (k - b) else m k)"
  using assms
proof (induction n)
  case (Suc n)
  then show ?case by (auto simp: image_append phys_of_nat fun_eq_iff simp del: of_nat_add)
qed (auto simp: fun_eq_iff)

definition overlay :: "nat \<Rightarrow> 8 word list \<Rightarrow> CPUState \<Rightarrow> CPUState" where
  "overlay a bs s = s\<lparr>memory := (memory s)\<lparr>baseAddr :=
     (\<lambda>k. if a \<le> k \<and> k < a + length bs then bs ! (k - a) else baseAddr (memory s) k)\<rparr>\<rparr>"

lemma overlay_simps [simp]:
  "full (memory (overlay a bs s)) \<longleftrightarrow> full (memory s)"
  "baseAddr (memory (overlay a bs s)) = (\<lambda>k. if a \<le> k \<and> k < a + length bs then bs ! (k - a) else baseAddr (memory s) k)"
  "registers (overlay a bs s) = registers s"
  by (simp_all add: overlay_def full_def)

lemma load_contents:
  assumes "full (memory s)" and "a + length bs \<le> 2 ^ 24" and "fl AND 2 \<noteq> 0"
  shows "load_section elf_std (contents nm fl a off align bs) s = (Inr (), overlay a bs s)"
proof -
  have "unat (ucast (of_nat (length bs) :: 64 word) :: 32 word) = length bs" and "ucast (of_nat a :: 64 word) = (of_nat a :: 32 word)"
    using assms(2) by (simp_all add: unsigned_ucast_eq unsigned_of_nat take_bit_nat_eq_self word_unat_eq_iff)
  then have "section_writes elf_std (contents nm fl a off align bs) = map (\<lambda>i. (of_nat (a + i), bs ! i)) [0..<length bs]"
    using assms(3) by (simp add: section_writes_def elf_std_def contents_def)
  then have "poke (section_writes elf_std (contents nm fl a off align bs)) s = overlay a bs s"
    using image_block [OF assms(2), of "\<lambda>i. bs ! i"] by (simp add: poke_def overlay_def)
  then show ?thesis
    using assms(1) by (subst load_section_eq) (simp_all add: full_def contents_def has_data_def)
qed

lemma load_unread: "ty \<noteq> 1 \<or> fl AND 2 = 0 \<Longrightarrow> load_section elf_std (unread nm ty fl a off n link info align other) s = (Inr (), s)"
  by (auto simp: load_section_def elf_std_def unread_def)

lemma load_program:
  assumes "full (memory (state c))" and "full (memory s)" and f: "f = program_file entry secs"
    and "seqE (map (load_section elf_std) secs) (state c) = (Inr (), s)"
  shows "\<exists>d. load_elf elf_std (\<lambda>_. Some f) name (c, out) = (Inr True, d, out @ listing secs) \<and> memory (state d) = memory s \<and>
    pc_of (state d) = ucast entry \<and> gregs (state d) REG_A7 = 0x1000000 \<and> instruction_decoder d = instruction_decoder c"
proof -
  let ?d = "c\<lparr>state := rput (rput s REG_USP MEMORY_SIZE) REG_PC (ucast entry)\<rparr>"
  have "load_elf elf_std (\<lambda>_. Some f) name (c, out) = (Inr True, ?d, out @ listing secs)"
    using list_and_load_ok [OF assms(4), of out] f by (simp add: load_elf_eq accepted_def program_file_def elf_std_def)
  then show ?thesis by (intro exI [where x = ?d]) (simp add: gregs_def MEMORY_SIZE_def)
qed

lemma CPU_new_ok:
  obtains c where "CPU_new fresh = Inr c" and "decoder_ok c" and "full (memory (state c))"
  by (simp add: CPU_new_def InstructionDecoder_new_def SimpleMemory_new_def BaseMemory_new_def decoder_ok_def full_def MEMORY_SIZE_def)

section \<open>Programs in memory\<close>

lemma read_real_mem_cong:
  "(\<And>k. a \<le> k \<Longrightarrow> k < a + size_val sz \<Longrightarrow> m k = m' k) \<Longrightarrow> read_real_mem m a sz = read_real_mem m' a sz"
  by (cases sz) simp_all

text \<open>The code of a program, from the bytes of its text section.\<close>

lemma text_has_code:
  assumes "full m" and "\<And>k. a \<le> k \<Longrightarrow> k < a + length bs \<Longrightarrow> baseAddr m k = bs ! (k - a)" and "a + length bs \<le> 2 ^ 24"
    and code: "list_all (\<lambda>(b, sz, w). read_real_mem (\<lambda>k. bs ! (k - a)) b sz = Inr w \<and> proper_size sz \<and>
      even b \<and> a \<le> b \<and> b + size_val sz \<le> a + length bs) cs"
  shows "has_code cs m"
  unfolding has_code_def list_all_iff
proof clarify
  fix b sz w assume "(b, sz, w) \<in> set cs"
  then have c: "read_real_mem (\<lambda>k. bs ! (k - a)) b sz = Inr w" "proper_size sz" "even b" "a \<le> b" "b + size_val sz \<le> a + length bs"
    using code by (auto simp: list_all_iff)
  have "read_real_mem (baseAddr m) b sz = Inr w"
    using c assms(2) by (subst read_real_mem_cong [where m' = "\<lambda>k. bs ! (k - a)"]) auto
  moreover have "b < 2 ^ 24" using c assms(3) by (cases sz) auto
  ultimately show "BaseMemory_get m (ucast (of_nat b :: 32 word)) sz = Inr w"
    using c full_size [OF assms(1)] assms(3) by (simp add: BaseMemory_get_eq phys_of_nat)
qed

end
