(* ===== verification/Fibonacci_Test.thy ===== *)
theory Fibonacci_Test
  imports Fibonacci Test_Programs
begin

text \<open>
  The test program \<open>src/test/test_fibonacci.cpp\<close>: it loads \<open>src/test/binary/fibonacci.elf\<close>, steps
  the machine to the end of \<open>main\<close>, and looks the result up in memory.
\<close>

section \<open>The file\<close>

definition fib_text :: "8 word list" where
  "fib_text =
    [0x4E, 0x56, 0x00, 0x00, 0x2F, 0x02, 0x4A, 0xAE, 0x00, 0x08, 0x66, 0x04,
     0x70, 0x00, 0x60, 0x2C, 0x70, 0x01, 0xB0, 0xAE, 0x00, 0x08, 0x66, 0x04,
     0x70, 0x01, 0x60, 0x20, 0x20, 0x2E, 0x00, 0x08, 0x55, 0x80, 0x2F, 0x00,
     0x4E, 0xBA, 0xFF, 0xDA, 0x58, 0x8F, 0x24, 0x00, 0x20, 0x2E, 0x00, 0x08,
     0x53, 0x80, 0x2F, 0x00, 0x4E, 0xBA, 0xFF, 0xCA, 0x58, 0x8F, 0xD0, 0x82,
     0x24, 0x2E, 0xFF, 0xFC, 0x4E, 0x5E, 0x4E, 0x75, 0x4E, 0x56, 0x00, 0x00,
     0x48, 0x78, 0x00, 0x14, 0x4E, 0xBA, 0xFF, 0xB2, 0x58, 0x8F, 0x23, 0xC0,
     0x00, 0x00, 0x40, 0x00, 0x60, 0xFE]"

text \<open>The sections of the file.\<close>

definition fib_sections :: "(nat \<Rightarrow> 8 word) option \<Rightarrow> ElfSection list" where
  "fib_sections other =
    [unread '''' 0 0 0 0 0 0 0 0 other,
     contents ''.text'' 6 0x10000 0x2000 4 fib_text,
     unread ''.bss'' 8 3 0x4000 0x2000 4 0 0 4 other,
     unread ''.comment'' 1 48 0 0x205A 46 0 0 1 other,
     unread ''.symtab'' 2 0 0 0x2088 192 5 5 4 other,
     unread ''.strtab'' 3 0 0 0x2148 59 0 0 1 other,
     unread ''.shstrtab'' 3 0 0 0x2183 47 0 0 1 other]"

definition fib_elf :: "(nat \<Rightarrow> 8 word) option \<Rightarrow> ElfFile" where
  "fib_elf other = program_file 0x10044 (fib_sections other)"

text \<open>What \<open>load_elf\<close> prints of them: name, address, size, offset, alignment, link, flags, info, type.\<close>

definition fib_listing :: string where
  "fib_listing = concat (map row
    [[''                '', ''0'', ''0'', ''0'', ''0'', ''0'', ''0'', ''0'', ''0''],
     [''.text           '', ''65536'', ''90'', ''8192'', ''4'', ''0'', ''6'', ''0'', ''1''],
     [''.bss            '', ''16384'', ''4'', ''8192'', ''4'', ''0'', ''3'', ''0'', ''8''],
     [''.comment        '', ''0'', ''46'', ''8282'', ''1'', ''0'', ''48'', ''0'', ''1''],
     [''.symtab         '', ''0'', ''192'', ''8328'', ''4'', ''5'', ''0'', ''5'', ''2''],
     [''.strtab         '', ''0'', ''59'', ''8520'', ''1'', ''0'', ''0'', ''0'', ''3''],
     [''.shstrtab       '', ''0'', ''47'', ''8579'', ''1'', ''0'', ''0'', ''0'', ''3'']])"

lemma fib_listed: "listing (fib_sections other) = fib_listing"
  by (simp add: fib_sections_def fib_listing_def listing_def section_line_def unread_def contents_def
      fib_text_def decimal.simps digit_def pad_numeral)

lemma length_fib_text: "length fib_text = 90"
  by (simp add: fib_text_def)

lemma fib_text_code:
  "list_all (\<lambda>(b, sz, w). read_real_mem (\<lambda>k. fib_text ! (k - 0x10000)) b sz = Inr w \<and> proper_size sz \<and>
     even b \<and> 0x10000 \<le> b \<and> b + size_val sz \<le> 0x1005A) fib_code"
  by (simp add: fib_code_def fib_text_def)

lemma fib_text_loaded:
  assumes "full m" and "\<And>k. 0x10000 \<le> k \<Longrightarrow> k < 0x1005A \<Longrightarrow> baseAddr m k = fib_text ! (k - 0x10000)"
  shows "fib_loaded m"
  unfolding fib_loaded_def
  by (rule text_has_code [where bs = fib_text and a = "0x10000", OF assms(1)])
    (simp_all add: length_fib_text assms(2) fib_text_code)

section \<open>The run of main\<close>

lemma main_calls:
  assumes "fib_loaded m" and "full m" and "R REG_A7 = 0x1000000"
  obtains R' m' where "goes 0x10058 (0x10044, z, R, m) (0x10000, z, R', m')" and "called 20 0xFFFFEC R' m'"
    and "lread m' 0xFFFFF4 = 0x10050"
proof -
  let ?m1 = "lwrite m 0xFFFFFC (R REG_A6)" let ?m2 = "lwrite ?m1 0xFFFFF8 20" let ?m3 = "lwrite ?m2 0xFFFFF4 0x10050"
  let ?R1 = "R(REG_A6 := 0xFFFFFC, REG_A7 := 0xFFFFFC)" let ?R2 = "?R1(REG_A7 := 0xFFFFF8)" let ?R3 = "?R2(REG_A7 := 0xFFFFF4)"
  have c1: "changed 0xFFFFF4 0x1000000 m ?m1" by (intro changed_intros) auto
  then have c2: "changed 0xFFFFF4 0x1000000 m ?m2" by (intro changed_intros) auto
  then have c3: "changed 0xFFFFF4 0x1000000 m ?m3" by (intro changed_intros) auto
  have l: "fib_loaded ?m1" "fib_loaded ?m2" "fib_loaded ?m3" and f: "full ?m1" "full ?m2" "full ?m3"
    using fib_loaded_changed [OF c1 assms(1,2)] fib_loaded_changed [OF c2 assms(1,2)] fib_loaded_changed [OF c3 assms(1,2)] assms(2)
    by simp_all
  note [simp] = ops sext16_lits fetched [OF assms(1)] fetched [OF l(1)] fetched [OF l(2)] f assms
  have "goes 0x10058 (0x10044, z, R, m) (0x10048, z, ?R1, ?m1)"
    by (rule goes_link [where S = "0xFFFFFC" and r = REG_A6]) (simp; fail)+
  also have "goes 0x10058 \<dots> (0x1004C, z, ?R2, ?m2)"
    by (rule goes_pea [where S = "0xFFFFF8"]) (simp; fail)+
  also have "goes 0x10058 \<dots> (0x10000, z, ?R3, ?m3)"
    by (rule goes_jsr [where S = "0xFFFFF4"]) (simp; fail)+
  finally have "goes 0x10058 (0x10044, z, R, m) (0x10000, z, ?R3, ?m3)" .
  moreover have "called 20 0xFFFFEC ?R3 ?m3" and "lread ?m3 0xFFFFF4 = 0x10050"
    using l by (simp_all add: called_def lread_lwrite_same lread_lwrite_other)
  ultimately show ?thesis by (rule that)
qed

lemma fib_20: "fib 20 = 6765"
  by (simp add: eval_nat_numeral)

lemma main_stores:
  assumes "fib_loaded m" and "full m" and "R REG_D0 = of_nat (fib 20)"
  obtains z' R' m' where "goes 0x10058 (0x10050, z, R, m) (0x10058, z', R', m')" and "full m'" and "lread m' 0x4000 = 6765"
proof -
  note [simp] = ops fetched [OF assms(1)] assms
  have "goes 0x10058 (0x10050, z, R, m) (0x10052, z, R(REG_A7 := R REG_A7 + 4), m)"
    by (rule goes_addq_a [where r = REG_A7 and v = 4]) (simp; fail)+
  also have "goes 0x10058 \<dots> (0x10058, R REG_D0 = 0, R(REG_A7 := R REG_A7 + 4), lwrite m 0x4000 (R REG_D0))"
    by (rule goes_store_abs [where q = REG_D0 and r = REG_A1 and k = "0x4000"]) (simp; fail)+
  finally show ?thesis
    by (rule that) (simp_all add: lread_lwrite_same fib_20)
qed

lemma main_runs:
  assumes "fib_loaded m" and "full m" and "R REG_A7 = 0x1000000"
  obtains z' R' m' where "goes 0x10058 (0x10044, z, R, m) (0x10058, z', R', m')" and "full m'" and "lread m' 0x4000 = 6765"
proof -
  obtain R1 m1 where "goes 0x10058 (0x10044, z, R, m) (0x10000, z, R1, m1)"
    and c: "called 20 0xFFFFEC R1 m1" and ret: "lread m1 0xFFFFF4 = 0x10050"
    using assms by (rule main_calls)
  note this(1)
  also obtain z2 m2 where "goes 0x10058 (0x10000, z, R1, m1)
      (0x10050, z2, R1(REG_D0 := of_nat (fib 20), REG_A7 := of_nat 0xFFFFEC + 12), m2)"
    and ch: "changed (0xFFFFEC - 16 * 20) (0xFFFFEC + 8) m1 m2"
    using test.returnsD [OF test.fib_returns c] ret by auto
  note this(1)
  also have "fib_loaded m2" "full m2"
    using c fib_loaded_changed [OF ch] altered_full [OF ch] by (simp_all add: called_def)
  then obtain z3 R3 m3 where "goes 0x10058 (0x10050, z2, R1(REG_D0 := of_nat (fib 20), REG_A7 := of_nat 0xFFFFEC + 12), m2)
      (0x10058, z3, R3, m3)" and "full m3" "lread m3 0x4000 = 6765"
    by (rule main_stores [of m2 "R1(REG_D0 := of_nat (fib 20), REG_A7 := of_nat 0xFFFFEC + 12)"]) auto
  note this(1)
  finally show ?thesis using \<open>full m3\<close> \<open>lread m3 0x4000 = 6765\<close> by (rule that)
qed

section \<open>Loading\<close>

lemma load_fib_elf:
  assumes "full (memory (state c))"
  obtains d where "load_elf elf_std (\<lambda>_. Some (fib_elf other)) name (c, out) = (Inr True, d, out @ fib_listing)"
    and "full (memory (state d))" and "fib_loaded (memory (state d))" and "pc_of (state d) = 0x10044"
    and "gregs (state d) REG_A7 = 0x1000000" and "instruction_decoder d = instruction_decoder c"
proof -
  let ?s = "overlay 0x10000 fib_text (state c)"
  note len = length_fib_text
  then have loaded: "fib_loaded (memory ?s)" using assms by (intro fib_text_loaded) simp_all
  have "load_section elf_std (contents ''.text'' 6 0x10000 0x2000 4 fib_text) (state c) = (Inr (), ?s)"
    by (rule load_contents [OF assms]) (simp_all add: len)
  then have "seqE (map (load_section elf_std) (fib_sections other)) (state c) = (Inr (), ?s)"
    by (simp add: fib_sections_def load_unread)
  from load_program [OF assms _ fib_elf_def this, of name out] assms loaded
  show ?thesis by (auto simp: fib_listed intro: that)
qed

section \<open>Properties\<close>

text \<open>
  C6. The compiled recursive routine of fibonacci.elf is totally correct: called with any number n
  for which there is room on the stack (16 n bytes and 24 more above the code), on any machine
  with a correct opcode table that has the program in memory, it returns to its caller after
  finitely many calls of CPU::step with the n-th Fibonacci number modulo 2^32 in D0, the return
  address popped, all other data and address registers as before, and no memory changed outside
  its stack area.
\<close>

theorem fibonacci_routine:
  assumes "decoder_ok c" and "fib_loaded (memory (state c))" and "memSize (memory (state c)) = MEMORY_SIZE"
    and "pc_of (state c) = 0x10000" and "rval (state c) REG_A7 = of_nat sp"
    and "even sp" and "0x10062 + 16 * n \<le> sp" and "sp + 8 \<le> 2 ^ 24"
    and "BaseMemory_get (memory (state c)) (ucast (of_nat sp :: 32 word)) SIZE_LONG = Inr ret"
    and "BaseMemory_get (memory (state c)) (ucast (of_nat (sp + 4) :: 32 word)) SIZE_LONG = Inr (of_nat n)"
    and "ret < 0x10000 \<or> 0x10044 \<le> ret"
  shows "\<exists>d. run_until ret c = Some (Inr (), d) \<and> pc_of (state d) = ret \<and>
    rval (state d) REG_D0 = of_nat (fib n) \<and> rval (state d) REG_A7 = of_nat sp + 4 \<and>
    (\<forall>r. general_reg r \<and> r \<notin> {REG_D0, REG_A7} \<longrightarrow> rval (state d) r = rval (state c) r) \<and>
    (\<forall>k sz. k < 2 ^ 24 \<and> (k + size_val sz \<le> sp - 8 - 16 * n \<or> sp \<le> k) \<longrightarrow>
       BaseMemory_get (memory (state d)) (ucast (of_nat k :: 32 word)) sz =
       BaseMemory_get (memory (state c)) (ucast (of_nat k :: 32 word)) sz)"
proof -
  let ?s = "state c"
  obtain B where sp: "sp = B + 8" using assms(7) by (auto intro: that [of "sp - 8"])
  have "fib_routine ret" using assms(11) by unfold_locales
  note r = fib_routine.fib_returns [OF this] fib_routine.returnsD [OF this]
  have m: "full (memory ?s)" using assms(3) by (simp add: full_def)
  have ret: "lread (memory ?s) (B + 8) = ret"
    using assms(9) by (simp add: lread_def sp)
  have "called n B (gregs ?s) (memory ?s)"
    using assms m by (simp add: called_def sp lread_def gregs_def add.commute)
  then obtain z' m' where g: "goes ret (0x10000, flag ?s SR_FLAG_ZERO, gregs ?s, memory ?s)
      (ret, z', (gregs ?s)(REG_D0 := of_nat (fib n), REG_A7 := of_nat B + 12), m')"
    and c: "changed (B - 16 * n) (B + 8) (memory ?s) m'"
    using r by (metis ret)
  obtain d where d: "run_until ret c = Some (Inr (), d)"
    "view_of (state d) = (ret, z', (gregs ?s)(REG_D0 := of_nat (fib n), REG_A7 := of_nat B + 12), m')"
    by (rule goes_halt [OF g]) (use assms(1,4) in \<open>simp_all add: view_of_def\<close>)
  then have g: "gregs (state d) = (gregs ?s)(REG_D0 := of_nat (fib n), REG_A7 := of_nat B + 12)"
    by (simp add: view_of_def)
  have "\<forall>r. general_reg r \<longrightarrow> rval (state d) r = ((gregs ?s)(REG_D0 := of_nat (fib n), REG_A7 := of_nat B + 12)) r"
    using g by (simp add: rval_gregs)
  moreover have "memory (state d) = m'" "pc_of (state d) = ret" using d(2) by (simp_all add: view_of_def)
  ultimately show ?thesis
    using d(1) changed_get [OF c m] by (auto simp: sp add.assoc rval_gregs)
qed

text \<open>The run of the test program: its result is in memory when it stops.\<close>

theorem fibonacci_test:
  "\<exists>c d e. CPU_new fresh = Inr c \<and>
     load_elf elf_std (\<lambda>_. Some (fib_elf other)) name (c, out) = (Inr True, d, out @ fib_listing) \<and>
     run_until 0x10058 d = Some (Inr (), e) \<and>
     BaseMemory_get (memory (state e)) 0x4000 SIZE_LONG = Inr 6765"
proof -
  obtain c where c: "CPU_new fresh = Inr c" "decoder_ok c" "full (memory (state c))" by (rule CPU_new_ok)
  obtain d where d: "load_elf elf_std (\<lambda>_. Some (fib_elf other)) name (c, out) = (Inr True, d, out @ fib_listing)"
    "full (memory (state d))" "fib_loaded (memory (state d))" "pc_of (state d) = 0x10044"
    "gregs (state d) REG_A7 = 0x1000000" "instruction_decoder d = instruction_decoder c"
    using c(3) by (rule load_fib_elf)
  obtain z' R' m' where g: "goes 0x10058 (0x10044, flag (state d) SR_FLAG_ZERO, gregs (state d), memory (state d)) (0x10058, z', R', m')"
    and m': "full m'" "lread m' 0x4000 = 6765"
    using d(3,2,5) by (rule main_runs)
  obtain e where "run_until 0x10058 d = Some (Inr (), e)" and "view_of (state e) = (0x10058, z', R', m')"
    by (rule goes_halt [OF g]) (use c(2) d(4,6) in \<open>simp_all add: decoder_ok_def view_of_def\<close>)
  then show ?thesis
    using c(1) d(1) m' get_cell [of m' "0x4000"] by (auto simp: view_of_def)
qed

end
