(* ===== verification/Loop_Rules.thy ===== *)
theory Loop_Rules
  imports Code_Rules
begin

text \<open>
  Rules for compiled loops over arrays: more instruction forms, runs described without the flags,
  and a comparison with the branch that follows it as one step, since only there the flags matter.
\<close>

lemma general_regs_more [simp]:
  "general_reg REG_A1" "general_reg REG_A2" "general_reg REG_D3"
  by (simp_all add: general_reg_def)

section \<open>Runs without flags\<close>

type_synonym core = "32 word \<times> (RegisterType \<Rightarrow> 32 word) \<times> BaseMemory"

definition leads :: "32 word \<Rightarrow> core \<Rightarrow> core \<Rightarrow> bool" where
  "leads halt = (\<lambda>(p, R, m) (p', R', m'). \<forall>z. \<exists>z'. goes halt (p, z, R, m) (p', z', R', m'))"

lemma leads_refl: "leads h v v"
  by (auto simp: leads_def intro: goes_refl)

lemma leads_trans [trans]: "leads h u v \<Longrightarrow> leads h v w \<Longrightarrow> leads h u w"
  by (cases u; cases v; cases w) (simp add: leads_def, meson goes_trans)

lemma leads_goes:
  assumes "leads h (p, R, m) (p', R', m')"
  obtains z' where "goes h (p, z, R, m) (p', z', R', m')"
  using assms by (auto simp: leads_def)

lemma goes_leads: "(\<And>z. \<exists>z'. goes h (p, z, R, m) (p', z', R', m')) \<Longrightarrow> leads h (p, R, m) (p', R', m')"
  by (simp add: leads_def)

definition acts :: "16 word \<Rightarrow> core \<Rightarrow> core \<Rightarrow> bool" where
  "acts opc = (\<lambda>(p, R, m) (p', R', m'). \<forall>z. \<exists>z'. does opc (p, z, R, m) (p', z', R', m'))"

lemma leads_by:
  assumes "BaseMemory_get m (ucast p) SIZE_WORD = Inr w" and "p \<noteq> h" and "acts (ucast w) (p, R, m) v" and "v = v'"
  shows "leads h (p, R, m) v'"
  using assms goes_by [OF assms(1,2)] by (cases v) (fastforce simp: acts_def leads_def)

lemma actsI:
  "(\<And>s. pc_of s = p \<Longrightarrow> gregs s = R \<Longrightarrow> memory s = m \<Longrightarrow>
     \<exists>t. execute (decode_spec opc) s = (Inr (), t) \<and> pc_of t = p' \<and> gregs t = R' \<and> memory t = m' \<and> flag t SR_FLAG_ZERO = zf (flag s SR_FLAG_ZERO)) \<Longrightarrow>
   acts opc (p, R, m) (p', R', m')"
  unfolding acts_def prod.case
proof (intro allI)
  fix z
  assume *: "\<And>s. pc_of s = p \<Longrightarrow> gregs s = R \<Longrightarrow> memory s = m \<Longrightarrow>
     \<exists>t. execute (decode_spec opc) s = (Inr (), t) \<and> pc_of t = p' \<and> gregs t = R' \<and> memory t = m' \<and> flag t SR_FLAG_ZERO = zf (flag s SR_FLAG_ZERO)"
  show "\<exists>z'. does opc (p, z, R, m) (p', z', R', m')"
    by (rule exI [where x = "zf z"], rule doesI, drule (2) *) (auto simp: view_of_def)
qed

section \<open>Moves\<close>

lemma acts_load:
  assumes "move_l opc ADDR_MODE_INDIRECT_DISPLACEMENT q ADDR_MODE_DIRECT_DATA r" and "general_reg q" and "general_reg r"
    and "BaseMemory_get m (ucast (p + 2)) SIZE_WORD = Inr d" and "R q + sext16 d = of_nat k" and "full m" and "cell k"
  shows "acts opc (p, R, m) (p + 4, R(r := lread m k), m)"
  using does_load [where R = R, OF assms] by (auto simp: acts_def)

lemma acts_load_ind:
  assumes "move_l opc ADDR_MODE_INDIRECT q ADDR_MODE_DIRECT_DATA r" and "general_reg q" and "general_reg r"
    and "R q = of_nat k" and "full m" and "cell k"
  shows "acts opc (p, R, m) (p + 2, R(r := lread m k), m)"
  using assms by (elim move_lE, intro actsI [where zf = "\<lambda>_. lread m k = 0"]) (auto simp: run_simps Move_execute_def get_cell)

lemma acts_store_ind:
  assumes "move_l opc ADDR_MODE_DIRECT_DATA q ADDR_MODE_INDIRECT r" and "general_reg q" and "general_reg r"
    and "R r = of_nat k" and "full m" and "cell k"
  shows "acts opc (p, R, m) (p + 2, R, lwrite m k (R q))"
  using assms by (elim move_lE, intro actsI [where zf = "\<lambda>_. R q = 0"]) (auto simp: run_simps Move_execute_def get_cell)

lemma acts_copy_out:
  assumes "move_l opc ADDR_MODE_INDIRECT q ADDR_MODE_INDIRECT_DISPLACEMENT r" and "general_reg q" and "general_reg r"
    and "BaseMemory_get m (ucast (p + 2)) SIZE_WORD = Inr d" and "R r + sext16 d = of_nat j" and "cell j"
    and "R q = of_nat k" and "full m" and "cell k"
  shows "acts opc (p, R, m) (p + 4, R, lwrite m j (lread m k))"
  using assms by (elim move_lE, intro actsI [where zf = "\<lambda>_. lread m k = 0"]) (auto simp: run_simps Move_execute_def get_cell)

lemma acts_copy_in:
  assumes "move_l opc ADDR_MODE_INDIRECT_DISPLACEMENT q ADDR_MODE_INDIRECT r" and "general_reg q" and "general_reg r"
    and "BaseMemory_get m (ucast (p + 2)) SIZE_WORD = Inr d" and "R q + sext16 d = of_nat j" and "cell j"
    and "R r = of_nat k" and "full m" and "cell k"
  shows "acts opc (p, R, m) (p + 4, R, lwrite m k (lread m j))"
  using assms by (elim move_lE, intro actsI [where zf = "\<lambda>_. lread m j = 0"]) (auto simp: run_simps Move_execute_def get_cell)

definition movea_l :: "16 word \<Rightarrow> RegisterType \<Rightarrow> RegisterType \<Rightarrow> bool" where
  "movea_l opc q r \<longleftrightarrow> (case decode_spec opc of
     I_Move i \<Rightarrow> Move.src_mode i = ADDR_MODE_INDIRECT_DISPLACEMENT \<and> Move.src_reg i = q \<and>
       Move.dest_mode i = ADDR_MODE_DIRECT_ADDR \<and> Move.dest_reg i = r \<and> Move.data_size i = SIZE_LONG \<and> is_movea i
   | _ \<Rightarrow> False)"

lemma acts_movea:
  assumes "movea_l opc q r" and "general_reg q" and "general_reg r"
    and "BaseMemory_get m (ucast (p + 2)) SIZE_WORD = Inr d" and "R q + sext16 d = of_nat k" and "full m" and "cell k"
  shows "acts opc (p, R, m) (p + 4, R(r := lread m k), m)"
  using assms by (intro actsI [where zf = "\<lambda>z. z"]) (auto simp: run_simps Move_execute_def movea_l_def get_cell split: Ins.splits)

definition clr_l :: "16 word \<Rightarrow> RegisterType \<Rightarrow> bool" where
  "clr_l opc r \<longleftrightarrow> (case decode_spec opc of
     I_Clr i \<Rightarrow> Clr.dest_mode i = ADDR_MODE_INDIRECT_DISPLACEMENT \<and> Clr.dest_reg i = r \<and> Clr.data_size i = SIZE_LONG
   | _ \<Rightarrow> False)"

lemma acts_clr:
  assumes "clr_l opc r" and "general_reg r"
    and "BaseMemory_get m (ucast (p + 2)) SIZE_WORD = Inr d" and "R r + sext16 d = of_nat k" and "full m" and "cell k"
  shows "acts opc (p, R, m) (p + 4, R, lwrite m k 0)"
  using assms by (intro actsI [where zf = "\<lambda>z. True"]) (auto simp: run_simps Clr_execute_def clr_l_def get_cell split: Ins.splits)

definition pea_l :: "16 word \<Rightarrow> bool" where
  "pea_l opc \<longleftrightarrow> (case decode_spec opc of I_Pea i \<Rightarrow> Pea.addr_mode i = ADDR_MODE_ABS_LONG | _ \<Rightarrow> False)"

lemma acts_pea_l:
  assumes "pea_l opc" and "BaseMemory_get m (ucast (p + 2)) SIZE_LONG = Inr d"
    and "full m" and "cell S" and "R REG_A7 = of_nat S + 4"
  shows "acts opc (p, R, m) (p + 6, R(REG_A7 := of_nat S), lwrite m S d)"
  using assms by (intro actsI [where zf = "\<lambda>z. z"]) (auto simp: run_simps Pea_execute_def pea_l_def split: Ins.splits)

section \<open>Arithmetic\<close>

definition addq_l :: "16 word \<Rightarrow> AddressingMode \<Rightarrow> RegisterType \<Rightarrow> 32 word \<Rightarrow> bool" where
  "addq_l opc am r v \<longleftrightarrow> (case decode_spec opc of
     I_Addq i \<Rightarrow> Addq.dest_mode i = am \<and> Addq.dest_reg i = r \<and> ucast (Addq.imm_data i) = v \<and> Addq.data_size i = SIZE_LONG
   | _ \<Rightarrow> False)"

lemma acts_addq:
  "addq_l opc ADDR_MODE_DIRECT_DATA r v \<Longrightarrow> general_reg r \<Longrightarrow> acts opc (p, R, m) (p + 2, R(r := R r + v), m)"
  by (intro actsI [where zf = "\<lambda>_. R r + v = 0"])
    (auto simp: run_simps add.commute [of v] Addq_execute_def addq_l_def split: Ins.splits)

lemma acts_addq_mem:
  assumes "addq_l opc ADDR_MODE_INDIRECT_DISPLACEMENT r v" and "general_reg r"
    and "BaseMemory_get m (ucast (p + 2)) SIZE_WORD = Inr d" and "R r + sext16 d = of_nat k" and "full m" and "cell k"
  shows "acts opc (p, R, m) (p + 4, R, lwrite m k (lread m k + v))"
  using assms by (intro actsI [where zf = "\<lambda>_. lread m k + v = 0"])
    (auto simp: run_simps add.commute [of v] Addq_execute_def addq_l_def get_cell split: Ins.splits)

definition sub_l :: "16 word \<Rightarrow> RegisterType \<Rightarrow> RegisterType \<Rightarrow> bool" where
  "sub_l opc q r \<longleftrightarrow> (case decode_spec opc of
     I_Sub i \<Rightarrow> Sub.src_mode i = ADDR_MODE_INDIRECT_DISPLACEMENT \<and> Sub.src_reg i = q \<and>
       Sub.dest_mode i = ADDR_MODE_DIRECT_DATA \<and> Sub.dest_reg i = r \<and> Sub.data_size i = SIZE_LONG
   | _ \<Rightarrow> False)"

lemma acts_sub:
  assumes "sub_l opc q r" and "general_reg q" and "general_reg r"
    and "BaseMemory_get m (ucast (p + 2)) SIZE_WORD = Inr d" and "R q + sext16 d = of_nat k" and "full m" and "cell k"
  shows "acts opc (p, R, m) (p + 4, R(r := R r - lread m k), m)"
  using assms by (intro actsI [where zf = "\<lambda>_. R r = lread m k"])
    (auto simp: run_simps Sub_execute_def sub_l_def get_cell split: Ins.splits)

definition adda_l :: "16 word \<Rightarrow> RegisterType \<Rightarrow> RegisterType \<Rightarrow> bool" where
  "adda_l opc q r \<longleftrightarrow> (case decode_spec opc of
     I_Adda i \<Rightarrow> Adda.src_mode i = ADDR_MODE_DIRECT_DATA \<and> Adda.src_reg i = q \<and>
       Adda.dest_mode i = ADDR_MODE_DIRECT_ADDR \<and> Adda.dest_reg i = r \<and> Adda.data_size i = SIZE_LONG
   | _ \<Rightarrow> False)"

lemma acts_adda:
  "adda_l opc q r \<Longrightarrow> general_reg q \<Longrightarrow> general_reg r \<Longrightarrow> acts opc (p, R, m) (p + 2, R(r := R q + R r), m)"
  by (intro actsI [where zf = "\<lambda>z. z"]) (auto simp: run_simps Adda_execute_def adda_l_def split: Ins.splits)

lemma acts_add:
  "add_l opc q r \<Longrightarrow> general_reg q \<Longrightarrow> general_reg r \<Longrightarrow> acts opc (p, R, m) (p + 2, R(r := R q + R r), m)"
  using does_add [of opc q r p] by (auto simp: acts_def)

lemma acts_subq: "subq_l opc r v \<Longrightarrow> general_reg r \<Longrightarrow> acts opc (p, R, m) (p + 2, R(r := R r - v), m)"
  using does_subq [of opc r v p] by (auto simp: acts_def)

lemma acts_addq_a: "addq_a opc r v \<Longrightarrow> general_reg r \<Longrightarrow> acts opc (p, R, m) (p + 2, R(r := R r + v), m)"
  using does_addq_a [of opc r v p] by (auto simp: acts_def)

section \<open>Flow of control\<close>

definition nop :: "16 word \<Rightarrow> bool" where
  "nop opc \<longleftrightarrow> (case decode_spec opc of I_Nop i \<Rightarrow> True | _ \<Rightarrow> False)"

lemma acts_nop: "nop opc \<Longrightarrow> acts opc (p, R, m) (p + 2, R, m)"
  by (intro actsI [where zf = "\<lambda>z. z"]) (auto simp: run_simps Nop_execute_def nop_def split: Ins.splits)

lemma acts_bra: "bcc_s opc COND_TRUE d \<Longrightarrow> acts opc (p, R, m) (p + 2 + d, R, m)"
  using does_bra [of opc d p] by (auto simp: acts_def)

definition bcc_w :: "16 word \<Rightarrow> Condition \<Rightarrow> bool" where
  "bcc_w opc c \<longleftrightarrow> (case decode_spec opc of
     I_Bcc i \<Rightarrow> Bcc.condition i = c \<and> Bcc.data_size i = SIZE_WORD
   | _ \<Rightarrow> False)"

lemma acts_bra_w:
  assumes "bcc_w opc COND_TRUE" and "BaseMemory_get m (ucast (p + 2)) SIZE_WORD = Inr d"
  shows "acts opc (p, R, m) (p + 2 + sext16 d, R, m)"
  using assms by (intro actsI [where zf = "\<lambda>z. z"]) (auto simp: run_simps Bcc_execute_def bcc_w_def Bcc_displacement_def split: Ins.splits)

lemma acts_link:
  assumes "link_w opc r" and "general_reg r" and "r \<noteq> REG_A7"
    and "BaseMemory_get m (ucast (p + 2)) SIZE_WORD = Inr d" and "full m" and "cell S" and "R REG_A7 = of_nat S + 4"
  shows "acts opc (p, R, m) (p + 4, R(r := of_nat S, REG_A7 := of_nat S + sext16 d), lwrite m S (R r))"
  using does_link [where R = R, OF assms] by (auto simp: acts_def)

lemma acts_unlk:
  assumes "unlk opc r" and "general_reg r" and "r \<noteq> REG_A7" and "full m" and "cell S" and "R r = of_nat S"
  shows "acts opc (p, R, m) (p + 2, R(REG_A7 := of_nat S + 4, r := lread m S), m)"
  using does_unlk [where R = R, OF assms] by (auto simp: acts_def)

lemma acts_jsr:
  assumes "jsr_pc opc" and "BaseMemory_get m (ucast (p + 2)) SIZE_WORD = Inr d"
    and "full m" and "cell S" and "R REG_A7 = of_nat S + 4"
  shows "acts opc (p, R, m) (p + 2 + sext16 d, R(REG_A7 := of_nat S), lwrite m S (4 + p))"
  using does_jsr [where R = R, OF assms] by (auto simp: acts_def)

lemma acts_rts:
  assumes "rts opc" and "full m" and "cell S" and "R REG_A7 = of_nat S"
  shows "acts opc (p, R, m) (lread m S, R(REG_A7 := of_nat S + 4), m)"
  using does_rts [where R = R, OF assms] by (auto simp: acts_def)

lemma acts_pea:
  assumes "pea_w opc" and "BaseMemory_get m (ucast (p + 2)) SIZE_WORD = Inr d"
    and "full m" and "cell S" and "R REG_A7 = of_nat S + 4"
  shows "acts opc (p, R, m) (p + 4, R(REG_A7 := of_nat S), lwrite m S d)"
  using does_pea [where R = R, OF assms] by (auto simp: acts_def)

section \<open>A comparison and the branch on it\<close>

text \<open>
  The overflow flag of a comparison is the overflow of the sum of the operands; for numbers of half
  the range neither the sum nor the difference overflows, and the signed conditions are right.
\<close>

definition small :: "32 word \<Rightarrow> bool" where
  "small v \<longleftrightarrow> - (2 ^ 30) \<le> sint v \<and> sint v < 2 ^ 30"

lemma sval_long: "sval SIZE_LONG (v :: 32 word) = sint v"
  by (simp add: sval_def sint_uint)

lemma small_compare:
  assumes "small a" and "small b"
  shows "IS_NEGATIVE (wide (b - a)) SIZE_LONG \<longleftrightarrow> sint b < sint a" and "\<not> IS_OVERFLOW a b SIZE_LONG"
    and "b = a \<longleftrightarrow> sint b = sint a"
proof -
  have wrap: "x = signed_take_bit 31 x" if "- (2 ^ 31) \<le> x" "x < 2 ^ 31" for x :: int
    using that by (simp add: signed_take_bit_int_eq_self)
  have "sint (b - a) = sint b - sint a" "sint (a + b) = sint a + sint b"
    using assms wrap [of "sint b - sint a"] wrap [of "sint a + sint b"]
    by (simp_all add: small_def sint_word_ariths)
  then show "IS_NEGATIVE (wide (b - a)) SIZE_LONG \<longleftrightarrow> sint b < sint a" "\<not> IS_OVERFLOW a b SIZE_LONG"
    by (simp_all add: IS_NEGATIVE_wide IS_OVERFLOW_sval sval_long)
  show "b = a \<longleftrightarrow> sint b = sint a" by (auto intro: signed_word_eqI)
qed

definition acts2 :: "16 word \<Rightarrow> 32 word \<Rightarrow> 16 word \<Rightarrow> core \<Rightarrow> core \<Rightarrow> bool" where
  "acts2 opc p' opc' = (\<lambda>(p, R, m) (p'', R', m'). \<exists>z'. \<forall>s. pc_of s = p \<and> gregs s = R \<and> memory s = m \<longrightarrow>
     (\<exists>t u. execute (decode_spec opc) s = (Inr (), t) \<and> pc_of t = p' \<and> memory t = m \<and>
        execute (decode_spec opc') t = (Inr (), u) \<and> view_of u = (p'', z', R', m')))"

lemma leads_by2:
  assumes "BaseMemory_get m (ucast p) SIZE_WORD = Inr w" and "p \<noteq> h"
    and "BaseMemory_get m (ucast p') SIZE_WORD = Inr w'" and "p' \<noteq> h"
    and "acts2 (ucast w) p' (ucast w') (p, R, m) v" and "v = v'"
  shows "leads h (p, R, m) v'"
proof -
  obtain p'' R' m' where v': "v' = (p'', R', m')" by (cases v')
  with assms(5,6) obtain z' where run: "pc_of s = p \<and> gregs s = R \<and> memory s = m \<Longrightarrow>
      (\<exists>t u. execute (decode_spec (ucast w)) s = (Inr (), t) \<and> pc_of t = p' \<and> memory t = m \<and>
        execute (decode_spec (ucast w')) t = (Inr (), u) \<and> view_of u = (p'', z', R', m'))" for s
    by (auto simp: acts2_def)
  have "goes h (p, z, R, m) (p'', z', R', m')" for z
    unfolding goes_def
  proof (intro allI impI)
    fix c assume c: "decoder_ok c \<and> view_of (state c) = (p, z, R, m)"
    then obtain t u where t: "execute (decode_spec (ucast w)) (state c) = (Inr (), t)" "pc_of t = p'" "memory t = m"
      and u: "execute (decode_spec (ucast w')) t = (Inr (), u)" "view_of u = (p'', z', R', m')"
      using run [of "state c"] by (auto simp: view_of_def)
    let ?d = "c\<lparr>state := t\<rparr>"
    have d: "decoder_ok ?d" using c by (simp add: decoder_ok_def)
    have "CPU_step c = (Inr (), ?d)" and "CPU_step ?d = (Inr (), ?d\<lparr>state := u\<rparr>)"
      using c d assms(1,3) t u by (intro step_runs; auto simp: view_of_def)+
    then have "run_until h c = run_until h (?d\<lparr>state := u\<rparr>)"
      using run_until_step [of c h ?d] run_until_step [of ?d h "?d\<lparr>state := u\<rparr>"] c assms(2,4) t(2)
      by (simp add: view_of_def)
    with d u(2) show "\<exists>d. decoder_ok d \<and> view_of (state d) = (p'', z', R', m') \<and> run_until h c = run_until h d"
      by (intro exI [of _ "?d\<lparr>state := u\<rparr>"]) (simp add: decoder_ok_def)
  qed
  then show ?thesis unfolding v' by (intro goes_leads exI)
qed

definition cmp_r :: "16 word \<Rightarrow> RegisterType \<Rightarrow> RegisterType \<Rightarrow> bool" where
  "cmp_r opc q r \<longleftrightarrow> (case decode_spec opc of
     I_Cmp i \<Rightarrow> Cmp.src_mode i = ADDR_MODE_DIRECT_DATA \<and> Cmp.src_reg i = q \<and>
       Cmp.dest_mode i = ADDR_MODE_DIRECT_DATA \<and> Cmp.dest_reg i = r \<and> Cmp.data_size i = SIZE_LONG
   | _ \<Rightarrow> False)"

lemma acts2_cmp_bge:
  assumes "cmp_r opc q r" and "bcc_s opc' COND_GREATER_EQUAL d" and "general_reg q" and "general_reg r"
    and "small (R q)" and "small (R r)"
  shows "acts2 opc (p + 2) opc' (p, R, m) (if sint (R q) \<le> sint (R r) then p + 4 + d else p + 4, R, m)"
  unfolding acts2_def prod.case
  using assms(1-4) small_compare [OF assms(5,6)]
  by (intro exI [where x = "R r = R q"])
    (auto simp: run_simps cmp_r_def bcc_s_def Cmp_execute_def Bcc_execute_def Bcc_displacement_def checkCondition_flags add.assoc not_less split: Ins.splits)

lemma acts2_cmp_bgt:
  assumes "cmp_l opc q r" and "bcc_w opc' COND_GREATER_THAN" and "general_reg q" and "general_reg r"
    and "BaseMemory_get m (ucast (p + 2)) SIZE_WORD = Inr d" and "R q + sext16 d = of_nat k" and "full m" and "cell k"
    and "BaseMemory_get m (ucast (p + 6)) SIZE_WORD = Inr d'" and "small (lread m k)" and "small (R r)"
  shows "acts2 opc (p + 4) opc' (p, R, m) (if sint (lread m k) < sint (R r) then p + 6 + sext16 d' else p + 8, R, m)"
  unfolding acts2_def prod.case
  using assms(1-9) small_compare [OF assms(10,11)]
  by (intro exI [where x = "R r = lread m k"])
    (auto simp: run_simps cmp_l_def bcc_w_def get_cell Cmp_execute_def Bcc_execute_def Bcc_displacement_def checkCondition_flags add.assoc not_less split: Ins.splits)

section \<open>Steps of a run\<close>

lemmas leads_load = leads_by [OF _ _ acts_load]
lemmas leads_load_ind = leads_by [OF _ _ acts_load_ind]
lemmas leads_store_ind = leads_by [OF _ _ acts_store_ind]
lemmas leads_copy_out = leads_by [OF _ _ acts_copy_out]
lemmas leads_copy_in = leads_by [OF _ _ acts_copy_in]
lemmas leads_movea = leads_by [OF _ _ acts_movea]
lemmas leads_clr = leads_by [OF _ _ acts_clr]
lemmas leads_pea_l = leads_by [OF _ _ acts_pea_l]
lemmas leads_pea = leads_by [OF _ _ acts_pea]
lemmas leads_addq = leads_by [OF _ _ acts_addq]
lemmas leads_addq_mem = leads_by [OF _ _ acts_addq_mem]
lemmas leads_addq_a = leads_by [OF _ _ acts_addq_a]
lemmas leads_subq = leads_by [OF _ _ acts_subq]
lemmas leads_sub = leads_by [OF _ _ acts_sub]
lemmas leads_add = leads_by [OF _ _ acts_add]
lemmas leads_adda = leads_by [OF _ _ acts_adda]
lemmas leads_nop = leads_by [OF _ _ acts_nop]
lemmas leads_bra = leads_by [OF _ _ acts_bra]
lemmas leads_bra_w = leads_by [OF _ _ acts_bra_w]
lemmas leads_link = leads_by [OF _ _ acts_link]
lemmas leads_unlk = leads_by [OF _ _ acts_unlk]
lemmas leads_jsr = leads_by [OF _ _ acts_jsr]
lemmas leads_rts = leads_by [OF _ _ acts_rts]
lemmas leads_cmp_bge = leads_by2 [OF _ _ _ _ acts2_cmp_bge]
lemmas leads_cmp_bgt = leads_by2 [OF _ _ _ _ acts2_cmp_bgt]

section \<open>Triples\<close>

text \<open>
  From every core at \<open>p\<close> with \<open>P\<close> the machine runs to \<open>p'\<close> with \<open>Q\<close>, changing only the registers in
  \<open>C\<close> and the addresses in \<open>A\<close>.
\<close>

definition triple :: "32 word \<Rightarrow> RegisterType set \<Rightarrow> nat set \<Rightarrow>
    32 word \<Rightarrow> ((RegisterType \<Rightarrow> 32 word) \<Rightarrow> BaseMemory \<Rightarrow> bool) \<Rightarrow>
    32 word \<Rightarrow> ((RegisterType \<Rightarrow> 32 word) \<Rightarrow> BaseMemory \<Rightarrow> bool) \<Rightarrow> bool" where
  "triple halt C A p P p' Q \<longleftrightarrow> (\<forall>R m. P R m \<longrightarrow> (\<exists>R' m'. leads halt (p, R, m) (p', R', m') \<and> Q R' m' \<and>
     (\<forall>r. r \<notin> C \<longrightarrow> R' r = R r) \<and> altered A m m'))"

lemma tripleI:
  assumes "\<And>R m. P R m \<Longrightarrow> leads halt (p, R, m) (p', f R m, g R m)" and "\<And>R m. P R m \<Longrightarrow> Q (f R m) (g R m)"
    and "\<And>R m r. P R m \<Longrightarrow> r \<notin> C \<Longrightarrow> f R m r = R r" and "\<And>R m. P R m \<Longrightarrow> altered A m (g R m)"
  shows "triple halt C A p P p' Q"
  using assms unfolding triple_def by blast

lemma tripleE:
  assumes "triple halt C A p P p' Q" and "P R m"
  obtains R' m' where "leads halt (p, R, m) (p', R', m')" and "Q R' m'" and "\<And>r. r \<notin> C \<Longrightarrow> R' r = R r" and "altered A m m'"
  using assms unfolding triple_def by blast

lemma triple_seq [trans]:
  assumes "triple halt C A p P p' Q" and "triple halt C A p' Q p'' Q'"
  shows "triple halt C A p P p'' Q'"
  unfolding triple_def
proof (intro allI impI)
  fix R m assume "P R m"
  then obtain R1 m1 where 1: "leads halt (p, R, m) (p', R1, m1)" "Q R1 m1" "\<forall>r. r \<notin> C \<longrightarrow> R1 r = R r" "altered A m m1"
    using assms(1) unfolding triple_def by blast
  then obtain R2 m2 where 2: "leads halt (p', R1, m1) (p'', R2, m2)" "Q' R2 m2" "\<forall>r. r \<notin> C \<longrightarrow> R2 r = R1 r" "altered A m1 m2"
    using assms(2) unfolding triple_def by blast
  show "\<exists>R' m'. leads halt (p, R, m) (p'', R', m') \<and> Q' R' m' \<and> (\<forall>r. r \<notin> C \<longrightarrow> R' r = R r) \<and> altered A m m'"
    using leads_trans [OF 1(1) 2(1)] 1(3) 2(2,3) altered_trans [OF 2(4) 1(4)] by (intro exI [where x = R2] exI [where x = m2] conjI) auto
qed

text \<open>A loop with its head at \<open>p\<close>, whose body takes the invariant from one count to the next.\<close>

lemma triple_loop:
  assumes "\<And>k. k < N \<Longrightarrow> triple halt C A p (I k) p (I (Suc k))" and "triple halt C A p (I N) q Q" and "k \<le> N"
  shows "triple halt C A p (I k) q Q"
  using assms(3)
proof (induction "N - k" arbitrary: k)
  case 0
  then show ?case using assms(2) by simp
next
  case (Suc d)
  then have "k < N" "d = N - Suc k" "Suc k \<le> N" by linarith+
  then show ?case using triple_seq [OF assms(1)] Suc.hyps(1) by blast
qed

text \<open>Consecutive words in memory.\<close>

fun words :: "BaseMemory \<Rightarrow> 32 word \<Rightarrow> 32 word list \<Rightarrow> bool" where
  "words m p [] = True"
| "words m p (w # ws) = (BaseMemory_get m (ucast p) SIZE_WORD = Inr w \<and> words m (p + 2) ws)"

end
