(* ===== verification/Bubble_Sort.thy ===== *)
theory Bubble_Sort
  imports "HOL-Library.Multiset"
begin

text \<open>
  The algorithm of \<open>src/test/src/bubblesort/src/bubblesort.c\<close> on lists: passes of exchanges of
  neighbours, each one place shorter than the last, on elements compared by a key.
\<close>

section \<open>The algorithm\<close>

definition order_at :: "('a \<Rightarrow> 'k::linorder) \<Rightarrow> nat \<Rightarrow> 'a list \<Rightarrow> 'a list" where
  "order_at f j xs = (if f (xs ! Suc j) < f (xs ! j) then xs[j := xs ! Suc j, Suc j := xs ! j] else xs)"

definition bubble_pass :: "('a \<Rightarrow> 'k::linorder) \<Rightarrow> nat \<Rightarrow> 'a list \<Rightarrow> 'a list" where
  "bubble_pass f k xs = fold (order_at f) [0..<k] xs"

definition passes :: "('a \<Rightarrow> 'k::linorder) \<Rightarrow> nat \<Rightarrow> 'a list \<Rightarrow> 'a list" where
  "passes f i xs = fold (\<lambda>i. bubble_pass f (length xs - 1 - i)) [0..<i] xs"

definition bubblesort :: "('a \<Rightarrow> 'k::linorder) \<Rightarrow> 'a list \<Rightarrow> 'a list" where
  "bubblesort f xs = passes f (length xs - 1) xs"

lemma bubble_pass_simps [simp]:
  "bubble_pass f 0 xs = xs"
  "bubble_pass f (Suc k) xs = order_at f k (bubble_pass f k xs)"
  by (simp_all add: bubble_pass_def)

lemma passes_simps [simp]:
  "passes f 0 xs = xs"
  "passes f (Suc i) xs = bubble_pass f (length xs - 1 - i) (passes f i xs)"
  by (simp_all add: passes_def)

section \<open>A pass\<close>

lemma length_order_at [simp]: "length (order_at f j xs) = length xs"
  by (simp add: order_at_def)

lemma length_bubble_pass [simp]: "length (bubble_pass f k xs) = length xs"
  by (induction k) simp_all

lemma length_passes [simp]: "length (passes f i xs) = length xs"
  by (induction i) simp_all

lemma mset_order_at: "Suc j < length xs \<Longrightarrow> mset (order_at f j xs) = mset xs"
  using mset_swap [of "Suc j" xs j] by (simp add: order_at_def list_update_swap)

lemma mset_bubble_pass: "k < length xs \<Longrightarrow> mset (bubble_pass f k xs) = mset xs"
  by (induction k) (simp_all add: mset_order_at)

lemma mset_passes: "mset (passes f i xs) = mset xs"
proof (induction i)
  case (Suc i)
  then show ?case by (cases "xs = []") (simp_all add: mset_bubble_pass)
qed simp

lemma drop_order_at: "Suc j < n \<Longrightarrow> drop n (order_at f j xs) = drop n xs"
  by (simp add: order_at_def)

lemma drop_bubble_pass: "k < n \<Longrightarrow> drop n (bubble_pass f k xs) = drop n xs"
  by (induction k) (simp_all add: drop_order_at)

lemma set_take_bubble_pass:
  assumes "k < length xs"
  shows "set (take (Suc k) (bubble_pass f k xs)) = set (take (Suc k) xs)"
proof -
  have "mset (take (Suc k) ys) + mset (drop (Suc k) ys) = mset ys" for ys :: "'a list"
    by (simp flip: mset_append)
  from this [of "bubble_pass f k xs"] this [of xs]
  have "mset (take (Suc k) (bubble_pass f k xs)) = mset (take (Suc k) xs)"
    by (simp add: mset_bubble_pass [OF assms] drop_bubble_pass) (metis add_right_imp_eq)
  then show ?thesis by (rule mset_eq_setD)
qed

text \<open>A pass brings the largest element of the part it covers to the end of that part.\<close>

lemma bubble_pass_max:
  "k < length xs \<Longrightarrow> i \<le> k \<Longrightarrow> f (bubble_pass f k xs ! i) \<le> f (bubble_pass f k xs ! k)"
proof (induction k arbitrary: i)
  case (Suc k)
  define ys where "ys = bubble_pass f k xs"
  have len: "Suc k < length ys" using Suc.prems by (simp add: ys_def)
  have max: "f (ys ! i) \<le> f (ys ! k)" if "i \<le> k" for i using Suc that by (simp add: ys_def)
  have "f (order_at f k ys ! i) \<le> f (order_at f k ys ! Suc k)"
  proof (cases "f (ys ! Suc k) < f (ys ! k)")
    case True
    then show ?thesis
      using max [of i] Suc.prems(2) len by (auto simp: order_at_def nth_list_update le_Suc_eq)
  next
    case False
    then have "f (ys ! k) \<le> f (ys ! Suc k)" by simp
    then show ?thesis
      using max [of i] Suc.prems(2) False by (auto simp: order_at_def le_Suc_eq)
  qed
  then show ?case by (simp add: ys_def)
qed simp

section \<open>The result\<close>

definition tail_sorted :: "('a \<Rightarrow> 'k::linorder) \<Rightarrow> nat \<Rightarrow> 'a list \<Rightarrow> bool" where
  "tail_sorted f n xs \<longleftrightarrow> sorted (map f (drop n xs)) \<and> (\<forall>x \<in> set (take n xs). \<forall>y \<in> set (drop n xs). f x \<le> f y)"

lemma tail_sorted_bubble_pass:
  assumes "tail_sorted f (Suc k) xs" and "k < length xs"
  shows "tail_sorted f k (bubble_pass f k xs)"
proof -
  let ?ys = "bubble_pass f k xs"
  have drop: "drop k ?ys = ?ys ! k # drop (Suc k) xs"
    using assms(2) drop_bubble_pass [of k "Suc k" f xs] by (simp add: Cons_nth_drop_Suc [symmetric])
  have "?ys ! k \<in> set (take (Suc k) ?ys)" and sub: "set (take k ?ys) \<subseteq> set (take (Suc k) ?ys)"
    using assms(2) by (auto simp: take_Suc_conv_app_nth)
  then have last: "\<forall>x \<in> set (take (Suc k) ?ys). \<forall>y \<in> set (drop (Suc k) xs). f x \<le> f y" and "sorted (map f (drop k ?ys))"
    using assms set_take_bubble_pass [OF assms(2), of f] by (auto simp: tail_sorted_def drop)
  moreover have "\<forall>x \<in> set (take k ?ys). f x \<le> f (?ys ! k)"
    using bubble_pass_max [OF assms(2) less_imp_le] assms(2) by (auto simp: in_set_conv_nth)
  ultimately show ?thesis using sub by (auto simp: tail_sorted_def drop)
qed

lemma tail_sorted_passes: "i < length xs \<Longrightarrow> tail_sorted f (length xs - i) (passes f i xs)"
proof (induction i)
  case (Suc i)
  then show ?case
    using tail_sorted_bubble_pass [of f "length xs - 1 - i" "passes f i xs"] by (simp add: Suc_diff_Suc)
qed (simp add: tail_sorted_def)

theorem bubblesort_sorts: "map f (bubblesort f xs) = sort (map f xs)"
proof (rule properties_for_sort [symmetric])
  show "mset (map f (bubblesort f xs)) = mset (map f xs)"
    by (simp add: bubblesort_def mset_passes)
  show "sorted (map f (bubblesort f xs))"
  proof (cases xs)
    case (Cons x zs)
    then have "tail_sorted f 1 (bubblesort f xs)"
      using tail_sorted_passes [of "length xs - 1" xs f] by (simp add: bubblesort_def)
    then show ?thesis by (cases "bubblesort f xs") (auto simp: tail_sorted_def)
  qed (simp add: bubblesort_def)
qed

end
