(* ===== verification/Bubblesort.thy ===== *)
theory Bubblesort
  imports Loop_Rules Bubble_Sort
begin

text \<open>
  The program of \<open>src/test/binary/bubblesort.elf\<close>, compiled from \<open>src/test/src/bubblesort/src/bubblesort.c\<close>:
  two nested loops over an array on which the routine works through a stack frame.  It sorts every
  array of numbers of half the range of \<open>int\<close>.
\<close>

section \<open>The code\<close>

text \<open>
  With \<open>i\<close>, \<open>j\<close>, \<open>temp\<close> at \<open>-4\<close>, \<open>-8\<close>, \<open>-12\<close> from \<open>a6\<close>, \<open>table\<close> and \<open>size\<close> at 8 and 12:

  \<^item> \<open>0x10000\<close>: \<open>link a6, #-12\<close>; \<open>clr.l -4(a6)\<close>; \<open>bra.w 0x1009A\<close>;
  \<^item> \<open>0x1000C\<close>: \<open>clr.l -8(a6)\<close>; \<open>bra 0x10084\<close>;
  \<^item> \<open>0x10012\<close>: \<open>d1\<close> becomes \<open>table[j]\<close>, \<open>d0\<close> becomes \<open>table[j+1]\<close>; \<open>cmp.l d1, d0\<close>; \<open>bge 0x10080\<close>;
  \<^item> \<open>0x10038\<close>: \<open>temp = table[j+1]\<close>; \<open>table[j+1] = table[j]\<close>; \<open>table[j] = temp\<close>;
  \<^item> \<open>0x10080\<close>: \<open>addq.l #1, -8(a6)\<close>;
  \<^item> \<open>0x10084\<close>: \<open>d0\<close> becomes \<open>size - 1 - i\<close>; \<open>cmp.l -8(a6), d0\<close>; \<open>bgt.w 0x10012\<close>;
  \<^item> \<open>0x10096\<close>: \<open>addq.l #1, -4(a6)\<close>;
  \<^item> \<open>0x1009A\<close>: \<open>d0\<close> becomes \<open>size - 1\<close>; \<open>cmp.l -4(a6), d0\<close>; \<open>bgt.w 0x1000C\<close>;
  \<^item> \<open>0x100A8\<close>: \<open>nop\<close>; \<open>nop\<close>; \<open>unlk a6\<close>; \<open>rts\<close>;
  \<^item> \<open>0x100B0\<close>: \<open>link a6, #0\<close>; \<open>pea 30\<close>; \<open>pea 0x3000\<close>; \<open>jsr 0x10000\<close>; \<open>addq.l #8, sp\<close>;
  \<^item> \<open>0x100C4\<close>: \<open>bra 0x100C4\<close>.
\<close>

definition bubble_code :: "(nat \<times> DataSize \<times> 32 word) list" where
  "bubble_code =
    [(0x10000, SIZE_WORD, 0x4E56), (0x10002, SIZE_WORD, 0xFFF4), (0x10004, SIZE_WORD, 0x42AE), (0x10006, SIZE_WORD, 0xFFFC),
     (0x10008, SIZE_WORD, 0x6000), (0x1000A, SIZE_WORD, 0x0090), (0x1000C, SIZE_WORD, 0x42AE), (0x1000E, SIZE_WORD, 0xFFF8),
     (0x10010, SIZE_WORD, 0x6072), (0x10012, SIZE_WORD, 0x202E), (0x10014, SIZE_WORD, 0xFFF8), (0x10016, SIZE_WORD, 0xD080),
     (0x10018, SIZE_WORD, 0xD080), (0x1001A, SIZE_WORD, 0x206E), (0x1001C, SIZE_WORD, 0x0008), (0x1001E, SIZE_WORD, 0xD1C0),
     (0x10020, SIZE_WORD, 0x2210), (0x10022, SIZE_WORD, 0x202E), (0x10024, SIZE_WORD, 0xFFF8), (0x10026, SIZE_WORD, 0x5280),
     (0x10028, SIZE_WORD, 0xD080), (0x1002A, SIZE_WORD, 0xD080), (0x1002C, SIZE_WORD, 0x206E), (0x1002E, SIZE_WORD, 0x0008),
     (0x10030, SIZE_WORD, 0xD1C0), (0x10032, SIZE_WORD, 0x2010), (0x10034, SIZE_WORD, 0xB081), (0x10036, SIZE_WORD, 0x6C48),
     (0x10038, SIZE_WORD, 0x202E), (0x1003A, SIZE_WORD, 0xFFF8), (0x1003C, SIZE_WORD, 0x5280), (0x1003E, SIZE_WORD, 0xD080),
     (0x10040, SIZE_WORD, 0xD080), (0x10042, SIZE_WORD, 0x206E), (0x10044, SIZE_WORD, 0x0008), (0x10046, SIZE_WORD, 0xD1C0),
     (0x10048, SIZE_WORD, 0x2D50), (0x1004A, SIZE_WORD, 0xFFF4), (0x1004C, SIZE_WORD, 0x202E), (0x1004E, SIZE_WORD, 0xFFF8),
     (0x10050, SIZE_WORD, 0xD080), (0x10052, SIZE_WORD, 0xD080), (0x10054, SIZE_WORD, 0x226E), (0x10056, SIZE_WORD, 0x0008),
     (0x10058, SIZE_WORD, 0xD3C0), (0x1005A, SIZE_WORD, 0x202E), (0x1005C, SIZE_WORD, 0xFFF8), (0x1005E, SIZE_WORD, 0x5280),
     (0x10060, SIZE_WORD, 0xD080), (0x10062, SIZE_WORD, 0xD080), (0x10064, SIZE_WORD, 0x206E), (0x10066, SIZE_WORD, 0x0008),
     (0x10068, SIZE_WORD, 0xD1C0), (0x1006A, SIZE_WORD, 0x2011), (0x1006C, SIZE_WORD, 0x2080), (0x1006E, SIZE_WORD, 0x202E),
     (0x10070, SIZE_WORD, 0xFFF8), (0x10072, SIZE_WORD, 0xD080), (0x10074, SIZE_WORD, 0xD080), (0x10076, SIZE_WORD, 0x206E),
     (0x10078, SIZE_WORD, 0x0008), (0x1007A, SIZE_WORD, 0xD1C0), (0x1007C, SIZE_WORD, 0x20AE), (0x1007E, SIZE_WORD, 0xFFF4),
     (0x10080, SIZE_WORD, 0x52AE), (0x10082, SIZE_WORD, 0xFFF8), (0x10084, SIZE_WORD, 0x202E), (0x10086, SIZE_WORD, 0x000C),
     (0x10088, SIZE_WORD, 0x5380), (0x1008A, SIZE_WORD, 0x90AE), (0x1008C, SIZE_WORD, 0xFFFC), (0x1008E, SIZE_WORD, 0xB0AE),
     (0x10090, SIZE_WORD, 0xFFF8), (0x10092, SIZE_WORD, 0x6E00), (0x10094, SIZE_WORD, 0xFF7E), (0x10096, SIZE_WORD, 0x52AE),
     (0x10098, SIZE_WORD, 0xFFFC), (0x1009A, SIZE_WORD, 0x202E), (0x1009C, SIZE_WORD, 0x000C), (0x1009E, SIZE_WORD, 0x5380),
     (0x100A0, SIZE_WORD, 0xB0AE), (0x100A2, SIZE_WORD, 0xFFFC), (0x100A4, SIZE_WORD, 0x6E00), (0x100A6, SIZE_WORD, 0xFF66),
     (0x100A8, SIZE_WORD, 0x4E71), (0x100AA, SIZE_WORD, 0x4E71), (0x100AC, SIZE_WORD, 0x4E5E), (0x100AE, SIZE_WORD, 0x4E75),
     (0x100B0, SIZE_WORD, 0x4E56), (0x100B2, SIZE_WORD, 0x0000), (0x100B4, SIZE_WORD, 0x4878), (0x100B6, SIZE_WORD, 0x001E),
     (0x100B8, SIZE_WORD, 0x4879), (0x100BA, SIZE_LONG, 0x3000), (0x100BE, SIZE_WORD, 0x4EBA), (0x100C0, SIZE_WORD, 0xFF40),
     (0x100C2, SIZE_WORD, 0x508F), (0x100C4, SIZE_WORD, 0x60FE)]"

definition bubble_loaded :: "BaseMemory \<Rightarrow> bool" where
  "bubble_loaded m \<longleftrightarrow> has_code bubble_code m"

lemma bubble_loaded_altered:
  assumes "altered A m m'" and "bubble_loaded m" and "full m" and "{0x10000..<0x100C6} \<inter> A = {}"
  shows "bubble_loaded m'"
proof -
  have "list_all (\<lambda>(a, sz, w). a < 2 ^ 24 \<and> 0 < size_val sz \<and> {a..<a + size_val sz} \<subseteq> {0x10000..<0x100C6}) bubble_code"
    by (simp add: bubble_code_def)
  then have "list_all (\<lambda>(a, sz, w). a < 2 ^ 24 \<and> 0 < size_val sz \<and> {a..<a + size_val sz} \<inter> A = {}) bubble_code"
    using assms(4) unfolding list_all_iff by blast
  then show ?thesis
    using has_code_altered [OF _ assms(3,1)] assms(2) unfolding bubble_loaded_def by blast
qed

lemmas bubble_fetched = bubble_loaded_def [THEN iffD1, unfolded has_code_def bubble_code_def, simplified]

lemma bubble_ops:
  "link_w 0x4E56 REG_A6" "unlk 0x4E5E REG_A6" "rts 0x4E75" "jsr_pc 0x4EBA" "pea_w 0x4878" "pea_l 0x4879" "nop 0x4E71"
  "clr_l 0x42AE REG_A6" "bcc_w 0x6000 COND_TRUE" "bcc_w 0x6E00 COND_GREATER_THAN"
  "bcc_s 0x6072 COND_TRUE 0x72" "bcc_s 0x6C48 COND_GREATER_EQUAL 0x48"
  "move_l 0x202E ADDR_MODE_INDIRECT_DISPLACEMENT REG_A6 ADDR_MODE_DIRECT_DATA REG_D0"
  "move_l 0x2210 ADDR_MODE_INDIRECT REG_A0 ADDR_MODE_DIRECT_DATA REG_D1"
  "move_l 0x2010 ADDR_MODE_INDIRECT REG_A0 ADDR_MODE_DIRECT_DATA REG_D0"
  "move_l 0x2011 ADDR_MODE_INDIRECT REG_A1 ADDR_MODE_DIRECT_DATA REG_D0"
  "move_l 0x2080 ADDR_MODE_DIRECT_DATA REG_D0 ADDR_MODE_INDIRECT REG_A0"
  "move_l 0x2D50 ADDR_MODE_INDIRECT REG_A0 ADDR_MODE_INDIRECT_DISPLACEMENT REG_A6"
  "move_l 0x20AE ADDR_MODE_INDIRECT_DISPLACEMENT REG_A6 ADDR_MODE_INDIRECT REG_A0"
  "movea_l 0x206E REG_A6 REG_A0" "movea_l 0x226E REG_A6 REG_A1" "adda_l 0xD1C0 REG_D0 REG_A0" "adda_l 0xD3C0 REG_D0 REG_A1"
  "add_l 0xD080 REG_D0 REG_D0" "addq_l 0x5280 ADDR_MODE_DIRECT_DATA REG_D0 1" "subq_l 0x5380 REG_D0 1"
  "addq_l 0x52AE ADDR_MODE_INDIRECT_DISPLACEMENT REG_A6 1" "addq_a 0x508F REG_A7 8"
  "sub_l 0x90AE REG_A6 REG_D0" "cmp_l 0xB0AE REG_A6 REG_D0" "cmp_r 0xB081 REG_D1 REG_D0"
  by code_simp+

lemma bubble_sext16:
  "sext16 0 = 0" "sext16 8 = 8" "sext16 0xC = 12" "sext16 0x1E = 30" "sext16 0xFFF4 = - 12" "sext16 0xFFF8 = - 8" "sext16 0xFFFC = - 4"
  "sext16 0x90 = 0x90" "sext16 0xFF7E = - 0x82" "sext16 0xFF66 = - 0x9A" "sext16 0xFF40 = - 0xC0"
  by code_simp+

section \<open>The frame of the routine\<close>

text \<open>
  \<open>G\<close> is the address of \<open>temp\<close>: \<open>j\<close> is at \<open>G + 4\<close>, \<open>i\<close> at \<open>G + 8\<close>, the frame pointer and the saved \<open>a6\<close>
  at \<open>G + 12\<close>, the return address at \<open>G + 16\<close>, the arguments at \<open>G + 20\<close> and \<open>G + 24\<close>.
\<close>

definition framed_sort :: "nat \<Rightarrow> nat \<Rightarrow> nat \<Rightarrow> nat \<Rightarrow> 32 word list \<Rightarrow> (RegisterType \<Rightarrow> 32 word) \<Rightarrow> BaseMemory \<Rightarrow> bool" where
  "framed_sort T n G i xs R m \<longleftrightarrow> bubble_loaded m \<and> full m \<and> length xs = n \<and> (\<forall>k<n. lread m (T + 4 * k) = xs ! k) \<and>
     R REG_A6 = of_nat G + 12 \<and> R REG_A7 = of_nat G \<and> lread m (G + 20) = of_nat T \<and> lread m (G + 24) = of_nat n \<and>
     lread m (G + 8) = of_nat i"

definition in_pass :: "nat \<Rightarrow> nat \<Rightarrow> nat \<Rightarrow> nat \<Rightarrow> nat \<Rightarrow> 32 word list \<Rightarrow> (RegisterType \<Rightarrow> 32 word) \<Rightarrow> BaseMemory \<Rightarrow> bool" where
  "in_pass T n G i j xs R m \<longleftrightarrow> framed_sort T n G i xs R m \<and> lread m (G + 4) = of_nat j"

text \<open>
  What the caller of the routine provides.
\<close>

definition sort_called :: "nat \<Rightarrow> nat \<Rightarrow> nat \<Rightarrow> 32 word list \<Rightarrow> (RegisterType \<Rightarrow> 32 word) \<Rightarrow> BaseMemory \<Rightarrow> bool" where
  "sort_called T n G xs R m \<longleftrightarrow> bubble_loaded m \<and> full m \<and> length xs = n \<and> (\<forall>k<n. lread m (T + 4 * k) = xs ! k) \<and>
     R REG_A7 = of_nat G + 16 \<and> lread m (G + 20) = of_nat T \<and> lread m (G + 24) = of_nat n"

text \<open>The routine is verified for every array and stack frame apart from each other and from the code.\<close>

locale bubble_routine =
  fixes halt :: "32 word" and T n G :: nat
  assumes outside: "halt < 0x10000 \<or> 0x100B0 \<le> halt"
    and even: "even T" "even G"
    and room: "T + 4 * n \<le> 2 ^ 24" "G + 28 \<le> 2 ^ 24"
    and table_frame: "T + 4 * n \<le> G \<or> G + 28 \<le> T"
    and table_code: "T + 4 * n \<le> 0x10000 \<or> 0x100C6 \<le> T"
    and frame_code: "G + 28 \<le> 0x10000 \<or> 0x100C6 \<le> G"
begin

lemma not_halted [simp]: "0x10000 \<le> p \<Longrightarrow> p < 0x100B0 \<Longrightarrow> p \<noteq> halt"
  using outside by auto

abbreviation clobbered :: "RegisterType set" where
  "clobbered \<equiv> {REG_D0, REG_D1, REG_A0, REG_A1}"

abbreviation region :: "nat set" where
  "region \<equiv> {T..<T + 4 * n} \<union> {G..<G + 12}"

lemma cells: "k < n \<Longrightarrow> cell (T + 4 * k)" "cell G" "cell (G + 4)" "cell (G + 8)" "cell (G + 12)" "cell (G + 16)" "cell (G + 20)" "cell (G + 24)"
  using even room by auto

lemma region_code: "{0x10000..<0x100C6} \<inter> region = {}"
  using table_code frame_code by auto

lemma region_keeps: "altered region m m' \<Longrightarrow> bubble_loaded m \<Longrightarrow> full m \<Longrightarrow> bubble_loaded m' \<and> full m'"
  using bubble_loaded_altered [OF _ _ _ region_code] altered_full by blast

lemma element_apart: "k < n \<Longrightarrow> l < n \<Longrightarrow> k \<noteq> l \<Longrightarrow> T + 4 * k + 4 \<le> T + 4 * l \<or> T + 4 * l + 4 \<le> T + 4 * k"
  by linarith

lemma element_frame: "k < n \<Longrightarrow> T + 4 * k + 4 \<le> G \<or> G + 28 \<le> T + 4 * k"
  using table_frame by linarith

text \<open>Writing a variable of the frame, and an element of the table.\<close>

lemma altered_var: "full m \<Longrightarrow> d \<in> {0, 4, 8} \<Longrightarrow> altered region m (lwrite m (G + d) v)"
  using cells by (intro altered.intros) auto

lemma altered_element: "full m \<Longrightarrow> k < n \<Longrightarrow> altered region m (lwrite m (T + 4 * k) v)"
  using cells by (intro altered.intros) auto

lemma framed_var:
  assumes "framed_sort T n G i xs R m" and "d \<in> {0, 4}"
  shows "framed_sort T n G i xs R (lwrite m (G + d) v)"
proof -
  have m: "full m" using assms by (simp add: framed_sort_def)
  have "lread (lwrite m (G + d) v) (T + 4 * k) = lread m (T + 4 * k)" if "k < n" for k
    using element_frame [OF that] cells that assms(2) m by (intro lread_lwrite_other) auto
  moreover have "lread (lwrite m (G + d) v) (G + e) = lread m (G + e)" if "e \<in> {8, 20, 24}" for e
    using cells that assms(2) m by (intro lread_lwrite_other) auto
  moreover have "bubble_loaded (lwrite m (G + d) v)" "full (lwrite m (G + d) v)"
    using region_keeps [OF altered_var] assms m
    by (auto simp: framed_sort_def)
  ultimately show ?thesis using assms(1) by (simp add: framed_sort_def)
qed

lemma framed_i:
  assumes "framed_sort T n G i xs R m"
  shows "framed_sort T n G i' xs R (lwrite m (G + 8) (of_nat i'))"
proof -
  have m: "full m" using assms by (simp add: framed_sort_def)
  have "lread (lwrite m (G + 8) v) (T + 4 * k) = lread m (T + 4 * k)" if "k < n" for k v
    using element_frame [OF that] cells that m by (intro lread_lwrite_other) auto
  moreover have "lread (lwrite m (G + 8) v) (G + e) = lread m (G + e)" if "e \<in> {20, 24}" for e v
    using cells that m by (intro lread_lwrite_other) auto
  moreover have "bubble_loaded (lwrite m (G + 8) v)" "full (lwrite m (G + 8) v)" for v
    using region_keeps [OF altered_var] assms m
    by (auto simp: framed_sort_def)
  ultimately show ?thesis using assms(1) cells m by (simp add: framed_sort_def lread_lwrite_same)
qed

lemma framed_element:
  assumes "framed_sort T n G i xs R m" and "k < n"
  shows "framed_sort T n G i (xs[k := v]) R (lwrite m (T + 4 * k) v)" "lread (lwrite m (T + 4 * k) v) G = lread m G"
    "lread (lwrite m (T + 4 * k) v) (G + 4) = lread m (G + 4)"
proof -
  have m: "full m" using assms by (simp add: framed_sort_def)
  have other: "lread (lwrite m (T + 4 * k) v) (G + e) = lread m (G + e)" if "e \<in> {0, 4, 8, 20, 24}" for e
    using element_frame [OF assms(2)] cells assms(2) that m by (intro lread_lwrite_other) auto
  show "lread (lwrite m (T + 4 * k) v) G = lread m G" "lread (lwrite m (T + 4 * k) v) (G + 4) = lread m (G + 4)"
    using other [of 0] other [of 4] by simp_all
  have "lread (lwrite m (T + 4 * k) v) (T + 4 * l) = xs[k := v] ! l" if "l < n" for l
    using assms that m cells element_apart [OF assms(2) that]
    by (cases "l = k") (auto simp: framed_sort_def lread_lwrite_same lread_lwrite_other)
  moreover have "bubble_loaded (lwrite m (T + 4 * k) v)" "full (lwrite m (T + 4 * k) v)"
    using region_keeps [OF altered_element] assms m
    by (auto simp: framed_sort_def)
  ultimately show "framed_sort T n G i (xs[k := v]) R (lwrite m (T + 4 * k) v)"
    using assms(1) other by (simp add: framed_sort_def)
qed

text \<open>Loading the address of \<open>table[j]\<close>, and of \<open>table[j+1]\<close>.\<close>

lemma address_j:
  assumes "in_pass T n G i j xs R m" and "j < n"
    and "words m p [0x202E, 0xFFF8, 0xD080, 0xD080, w1, 8, w2]" and "movea_l (ucast w1) REG_A6 a" and "adda_l (ucast w2) REG_D0 a"
    and "general_reg a" and "a \<noteq> REG_D0" and "a \<noteq> REG_A6" and h: "\<forall>k \<in> {0, 4, 6, 8, 12}. p + k \<noteq> halt"
  shows "leads halt (p, R, m) (p + 14, R(REG_D0 := of_nat (4 * j), a := of_nat (T + 4 * j)), m)"
proof -
  have "full m" "R REG_A6 = of_nat G + 12" "lread m (G + 4) = of_nat j" "lread m (G + 20) = of_nat T"
    using assms(1) by (simp_all add: in_pass_def framed_sort_def)
  note [simp] = this bubble_ops bubble_sext16
  have "leads halt (p, R, m) (p + 4, R(REG_D0 := of_nat j), m)"
    by (rule leads_load [where k = "G + 4" and q = REG_A6 and r = REG_D0]) (use assms cells in \<open>simp add: add.assoc; fail\<close>)+
  also have "leads halt \<dots> (p + 6, R(REG_D0 := of_nat (2 * j)), m)"
    by (rule leads_add [where q = REG_D0 and r = REG_D0]) (use assms cells in \<open>simp add: add.assoc; fail\<close>)+
  also have "leads halt \<dots> (p + 8, R(REG_D0 := of_nat (4 * j)), m)"
    by (rule leads_add [where q = REG_D0 and r = REG_D0]) (use assms cells in \<open>simp add: add.assoc; fail\<close>)+
  also have "leads halt \<dots> (p + 12, R(REG_D0 := of_nat (4 * j), a := of_nat T), m)"
    by (rule leads_movea [where k = "G + 20" and q = REG_A6 and r = a]) (use assms cells in \<open>simp add: add.assoc; fail\<close>)+
  also have "leads halt \<dots> (p + 14, R(REG_D0 := of_nat (4 * j), a := of_nat (T + 4 * j)), m)"
    by (rule leads_adda [where q = REG_D0 and r = a]) (use assms cells in \<open>simp add: algebra_simps; fail\<close>)+
  finally show ?thesis .
qed

lemma address_next:
  assumes "in_pass T n G i j xs R m" and "Suc j < n"
    and "words m p [0x202E, 0xFFF8, 0x5280, 0xD080, 0xD080, 0x206E, 8, 0xD1C0]"
    and h: "\<forall>k \<in> {0, 4, 6, 8, 10, 14}. p + k \<noteq> halt"
  shows "leads halt (p, R, m) (p + 16, R(REG_D0 := of_nat (4 * Suc j), REG_A0 := of_nat (T + 4 * Suc j)), m)"
proof -
  have "full m" "R REG_A6 = of_nat G + 12" "lread m (G + 4) = of_nat j" "lread m (G + 20) = of_nat T"
    using assms(1) by (simp_all add: in_pass_def framed_sort_def)
  note [simp] = this bubble_ops bubble_sext16
  have "leads halt (p, R, m) (p + 4, R(REG_D0 := of_nat j), m)"
    by (rule leads_load [where k = "G + 4" and q = REG_A6 and r = REG_D0]) (use assms cells in \<open>simp add: add.assoc; fail\<close>)+
  also have "leads halt \<dots> (p + 6, R(REG_D0 := of_nat (Suc j)), m)"
    by (rule leads_addq [where r = REG_D0 and v = 1]) (use assms cells in \<open>simp add: add.assoc; fail\<close> | simp add: algebra_simps; fail)+
  also have "leads halt \<dots> (p + 8, R(REG_D0 := of_nat (2 * Suc j)), m)"
    by (rule leads_add [where q = REG_D0 and r = REG_D0]) (use assms cells in \<open>simp add: add.assoc; fail\<close> | simp add: algebra_simps; fail)+
  also have "leads halt \<dots> (p + 10, R(REG_D0 := of_nat (4 * Suc j)), m)"
    by (rule leads_add [where q = REG_D0 and r = REG_D0]) (use assms cells in \<open>simp add: add.assoc; fail\<close> | simp add: algebra_simps; fail)+
  also have "leads halt \<dots> (p + 14, R(REG_D0 := of_nat (4 * Suc j), REG_A0 := of_nat T), m)"
    by (rule leads_movea [where k = "G + 20" and q = REG_A6 and r = REG_A0]) (use assms cells in \<open>simp add: add.assoc; fail\<close>)+
  also have "leads halt \<dots> (p + 16, R(REG_D0 := of_nat (4 * Suc j), REG_A0 := of_nat (T + 4 * Suc j)), m)"
    by (rule leads_adda [where q = REG_D0 and r = REG_A0]) (use assms cells in \<open>simp add: add.assoc; fail\<close> | simp add: algebra_simps; fail)+
  finally show ?thesis .
qed

text \<open>The comparison, to the exchange or past it.\<close>

lemma in_pass_cong: "in_pass T n G i j xs R m \<Longrightarrow> \<forall>r. r \<notin> clobbered \<longrightarrow> R' r = R r \<Longrightarrow> in_pass T n G i j xs R' m"
  by (simp add: in_pass_def framed_sort_def)

lemma compare_neighbours:
  assumes s: "in_pass T n G i j xs R m" and "Suc j < n" and "\<forall>x \<in> set xs. small x"
  shows "\<exists>R'. leads halt (0x10012, R, m) (if sint (xs ! Suc j) < sint (xs ! j) then 0x10038 else 0x10080, R', m) \<and>
    (\<forall>r. r \<notin> clobbered \<longrightarrow> R' r = R r)"
proof -
  have m: "full m" "bubble_loaded m" and len: "length xs = n" and x: "lread m (T + 4 * j) = xs ! j" "lread m (T + 4 * Suc j) = xs ! Suc j"
    using assms by (simp_all add: in_pass_def framed_sort_def del: mult_Suc_right)
  have small: "small (xs ! j)" "small (xs ! Suc j)" using assms len by simp_all
  note [simp] = bubble_fetched [OF m(2)] bubble_ops bubble_sext16 m
  note cell = cells(1) [of j] cells(1) [of "Suc j"]
  define R1 where "R1 = R(REG_D0 := of_nat (4 * j), REG_A0 := of_nat (T + 4 * j))"
  define R2 where "R2 = R1(REG_D1 := xs ! j)"
  define R3 where "R3 = R2(REG_D0 := of_nat (4 * Suc j), REG_A0 := of_nat (T + 4 * Suc j))"
  define R4 where "R4 = R3(REG_D0 := xs ! Suc j)"
  have s2: "in_pass T n G i j xs R2 m" using s by (rule in_pass_cong) (simp add: R1_def R2_def)
  have "leads halt (0x10012, R, m) (0x10020, R1, m)"
    using address_j [OF s, of "0x10012" "0x206E" "0xD1C0" REG_A0] assms(2) by (simp add: R1_def)
  also have "leads halt \<dots> (0x10022, R2, m)"
    by (rule leads_load_ind [where q = REG_A0 and r = REG_D1 and k = "T + 4 * j"])
      (use cell assms(2) x in \<open>simp add: R1_def R2_def; fail\<close>)+
  also have "leads halt \<dots> (0x10032, R3, m)"
    using address_next [OF s2, of "0x10022"] assms(2) by (simp add: R3_def)
  also have "leads halt \<dots> (0x10034, R4, m)"
    by (rule leads_load_ind [where q = REG_A0 and r = REG_D0 and k = "T + 4 * Suc j"])
      (use cell assms(2) x in \<open>simp add: R3_def R4_def; fail\<close>)+
  also have "leads halt \<dots> (if sint (xs ! Suc j) < sint (xs ! j) then 0x10038 else 0x10080, R4, m)"
    by (rule leads_cmp_bge [where q = REG_D1 and r = REG_D0 and d = "0x48"])
      (use small in \<open>simp add: R4_def R3_def R2_def; fail\<close>)+
  finally have "leads halt (0x10012, R, m) (if sint (xs ! Suc j) < sint (xs ! j) then 0x10038 else 0x10080, R4, m)" .
  moreover have "\<forall>r. r \<notin> clobbered \<longrightarrow> R4 r = R r" by (simp add: R4_def R3_def R2_def R1_def)
  ultimately show ?thesis by (intro exI [where x = R4] conjI)
qed

text \<open>The exchange.\<close>

lemma exchange:
  assumes s: "in_pass T n G i j xs R m" and j: "Suc j < n"
  shows "\<exists>R' m'. leads halt (0x10038, R, m) (0x10080, R', m') \<and> in_pass T n G i j (xs[j := xs ! Suc j, Suc j := xs ! j]) R' m' \<and>
    (\<forall>r. r \<notin> clobbered \<longrightarrow> R' r = R r) \<and> altered region m m'"
proof -
  have m: "full m" "bubble_loaded m" and x: "lread m (T + 4 * j) = xs ! j" "lread m (T + 4 * Suc j) = xs ! Suc j"
    using assms by (simp_all add: in_pass_def framed_sort_def del: mult_Suc_right)
  have cell: "cell (T + 4 * j)" "cell (T + 4 * Suc j)" "cell G"
    using cells(1) [of j] cells(1) [of "Suc j"] cells(2) j by simp_all
  define m1 where "m1 = lwrite m G (xs ! Suc j)"
  define m2 where "m2 = lwrite m1 (T + 4 * Suc j) (xs ! j)"
  define m3 where "m3 = lwrite m2 (T + 4 * j) (xs ! Suc j)"
  define R1 where "R1 = R(REG_D0 := of_nat (4 * Suc j), REG_A0 := of_nat (T + 4 * Suc j))"
  define R2 where "R2 = R1(REG_D0 := of_nat (4 * j), REG_A1 := of_nat (T + 4 * j))"
  define R3 where "R3 = R2(REG_D0 := of_nat (4 * Suc j), REG_A0 := of_nat (T + 4 * Suc j))"
  define R4 where "R4 = R3(REG_D0 := xs ! j)"
  define R5 where "R5 = R4(REG_D0 := of_nat (4 * j), REG_A0 := of_nat (T + 4 * j))"
  note Rs = R1_def R2_def R3_def R4_def R5_def
  have f: "framed_sort T n G i xs R m" and jm: "lread m (G + 4) = of_nat j" using s by (simp_all add: in_pass_def)
  have f1: "framed_sort T n G i xs R m1" using framed_var [OF f, of 0] by (simp add: m1_def)
  have jm1: "lread m1 (G + 4) = of_nat j" "lread m1 (T + 4 * j) = xs ! j" "lread m1 G = xs ! Suc j"
    using jm m cells j f1 by (simp_all add: m1_def lread_lwrite_other lread_lwrite_same framed_sort_def)
  note f2 = framed_element [OF f1 j, of "xs ! j", folded m2_def]
  have jl: "j < n" using j by simp
  note f3 = framed_element [OF f2(1) jl, of "xs ! Suc j", folded m3_def]
  have q: "in_pass T n G i j xs R m1" "in_pass T n G i j (xs[Suc j := xs ! j]) R m2"
    "in_pass T n G i j (xs[j := xs ! Suc j, Suc j := xs ! j]) R m3"
    using f1 f2 f3 jm1 by (simp_all add: in_pass_def list_update_swap)
  have p1: "in_pass T n G i j xs R1 m1" "in_pass T n G i j xs R2 m1"
    by (rule in_pass_cong [OF q(1)]; simp add: Rs)+
  have p2: "in_pass T n G i j (xs[Suc j := xs ! j]) R4 m2" and p3: "in_pass T n G i j (xs[j := xs ! Suc j, Suc j := xs ! j]) R5 m3"
    by (rule in_pass_cong [OF q(2)] in_pass_cong [OF q(3)]; simp add: Rs)+
  have A6: "R5 REG_A6 = of_nat G + 12" "R1 REG_A6 = of_nat G + 12" using f by (simp_all add: Rs framed_sort_def)
  have full: "full m1" "full m2" "bubble_loaded m1" "bubble_loaded m2" using f1 f2 by (simp_all add: framed_sort_def)
  note [simp] = bubble_fetched [OF m(2)] bubble_fetched [OF full(3)] bubble_fetched [OF full(4)] bubble_ops bubble_sext16
  have "leads halt (0x10038, R, m) (0x10048, R1, m)"
    using address_next [OF s j, of "0x10038"] by (simp add: R1_def)
  also have "leads halt \<dots> (0x1004C, R1, m1)"
    by (rule leads_copy_out [where q = REG_A0 and r = REG_A6 and k = "T + 4 * Suc j" and j = G])
      (use cell m x A6 in \<open>simp add: R1_def m1_def; fail\<close>)+
  also have "leads halt \<dots> (0x1005A, R2, m1)"
    using address_j [OF p1(1) jl, of "0x1004C" "0x226E" "0xD3C0" REG_A1] by (simp add: R2_def)
  also have "leads halt \<dots> (0x1006A, R3, m1)"
    using address_next [OF p1(2) j, of "0x1005A"] by (simp add: R3_def)
  also have "leads halt \<dots> (0x1006C, R4, m1)"
    by (rule leads_load_ind [where q = REG_A1 and r = REG_D0 and k = "T + 4 * j"])
      (use cell full jm1 in \<open>simp add: R4_def R3_def R2_def; fail\<close>)+
  also have "leads halt \<dots> (0x1006E, R4, m2)"
    by (rule leads_store_ind [where q = REG_D0 and r = REG_A0 and k = "T + 4 * Suc j"])
      (use cell full in \<open>simp add: R4_def R3_def m2_def; fail\<close>)+
  also have "leads halt \<dots> (0x1007C, R5, m2)"
    using address_j [OF p2 jl, of "0x1006E" "0x206E" "0xD1C0" REG_A0] by (simp add: R5_def)
  also have "leads halt \<dots> (0x10080, R5, m3)"
    by (rule leads_copy_in [where q = REG_A6 and r = REG_A0 and k = "T + 4 * j" and j = G])
      (use cell full A6 f2(2) jm1 in \<open>simp add: R5_def m3_def; fail\<close>)+
  finally have "leads halt (0x10038, R, m) (0x10080, R5, m3)" .
  moreover have "\<forall>r. r \<notin> clobbered \<longrightarrow> R5 r = R r" by (simp add: Rs)
  moreover have "altered region m m3"
    unfolding m3_def m2_def m1_def using cell m j
    by (intro altered.intros) auto
  ultimately show ?thesis using p3 by blast
qed

text \<open>The body of the inner loop.\<close>

lemma inner_body:
  assumes j: "Suc j < n" and small: "\<forall>x \<in> set xs. small x"
  shows "triple halt clobbered region 0x10012 (in_pass T n G i j xs) 0x10080 (in_pass T n G i j (order_at sint j xs))"
  unfolding triple_def
proof (intro allI impI)
  fix R m assume s: "in_pass T n G i j xs R m"
  obtain R1 where 1: "leads halt (0x10012, R, m) (if sint (xs ! Suc j) < sint (xs ! j) then 0x10038 else 0x10080, R1, m)"
    and R1: "\<forall>r. r \<notin> clobbered \<longrightarrow> R1 r = R r"
    using compare_neighbours [OF s j small] by blast
  have s1: "in_pass T n G i j xs R1 m" using s R1 by (rule in_pass_cong)
  show "\<exists>R' m'. leads halt (0x10012, R, m) (0x10080, R', m') \<and> in_pass T n G i j (order_at sint j xs) R' m' \<and>
    (\<forall>r. r \<notin> clobbered \<longrightarrow> R' r = R r) \<and> altered region m m'"
  proof (cases "sint (xs ! Suc j) < sint (xs ! j)")
    case True
    then have "leads halt (0x10012, R, m) (0x10038, R1, m)" using 1 by simp
    with exchange [OF s1 j] R1 True show ?thesis by (auto simp: order_at_def dest: leads_trans)
  next
    case False
    then have "leads halt (0x10012, R, m) (0x10080, R1, m)" using 1 by simp
    with s1 R1 False show ?thesis
      by (intro exI [where x = R1] exI [where x = m] conjI) (simp_all add: order_at_def altered.same)
  qed
qed

lemma inner_step: "triple halt clobbered region 0x10080 (in_pass T n G i j xs) 0x10084 (in_pass T n G i (Suc j) xs)"
proof (rule tripleI [where f = "\<lambda>R m. R" and g = "\<lambda>R m. lwrite m (G + 4) (of_nat (Suc j))"])
  fix R m assume s: "in_pass T n G i j xs R m"
  then have m: "full m" "bubble_loaded m" "R REG_A6 = of_nat G + 12" "lread m (G + 4) = of_nat j"
    by (simp_all add: in_pass_def framed_sort_def)
  note [simp] = bubble_fetched [OF m(2)] bubble_ops bubble_sext16
  show "leads halt (0x10080, R, m) (0x10084, R, lwrite m (G + 4) (of_nat (Suc j)))"
    by (rule leads_addq_mem [where r = REG_A6 and k = "G + 4" and v = 1]) (use m cells in \<open>simp add: add.commute [of 1]; fail\<close>)+
  show "in_pass T n G i (Suc j) xs R (lwrite m (G + 4) (of_nat (Suc j)))"
    using framed_var [of i xs R m 4] s cells m by (simp add: in_pass_def lread_lwrite_same)
  show "altered region m (lwrite m (G + 4) (of_nat (Suc j)))"
    using altered_var [of m 4] m by simp
qed simp

lemma word_count: "k < 2 ^ 30 \<Longrightarrow> sint (of_nat k :: 32 word) = int k \<and> small (of_nat k)"
proof -
  assume k: "k < 2 ^ 30"
  then have "sint (of_nat k :: 32 word) = int k"
    by (simp add: signed_of_nat signed_take_bit_int_eq_self)
  with k show ?thesis by (simp add: small_def)
qed

lemma inner_test:
  assumes "i < n" and "j \<le> n"
  shows "triple halt clobbered region 0x10084 (in_pass T n G i j xs) (if j < n - 1 - i then 0x10012 else 0x10096) (in_pass T n G i j xs)"
proof (rule tripleI [where f = "\<lambda>R m. R(REG_D0 := of_nat (n - 1 - i))" and g = "\<lambda>R m. m"])
  fix R m assume s: "in_pass T n G i j xs R m"
  then have m: "full m" "bubble_loaded m" "R REG_A6 = of_nat G + 12" "lread m (G + 4) = of_nat j"
    "lread m (G + 8) = of_nat i" "lread m (G + 24) = of_nat n"
    by (simp_all add: in_pass_def framed_sort_def)
  have n: "n \<le> 2 ^ 22" using room by simp
  have c: "sint (of_nat j :: 32 word) = int j" "small (of_nat j)"
    "sint (of_nat (n - 1 - i) :: 32 word) = int (n - 1 - i)" "small (of_nat (n - 1 - i))"
    using word_count [of j] word_count [of "n - 1 - i"] n assms by simp_all
  have sub: "of_nat n - 1 - of_nat i = (of_nat (n - 1 - i) :: 32 word)" using assms by (simp add: of_nat_diff)
  note [simp] = bubble_fetched [OF m(2)] bubble_ops bubble_sext16
  have "leads halt (0x10084, R, m) (0x10088, R(REG_D0 := of_nat n), m)"
    by (rule leads_load [where k = "G + 24" and q = REG_A6 and r = REG_D0]) (use m cells in \<open>simp add: add.assoc; fail\<close>)+
  also have "leads halt \<dots> (0x1008A, R(REG_D0 := of_nat n - 1), m)"
    by (rule leads_subq [where r = REG_D0 and v = 1]) (use m cells in \<open>simp; fail\<close>)+
  also have "leads halt \<dots> (0x1008E, R(REG_D0 := of_nat (n - 1 - i)), m)"
    unfolding sub [symmetric]
    by (rule leads_sub [where k = "G + 8" and q = REG_A6 and r = REG_D0]) (use m cells in \<open>simp add: add.assoc; fail\<close>)+
  also have "leads halt \<dots> (if j < n - 1 - i then 0x10012 else 0x10096, R(REG_D0 := of_nat (n - 1 - i)), m)"
    by (rule leads_cmp_bgt [where k = "G + 4" and q = REG_A6 and r = REG_D0])
      (use m c cells in \<open>simp add: add.assoc del: of_nat_diff; fail\<close>)+
  finally show "leads halt (0x10084, R, m) (if j < n - 1 - i then 0x10012 else 0x10096, R(REG_D0 := of_nat (n - 1 - i)), m)" .
  show "in_pass T n G i j xs (R(REG_D0 := of_nat (n - 1 - i))) m" using s by (rule in_pass_cong) simp
  show "altered region m m" by (rule altered.same)
qed simp

lemma inner_loop:
  assumes "i < n" and "length xs = n" and "\<forall>x \<in> set xs. small x"
  shows "triple halt clobbered region 0x10084 (in_pass T n G i 0 xs) 0x10096 (in_pass T n G i (n - 1 - i) (bubble_pass sint (n - 1 - i) xs))"
proof -
  let ?I = "\<lambda>k. in_pass T n G i k (bubble_pass sint k xs)"
  have "triple halt clobbered region 0x10084 (?I 0) 0x10096 (?I (n - 1 - i))"
  proof (rule triple_loop)
    fix k assume k: "k < n - 1 - i"
    have "mset (bubble_pass sint k xs) = mset xs" using k assms(2) by (intro mset_bubble_pass) linarith
    then have small: "\<forall>x \<in> set (bubble_pass sint k xs). small x" using assms(3) mset_eq_setD by metis
    have "triple halt clobbered region 0x10084 (?I k) 0x10012 (?I k)"
      using inner_test [of i k] assms(1) k by simp
    also have "triple halt clobbered region 0x10012 (?I k) 0x10080 (in_pass T n G i k (bubble_pass sint (Suc k) xs))"
      using inner_body [OF _ small, of k] k by simp
    also note inner_step
    finally show "triple halt clobbered region 0x10084 (?I k) 0x10084 (?I (Suc k))" .
  next
    show "triple halt clobbered region 0x10084 (?I (n - 1 - i)) 0x10096 (?I (n - 1 - i))"
      using inner_test [of i "n - 1 - i"] assms(1) by simp
  qed simp
  then show ?thesis by simp
qed

text \<open>The outer loop.\<close>

lemma outer_enter: "triple halt clobbered region 0x1000C (framed_sort T n G i xs) 0x10084 (in_pass T n G i 0 xs)"
proof (rule tripleI [where f = "\<lambda>R m. R" and g = "\<lambda>R m. lwrite m (G + 4) 0"])
  fix R m assume s: "framed_sort T n G i xs R m"
  then have m: "full m" "bubble_loaded m" "R REG_A6 = of_nat G + 12" by (simp_all add: framed_sort_def)
  have s': "framed_sort T n G i xs R (lwrite m (G + 4) 0)" using framed_var [OF s, of 4] by simp
  then have l: "bubble_loaded (lwrite m (G + 4) 0)" by (simp add: framed_sort_def)
  note [simp] = bubble_fetched [OF m(2)] bubble_fetched [OF l] bubble_ops bubble_sext16
  have "leads halt (0x1000C, R, m) (0x10010, R, lwrite m (G + 4) 0)"
    by (rule leads_clr [where r = REG_A6 and k = "G + 4"]) (use m cells in \<open>simp; fail\<close>)+
  also have "leads halt \<dots> (0x10084, R, lwrite m (G + 4) 0)"
    by (rule leads_bra [where d = "0x72"]) (simp; fail)+
  finally show "leads halt (0x1000C, R, m) (0x10084, R, lwrite m (G + 4) 0)" .
  show "in_pass T n G i 0 xs R (lwrite m (G + 4) 0)"
    using s' cells m by (simp add: in_pass_def lread_lwrite_same)
  show "altered region m (lwrite m (G + 4) 0)" using altered_var [of m 4] m by simp
qed simp

lemma outer_step: "triple halt clobbered region 0x10096 (in_pass T n G i j xs) 0x1009A (framed_sort T n G (Suc i) xs)"
proof (rule tripleI [where f = "\<lambda>R m. R" and g = "\<lambda>R m. lwrite m (G + 8) (of_nat (Suc i))"])
  fix R m assume s: "in_pass T n G i j xs R m"
  then have m: "full m" "bubble_loaded m" "R REG_A6 = of_nat G + 12" "lread m (G + 8) = of_nat i"
    by (simp_all add: in_pass_def framed_sort_def)
  note [simp] = bubble_fetched [OF m(2)] bubble_ops bubble_sext16
  show "leads halt (0x10096, R, m) (0x1009A, R, lwrite m (G + 8) (of_nat (Suc i)))"
    by (rule leads_addq_mem [where r = REG_A6 and k = "G + 8" and v = 1]) (use m cells in \<open>simp add: add.commute [of 1]; fail\<close>)+
  show "framed_sort T n G (Suc i) xs R (lwrite m (G + 8) (of_nat (Suc i)))"
    using framed_i s unfolding in_pass_def by blast
  show "altered region m (lwrite m (G + 8) (of_nat (Suc i)))" using altered_var [of m 8] m by simp
qed simp

lemma outer_test:
  assumes "i \<le> n"
  shows "triple halt clobbered region 0x1009A (framed_sort T n G i xs) (if i < n - 1 then 0x1000C else 0x100A8) (framed_sort T n G i xs)"
proof (rule tripleI [where f = "\<lambda>R m. R(REG_D0 := of_nat n - 1)" and g = "\<lambda>R m. m"])
  fix R m assume s: "framed_sort T n G i xs R m"
  then have m: "full m" "bubble_loaded m" "R REG_A6 = of_nat G + 12" "lread m (G + 8) = of_nat i" "lread m (G + 24) = of_nat n"
    by (simp_all add: framed_sort_def)
  have n: "n \<le> 2 ^ 22" using room by simp
  have "sint (of_nat n - 1 :: 32 word) = int n - 1 \<and> small (of_nat n - 1)"
  proof (cases n)
    case (Suc k)
    then show ?thesis using word_count [of k] n by simp
  qed (simp add: small_def)
  with word_count [of i] n assms
  have c: "sint (of_nat i :: 32 word) = int i" "small (of_nat i)" "sint (of_nat n - 1 :: 32 word) = int n - 1" "small (of_nat n - 1)"
    and lt: "int i < int n - 1 \<longleftrightarrow> i < n - 1" by auto
  note [simp] = bubble_fetched [OF m(2)] bubble_ops bubble_sext16
  have "leads halt (0x1009A, R, m) (0x1009E, R(REG_D0 := of_nat n), m)"
    by (rule leads_load [where k = "G + 24" and q = REG_A6 and r = REG_D0]) (use m cells in \<open>simp add: add.assoc; fail\<close>)+
  also have "leads halt \<dots> (0x100A0, R(REG_D0 := of_nat n - 1), m)"
    by (rule leads_subq [where r = REG_D0 and v = 1]) (use m cells in \<open>simp; fail\<close>)+
  also have "leads halt \<dots> (if i < n - 1 then 0x1000C else 0x100A8, R(REG_D0 := of_nat n - 1), m)"
    by (rule leads_cmp_bgt [where k = "G + 8" and q = REG_A6 and r = REG_D0])
      (use m c cells in \<open>simp add: add.assoc lt; fail\<close>)+
  finally show "leads halt (0x1009A, R, m) (if i < n - 1 then 0x1000C else 0x100A8, R(REG_D0 := of_nat n - 1), m)" .
  show "framed_sort T n G i xs (R(REG_D0 := of_nat n - 1)) m" using s by (simp add: framed_sort_def)
  show "altered region m m" by (rule altered.same)
qed simp

lemma outer_loop:
  assumes "length xs = n" and "\<forall>x \<in> set xs. small x"
  shows "triple halt clobbered region 0x1009A (framed_sort T n G 0 xs) 0x100A8 (framed_sort T n G (n - 1) (bubblesort sint xs))"
proof -
  let ?J = "\<lambda>k. framed_sort T n G k (passes sint k xs)"
  have "triple halt clobbered region 0x1009A (?J 0) 0x100A8 (?J (n - 1))"
  proof (rule triple_loop)
    fix i assume i: "i < n - 1"
    have small: "\<forall>x \<in> set (passes sint i xs). small x" using assms(2) mset_eq_setD [OF mset_passes] by metis
    have "triple halt clobbered region 0x1009A (?J i) 0x1000C (?J i)"
      using outer_test [of i] i by simp
    also note outer_enter
    also have "triple halt clobbered region 0x10084 (in_pass T n G i 0 (passes sint i xs)) 0x10096
        (in_pass T n G i (n - 1 - i) (passes sint (Suc i) xs))"
      using inner_loop [OF _ _ small, of i] assms(1) i by simp
    also note outer_step
    finally show "triple halt clobbered region 0x1009A (?J i) 0x1009A (?J (Suc i))" .
  next
    show "triple halt clobbered region 0x1009A (?J (n - 1)) 0x100A8 (?J (n - 1))"
      using outer_test [of "n - 1"] by simp
  qed simp
  then show ?thesis by (simp add: bubblesort_def assms(1))
qed

lemma sort_entry:
  assumes "sort_called T n G xs R m"
  defines "m2 \<equiv> lwrite (lwrite m (G + 12) (R REG_A6)) (G + 8) 0" and "R1 \<equiv> R(REG_A6 := of_nat G + 12, REG_A7 := of_nat G)"
  shows "leads halt (0x10000, R, m) (0x1009A, R1, m2)" and "framed_sort T n G 0 xs R1 m2"
    and "lread m2 (G + 12) = R REG_A6" and "lread m2 (G + 16) = lread m (G + 16)" and "changed G (G + 16) m m2"
proof -
  define m1 where "m1 = lwrite m (G + 12) (R REG_A6)"
  have m2_m1: "m2 = lwrite m1 (G + 8) 0" by (simp add: m1_def m2_def)
  have m: "full m" "bubble_loaded m" "full m1" using assms(1) cells by (simp_all add: sort_called_def m1_def)
  show c: "changed G (G + 16) m m2" using m cells unfolding m2_def by (intro changed_intros) auto
  have c1: "changed G (G + 16) m m1" using m cells unfolding m1_def by (intro changed_intros) auto
  have l: "bubble_loaded m1" "bubble_loaded m2" "full m2"
    using bubble_loaded_altered [OF c1] bubble_loaded_altered [OF c] altered_full [OF c] m frame_code by auto
  note [simp] = bubble_fetched [OF m(2)] bubble_fetched [OF l(1)] bubble_fetched [OF l(2)] bubble_ops bubble_sext16
  have "leads halt (0x10000, R, m) (0x10004, R1, m1)"
    by (rule leads_link [where S = "G + 12" and r = REG_A6]) (use assms(1) m cells in \<open>simp add: m1_def R1_def sort_called_def add.assoc; fail\<close>)+
  also have "leads halt \<dots> (0x10008, R1, m2)"
    by (rule leads_clr [where k = "G + 8" and r = REG_A6]) (use m cells in \<open>simp add: m2_m1 R1_def; fail\<close>)+
  also have "leads halt \<dots> (0x1009A, R1, m2)"
    by (rule leads_bra_w) (simp; fail)+
  finally show "leads halt (0x10000, R, m) (0x1009A, R1, m2)" .
  show "lread m2 (G + 12) = R REG_A6" "lread m2 (G + 16) = lread m (G + 16)"
    using m cells by (simp_all add: m2_def m1_def [symmetric] lread_lwrite_other) (simp_all add: m1_def lread_lwrite_same lread_lwrite_other)
  have "lread m2 (T + 4 * k) = lread m (T + 4 * k)" if "k < n" for k
    using changed_lread [OF c m(1) cells(1) [OF that]] element_frame [OF that] by auto
  moreover have "lread m2 (G + 20) = lread m (G + 20)" "lread m2 (G + 24) = lread m (G + 24)"
    using changed_lread [OF c m(1)] cells by auto
  moreover have "lread m2 (G + 8) = 0" using m cells by (simp add: m2_def m1_def [symmetric] lread_lwrite_same)
  ultimately show "framed_sort T n G 0 xs R1 m2"
    using assms(1) l by (simp add: framed_sort_def sort_called_def R1_def)
qed

lemma sort_exit:
  assumes "framed_sort T n G i xs R m"
  shows "leads halt (0x100A8, R, m) (lread m (G + 16), R(REG_A6 := lread m (G + 12), REG_A7 := of_nat G + 20), m)"
proof -
  have m: "full m" "bubble_loaded m" "R REG_A6 = of_nat G + 12" using assms(1) by (simp_all add: framed_sort_def)
  note [simp] = bubble_fetched [OF m(2)] bubble_ops
  have "leads halt (0x100A8, R, m) (0x100AA, R, m)"
    by (rule leads_nop) (simp; fail)+
  also have "leads halt \<dots> (0x100AC, R, m)"
    by (rule leads_nop) (simp; fail)+
  also have "leads halt \<dots> (0x100AE, R(REG_A7 := of_nat G + 16, REG_A6 := lread m (G + 12)), m)"
    by (rule leads_unlk [where S = "G + 12" and r = REG_A6]) (use m cells in \<open>simp add: add.assoc; fail\<close>)+
  also have "leads halt \<dots> (lread m (G + 16), R(REG_A6 := lread m (G + 12), REG_A7 := of_nat G + 20), m)"
    by (rule leads_rts [where S = "G + 16"]) (use m cells in \<open>simp add: add.assoc fun_upd_twist; fail\<close>)+
  finally show ?thesis .
qed

lemma sort_returns:
  assumes "sort_called T n G xs R m" and "\<forall>x \<in> set xs. small x"
  shows "\<exists>R' m'. leads halt (0x10000, R, m) (lread m (G + 16), R', m') \<and> R' REG_A7 = of_nat G + 20 \<and>
    (\<forall>r. r \<notin> clobbered \<union> {REG_A7} \<longrightarrow> R' r = R r) \<and> bubble_loaded m' \<and> full m' \<and>
    (\<forall>k<n. lread m' (T + 4 * k) = bubblesort sint xs ! k) \<and> altered ({T..<T + 4 * n} \<union> {G..<G + 16}) m m'"
proof -
  let ?m2 = "lwrite (lwrite m (G + 12) (R REG_A6)) (G + 8) 0" let ?R1 = "R(REG_A6 := of_nat G + 12, REG_A7 := of_nat G)"
  note e = sort_entry [OF assms(1)]
  have "length xs = n" using assms(1) by (simp add: sort_called_def)
  from tripleE [OF outer_loop [OF this assms(2)] e(2)] obtain R3 m3
    where l: "leads halt (0x1009A, ?R1, ?m2) (0x100A8, R3, m3)" and f: "framed_sort T n G (n - 1) (bubblesort sint xs) R3 m3"
      and R3: "\<And>r. r \<notin> clobbered \<Longrightarrow> R3 r = ?R1 r" and c: "altered region ?m2 m3" by blast
  have "full ?m2" using e(2) by (simp add: framed_sort_def)
  moreover have "{G + 12..<G + 12 + 4} \<inter> region = {}" "{G + 16..<G + 16 + 4} \<inter> region = {}" using table_frame by auto
  ultimately have "lread m3 (G + 12) = R REG_A6" "lread m3 (G + 16) = lread m (G + 16)"
    using altered_lread [OF c _ cells(5)] altered_lread [OF c _ cells(6)] e(3,4) by simp_all
  with leads_trans [OF leads_trans [OF e(1) l] sort_exit [OF f]]
  have "leads halt (0x10000, R, m) (lread m (G + 16), R3(REG_A6 := R REG_A6, REG_A7 := of_nat G + 20), m3)" by simp
  moreover have "altered ({T..<T + 4 * n} \<union> {G..<G + 16}) m m3"
    by (rule altered_trans [OF altered_mono [OF c] altered_mono [OF e(5)]]) auto
  ultimately show ?thesis
    using f R3 by (intro exI [where x = "R3(REG_A6 := R REG_A6, REG_A7 := of_nat G + 20)"] exI [where x = m3] conjI)
      (auto simp: framed_sort_def)
qed

end

text \<open>The call in \<open>main\<close>.\<close>

interpretation bubble_main: bubble_routine "0x100C4" "0x3000" 30 "0xFFFFE0"
  by unfold_locales simp_all

end
