(* ===== verification/Bubblesort_Test.thy ===== *)
theory Bubblesort_Test
  imports Bubblesort Test_Programs
begin

text \<open>
  The test program \<open>src/test/test_bubblesort.cpp\<close>: it loads \<open>src/test/binary/bubblesort.elf\<close>, steps
  the machine to the end of \<open>main\<close>, and checks that the thirty numbers in memory ascend.
\<close>

section \<open>The file\<close>

definition bubble_text :: "8 word list" where
  "bubble_text =
    [0x4E, 0x56, 0xFF, 0xF4, 0x42, 0xAE, 0xFF, 0xFC, 0x60, 0x00, 0x00, 0x90,
     0x42, 0xAE, 0xFF, 0xF8, 0x60, 0x72, 0x20, 0x2E, 0xFF, 0xF8, 0xD0, 0x80,
     0xD0, 0x80, 0x20, 0x6E, 0x00, 0x08, 0xD1, 0xC0, 0x22, 0x10, 0x20, 0x2E,
     0xFF, 0xF8, 0x52, 0x80, 0xD0, 0x80, 0xD0, 0x80, 0x20, 0x6E, 0x00, 0x08,
     0xD1, 0xC0, 0x20, 0x10, 0xB0, 0x81, 0x6C, 0x48, 0x20, 0x2E, 0xFF, 0xF8,
     0x52, 0x80, 0xD0, 0x80, 0xD0, 0x80, 0x20, 0x6E, 0x00, 0x08, 0xD1, 0xC0,
     0x2D, 0x50, 0xFF, 0xF4, 0x20, 0x2E, 0xFF, 0xF8, 0xD0, 0x80, 0xD0, 0x80,
     0x22, 0x6E, 0x00, 0x08, 0xD3, 0xC0, 0x20, 0x2E, 0xFF, 0xF8, 0x52, 0x80,
     0xD0, 0x80, 0xD0, 0x80, 0x20, 0x6E, 0x00, 0x08, 0xD1, 0xC0, 0x20, 0x11,
     0x20, 0x80, 0x20, 0x2E, 0xFF, 0xF8, 0xD0, 0x80, 0xD0, 0x80, 0x20, 0x6E,
     0x00, 0x08, 0xD1, 0xC0, 0x20, 0xAE, 0xFF, 0xF4, 0x52, 0xAE, 0xFF, 0xF8,
     0x20, 0x2E, 0x00, 0x0C, 0x53, 0x80, 0x90, 0xAE, 0xFF, 0xFC, 0xB0, 0xAE,
     0xFF, 0xF8, 0x6E, 0x00, 0xFF, 0x7E, 0x52, 0xAE, 0xFF, 0xFC, 0x20, 0x2E,
     0x00, 0x0C, 0x53, 0x80, 0xB0, 0xAE, 0xFF, 0xFC, 0x6E, 0x00, 0xFF, 0x66,
     0x4E, 0x71, 0x4E, 0x71, 0x4E, 0x5E, 0x4E, 0x75, 0x4E, 0x56, 0x00, 0x00,
     0x48, 0x78, 0x00, 0x1E, 0x48, 0x79, 0x00, 0x00, 0x30, 0x00, 0x4E, 0xBA,
     0xFF, 0x40, 0x50, 0x8F, 0x60, 0xFE]"

definition bubble_bytes :: "8 word list" where
  "bubble_bytes =
    [0x00, 0x00, 0x18, 0xA8, 0x00, 0x00, 0x07, 0x46, 0x00, 0x00, 0x0B, 0xCC,
     0x00, 0x00, 0x07, 0xAD, 0x00, 0x00, 0x08, 0x93, 0x00, 0x00, 0x0C, 0x28,
     0x00, 0x00, 0x08, 0x03, 0x00, 0x00, 0x1C, 0x76, 0x00, 0x00, 0x06, 0xF2,
     0x00, 0x00, 0x26, 0x93, 0x00, 0x00, 0x14, 0x01, 0x00, 0x00, 0x0E, 0xCF,
     0x00, 0x00, 0x21, 0x8E, 0x00, 0x00, 0x18, 0x3D, 0x00, 0x00, 0x10, 0x30,
     0x00, 0x00, 0x1A, 0xCA, 0x00, 0x00, 0x0D, 0x0A, 0x00, 0x00, 0x1D, 0x84,
     0x00, 0x00, 0x13, 0x36, 0x00, 0x00, 0x0F, 0x39, 0x00, 0x00, 0x1A, 0xFF,
     0x00, 0x00, 0x04, 0x11, 0x00, 0x00, 0x05, 0x16, 0x00, 0x00, 0x11, 0x8C,
     0x00, 0x00, 0x1B, 0xA1, 0x00, 0x00, 0x19, 0x3B, 0x00, 0x00, 0x19, 0x1D,
     0x00, 0x00, 0x20, 0xCF, 0x00, 0x00, 0x20, 0x52, 0x00, 0x00, 0x0B, 0xC5]"

definition bubble_numbers :: "32 word list" where
  "bubble_numbers =
    [6312, 1862, 3020, 1965, 2195, 3112, 2051, 7286, 1778, 9875, 5121, 3791, 8590, 6205, 4144,
     6858, 3338, 7556, 4918, 3897, 6911, 1041, 1302, 4492, 7073, 6459, 6429, 8399, 8274, 3013]"

definition bubble_sections :: "(nat \<Rightarrow> 8 word) option \<Rightarrow> ElfSection list" where
  "bubble_sections other =
    [unread '''' 0 0 0 0 0 0 0 0 other,
     contents ''.text'' 6 0x10000 0x2000 4 bubble_text,
     contents ''.data'' 3 0x3000 0x1000 4 bubble_bytes,
     unread ''.comment'' 1 48 0 0x20C6 46 0 0 1 other,
     unread ''.symtab'' 2 0 0 0x20F4 192 5 5 4 other,
     unread ''.strtab'' 3 0 0 0x21B4 54 0 0 1 other,
     unread ''.shstrtab'' 3 0 0 0x21EA 48 0 0 1 other]"

definition bubble_elf :: "(nat \<Rightarrow> 8 word) option \<Rightarrow> ElfFile" where
  "bubble_elf other = program_file 0x100B0 (bubble_sections other)"

text \<open>What \<open>load_elf\<close> prints of them: name, address, size, offset, alignment, link, flags, info, type.\<close>

definition bubble_listing :: string where
  "bubble_listing = concat (map row
    [[''                '', ''0'', ''0'', ''0'', ''0'', ''0'', ''0'', ''0'', ''0''],
     [''.text           '', ''65536'', ''198'', ''8192'', ''4'', ''0'', ''6'', ''0'', ''1''],
     [''.data           '', ''12288'', ''120'', ''4096'', ''4'', ''0'', ''3'', ''0'', ''1''],
     [''.comment        '', ''0'', ''46'', ''8390'', ''1'', ''0'', ''48'', ''0'', ''1''],
     [''.symtab         '', ''0'', ''192'', ''8436'', ''4'', ''5'', ''0'', ''5'', ''2''],
     [''.strtab         '', ''0'', ''54'', ''8628'', ''1'', ''0'', ''0'', ''0'', ''3''],
     [''.shstrtab       '', ''0'', ''48'', ''8682'', ''1'', ''0'', ''0'', ''0'', ''3'']])"

lemma bubble_listed: "listing (bubble_sections other) = bubble_listing"
  by (simp add: bubble_sections_def bubble_listing_def listing_def section_line_def unread_def contents_def
      bubble_text_def bubble_bytes_def decimal.simps digit_def pad_numeral)

lemma bubble_lengths: "length bubble_text = 198" "length bubble_bytes = 120" "length bubble_numbers = 30"
  by (simp_all add: bubble_text_def bubble_bytes_def bubble_numbers_def)

lemma bubble_text_code:
  "list_all (\<lambda>(b, sz, w). read_real_mem (\<lambda>k. bubble_text ! (k - 0x10000)) b sz = Inr w \<and> proper_size sz \<and>
     even b \<and> 0x10000 \<le> b \<and> b + size_val sz \<le> 0x100C6) bubble_code"
  by (simp add: bubble_code_def bubble_text_def)

lemma bubble_text_loaded:
  assumes "full m" and "\<And>k. 0x10000 \<le> k \<Longrightarrow> k < 0x100C6 \<Longrightarrow> baseAddr m k = bubble_text ! (k - 0x10000)"
  shows "bubble_loaded m"
  unfolding bubble_loaded_def
  by (rule text_has_code [where bs = bubble_text and a = "0x10000", OF assms(1)])
    (simp_all add: bubble_lengths assms(2) bubble_text_code)

lemma bubble_bytes_numbers:
  "list_all (\<lambda>k. read_real_mem (\<lambda>i. bubble_bytes ! (i - 0x3000)) (0x3000 + 4 * k) SIZE_LONG = Inr (bubble_numbers ! k)) [0..<30]"
  by (simp add: bubble_bytes_def bubble_numbers_def upt_rec)

lemma bubble_bytes_loaded:
  assumes "full m" and "\<And>i. 0x3000 \<le> i \<Longrightarrow> i < 0x3078 \<Longrightarrow> baseAddr m i = bubble_bytes ! (i - 0x3000)" and "k < 30"
  shows "lread m (0x3000 + 4 * k) = bubble_numbers ! k"
proof -
  have "read_real_mem (baseAddr m) (0x3000 + 4 * k) SIZE_LONG = read_real_mem (\<lambda>i. bubble_bytes ! (i - 0x3000)) (0x3000 + 4 * k) SIZE_LONG"
    using assms(3) by (intro read_real_mem_cong assms(2)) auto
  also have "\<dots> = Inr (bubble_numbers ! k)" using bubble_bytes_numbers assms(3) by (simp add: list_all_iff)
  finally have "BaseMemory_get m (ucast (of_nat (0x3000 + 4 * k) :: 32 word)) SIZE_LONG = Inr (bubble_numbers ! k)"
    using full_size [OF assms(1)] assms(3) by (simp add: BaseMemory_get_eq phys_of_nat del: of_nat_add of_nat_mult)
  then show ?thesis by (simp add: lread_def)
qed

section \<open>Loading\<close>

lemma load_bubble_elf:
  assumes "full (memory (state c))"
  obtains d where "load_elf elf_std (\<lambda>_. Some (bubble_elf other)) name (c, out) = (Inr True, d, out @ bubble_listing)"
    and "full (memory (state d))" and "bubble_loaded (memory (state d))"
    and "\<forall>k<30. lread (memory (state d)) (0x3000 + 4 * k) = bubble_numbers ! k"
    and "pc_of (state d) = 0x100B0" and "gregs (state d) REG_A7 = 0x1000000" and "instruction_decoder d = instruction_decoder c"
proof -
  let ?s1 = "overlay 0x10000 bubble_text (state c)" let ?s = "overlay 0x3000 bubble_bytes ?s1"
  have full: "full (memory ?s1)" "full (memory ?s)" using assms by simp_all
  have loaded: "bubble_loaded (memory ?s)"
    by (rule bubble_text_loaded [OF full(2)]) (simp add: bubble_lengths)
  have numbers: "lread (memory ?s) (0x3000 + 4 * k) = bubble_numbers ! k" if "k < 30" for k
    by (rule bubble_bytes_loaded [OF full(2) _ that]) (simp add: bubble_lengths)
  have "load_section elf_std (contents ''.text'' 6 0x10000 0x2000 4 bubble_text) (state c) = (Inr (), ?s1)"
    by (rule load_contents [OF assms]) (simp_all add: bubble_lengths)
  moreover have "load_section elf_std (contents ''.data'' 3 0x3000 0x1000 4 bubble_bytes) ?s1 = (Inr (), ?s)"
    by (rule load_contents [OF full(1)]) (simp_all add: bubble_lengths)
  ultimately have "seqE (map (load_section elf_std) (bubble_sections other)) (state c) = (Inr (), ?s)"
    by (simp add: bubble_sections_def load_unread)
  from load_program [OF assms full(2) bubble_elf_def this, of name out]
  obtain d where "load_elf elf_std (\<lambda>_. Some (bubble_elf other)) name (c, out) = (Inr True, d, out @ bubble_listing)"
    "memory (state d) = memory ?s" "pc_of (state d) = 0x100B0" "gregs (state d) REG_A7 = 0x1000000"
    "instruction_decoder d = instruction_decoder c" by (auto simp: bubble_listed)
  with loaded full(2) numbers show ?thesis by (intro that [of d]) simp_all
qed

section \<open>The run of main\<close>

lemma numbers_small: "\<forall>x \<in> set bubble_numbers. small x"
  by (simp add: bubble_numbers_def small_def)

lemma main_sorts:
  assumes "bubble_loaded m" and "full m" and "R REG_A7 = 0x1000000" and "\<forall>k<30. lread m (0x3000 + 4 * k) = bubble_numbers ! k"
  obtains R' m' where "leads 0x100C4 (0x100B0, R, m) (0x100C4, R', m')" and "full m'"
    and "\<forall>k<30. lread m' (0x3000 + 4 * k) = bubblesort sint bubble_numbers ! k"
proof -
  define m1 where "m1 = lwrite m 0xFFFFFC (R REG_A6)"
  define m2 where "m2 = lwrite m1 0xFFFFF8 30"
  define m3 where "m3 = lwrite m2 0xFFFFF4 0x3000"
  define m4 where "m4 = lwrite m3 0xFFFFF0 0x100C2"
  note ms = m1_def m2_def m3_def m4_def
  define R1 where "R1 = R(REG_A6 := 0xFFFFFC, REG_A7 := 0xFFFFFC)"
  define R4 where "R4 = R1(REG_A7 := 0xFFFFF0)"
  have c1: "changed 0xFFFFF0 0x1000000 m m1" unfolding ms by (intro changed_intros) auto
  then have c2: "changed 0xFFFFF0 0x1000000 m m2" unfolding m2_def by (intro changed_intros) auto
  then have c3: "changed 0xFFFFF0 0x1000000 m m3" unfolding m3_def by (intro changed_intros) auto
  then have c4: "changed 0xFFFFF0 0x1000000 m m4" unfolding m4_def by (intro changed_intros) auto
  note keep = bubble_loaded_altered [OF _ assms(1,2)]
  have l: "bubble_loaded m1" "bubble_loaded m2" "bubble_loaded m3" "bubble_loaded m4"
    using keep [OF c1] keep [OF c2] keep [OF c3] keep [OF c4] by simp_all
  have f: "full m1" "full m2" "full m3" "full m4"
    using altered_full [OF c1] altered_full [OF c2] altered_full [OF c3] altered_full [OF c4] assms(2) by simp_all
  note [simp] = bubble_ops bubble_sext16 bubble_fetched [OF assms(1)] bubble_fetched [OF l(1)] bubble_fetched [OF l(2)]
    bubble_fetched [OF l(3)] f assms(2,3)
  have "leads 0x100C4 (0x100B0, R, m) (0x100B4, R1, m1)"
    by (rule leads_link [where S = "0xFFFFFC" and r = REG_A6]) (simp add: m1_def R1_def; fail)+
  also have "leads 0x100C4 \<dots> (0x100B8, R1(REG_A7 := 0xFFFFF8), m2)"
    by (rule leads_pea [where S = "0xFFFFF8"]) (simp add: m2_def R1_def; fail)+
  also have "leads 0x100C4 \<dots> (0x100BE, R1(REG_A7 := 0xFFFFF4), m3)"
    by (rule leads_pea_l [where S = "0xFFFFF4"]) (simp add: m3_def; fail)+
  also have "leads 0x100C4 \<dots> (0x10000, R4, m4)"
    by (rule leads_jsr [where S = "0xFFFFF0"]) (simp add: m4_def R4_def; fail)+
  finally have start: "leads 0x100C4 (0x100B0, R, m) (0x10000, R4, m4)" .
  have numbers: "lread m4 (0x3000 + 4 * k) = bubble_numbers ! k" if "k < 30" for k
    using changed_lread [OF c4 assms(2), of "0x3000 + 4 * k"] assms(4) that by simp
  have args: "lread m4 0xFFFFF0 = 0x100C2" "lread m4 0xFFFFF4 = 0x3000" "lread m4 0xFFFFF8 = 30"
    by (simp_all add: m4_def m3_def m2_def lread_lwrite_same lread_lwrite_other flip: m1_def)
  have "sort_called 0x3000 30 0xFFFFE0 bubble_numbers R4 m4"
    using l(4) numbers args by (simp add: sort_called_def bubble_lengths R4_def)
  from bubble_main.sort_returns [OF this numbers_small] obtain R5 m5
    where sort: "leads 0x100C4 (0x10000, R4, m4) (0x100C2, R5, m5)" and "R5 REG_A7 = 0xFFFFF4"
      and m5: "bubble_loaded m5" "full m5" "\<forall>k<30. lread m5 (0x3000 + 4 * k) = bubblesort sint bubble_numbers ! k"
    using args by auto
  have "leads 0x100C4 (0x100C2, R5, m5) (0x100C4, R5(REG_A7 := R5 REG_A7 + 8), m5)"
    by (rule leads_addq_a [where r = REG_A7 and v = 8]) (use bubble_fetched [OF m5(1)] in \<open>simp; fail\<close>)+
  from leads_trans [OF leads_trans [OF start sort] this] m5(2,3) show ?thesis by (rule that)
qed

section \<open>Properties\<close>

lemma leads_run:
  assumes "leads h (pc_of (state c), gregs (state c), memory (state c)) (h, R, m)" and "decoder_ok c"
  obtains d where "run_until h c = Some (Inr (), d)" and "pc_of (state d) = h" and "gregs (state d) = R" and "memory (state d) = m"
proof -
  obtain z' where "goes h (pc_of (state c), flag (state c) SR_FLAG_ZERO, gregs (state c), memory (state c)) (h, z', R, m)"
    using assms(1) by (rule leads_goes)
  from goes_halt [OF this assms(2)] show ?thesis using that by (auto simp: view_of_def)
qed

text \<open>
  C8. The compiled routine of bubblesort.elf is totally correct: called with the address and the
  length of an array of signed long words between -2^30 and 2^30 - 1 that lies apart from the code
  and the stack area, on any machine with a correct opcode table that has the program in memory,
  it returns to its caller after finitely many calls of CPU::step with the array sorted as signed
  numbers and a permutation of what it was, and changes no other memory but its 16 bytes of stack.
  The bound on the numbers is needed, since CMP takes the overflow of the sum.
\<close>

theorem bubblesort_routine:
  assumes "decoder_ok c" and "bubble_loaded (memory (state c))" and "memSize (memory (state c)) = MEMORY_SIZE"
    and "pc_of (state c) = 0x10000" and "rval (state c) REG_A7 = of_nat sp"
    and "even sp" and "even a" and "16 \<le> sp" and "sp + 12 \<le> 2 ^ 24" and "a + 4 * length xs \<le> 2 ^ 24"
    and "a + 4 * length xs + 16 \<le> sp \<or> sp + 12 \<le> a"
    and "a + 4 * length xs \<le> 0x10000 \<or> 0x100C6 \<le> a" and "sp + 12 \<le> 0x10000 \<or> 0x100D6 \<le> sp"
    and "BaseMemory_get (memory (state c)) (ucast (of_nat sp :: 32 word)) SIZE_LONG = Inr ret"
    and "BaseMemory_get (memory (state c)) (ucast (of_nat (sp + 4) :: 32 word)) SIZE_LONG = Inr (of_nat a)"
    and "BaseMemory_get (memory (state c)) (ucast (of_nat (sp + 8) :: 32 word)) SIZE_LONG = Inr (of_nat (length xs))"
    and "\<forall>k<length xs. BaseMemory_get (memory (state c)) (ucast (of_nat (a + 4 * k) :: 32 word)) SIZE_LONG = Inr (xs ! k)"
    and "\<forall>x \<in> set xs. - (2 ^ 30) \<le> sint x \<and> sint x < 2 ^ 30"
    and "ret < 0x10000 \<or> 0x100B0 \<le> ret"
  shows "\<exists>d ys. run_until ret c = Some (Inr (), d) \<and> pc_of (state d) = ret \<and> rval (state d) REG_A7 = of_nat sp + 4 \<and>
    (\<forall>k<length xs. BaseMemory_get (memory (state d)) (ucast (of_nat (a + 4 * k) :: 32 word)) SIZE_LONG = Inr (ys ! k)) \<and>
    map sint ys = sort (map sint xs) \<and>
    (\<forall>r. general_reg r \<and> r \<notin> {REG_D0, REG_D1, REG_A0, REG_A1, REG_A7} \<longrightarrow> rval (state d) r = rval (state c) r) \<and>
    (\<forall>k sz. k < 2 ^ 24 \<and> proper_size sz \<and> (k + size_val sz \<le> a \<or> a + 4 * length xs \<le> k) \<and> (k + size_val sz \<le> sp - 16 \<or> sp \<le> k) \<longrightarrow>
       BaseMemory_get (memory (state d)) (ucast (of_nat k :: 32 word)) sz =
       BaseMemory_get (memory (state c)) (ucast (of_nat k :: 32 word)) sz)"
proof -
  let ?s = "state c"
  obtain G where sp: "sp = G + 16" using assms(8) by (auto intro: that [of "sp - 16"])
  have "bubble_routine ret a (length xs) G"
    using assms(6,7,9-13,19) by unfold_locales (auto simp: sp)
  note routine = bubble_routine.sort_returns [OF this] bubble_routine.cells [OF this]
  have m: "full (memory ?s)" using assms(3) by (simp add: full_def)
  have args: "lread (memory ?s) (G + 16) = ret" "lread (memory ?s) (G + 20) = of_nat a" "lread (memory ?s) (G + 24) = of_nat (length xs)"
    using assms(14-16) by (simp_all add: lread_def sp add.assoc)
  have "sort_called a (length xs) G xs (gregs ?s) (memory ?s)"
    using assms(2,5,17) m args by (simp add: sort_called_def lread_def gregs_def sp)
  moreover have "\<forall>x \<in> set xs. small x" using assms(18) by (simp add: small_def)
  ultimately obtain R' m' where l: "leads ret (0x10000, gregs ?s, memory ?s) (ret, R', m')" and A7: "R' REG_A7 = of_nat G + 20"
    and R': "\<forall>r. r \<notin> {REG_D0, REG_D1, REG_A0, REG_A1, REG_A7} \<longrightarrow> R' r = gregs ?s r" and full: "full m'"
    and el: "\<forall>k<length xs. lread m' (a + 4 * k) = bubblesort sint xs ! k"
    and c: "altered ({a..<a + 4 * length xs} \<union> {G..<G + 16}) (memory ?s) m'"
    using routine(1) [of xs "gregs ?s" "memory ?s"] args by auto
  obtain d where d: "run_until ret c = Some (Inr (), d)" "pc_of (state d) = ret" "gregs (state d) = R'" "memory (state d) = m'"
    by (rule leads_run [of ret c R' m']) (use l assms(1,4) in simp_all)
  have "BaseMemory_get m' (ucast (of_nat (a + 4 * k) :: 32 word)) SIZE_LONG = Inr (bubblesort sint xs ! k)" if "k < length xs" for k
    using get_cell [OF full routine(2) [OF that]] el that by simp
  moreover have "BaseMemory_get m' (ucast (of_nat k :: 32 word)) sz = BaseMemory_get (memory ?s) (ucast (of_nat k :: 32 word)) sz"
    if "k < 2 ^ 24" "proper_size sz" "k + size_val sz \<le> a \<or> a + 4 * length xs \<le> k" "k + size_val sz \<le> sp - 16 \<or> sp \<le> k" for k sz
    using that by (intro altered_get [OF c m]) (auto simp: sp elim: proper_size_cases)
  moreover have "rval (state d) r = rval ?s r" if "general_reg r" "r \<notin> {REG_D0, REG_D1, REG_A0, REG_A1, REG_A7}" for r
    using R' that by (simp add: rval_gregs d(3))
  ultimately show ?thesis
    using d A7 by (intro exI [where x = d] exI [where x = "bubblesort sint xs"]) (simp add: bubblesort_sorts rval_gregs sp)
qed

theorem bubblesort_test:
  "\<exists>c d e ys. CPU_new fresh = Inr c \<and>
     load_elf elf_std (\<lambda>_. Some (bubble_elf other)) name (c, out) = (Inr True, d, out @ bubble_listing) \<and>
     run_until 0x100C4 d = Some (Inr (), e) \<and>
     (\<forall>k<30. BaseMemory_get (memory (state e)) (ucast (of_nat (0x3000 + 4 * k) :: 32 word)) SIZE_LONG = Inr (ys ! k)) \<and>
     sorted ys \<and> mset ys = mset bubble_numbers"
proof -
  obtain c where c: "CPU_new fresh = Inr c" "decoder_ok c" "full (memory (state c))" by (rule CPU_new_ok)
  obtain d where d: "load_elf elf_std (\<lambda>_. Some (bubble_elf other)) name (c, out) = (Inr True, d, out @ bubble_listing)"
    "full (memory (state d))" "bubble_loaded (memory (state d))"
    "\<forall>k<30. lread (memory (state d)) (0x3000 + 4 * k) = bubble_numbers ! k"
    "pc_of (state d) = 0x100B0" "gregs (state d) REG_A7 = 0x1000000" "instruction_decoder d = instruction_decoder c"
    using c(3) by (rule load_bubble_elf)
  obtain R' m' where l: "leads 0x100C4 (0x100B0, gregs (state d), memory (state d)) (0x100C4, R', m')"
    and m': "full m'" "\<forall>k<30. lread m' (0x3000 + 4 * k) = bubblesort sint bubble_numbers ! k"
    using d(3,2,6,4) by (rule main_sorts)
  obtain e where e: "run_until 0x100C4 d = Some (Inr (), e)" "memory (state e) = m'"
    by (rule leads_run [of "0x100C4" d R' m']) (use l c(2) d(5,7) in \<open>simp_all add: decoder_ok_def\<close>)
  have get: "BaseMemory_get m' (ucast (of_nat (0x3000 + 4 * k) :: 32 word)) SIZE_LONG = Inr (bubblesort sint bubble_numbers ! k)" if "k < 30" for k
    using get_cell [OF m'(1), of "0x3000 + 4 * k"] m'(2) that by (simp del: of_nat_add of_nat_mult)
  have perm: "mset (bubblesort sint bubble_numbers) = mset bubble_numbers" by (simp add: bubblesort_def mset_passes)
  have "sorted (map sint (bubblesort sint bubble_numbers))" by (simp add: bubblesort_sorts)
  note ord = this [unfolded sorted_map]
  have "\<forall>x \<in> set (bubblesort sint bubble_numbers). sint x = uint x"
    unfolding mset_eq_setD [OF perm] by (simp add: bubble_numbers_def)
  then have "sorted (bubblesort sint bubble_numbers)"
    by (intro sorted_wrt_mono_rel [OF _ ord]) (simp add: word_le_def)
  with c(1) d(1) e get perm show ?thesis by blast
qed

end
