(* ===== verification/Test_Functions.thy ===== *)
theory Test_Functions
  imports Prelude
begin

text \<open>
  The assertions of the repository's tests, \<open>src/include/tests_functions.hpp\<close>.  The two global
  strings and what has been written on \<open>std::cout\<close> are the state; the variables of a test extend it
  as a record.  \<open>__FILE__\<close>, \<open>__LINE__\<close> and \<open>__FUNCTION__\<close> give the text \<open>error\<close>; what
  \<open>typeid(E).name()\<close> and \<open>what()\<close> give is left to the C++ library, so they are arguments.
\<close>

section \<open>State\<close>

record Test =
  test_name :: string
  test_label :: string
  cout :: string

definition Test_init :: Test where
  "Test_init = \<lparr>test_name = ''general'', test_label = '''', cout = ''''\<rparr>"

section \<open>The assertions\<close>

definition TEST_NAME :: "string \<Rightarrow> ('z Test_scheme, unit) exec" where
  "TEST_NAME txt = (\<lambda>t. (Inr (), t\<lparr>test_name := txt\<rparr>))"

definition TEST_LABEL :: "string \<Rightarrow> ('z Test_scheme, unit) exec" where
  "TEST_LABEL txt = (\<lambda>t. (Inr (), t\<lparr>test_label := txt\<rparr>))"

definition print :: "string \<Rightarrow> ('z Test_scheme, unit) exec" where
  "print txt = (\<lambda>t. (Inr (), t\<lparr>cout := cout t @ txt\<rparr>))"

definition TEST_TRUE :: "bool \<Rightarrow> string \<Rightarrow> ('z Test_scheme, unit) exec" where
  "TEST_TRUE result error =
     bindE (\<lambda>t. print (''Test['' @ test_name t @ '']: '' @ test_label t) t) (\<lambda>_.
     bindE (whenE (\<not> result)
       (bindE (print ('' > FAIL'' @ endl)) (\<lambda>_. throwE (Runtime_error (takeWhile (\<lambda>c. c \<noteq> CHR 0x00) error))))) (\<lambda>_.
     print ('' > PASS'' @ endl)))"

definition TEST_FALSE :: "bool \<Rightarrow> string \<Rightarrow> ('z Test_scheme, unit) exec" where
  "TEST_FALSE result error = TEST_TRUE (\<not> result) error"

text \<open>\<open>catch (const E&)\<close> for the class \<open>E\<close> whose objects are given by a predicate, and \<open>catch (const std::exception&)\<close>.\<close>

definition TEST_THROW :: "(exn \<Rightarrow> bool) \<Rightarrow> string \<Rightarrow> ('z Test_scheme, unit) exec \<Rightarrow> string \<Rightarrow> ('z Test_scheme, unit) exec" where
  "TEST_THROW E typename func error = (\<lambda>t.
     let error = error @ '' no throw. '' @ typename @ '' expected.'' in
     case func t of
       (Inl e, t') \<Rightarrow> if E e then TEST_TRUE True error t' else (Inl e, t')
     | (Inr _, t') \<Rightarrow> TEST_TRUE False error t')"

fun std_exception :: "exn \<Rightarrow> bool" where
  "std_exception Assertion_failed = False"
| "std_exception Undefined_behaviour = False"
| "std_exception _ = True"

definition TEST_NO_THROW :: "(exn \<Rightarrow> string) \<Rightarrow> ('z Test_scheme, unit) exec \<Rightarrow> string \<Rightarrow> ('z Test_scheme, unit) exec" where
  "TEST_NO_THROW what func error = (\<lambda>t.
     case func t of
       (Inl e, t') \<Rightarrow> if std_exception e
         then TEST_TRUE False (error @ '' no throw expected.'' @ endl @ ''  what(): '' @ what e) t' else (Inl e, t')
     | (Inr _, t') \<Rightarrow> TEST_TRUE True error t')"

section \<open>What they do\<close>

definition verdict :: "string \<Rightarrow> string \<Rightarrow> bool \<Rightarrow> string" where
  "verdict name label ok = ''Test['' @ name @ '']: '' @ label @ (if ok then '' > PASS'' else '' > FAIL'') @ endl"

lemma TEST_NAME_apply [simp]: "TEST_NAME txt t = (Inr (), t\<lparr>test_name := txt\<rparr>)"
  by (simp add: TEST_NAME_def)

lemma TEST_LABEL_apply [simp]: "TEST_LABEL txt t = (Inr (), t\<lparr>test_label := txt\<rparr>)"
  by (simp add: TEST_LABEL_def)

lemma TEST_TRUE_apply:
  "TEST_TRUE ok error t =
     (if ok then Inr () else Inl (Runtime_error (takeWhile (\<lambda>c. c \<noteq> CHR 0x00) error)), t\<lparr>cout := cout t @ verdict (test_name t) (test_label t) ok\<rparr>)"
  by (simp add: TEST_TRUE_def print_def verdict_def bindE_apply returnE_def throwE_def whenE_def)

lemma TEST_TRUE_passes [simp]: "TEST_TRUE True error t = (Inr (), t\<lparr>cout := cout t @ verdict (test_name t) (test_label t) True\<rparr>)"
  by (simp add: TEST_TRUE_apply)

lemma TEST_THROW_passes [simp]:
  "func t = (Inl e, t') \<Longrightarrow> E e \<Longrightarrow> TEST_THROW E typename func error t = (Inr (), t'\<lparr>cout := cout t' @ verdict (test_name t') (test_label t') True\<rparr>)"
  by (simp add: TEST_THROW_def)

lemma TEST_NO_THROW_passes [simp]:
  "func t = (Inr x, t') \<Longrightarrow> TEST_NO_THROW what func error t = (Inr (), t'\<lparr>cout := cout t' @ verdict (test_name t') (test_label t') True\<rparr>)"
  by (simp add: TEST_NO_THROW_def)

text \<open>An assertion that does not pass throws, so the rest of a test is not run; the line it printed says so.\<close>

lemma TEST_THROW_verdict:
  "fst (TEST_THROW E typename func error t) = Inr () \<longleftrightarrow> (\<exists>e. fst (func t) = Inl e \<and> E e)"
  by (auto simp: TEST_THROW_def TEST_TRUE_apply Let_def split: prod.splits sum.splits)

lemma TEST_NO_THROW_verdict:
  "fst (TEST_NO_THROW what func error t) = Inr () \<longleftrightarrow> (\<exists>x. fst (func t) = Inr x)"
  by (auto simp: TEST_NO_THROW_def TEST_TRUE_apply split: prod.splits sum.splits)

end
