(* ===== verification/Unit_Tests.thy ===== *)
theory Unit_Tests
  imports Code_Rules Test_Functions
begin

text \<open>
  The unit tests of the repository that run single instructions, \<open>src/test/test_in_*.cpp\<close>,
  \<open>test_addressing.cpp\<close> and \<open>test_disassembler.cpp\<close>, on the model.  A test program is the sequence of
  its scopes; the variable \<open>state\<close> of a scope is the field \<open>sut\<close>.  A value that is read and
  compared later is read where it is compared, as nothing changes in between.  \<open>error\<close> gives the
  text of a line.

  The tests write \<open>CPUState()\<close>: the constructor's argument is a null pointer, and the member
  \<open>memory\<close> becomes a reference to nothing, which has no defined behaviour.  So the argument is
  left open (\<open>in_memory\<close>, by line): \<open>None\<close> is the null pointer of the source, \<open>Some\<close> a memory that is
  supplied, as the class \<open>CPU\<close> does.
\<close>

section \<open>Steps of a test\<close>

record Unit_test = Test +
  sut :: CPUState

definition CPUState_new :: "BaseMemory option \<Rightarrow> exn + CPUState" where
  "CPUState_new in_memory =
     (case in_memory of
        None \<Rightarrow> Inl Undefined_behaviour
      | Some m \<Rightarrow> Inr \<lparr>memory = m, registers = Registers_new\<rparr>)"

definition new_state :: "BaseMemory option \<Rightarrow> (Unit_test, unit) exec" where
  "new_state in_memory = (\<lambda>t. case CPUState_new in_memory of Inl e \<Rightarrow> (Inl e, t) | Inr s \<Rightarrow> (Inr (), t\<lparr>sut := s\<rparr>))"

definition on_sut :: "(CPUState, 'a) exec \<Rightarrow> (Unit_test, 'a) exec" where
  "on_sut m = (\<lambda>t. case m (sut t) of (r, s) \<Rightarrow> (r, t\<lparr>sut := s\<rparr>))"

definition mapE :: "('a \<Rightarrow> 'b) \<Rightarrow> ('s, 'a) exec \<Rightarrow> ('s, 'b) exec" where
  "mapE f m = bindE m (\<lambda>x. returnE (f x))"

definition expect :: "(CPUState, 'a) exec \<Rightarrow> 'a \<Rightarrow> string \<Rightarrow> (Unit_test, unit) exec" where
  "expect m v error = bindE (on_sut m) (\<lambda>x. TEST_TRUE (x = v) error)"

definition scope :: "(Unit_test, unit) exec list \<Rightarrow> (Unit_test, unit) exec" where
  "scope = seqE"

type_synonym unit_test = "(nat \<Rightarrow> BaseMemory option) \<Rightarrow> (nat \<Rightarrow> string) \<Rightarrow> (Unit_test, unit) exec"

section \<open>The test programs\<close>

definition test_addressing :: unit_test where
  "test_addressing in_memory error = seqE [
     TEST_NAME ''Addressing modes'',
     scope [
       TEST_LABEL ''direct - move.w A1, D1'',
       new_state (in_memory 16),
       on_sut (regs_set REG_A1 SIZE_LONG 0xAABBCCDD),
       on_sut (execute (Move_create 0x3209)),
       expect (regs_get REG_D1 SIZE_LONG) 0xCCDD (error 22)],
     scope [
       TEST_LABEL ''addr direct - movea.l D1, A0'',
       new_state (in_memory 28),
       on_sut (regs_set REG_D1 SIZE_LONG 0xAABBCCDD),
       on_sut (execute (Move_create 0x2041)),
       expect (regs_get REG_A0 SIZE_LONG) 0xAABBCCDD (error 34)],
     scope [
       TEST_LABEL ''addr indirect - move.l D1, (A0)'',
       new_state (in_memory 40),
       on_sut (regs_set REG_D1 SIZE_LONG 0xAABBCCDD),
       on_sut (regs_set REG_A0 SIZE_LONG 0x1000),
       on_sut (execute (Move_create 0x2081)),
       expect (mem_get 0x1000 SIZE_LONG) 0xAABBCCDD (error 47)],
     scope [
       TEST_LABEL ''addr indirect++ - move.l D1, (A0)+'',
       new_state (in_memory 53),
       on_sut (regs_set REG_D1 SIZE_LONG 0xAABBCCDD),
       on_sut (regs_set REG_A0 SIZE_LONG 0x1000),
       on_sut (execute (Move_create 0x20C1)),
       expect (regs_get REG_A0 SIZE_LONG) 0x1004 (error 60)],
     scope [
       TEST_LABEL ''addr --indirect - move.l D1, -(A0)'',
       new_state (in_memory 66),
       on_sut (regs_set REG_D1 SIZE_LONG 0xAABBCCDD),
       on_sut (regs_set REG_A0 SIZE_LONG 0x1000),
       on_sut (execute (Move_create 0x2101)),
       expect (regs_get REG_A0 SIZE_LONG) 0x0FFC (error 73)],
     scope [
       TEST_LABEL ''addr displacement - move.w (A0, 4), (A1, 8)'',
       new_state (in_memory 79),
       on_sut (mem_set 0 SIZE_WORD 0x3368),
       on_sut (mem_set 2 SIZE_WORD 0x0004),
       on_sut (mem_set 4 SIZE_WORD 0x0008),
       on_sut (regs_set REG_A0 SIZE_LONG 0x1000),
       on_sut (regs_set REG_A1 SIZE_LONG 0x2000),
       on_sut (mem_set 0x1004 SIZE_WORD 0xCCDD),
       on_sut (execute (Move_create 0x3368)),
       expect (mem_get 0x2008 SIZE_WORD) 0xCCDD (error 92)],
     scope [
       TEST_LABEL ''addr displacement negative - move.w (A0, 4), (A1, -2)'',
       new_state (in_memory 98),
       on_sut (mem_set 0 SIZE_WORD 0x3368),
       on_sut (mem_set 2 SIZE_WORD 0x0004),
       on_sut (mem_set 4 SIZE_WORD 0xFFFE),
       on_sut (regs_set REG_A0 SIZE_LONG 0x1000),
       on_sut (regs_set REG_A1 SIZE_LONG 0x2000),
       on_sut (mem_set 0x1004 SIZE_WORD 0xCCDD),
       on_sut (execute (Move_create 0x3368)),
       expect (mem_get 0x1FFE SIZE_WORD) 0xCCDD (error 111)],
     scope [
       TEST_LABEL ''addr index word - move.w D0, (8, A0, D1.W)'',
       new_state (in_memory 117),
       on_sut (mem_set 0 SIZE_WORD 0x3180),
       on_sut (mem_set 2 SIZE_WORD 0x1008),
       on_sut (regs_set REG_D0 SIZE_LONG 0xAABBCCDD),
       on_sut (regs_set REG_D1 SIZE_LONG 0xFFFFFFFE),
       on_sut (regs_set REG_A0 SIZE_LONG 0x1000),
       on_sut (execute (Move_create 0x3180)),
       expect (mem_get 0x1006 SIZE_WORD) 0xCCDD (error 128)],
     scope [
       TEST_LABEL ''addr index long - move.l D0, (8, A0, D1.L)'',
       new_state (in_memory 134),
       on_sut (mem_set 0 SIZE_WORD 0x2180),
       on_sut (mem_set 2 SIZE_WORD 0x1808),
       on_sut (regs_set REG_D0 SIZE_LONG 0xAABBCCDD),
       on_sut (regs_set REG_D1 SIZE_LONG 0xFFFFFFFE),
       on_sut (regs_set REG_A0 SIZE_LONG 0x1000),
       on_sut (execute (Move_create 0x2180)),
       expect (mem_get 0x1006 SIZE_LONG) 0xAABBCCDD (error 145)],
     scope [
       TEST_LABEL ''pc displacement - move.w (PC, 6), D0'',
       new_state (in_memory 151),
       on_sut (mem_set 0 SIZE_WORD 0x303A),
       on_sut (mem_set 2 SIZE_WORD 0x0004),
       on_sut (mem_set 4 SIZE_WORD 0x0000),
       on_sut (mem_set 6 SIZE_WORD 0xCCDD),
       on_sut (execute (Move_create 0x303A)),
       expect (regs_get REG_D0 SIZE_WORD) 0xCCDD (error 160)],
     scope [
       TEST_LABEL ''pc displacement negative - move.w (PC, 0), D0'',
       new_state (in_memory 166),
       on_sut (mem_set 0 SIZE_WORD 0x303A),
       on_sut (mem_set 2 SIZE_WORD 0xFFFE),
       on_sut (execute (Move_create 0x303A)),
       expect (regs_get REG_D0 SIZE_WORD) 0x303A (error 173)],
     scope [
       TEST_LABEL ''absolute short - move.w D0, $1000'',
       new_state (in_memory 179),
       on_sut (regs_set REG_D0 SIZE_LONG 0xAABBCCDD),
       on_sut (mem_set 0 SIZE_WORD 0x31C0),
       on_sut (mem_set 2 SIZE_WORD 0x1000),
       on_sut (execute (Move_create 0x31C0)),
       expect (mem_get 0x1000 SIZE_WORD) 0xCCDD (error 187)],
     scope [
       TEST_LABEL ''absolute long - move.w D0, $10000'',
       new_state (in_memory 193),
       on_sut (regs_set REG_D0 SIZE_LONG 0xAABBCCDD),
       on_sut (mem_set 0 SIZE_WORD 0x33C0),
       on_sut (mem_set 2 SIZE_LONG 0x10000),
       on_sut (execute (Move_create 0x33C0)),
       expect (mem_get 0x10000 SIZE_WORD) 0xCCDD (error 201)],
     scope [
       TEST_LABEL ''immediate - move.w $CCDD, D0'',
       new_state (in_memory 207),
       on_sut (mem_set 0 SIZE_WORD 0x303C),
       on_sut (mem_set 2 SIZE_WORD 0xCCDD),
       on_sut (execute (Move_create 0x303C)),
       expect (regs_get REG_D0 SIZE_WORD) 0xCCDD (error 214)]]"

definition test_disassembler :: unit_test where
  "test_disassembler in_memory error = seqE [
     TEST_NAME ''Disassembler'',
     scope [
       TEST_LABEL ''direct - move.w A1, D1'',
       new_state (in_memory 16),
       on_sut (regs_set REG_A1 SIZE_LONG 0xAABBCCDD),
       expect (disassembly (Move_create 0x3209)) ''move.w a1, d1'' (error 21)],
     scope [
       TEST_LABEL ''addr direct - movea.l D1, A0'',
       new_state (in_memory 27),
       on_sut (regs_set REG_D1 SIZE_LONG 0xAABBCCDD),
       expect (disassembly (Move_create 0x2041)) ''movea.l d1, a0'' (error 32)],
     scope [
       TEST_LABEL ''addr indirect - move.l D1, (A0)'',
       new_state (in_memory 38),
       on_sut (regs_set REG_D1 SIZE_LONG 0xAABBCCDD),
       on_sut (regs_set REG_A0 SIZE_LONG 0x1000),
       expect (disassembly (Move_create 0x2081)) ''move.l d1, (a0)'' (error 44)],
     scope [
       TEST_LABEL ''addr indirect++ - move.l D1, (A0)+'',
       new_state (in_memory 50),
       on_sut (regs_set REG_D1 SIZE_LONG 0xAABBCCDD),
       on_sut (regs_set REG_A0 SIZE_LONG 0x1000),
       expect (disassembly (Move_create 0x20C1)) ''move.l d1, (a0)+'' (error 56)],
     scope [
       TEST_LABEL ''addr --indirect - move.l D1, -(A0)'',
       new_state (in_memory 62),
       on_sut (regs_set REG_D1 SIZE_LONG 0xAABBCCDD),
       on_sut (regs_set REG_A0 SIZE_LONG 0x1000),
       expect (disassembly (Move_create 0x2101)) ''move.l d1, -(a0)'' (error 68)],
     scope [
       TEST_LABEL ''addr displacement - move.w (A0, 4), (A1, 8)'',
       new_state (in_memory 74),
       on_sut (mem_set 0 SIZE_WORD 0x3368),
       on_sut (mem_set 2 SIZE_WORD 0x0004),
       on_sut (mem_set 4 SIZE_WORD 0x0008),
       on_sut (regs_set REG_A0 SIZE_LONG 0x1000),
       on_sut (regs_set REG_A1 SIZE_LONG 0x2000),
       on_sut (mem_set 0x1004 SIZE_WORD 0xCCDD),
       expect (disassembly (Move_create 0x3368)) ''move.w ($4,a0), ($8,a1)'' (error 86)],
     scope [
       TEST_LABEL ''addr displacement negative - move.w (A0, 4), (A1, -2)'',
       new_state (in_memory 92),
       on_sut (mem_set 0 SIZE_WORD 0x3368),
       on_sut (mem_set 2 SIZE_WORD 0x0004),
       on_sut (mem_set 4 SIZE_WORD 0xFFFE),
       on_sut (regs_set REG_A0 SIZE_LONG 0x1000),
       on_sut (regs_set REG_A1 SIZE_LONG 0x2000),
       on_sut (mem_set 0x1004 SIZE_WORD 0xCCDD),
       expect (disassembly (Move_create 0x3368)) ''move.w ($4,a0), ($fffe,a1)'' (error 104)],
     scope [
       TEST_LABEL ''addr index word - move.w D0, (8, A0, D1.W)'',
       new_state (in_memory 110),
       on_sut (mem_set 0 SIZE_WORD 0x3180),
       on_sut (mem_set 2 SIZE_WORD 0x1008),
       on_sut (regs_set REG_D0 SIZE_LONG 0xAABBCCDD),
       on_sut (regs_set REG_D1 SIZE_LONG 0xFFFFFFFE),
       on_sut (regs_set REG_A0 SIZE_LONG 0x1000),
       expect (disassembly (Move_create 0x3180)) ''move.w d0, ($8,a0,d1)'' (error 120)],
     scope [
       TEST_LABEL ''addr index long - move.l D0, (8, A0, D1.L)'',
       new_state (in_memory 126),
       on_sut (mem_set 0 SIZE_WORD 0x2180),
       on_sut (mem_set 2 SIZE_WORD 0x1808),
       on_sut (regs_set REG_D0 SIZE_LONG 0xAABBCCDD),
       on_sut (regs_set REG_D1 SIZE_LONG 0xFFFFFFFE),
       on_sut (regs_set REG_A0 SIZE_LONG 0x1000),
       expect (disassembly (Move_create 0x2180)) ''move.l d0, ($8,a0,d1)'' (error 136)],
     scope [
       TEST_LABEL ''pc displacement - move.w (PC, 6), D0'',
       new_state (in_memory 142),
       on_sut (mem_set 0 SIZE_WORD 0x303A),
       on_sut (mem_set 2 SIZE_WORD 0x0004),
       on_sut (mem_set 4 SIZE_WORD 0x0000),
       on_sut (mem_set 6 SIZE_WORD 0xCCDD),
       expect (disassembly (Move_create 0x303A)) ''move.w ($6,pc), d0'' (error 150)],
     scope [
       TEST_LABEL ''pc displacement negative - move.w (PC, 0), D0'',
       new_state (in_memory 156),
       on_sut (mem_set 0 SIZE_WORD 0x303A),
       on_sut (mem_set 2 SIZE_WORD 0xFFFE),
       expect (disassembly (Move_create 0x303A)) ''move.w ($0,pc), d0'' (error 162)],
     scope [
       TEST_LABEL ''absolute short - move.w D0, $1000'',
       new_state (in_memory 168),
       on_sut (regs_set REG_D0 SIZE_LONG 0xAABBCCDD),
       on_sut (mem_set 0 SIZE_WORD 0x31C0),
       on_sut (mem_set 2 SIZE_WORD 0x1000),
       expect (disassembly (Move_create 0x31C0)) ''move.w d0, ($1000).w'' (error 175)],
     scope [
       TEST_LABEL ''absolute long - move.w D0, $10000'',
       new_state (in_memory 181),
       on_sut (regs_set REG_D0 SIZE_LONG 0xAABBCCDD),
       on_sut (mem_set 0 SIZE_WORD 0x33C0),
       on_sut (mem_set 2 SIZE_LONG 0x10000),
       expect (disassembly (Move_create 0x33C0)) ''move.w d0, ($10000).l'' (error 188)],
     scope [
       TEST_LABEL ''immediate - move.w $CCDD, D0'',
       new_state (in_memory 194),
       on_sut (mem_set 0 SIZE_WORD 0x303C),
       on_sut (mem_set 2 SIZE_WORD 0xCCDD),
       expect (disassembly (Move_create 0x303C)) ''move.w #$ccdd, d0'' (error 200)]]"

definition test_in_move :: unit_test where
  "test_in_move in_memory error = seqE [
     TEST_NAME ''Instruction MOVE / MOVEA'',
     scope [
       TEST_LABEL ''move.w A1, D1'',
       new_state (in_memory 16),
       on_sut (regs_set REG_A1 SIZE_LONG 0xAABBCCDD),
       on_sut (execute (Move_create 0x3209)),
       expect (regs_get REG_D1 SIZE_LONG) 0xCCDD (error 22),
       expect (flag_get SR_FLAG_NEGATIVE) True (error 29),
       expect (flag_get SR_FLAG_ZERO) False (error 30),
       expect (flag_get SR_FLAG_OVERFLOW) False (error 31),
       expect (flag_get SR_FLAG_CARRY) False (error 32)],
     scope [
       TEST_LABEL ''move.l A1, D1'',
       new_state (in_memory 38),
       on_sut (regs_set REG_A1 SIZE_LONG 0xAABBCCDD),
       on_sut (execute (Move_create 0x2209)),
       expect (regs_get REG_D1 SIZE_LONG) 0xAABBCCDD (error 44),
       expect (flag_get SR_FLAG_NEGATIVE) True (error 51),
       expect (flag_get SR_FLAG_ZERO) False (error 52),
       expect (flag_get SR_FLAG_OVERFLOW) False (error 53),
       expect (flag_get SR_FLAG_CARRY) False (error 54)],
     scope [
       TEST_LABEL ''movea.w D0, A1'',
       new_state (in_memory 60),
       on_sut (regs_set REG_D0 SIZE_LONG 0xAABBCCDD),
       on_sut (execute (Move_create 0x3240)),
       expect (regs_get REG_A1 SIZE_LONG) 0xFFFFCCDD (error 66),
       expect (flag_get SR_FLAG_NEGATIVE) False (error 73),
       expect (flag_get SR_FLAG_ZERO) False (error 74),
       expect (flag_get SR_FLAG_OVERFLOW) False (error 75),
       expect (flag_get SR_FLAG_CARRY) False (error 76)],
     scope [
       TEST_LABEL ''movea.l D0, A1'',
       new_state (in_memory 82),
       on_sut (regs_set REG_D0 SIZE_LONG 0xAABBCCDD),
       on_sut (execute (Move_create 0x2240)),
       expect (regs_get REG_A1 SIZE_LONG) 0xAABBCCDD (error 88),
       expect (flag_get SR_FLAG_NEGATIVE) False (error 95),
       expect (flag_get SR_FLAG_ZERO) False (error 96),
       expect (flag_get SR_FLAG_OVERFLOW) False (error 97),
       expect (flag_get SR_FLAG_CARRY) False (error 98)]]"

definition test_in_moveq :: unit_test where
  "test_in_moveq in_memory error = seqE [
     TEST_NAME ''Instruction MOVEQ'',
     scope [
       TEST_LABEL ''moveq #100, D0'',
       new_state (in_memory 16),
       on_sut (execute (Moveq_create 0x7064)),
       expect (regs_get REG_D0 SIZE_LONG) 100 (error 20),
       expect (flag_get SR_FLAG_EXTEND) False (error 28),
       expect (flag_get SR_FLAG_NEGATIVE) False (error 29),
       expect (flag_get SR_FLAG_ZERO) False (error 30),
       expect (flag_get SR_FLAG_OVERFLOW) False (error 31),
       expect (flag_get SR_FLAG_CARRY) False (error 32)]]"

definition test_in_lea :: unit_test where
  "test_in_lea in_memory error = seqE [
     TEST_NAME ''Instruction LEA'',
     scope [
       TEST_LABEL ''lea 0xAABBCCDD, A1'',
       new_state (in_memory 16),
       on_sut (mem_set 0x0000 SIZE_WORD 0x43F9),
       on_sut (mem_set 0x0002 SIZE_LONG 0xAABBCCDD),
       on_sut (execute (Lea_create 0x43F9)),
       expect (regs_get REG_A1 SIZE_LONG) 0xAABBCCDD (error 23)]]"

definition test_in_add :: unit_test where
  "test_in_add in_memory error = seqE [
     TEST_NAME ''Instruction ADD'',
     scope [
       TEST_LABEL ''add.w #$CCDD, D1'',
       new_state (in_memory 16),
       on_sut (regs_set REG_D1 SIZE_LONG 0x11111111),
       on_sut (mem_set 0 SIZE_WORD 0xD27C),
       on_sut (mem_set 2 SIZE_WORD 0xCCDD),
       on_sut (execute (Add_create 0xD27C)),
       expect (regs_get REG_D1 SIZE_LONG) 0x1111DDEE (error 24),
       expect (flag_get SR_FLAG_EXTEND) False (error 32),
       expect (flag_get SR_FLAG_NEGATIVE) True (error 33),
       expect (flag_get SR_FLAG_ZERO) False (error 34),
       expect (flag_get SR_FLAG_OVERFLOW) False (error 35),
       expect (flag_get SR_FLAG_CARRY) False (error 36)],
     scope [
       TEST_LABEL ''add.w (A1), D0'',
       new_state (in_memory 42),
       on_sut (regs_set REG_A1 SIZE_LONG 0x1000),
       on_sut (regs_set REG_D0 SIZE_LONG 0x0001),
       on_sut (mem_set 0x1000 SIZE_WORD 0x7FFF),
       on_sut (execute (Add_create 0xD051)),
       expect (regs_get REG_D0 SIZE_LONG) 0x00008000 (error 50),
       expect (flag_get SR_FLAG_EXTEND) False (error 58),
       expect (flag_get SR_FLAG_NEGATIVE) True (error 59),
       expect (flag_get SR_FLAG_ZERO) False (error 60),
       expect (flag_get SR_FLAG_OVERFLOW) True (error 61),
       expect (flag_get SR_FLAG_CARRY) False (error 62)],
     scope [
       TEST_LABEL ''add.w D0, (A1)'',
       new_state (in_memory 68),
       on_sut (regs_set REG_A1 SIZE_LONG 0x1000),
       on_sut (regs_set REG_D0 SIZE_LONG 0x0001),
       on_sut (mem_set 0x1000 SIZE_WORD 0x7FFF),
       on_sut (execute (Add_create 0xD151)),
       expect (mem_get 0x1000 SIZE_WORD) 0x00008000 (error 76),
       expect (flag_get SR_FLAG_EXTEND) False (error 84),
       expect (flag_get SR_FLAG_NEGATIVE) True (error 85),
       expect (flag_get SR_FLAG_ZERO) False (error 86),
       expect (flag_get SR_FLAG_OVERFLOW) True (error 87),
       expect (flag_get SR_FLAG_CARRY) False (error 88)]]"

definition test_in_adda :: unit_test where
  "test_in_adda in_memory error = seqE [
     TEST_NAME ''Instruction ADDA'',
     scope [
       TEST_LABEL ''adda.w D0, A1'',
       new_state (in_memory 16),
       on_sut (regs_set REG_A1 SIZE_LONG 0x2000),
       on_sut (regs_set REG_D0 SIZE_LONG 0x1000),
       on_sut (execute (Adda_create 0xD2C0)),
       expect (regs_get REG_A1 SIZE_WORD) 0x3000 (error 23),
       expect (flag_get SR_FLAG_EXTEND) False (error 31),
       expect (flag_get SR_FLAG_NEGATIVE) False (error 32),
       expect (flag_get SR_FLAG_ZERO) False (error 33),
       expect (flag_get SR_FLAG_OVERFLOW) False (error 34),
       expect (flag_get SR_FLAG_CARRY) False (error 35)]]"

definition test_in_addx :: unit_test where
  "test_in_addx in_memory error = seqE [
     TEST_NAME ''Instruction ADDX'',
     scope [
       TEST_LABEL ''addx.w D0, D1'',
       new_state (in_memory 16),
       on_sut (regs_set REG_D0 SIZE_LONG 0xFFFF),
       on_sut (regs_set REG_D1 SIZE_LONG 0x0001),
       on_sut (execute (Addx_create 0xD340)),
       expect (regs_get REG_D1 SIZE_WORD) 0x0000 (error 24),
       on_sut (regs_set REG_D0 SIZE_LONG 0xFFFF),
       on_sut (regs_set REG_D1 SIZE_LONG 0x0001),
       on_sut (execute (Addx_create 0xD340)),
       expect (regs_get REG_D1 SIZE_WORD) 0x0001 (error 30),
       expect (flag_get SR_FLAG_EXTEND) True (error 38),
       expect (flag_get SR_FLAG_NEGATIVE) False (error 39),
       expect (flag_get SR_FLAG_ZERO) False (error 40),
       expect (flag_get SR_FLAG_OVERFLOW) False (error 41),
       expect (flag_get SR_FLAG_CARRY) True (error 42)],
     scope [
       TEST_LABEL ''addx.w -(A0), -(A1)'',
       new_state (in_memory 48),
       on_sut (mem_set 0x1002 SIZE_WORD 0xFFFF),
       on_sut (mem_set 0x1000 SIZE_WORD 0xFFFF),
       on_sut (mem_set 0x2002 SIZE_WORD 0x0001),
       on_sut (mem_set 0x2000 SIZE_WORD 0x0001),
       on_sut (regs_set REG_A0 SIZE_LONG 0x1004),
       on_sut (regs_set REG_A1 SIZE_LONG 0x2004),
       on_sut (execute (Addx_create 0xD348)),
       expect (mem_get 0x2002 SIZE_WORD) 0x0000 (error 61),
       on_sut (mem_set 0x2002 SIZE_WORD 0x0001),
       on_sut (execute (Addx_create 0xD348)),
       expect (mem_get 0x2000 SIZE_WORD) 0x0001 (error 66),
       expect (flag_get SR_FLAG_EXTEND) True (error 74),
       expect (flag_get SR_FLAG_NEGATIVE) False (error 75),
       expect (flag_get SR_FLAG_ZERO) False (error 76),
       expect (flag_get SR_FLAG_OVERFLOW) False (error 77),
       expect (flag_get SR_FLAG_CARRY) True (error 78)]]"

definition test_in_addi :: unit_test where
  "test_in_addi in_memory error = seqE [
     TEST_NAME ''Instruction ADDI'',
     scope [
       TEST_LABEL ''addi.w #$0001, D0'',
       new_state (in_memory 16),
       on_sut (regs_set REG_D0 SIZE_LONG 0x7FFF),
       on_sut (mem_set 0 SIZE_WORD 0x0640),
       on_sut (mem_set 2 SIZE_WORD 0x0001),
       on_sut (execute (Addi_create 0x0640)),
       expect (regs_get REG_D0 SIZE_WORD) 0x8000 (error 25),
       expect (flag_get SR_FLAG_EXTEND) False (error 33),
       expect (flag_get SR_FLAG_NEGATIVE) True (error 34),
       expect (flag_get SR_FLAG_ZERO) False (error 35),
       expect (flag_get SR_FLAG_OVERFLOW) True (error 36),
       expect (flag_get SR_FLAG_CARRY) False (error 37)]]"

definition test_in_addq :: unit_test where
  "test_in_addq in_memory error = seqE [
     TEST_NAME ''Instruction ADDQ'',
     scope [
       TEST_LABEL ''addq #7, D0'',
       new_state (in_memory 16),
       on_sut (regs_set REG_D0 SIZE_WORD 100),
       on_sut (execute (Addq_create 0x5E40)),
       expect (regs_get REG_D0 SIZE_LONG) 107 (error 22),
       expect (flag_get SR_FLAG_EXTEND) False (error 30),
       expect (flag_get SR_FLAG_NEGATIVE) False (error 31),
       expect (flag_get SR_FLAG_ZERO) False (error 32),
       expect (flag_get SR_FLAG_OVERFLOW) False (error 33),
       expect (flag_get SR_FLAG_CARRY) False (error 34)]]"

definition test_in_sub :: unit_test where
  "test_in_sub in_memory error = seqE [
     TEST_NAME ''Instruction Sub'',
     scope [
       TEST_LABEL ''sub.w #$1111, D1'',
       new_state (in_memory 16),
       on_sut (regs_set REG_D1 SIZE_LONG 0xAABBCCDD),
       on_sut (mem_set 0 SIZE_WORD 0x927C),
       on_sut (mem_set 2 SIZE_WORD 0x1111),
       on_sut (execute (Sub_create 0x927C)),
       expect (regs_get REG_D1 SIZE_LONG) 0xAABBBBCC (error 24),
       expect (flag_get SR_FLAG_EXTEND) False (error 32),
       expect (flag_get SR_FLAG_NEGATIVE) True (error 33),
       expect (flag_get SR_FLAG_ZERO) False (error 34),
       expect (flag_get SR_FLAG_OVERFLOW) False (error 35),
       expect (flag_get SR_FLAG_CARRY) False (error 36)],
     scope [
       TEST_LABEL ''sub.w (A1), D0'',
       new_state (in_memory 42),
       on_sut (regs_set REG_A1 SIZE_LONG 0x1000),
       on_sut (regs_set REG_D0 SIZE_LONG 0xFFFF),
       on_sut (mem_set 0x1000 SIZE_WORD 0x0001),
       on_sut (execute (Sub_create 0x9051)),
       expect (regs_get REG_D0 SIZE_LONG) 0xFFFE (error 50),
       expect (flag_get SR_FLAG_EXTEND) False (error 58),
       expect (flag_get SR_FLAG_NEGATIVE) True (error 59),
       expect (flag_get SR_FLAG_ZERO) False (error 60),
       expect (flag_get SR_FLAG_OVERFLOW) False (error 61),
       expect (flag_get SR_FLAG_CARRY) False (error 62)],
     scope [
       TEST_LABEL ''sub.w D0, (A1)'',
       new_state (in_memory 68),
       on_sut (regs_set REG_A1 SIZE_LONG 0x1000),
       on_sut (regs_set REG_D0 SIZE_LONG 0xFFFE),
       on_sut (mem_set 0x1000 SIZE_WORD 0xFFFF),
       on_sut (execute (Sub_create 0x9151)),
       expect (mem_get 0x1000 SIZE_WORD) 0x00000001 (error 76),
       expect (flag_get SR_FLAG_EXTEND) False (error 84),
       expect (flag_get SR_FLAG_NEGATIVE) False (error 85),
       expect (flag_get SR_FLAG_ZERO) False (error 86),
       expect (flag_get SR_FLAG_OVERFLOW) False (error 87),
       expect (flag_get SR_FLAG_CARRY) False (error 88)]]"

definition test_in_suba :: unit_test where
  "test_in_suba in_memory error = seqE [
     TEST_NAME ''Instruction SUBA'',
     scope [
       TEST_LABEL ''suba.w D0, A1'',
       new_state (in_memory 16),
       on_sut (regs_set REG_A1 SIZE_LONG 0x2000),
       on_sut (regs_set REG_D0 SIZE_LONG 0x1000),
       on_sut (execute (Suba_create 0x92C0)),
       expect (regs_get REG_A1 SIZE_WORD) 0x1000 (error 23),
       expect (flag_get SR_FLAG_EXTEND) False (error 31),
       expect (flag_get SR_FLAG_NEGATIVE) False (error 32),
       expect (flag_get SR_FLAG_ZERO) False (error 33),
       expect (flag_get SR_FLAG_OVERFLOW) False (error 34),
       expect (flag_get SR_FLAG_CARRY) False (error 35)]]"

definition test_in_subx :: unit_test where
  "test_in_subx in_memory error = seqE [
     TEST_NAME ''Instruction SUBX'',
     scope [
       TEST_LABEL ''subx.w D0, D1'',
       new_state (in_memory 16),
       on_sut (regs_set REG_D0 SIZE_LONG 0x0001),
       on_sut (regs_set REG_D1 SIZE_LONG 0x0000),
       on_sut (execute (Subx_create 0x9340)),
       expect (regs_get REG_D1 SIZE_WORD) 0xFFFF (error 24),
       on_sut (regs_set REG_D0 SIZE_LONG 0x0001),
       on_sut (regs_set REG_D1 SIZE_LONG 0x0000),
       on_sut (execute (Subx_create 0x9340)),
       expect (regs_get REG_D1 SIZE_WORD) 0xFFFE (error 30),
       expect (flag_get SR_FLAG_EXTEND) True (error 38),
       expect (flag_get SR_FLAG_NEGATIVE) True (error 39),
       expect (flag_get SR_FLAG_ZERO) False (error 40),
       expect (flag_get SR_FLAG_OVERFLOW) False (error 41),
       expect (flag_get SR_FLAG_CARRY) True (error 42)],
     scope [
       TEST_LABEL ''subx.w -(A0), -(A1)'',
       new_state (in_memory 48),
       on_sut (mem_set 0x1002 SIZE_WORD 0x0001),
       on_sut (mem_set 0x1000 SIZE_WORD 0x0001),
       on_sut (mem_set 0x2002 SIZE_WORD 0x0000),
       on_sut (mem_set 0x2000 SIZE_WORD 0x0000),
       on_sut (regs_set REG_A0 SIZE_LONG 0x1004),
       on_sut (regs_set REG_A1 SIZE_LONG 0x2004),
       on_sut (execute (Subx_create 0x9348)),
       expect (mem_get 0x2002 SIZE_WORD) 0xFFFF (error 61),
       on_sut (mem_set 0x2002 SIZE_WORD 0x0001),
       on_sut (execute (Subx_create 0x9348)),
       expect (mem_get 0x2000 SIZE_WORD) 0xFFFE (error 66),
       expect (flag_get SR_FLAG_EXTEND) True (error 74),
       expect (flag_get SR_FLAG_NEGATIVE) True (error 75),
       expect (flag_get SR_FLAG_ZERO) False (error 76),
       expect (flag_get SR_FLAG_OVERFLOW) False (error 77),
       expect (flag_get SR_FLAG_CARRY) True (error 78)]]"

definition test_in_subi :: unit_test where
  "test_in_subi in_memory error = seqE [
     TEST_NAME ''Instruction SUBI'',
     scope [
       TEST_LABEL ''subi.w #$0001, D0'',
       new_state (in_memory 16),
       on_sut (regs_set REG_D0 SIZE_LONG 0x8000),
       on_sut (mem_set 0 SIZE_WORD 0x0440),
       on_sut (mem_set 2 SIZE_WORD 0x0001),
       on_sut (execute (Subi_create 0x0440)),
       expect (regs_get REG_D0 SIZE_WORD) 0x7FFF (error 25),
       expect (flag_get SR_FLAG_EXTEND) False (error 33),
       expect (flag_get SR_FLAG_NEGATIVE) False (error 34),
       expect (flag_get SR_FLAG_ZERO) False (error 35),
       expect (flag_get SR_FLAG_OVERFLOW) False (error 36),
       expect (flag_get SR_FLAG_CARRY) False (error 37)]]"

definition test_in_subq :: unit_test where
  "test_in_subq in_memory error = seqE [
     TEST_NAME ''Instruction SUBQ'',
     scope [
       TEST_LABEL ''subq #7, D0'',
       new_state (in_memory 16),
       on_sut (regs_set REG_D0 SIZE_WORD 107),
       on_sut (execute (Subq_create 0x5E40)),
       expect (regs_get REG_D0 SIZE_LONG) 100 (error 22),
       expect (flag_get SR_FLAG_EXTEND) False (error 30),
       expect (flag_get SR_FLAG_NEGATIVE) False (error 31),
       expect (flag_get SR_FLAG_ZERO) False (error 32),
       expect (flag_get SR_FLAG_OVERFLOW) False (error 33),
       expect (flag_get SR_FLAG_CARRY) False (error 34)]]"

definition test_in_mul :: unit_test where
  "test_in_mul in_memory error = seqE [
     TEST_NAME ''Instruction MUL'',
     scope [
       TEST_LABEL ''mulu #$0002, D0'',
       new_state (in_memory 16),
       on_sut (regs_set REG_D0 SIZE_LONG 0x1000),
       on_sut (mem_set 0 SIZE_WORD 0xC0FC),
       on_sut (mem_set 2 SIZE_WORD 0x0002),
       on_sut (execute (Mul_create 0xC0FC)),
       expect (regs_get REG_D0 SIZE_WORD) 0x2000 (error 24),
       expect (flag_get SR_FLAG_EXTEND) False (error 32),
       expect (flag_get SR_FLAG_NEGATIVE) False (error 33),
       expect (flag_get SR_FLAG_ZERO) False (error 34),
       expect (flag_get SR_FLAG_OVERFLOW) False (error 35),
       expect (flag_get SR_FLAG_CARRY) False (error 36)],
     scope [
       TEST_LABEL ''muls #$FFFE, D0'',
       new_state (in_memory 42),
       on_sut (regs_set REG_D0 SIZE_LONG 0x1000),
       on_sut (mem_set 0 SIZE_WORD 0xC1FC),
       on_sut (mem_set 2 SIZE_WORD 0xFFFE),
       on_sut (execute (Mul_create 0xC1FC)),
       expect (regs_get REG_D0 SIZE_LONG) (- 8192) (error 50),
       expect (flag_get SR_FLAG_EXTEND) False (error 58),
       expect (flag_get SR_FLAG_NEGATIVE) True (error 59),
       expect (flag_get SR_FLAG_ZERO) False (error 60),
       expect (flag_get SR_FLAG_OVERFLOW) False (error 61),
       expect (flag_get SR_FLAG_CARRY) False (error 62)]]"

definition test_in_div :: unit_test where
  "test_in_div in_memory error = seqE [
     TEST_NAME ''Instruction DIV'',
     scope [
       TEST_LABEL ''divu #$0002, D0'',
       new_state (in_memory 16),
       on_sut (regs_set REG_D0 SIZE_LONG 0x000A),
       on_sut (mem_set 0 SIZE_WORD 0x80FC),
       on_sut (mem_set 2 SIZE_WORD 0x0003),
       on_sut (execute (Div_create 0x80FC)),
       expect (regs_get REG_D0 SIZE_WORD) 3 (error 25),
       expect (mapE (drop_bit 16) (regs_get REG_D0 SIZE_LONG)) 1 (error 28),
       expect (flag_get SR_FLAG_EXTEND) False (error 36),
       expect (flag_get SR_FLAG_NEGATIVE) False (error 37),
       expect (flag_get SR_FLAG_ZERO) False (error 38),
       expect (flag_get SR_FLAG_OVERFLOW) False (error 39),
       expect (flag_get SR_FLAG_CARRY) False (error 40)],
     scope [
       TEST_LABEL ''muls #$FFFE, D0'',
       new_state (in_memory 46),
       on_sut (regs_set REG_D0 SIZE_LONG 0x000A),
       on_sut (mem_set 0 SIZE_WORD 0x81FC),
       on_sut (mem_set 2 SIZE_WORD 0xFFFD),
       on_sut (execute (Div_create 0x81FC)),
       expect (mapE sext16 (regs_get REG_D0 SIZE_WORD)) (- 3) (error 56),
       expect (mapE (drop_bit 16) (regs_get REG_D0 SIZE_LONG)) 1 (error 59),
       expect (flag_get SR_FLAG_EXTEND) False (error 67),
       expect (flag_get SR_FLAG_NEGATIVE) True (error 68),
       expect (flag_get SR_FLAG_ZERO) False (error 69),
       expect (flag_get SR_FLAG_OVERFLOW) False (error 70),
       expect (flag_get SR_FLAG_CARRY) False (error 71)]]"

definition test_in_nop :: unit_test where
  "test_in_nop in_memory error = seqE [
     TEST_NAME ''Instruction NOP'',
     scope [
       TEST_LABEL ''nop'',
       new_state (in_memory 16),
       on_sut (execute (Nop_create 0x4E71)),
       expect (regs_get REG_PC SIZE_LONG) 0x00000002 (error 21)]]"

definition test_in_jmp :: unit_test where
  "test_in_jmp in_memory error = seqE [
     TEST_NAME ''Instruction JMP'',
     scope [
       TEST_LABEL ''jmp (A0)'',
       new_state (in_memory 16),
       on_sut (regs_set REG_A0 SIZE_LONG 0x2000),
       on_sut (execute (Jmp_create 0x4ED0)),
       expect (regs_get REG_PC SIZE_LONG) 0x2000 (error 22)]]"

definition test_in_jsr_rts :: unit_test where
  "test_in_jsr_rts in_memory error = seqE [
     TEST_NAME ''Instruction JSR/RTS'',
     scope [
       new_state (in_memory 16),
       TEST_LABEL ''jsr (A0)'',
       on_sut (regs_set REG_USP SIZE_LONG MEMORY_SIZE),
       on_sut (regs_set REG_PC SIZE_LONG 0xF000),
       on_sut (regs_set REG_A0 SIZE_LONG 0x2000),
       on_sut (execute (Jsr_create 0x4E90)),
       expect (regs_get REG_PC SIZE_LONG) 0x2000 (error 27),
       TEST_LABEL ''rts'',
       on_sut (execute (Rts_create 0x4E75)),
       expect (regs_get REG_PC SIZE_LONG) 0xF002 (error 34)]]"

definition test_in_link_unlk :: unit_test where
  "test_in_link_unlk in_memory error = seqE [
     TEST_NAME ''Instruction LINK / UNLK'',
     scope [
       TEST_LABEL ''link A1, -8'',
       new_state (in_memory 17),
       on_sut (regs_set REG_USP SIZE_LONG MEMORY_SIZE),
       on_sut (regs_set REG_A1 SIZE_WORD 0x2000),
       on_sut (mem_set 0x0000 SIZE_WORD 0x4E51),
       on_sut (mem_set 0x0002 SIZE_WORD 0xFFF8),
       on_sut (execute (Link_create 0x4E51)),
       expect (regs_get REG_A1 SIZE_LONG) 0x00FFFFFC (error 28),
       expect (regs_get REG_USP SIZE_LONG) 0x00FFFFF4 (error 31),
       TEST_LABEL ''unlk A1'',
       on_sut (execute (Unlk_create 0x4E59)),
       expect (regs_get REG_A1 SIZE_LONG) 0x2000 (error 38),
       expect (regs_get REG_USP SIZE_LONG) MEMORY_SIZE (error 41)]]"

definition test_in_ext :: unit_test where
  "test_in_ext in_memory error = seqE [
     TEST_NAME ''Instruction EXT'',
     scope [
       TEST_LABEL ''ext.w D1'',
       new_state (in_memory 16),
       on_sut (regs_set REG_D1 SIZE_BYTE 0xfffffff6),
       on_sut (execute (Ext_create 0x4881)),
       expect (mapE sext16 (regs_get REG_D1 SIZE_WORD)) (- 10) (error 22)],
     scope [
       TEST_LABEL ''ext.l D1'',
       new_state (in_memory 28),
       on_sut (regs_set REG_D1 SIZE_WORD 0xfffffff6),
       on_sut (execute (Ext_create 0x48C1)),
       expect (regs_get REG_D1 SIZE_LONG) (- 10) (error 34)]]"

definition test_in_bcc :: unit_test where
  "test_in_bcc in_memory error = seqE [
     TEST_NAME ''Instruction Bcc'',
     scope [
       new_state (in_memory 15),
       TEST_LABEL ''bvs.s 0x04'',
       on_sut (flag_set SR_FLAG_OVERFLOW True),
       on_sut (regs_set REG_PC SIZE_LONG 0x1000),
       on_sut (execute (Bcc_create 0x6902)),
       expect (regs_get REG_PC SIZE_LONG) 0x1004 (error 25)],
     scope [
       new_state (in_memory 30),
       TEST_LABEL ''bvs.s 0x04'',
       on_sut (flag_set SR_FLAG_OVERFLOW False),
       on_sut (regs_set REG_PC SIZE_LONG 0x1000),
       on_sut (execute (Bcc_create 0x6902)),
       expect (regs_get REG_PC SIZE_LONG) 0x1002 (error 40)],
     scope [
       new_state (in_memory 45),
       TEST_LABEL ''bvs.w 0x1002'',
       on_sut (flag_set SR_FLAG_OVERFLOW True),
       on_sut (regs_set REG_PC SIZE_LONG 0x1000),
       on_sut (mem_set 0x1000 SIZE_WORD 0x6900),
       on_sut (mem_set 0x1002 SIZE_WORD 0x1000),
       on_sut (execute (Bcc_create 0x6900)),
       expect (regs_get REG_PC SIZE_LONG) 0x2002 (error 58)],
     scope [
       new_state (in_memory 63),
       TEST_LABEL ''bvs.l 0x00010002'',
       on_sut (flag_set SR_FLAG_OVERFLOW True),
       on_sut (regs_set REG_PC SIZE_LONG 0x1000),
       on_sut (mem_set 0x1000 SIZE_WORD 0x69FF),
       on_sut (mem_set 0x1002 SIZE_LONG 0x10000),
       on_sut (execute (Bcc_create 0x69FF)),
       expect (regs_get REG_PC SIZE_LONG) 0x11002 (error 76)],
     scope [
       new_state (in_memory 81),
       TEST_LABEL ''bvs.l 0x00010002'',
       on_sut (flag_set SR_FLAG_OVERFLOW False),
       on_sut (regs_set REG_PC SIZE_LONG 0x1000),
       on_sut (mem_set 0x1000 SIZE_WORD 0x69FF),
       on_sut (mem_set 0x1002 SIZE_LONG 0x10000),
       on_sut (execute (Bcc_create 0x69FF)),
       expect (regs_get REG_PC SIZE_LONG) 0x1006 (error 94)]]"

definition test_in_scc :: unit_test where
  "test_in_scc in_memory error = seqE [
     TEST_NAME ''Instruction Scc'',
     scope [
       new_state (in_memory 15),
       TEST_LABEL ''svs D0'',
       on_sut (regs_set REG_D0 SIZE_BYTE 0x00),
       on_sut (flag_set SR_FLAG_OVERFLOW True),
       on_sut (execute (Scc_create 0x59C0)),
       expect (regs_get REG_D0 SIZE_BYTE) 0xFF (error 25)],
     scope [
       new_state (in_memory 30),
       TEST_LABEL ''svs D0'',
       on_sut (regs_set REG_D0 SIZE_BYTE 0xFF),
       on_sut (flag_set SR_FLAG_OVERFLOW False),
       on_sut (execute (Scc_create 0x59C0)),
       expect (regs_get REG_D0 SIZE_BYTE) 0x00 (error 40)]]"

definition test_in_bit_manip :: unit_test where
  "test_in_bit_manip in_memory error = seqE [
     TEST_NAME ''Instruction bit manipulation'',
     scope [
       TEST_LABEL ''btst D0, D1'',
       new_state (in_memory 16),
       on_sut (regs_set REG_D0 SIZE_LONG 41),
       on_sut (regs_set REG_D1 SIZE_LONG (push_bit 9 1)),
       on_sut (execute (BitManip_create 0x0101)),
       expect (regs_get REG_D1 SIZE_LONG) (push_bit 9 1) (error 23),
       expect (flag_get SR_FLAG_EXTEND) False (error 31),
       expect (flag_get SR_FLAG_NEGATIVE) False (error 32),
       expect (flag_get SR_FLAG_ZERO) False (error 33),
       expect (flag_get SR_FLAG_OVERFLOW) False (error 34),
       expect (flag_get SR_FLAG_CARRY) False (error 35)],
     scope [
       TEST_LABEL ''btst D0, (A1)'',
       new_state (in_memory 41),
       on_sut (regs_set REG_D0 SIZE_LONG 41),
       on_sut (regs_set REG_A0 SIZE_LONG 0),
       on_sut (mem_set 0 SIZE_BYTE (push_bit 1 1)),
       on_sut (execute (BitManip_create 0x0111)),
       expect (mem_get 0 SIZE_BYTE) (push_bit 1 1) (error 50),
       expect (flag_get SR_FLAG_EXTEND) False (error 58),
       expect (flag_get SR_FLAG_NEGATIVE) False (error 59),
       expect (flag_get SR_FLAG_ZERO) False (error 60),
       expect (flag_get SR_FLAG_OVERFLOW) False (error 61),
       expect (flag_get SR_FLAG_CARRY) False (error 62)],
     scope [
       TEST_LABEL ''bchg D0, D1'',
       new_state (in_memory 68),
       on_sut (regs_set REG_D0 SIZE_LONG 41),
       on_sut (regs_set REG_D1 SIZE_LONG (push_bit 9 1)),
       on_sut (execute (BitManip_create 0x0141)),
       expect (regs_get REG_D1 SIZE_LONG) 0 (error 75),
       expect (flag_get SR_FLAG_EXTEND) False (error 83),
       expect (flag_get SR_FLAG_NEGATIVE) False (error 84),
       expect (flag_get SR_FLAG_ZERO) False (error 85),
       expect (flag_get SR_FLAG_OVERFLOW) False (error 86),
       expect (flag_get SR_FLAG_CARRY) False (error 87)],
     scope [
       TEST_LABEL ''bclr D0, D1'',
       new_state (in_memory 93),
       on_sut (regs_set REG_D0 SIZE_LONG 41),
       on_sut (regs_set REG_D1 SIZE_LONG (push_bit 9 1)),
       on_sut (execute (BitManip_create 0x0181)),
       expect (regs_get REG_D1 SIZE_LONG) 0 (error 100),
       expect (flag_get SR_FLAG_EXTEND) False (error 108),
       expect (flag_get SR_FLAG_NEGATIVE) False (error 109),
       expect (flag_get SR_FLAG_ZERO) False (error 110),
       expect (flag_get SR_FLAG_OVERFLOW) False (error 111),
       expect (flag_get SR_FLAG_CARRY) False (error 112)],
     scope [
       TEST_LABEL ''bset D0, D1'',
       new_state (in_memory 118),
       on_sut (regs_set REG_D0 SIZE_LONG 41),
       on_sut (regs_set REG_D1 SIZE_LONG 0),
       on_sut (execute (BitManip_create 0x01C1)),
       expect (regs_get REG_D1 SIZE_LONG) (push_bit 9 1) (error 125),
       expect (flag_get SR_FLAG_EXTEND) False (error 133),
       expect (flag_get SR_FLAG_NEGATIVE) False (error 134),
       expect (flag_get SR_FLAG_ZERO) True (error 135),
       expect (flag_get SR_FLAG_OVERFLOW) False (error 136),
       expect (flag_get SR_FLAG_CARRY) False (error 137)]]"

text \<open>The programs, in the order of \<open>src/test/CMakeLists.txt\<close>.\<close>

definition unit_tests :: "unit_test list" where
  "unit_tests = [test_addressing, test_disassembler, test_in_move, test_in_moveq, test_in_lea,
     test_in_add, test_in_adda, test_in_addx, test_in_addi, test_in_addq,
     test_in_sub, test_in_suba, test_in_subx, test_in_subi, test_in_subq,
     test_in_mul, test_in_div, test_in_nop, test_in_jmp, test_in_jsr_rts,
     test_in_link_unlk, test_in_ext, test_in_bcc, test_in_scc, test_in_bit_manip]"

section \<open>Running them\<close>

text \<open>A test test_ok when no assertion throws, from any state of the two global strings and of the output.\<close>

definition test_ok :: "(Unit_test, unit) exec \<Rightarrow> bool" where
  "test_ok m \<longleftrightarrow> (\<forall>t. fst (m t) = Inr ())"

lemma test_ok_name: "test_ok (TEST_NAME txt)"
  by (simp add: test_ok_def)

lemma test_ok_Nil: "test_ok (seqE [])"
  by (simp add: test_ok_def returnE_def)

lemma test_ok_Cons: "test_ok m \<Longrightarrow> test_ok (seqE ms) \<Longrightarrow> test_ok (seqE (m # ms))"
  by (auto simp: test_ok_def bindE_apply split: prod.split sum.split) (metis fst_conv sum.distinct(1))

lemmas test_ok_intros = test_ok_name test_ok_Nil test_ok_Cons

definition supplied :: "(nat \<Rightarrow> bytes) \<Rightarrow> nat \<Rightarrow> BaseMemory option" where
  "supplied fresh n = Some \<lparr>baseAddr = fresh n, memSize = MEMORY_SIZE\<rparr>"

definition start :: "bytes \<Rightarrow> CPUState" where
  "start b = \<lparr>memory = \<lparr>baseAddr = b, memSize = MEMORY_SIZE\<rparr>, registers = Registers_new\<rparr>"

lemma new_state_apply [simp]:
  "new_state (supplied fresh n) t = (Inr (), t\<lparr>sut := start (fresh n)\<rparr>)"
  "new_state None t = (Inl Undefined_behaviour, t)"
  by (simp_all add: new_state_def CPUState_new_def supplied_def start_def)

lemma start_simps [simp]:
  "rval (start b) r = 0" "pc_of (start b) = 0" "flag (start b) f \<longleftrightarrow> False"
  "memSize (memory (start b)) = 0x1000000"
  by (simp_all add: start_def rval_def pc_of_def Registers_new_def flag_def flag_get_bit MEMORY_SIZE_def)

lemma on_sut_apply [simp]: "m (sut t) = (r, s) \<Longrightarrow> on_sut m t = (r, t\<lparr>sut := s\<rparr>)"
  by (simp add: on_sut_def)

lemma expect_test_ok [simp]: "m (sut t) = (Inr v, s) \<Longrightarrow>
    expect m v error t = (Inr (), t\<lparr>sut := s, cout := cout t @ verdict (test_name t) (test_label t) True\<rparr>)"
  by (simp add: expect_def verdict_def)

lemma mem_set_apply: "mem_set a sz v s = (case BaseMemory_set (memory s) (ucast a) sz v of
    Inl e \<Rightarrow> (Inl e, s) | Inr m \<Rightarrow> (Inr (), s\<lparr>memory := m\<rparr>))"
  by (simp add: mem_set_def)

lemma mapE_apply [simp]: "m s = (Inr x, s') \<Longrightarrow> mapE f m s = (Inr (f x), s')"
  by (simp add: mapE_def)

lemma hex_nat_step: "n < 16 \<Longrightarrow> hex_nat n = [hex_digit n]" "16 \<le> n \<Longrightarrow> hex_nat n = hex_nat (n div 16) @ [hex_digit (n mod 16)]"
  by (simp_all add: hex_nat.simps [of n])

lemma merge_small:
  "merge SIZE_BYTE old v = (old AND 0xFFFFFF00) OR take_bit 8 v"
  "merge SIZE_WORD old v = (old AND 0xFFFF0000) OR take_bit 16 v"
proof -
  have m: "(- 256 :: 32 word) = 0xFFFFFF00" "(- 65536 :: 32 word) = 0xFFFF0000" by simp_all
  show "merge SIZE_BYTE old v = (old AND 0xFFFFFF00) OR take_bit 8 v" "merge SIZE_WORD old v = (old AND 0xFFFF0000) OR take_bit 16 v"
    unfolding m [symmetric] by (simp_all add: merge_def mask_eq_exp_minus_1)
qed

lemma ucast_minus_1: "(ucast (- 1 :: 32 word) :: 64 word) = 0xFFFFFFFF"
  by code_simp

lemma bind_flags: "bindE (flag_get f) g s = g (flag s f) s"
  "bindE (checkCondition c) h s = h (projr (fst (checkCondition c s))) s"
  by (simp_all add: checkCondition_flags)

lemmas unit_simps = view general_reg_def scope_def test_ok_def exec_simps bits Let_def sext16_def
  mem_get_apply mem_set_apply BaseMemory_get_eq BaseMemory_set_eq phys_mod MEMORY_SIZE_def
  getAddressingMode_def getRegisterType_def mode_table_def reg_of_nat_def reg_table_def
  getCondition_def condition_table_def size_part_def inc_step_def stackPush_def stackPop_def
  merge_small ucast_minus_1 bind_flags index_extension_def sext8_def wide_def narrow_def size_bit_def size_w_def
  IS_CARRY.simps IS_ZERO.simps IS_NEGATIVE.simps IS_OVERFLOW.simps

lemmas text_simps = unit_simps hex_def hex_nat_step hex_digit_def index_text_def index_disp_def

lemma test_addressing_ok: "test_ok (test_addressing (supplied fresh) error)"
  unfolding test_addressing_def
  by (intro test_ok_intros; simp add: unit_simps Move_create_def Move_new_def Move_execute_def move_size_def)

lemma test_disassembler_ok: "test_ok (test_disassembler (supplied fresh) error)"
  unfolding test_disassembler_def
  by (intro test_ok_intros; simp add: text_simps Move_create_def Move_new_def Move_disassembly_def move_size_def)

lemma test_in_move_ok: "test_ok (test_in_move (supplied fresh) error)"
  unfolding test_in_move_def
  by (intro test_ok_intros; simp add: unit_simps Move_create_def Move_new_def Move_execute_def move_size_def)

lemma test_in_moveq_ok: "test_ok (test_in_moveq (supplied fresh) error)"
  unfolding test_in_moveq_def
  by (intro test_ok_intros; simp add: unit_simps Moveq_create_def Moveq_new_def Moveq_execute_def)

lemma test_in_lea_ok: "test_ok (test_in_lea (supplied fresh) error)"
  unfolding test_in_lea_def
  by (intro test_ok_intros; simp add: unit_simps Lea_create_def Lea_new_def Lea_execute_def)

lemma test_in_add_ok: "test_ok (test_in_add (supplied fresh) error)"
  unfolding test_in_add_def
  by (intro test_ok_intros; simp add: unit_simps Add_create_def Add_new_def Add_execute_def)

lemma test_in_adda_ok: "test_ok (test_in_adda (supplied fresh) error)"
  unfolding test_in_adda_def
  by (intro test_ok_intros; simp add: unit_simps Adda_create_def Adda_new_def Adda_execute_def)

lemma test_in_addx_ok: "test_ok (test_in_addx (supplied fresh) error)"
  unfolding test_in_addx_def
  by (intro test_ok_intros; simp add: unit_simps Addx_create_def Addx_new_def Addx_execute_def)

lemma test_in_addi_ok: "test_ok (test_in_addi (supplied fresh) error)"
  unfolding test_in_addi_def
  by (intro test_ok_intros; simp add: unit_simps Addi_create_def Addi_new_def Addi_execute_def)

lemma test_in_addq_ok: "test_ok (test_in_addq (supplied fresh) error)"
  unfolding test_in_addq_def
  by (intro test_ok_intros; simp add: unit_simps Addq_create_def Addq_new_def Addq_execute_def)

lemma test_in_sub_ok: "test_ok (test_in_sub (supplied fresh) error)"
  unfolding test_in_sub_def
  by (intro test_ok_intros; simp add: unit_simps Sub_create_def Sub_new_def Sub_execute_def)

lemma test_in_suba_ok: "test_ok (test_in_suba (supplied fresh) error)"
  unfolding test_in_suba_def
  by (intro test_ok_intros; simp add: unit_simps Suba_create_def Suba_new_def Suba_execute_def)

lemma test_in_subx_ok: "test_ok (test_in_subx (supplied fresh) error)"
  unfolding test_in_subx_def
  by (intro test_ok_intros; simp add: unit_simps Subx_create_def Subx_new_def Subx_execute_def)

lemma test_in_subi_ok: "test_ok (test_in_subi (supplied fresh) error)"
  unfolding test_in_subi_def
  by (intro test_ok_intros; simp add: unit_simps Subi_create_def Subi_new_def Subi_execute_def)

lemma test_in_subq_ok: "test_ok (test_in_subq (supplied fresh) error)"
  unfolding test_in_subq_def
  by (intro test_ok_intros; simp add: unit_simps Subq_create_def Subq_new_def Subq_execute_def)

lemma test_in_mul_ok: "test_ok (test_in_mul (supplied fresh) error)"
  unfolding test_in_mul_def
  by (intro test_ok_intros; simp add: unit_simps Mul_create_def Mul_new_def Mul_execute_def mul_result_def)

lemma test_in_div_ok: "test_ok (test_in_div (supplied fresh) error)"
  unfolding test_in_div_def
  by (intro test_ok_intros; simp add: unit_simps Div_create_def Div_new_def Div_execute_def div_result_def)

lemma test_in_nop_ok: "test_ok (test_in_nop (supplied fresh) error)"
  unfolding test_in_nop_def
  by (intro test_ok_intros; simp add: unit_simps Nop_create_def Nop_new_def Nop_execute_def)

lemma test_in_jmp_ok: "test_ok (test_in_jmp (supplied fresh) error)"
  unfolding test_in_jmp_def
  by (intro test_ok_intros; simp add: unit_simps Jmp_create_def Jmp_new_def Jmp_execute_def)

lemma test_in_jsr_rts_ok: "test_ok (test_in_jsr_rts (supplied fresh) error)"
  unfolding test_in_jsr_rts_def
  by (intro test_ok_intros; simp add: unit_simps Jsr_create_def Jsr_new_def Jsr_execute_def Rts_create_def Rts_new_def Rts_execute_def)

lemma test_in_link_unlk_ok: "test_ok (test_in_link_unlk (supplied fresh) error)"
  unfolding test_in_link_unlk_def
  by (intro test_ok_intros; simp add: unit_simps Link_create_def Link_new_def Link_execute_def Unlk_create_def Unlk_new_def Unlk_execute_def)

lemma test_in_ext_ok: "test_ok (test_in_ext (supplied fresh) error)"
  unfolding test_in_ext_def
  by (intro test_ok_intros; simp add: unit_simps Ext_create_def Ext_new_def Ext_execute_def)

lemma test_in_bcc_ok: "test_ok (test_in_bcc (supplied fresh) error)"
  unfolding test_in_bcc_def
  by (intro test_ok_intros; simp add: unit_simps Bcc_create_def Bcc_new_def Bcc_execute_def Bcc_displacement_def Bcc_copies_agree checkCondition_flags)

lemma test_in_scc_ok: "test_ok (test_in_scc (supplied fresh) error)"
  unfolding test_in_scc_def
  by (intro test_ok_intros; simp add: unit_simps Scc_create_def Scc_new_def Scc_execute_def checkCondition_flags)

lemma test_in_bit_manip_ok: "test_ok (test_in_bit_manip (supplied fresh) error)"
  unfolding test_in_bit_manip_def
  by (intro test_ok_intros; simp add: unit_simps BitManip_create_def BitManip_new_def BitManip_execute_def bit_op_def bit_result_def)

section \<open>The property\<close>

text \<open>With a memory every test passes; as they are written, every one has undefined behaviour.\<close>

lemma unit_tests_pass: "list_all (\<lambda>m. test_ok (m (supplied fresh) error)) unit_tests"
  unfolding unit_tests_def
  by (simp add: test_addressing_ok test_disassembler_ok test_in_move_ok test_in_moveq_ok test_in_lea_ok
    test_in_add_ok test_in_adda_ok test_in_addx_ok test_in_addi_ok test_in_addq_ok
    test_in_sub_ok test_in_suba_ok test_in_subx_ok test_in_subi_ok test_in_subq_ok
    test_in_mul_ok test_in_div_ok test_in_nop_ok test_in_jmp_ok test_in_jsr_rts_ok
    test_in_link_unlk_ok test_in_ext_ok test_in_bcc_ok test_in_scc_ok test_in_bit_manip_ok)

lemma unit_tests_undefined: "list_all (\<lambda>m. fst (m (\<lambda>_. None) error t) = Inl Undefined_behaviour) unit_tests"
  by (simp add: unit_tests_def exec_simps scope_def
    test_addressing_def test_disassembler_def test_in_move_def test_in_moveq_def test_in_lea_def
    test_in_add_def test_in_adda_def test_in_addx_def test_in_addi_def test_in_addq_def
    test_in_sub_def test_in_suba_def test_in_subx_def test_in_subi_def test_in_subq_def
    test_in_mul_def test_in_div_def test_in_nop_def test_in_jmp_def test_in_jsr_rts_def
    test_in_link_unlk_def test_in_ext_def test_in_bcc_def test_in_scc_def test_in_bit_manip_def)

end
