(* ===== verification/Program_Tests.thy ===== *)
theory Program_Tests
  imports Fibonacci_Test Bubblesort_Test Unit_Tests
begin

text \<open>
  The tests of the memory, of the step and of whole programs: \<open>src/test/test_memory.cpp\<close>,
  \<open>test_cpu_step.cpp\<close>, \<open>test_fibonacci.cpp\<close> and \<open>test_bubblesort.cpp\<close>.  As in the unit tests, \<open>fresh\<close>
  gives the contents of new memory, and \<open>error\<close> the text of a line.
\<close>

section \<open>The test of the memory\<close>

text \<open>The variables \<open>memory\<close> and \<open>data\<close> of \<open>main\<close>.\<close>

record Memory_test = Test +
  mem_var :: BaseMemory
  data_var :: "32 word"

definition new_memory :: "bytes \<Rightarrow> (Memory_test, unit) exec" where
  "new_memory fresh = (\<lambda>t. case SimpleMemory_new fresh of Inl e \<Rightarrow> (Inl e, t) | Inr m \<Rightarrow> (Inr (), t\<lparr>mem_var := m\<rparr>))"

definition store :: "64 word \<Rightarrow> DataSize \<Rightarrow> 32 word \<Rightarrow> (Memory_test, unit) exec" where
  "store a sz v = (\<lambda>t. case BaseMemory_set (mem_var t) a sz v of
     Inl e \<Rightarrow> (Inl e, t) | Inr m \<Rightarrow> (Inr (), t\<lparr>mem_var := m\<rparr>))"

definition load :: "64 word \<Rightarrow> DataSize \<Rightarrow> (Memory_test, unit) exec" where
  "load a sz = (\<lambda>t. case BaseMemory_get (mem_var t) a sz of
     Inl e \<Rightarrow> (Inl e, t) | Inr v \<Rightarrow> (Inr (), t\<lparr>data_var := v\<rparr>))"

definition test_memory :: "bytes \<Rightarrow> string \<Rightarrow> string \<Rightarrow> (exn \<Rightarrow> string) \<Rightarrow> (nat \<Rightarrow> string) \<Rightarrow> (Memory_test, unit) exec" where
  "test_memory fresh length_name range_name what error = seqE [
     TEST_NAME ''memory'',
     new_memory fresh,
     TEST_LABEL ''set long'',
     TEST_NO_THROW what (store 0x00 SIZE_LONG 0xAABBCCDD) (error 16),
     TEST_LABEL ''set word'',
     TEST_NO_THROW what (store 0x00 SIZE_WORD 0xAABB) (error 21),
     TEST_LABEL ''set byte'',
     TEST_NO_THROW what (store 0x00 SIZE_BYTE 0xAA) (error 26),
     TEST_LABEL ''set long odd address'',
     TEST_THROW (\<lambda>e. e = Length_error) length_name (store 0x01 SIZE_LONG 0xAABBCCDD) (error 31),
     TEST_LABEL ''set word odd address'',
     TEST_THROW (\<lambda>e. e = Length_error) length_name (store 0x01 SIZE_WORD 0xAABB) (error 39),
     TEST_LABEL ''set byte odd address'',
     TEST_NO_THROW what (store 0x01 SIZE_BYTE 0xAA) (error 47),
     TEST_LABEL ''set out of range long'',
     TEST_THROW (\<lambda>e. e = Out_of_range) range_name (store 0xFFFFFE SIZE_LONG 0xAABBCCDD) (error 54),
     store 0x00 SIZE_LONG 0xAABBCCDD,
     TEST_LABEL ''get long'',
     load 0x00 SIZE_LONG,
     (\<lambda>t. TEST_TRUE (data_var t = 0xAABBCCDD) (error 75) t),
     TEST_LABEL ''get word'',
     load 0x00 SIZE_WORD,
     (\<lambda>t. TEST_TRUE (data_var t = 0xAABB) (error 79) t),
     TEST_LABEL ''get byte'',
     load 0x00 SIZE_BYTE,
     (\<lambda>t. TEST_TRUE (data_var t = 0xAA) (error 83) t),
     TEST_LABEL ''get long odd address'',
     TEST_THROW (\<lambda>e. e = Length_error) length_name (load 0x01 SIZE_LONG) (error 86),
     TEST_LABEL ''get word odd address'',
     TEST_THROW (\<lambda>e. e = Length_error) length_name (load 0x01 SIZE_WORD) (error 94),
     TEST_LABEL ''get byte odd address'',
     TEST_NO_THROW what (load 0x01 SIZE_BYTE) (error 102),
     TEST_LABEL ''get out of range long'',
     TEST_THROW (\<lambda>e. e = Out_of_range) range_name (load 0xFFFFFE SIZE_LONG) (error 109)]"

lemma new_memory_apply [simp]:
  "new_memory fresh t = (Inr (), t\<lparr>mem_var := \<lparr>baseAddr = fresh(unat (MEMORY_SIZE - 1) := 0), memSize = MEMORY_SIZE\<rparr>\<rparr>)"
  by (simp add: new_memory_def SimpleMemory_new_def BaseMemory_new_def MEMORY_SIZE_def)

theorem memory_test_passes: "fst (test_memory fresh length_name range_name what error t) = Inr ()"
  by (simp add: test_memory_def exec_simps store_def load_def BaseMemory_get_eq BaseMemory_set_eq phys_mod MEMORY_SIZE_def bits)

section \<open>The test of the step\<close>

record Cpu_test = Test +
  cpu_var :: CPU

definition on_cpu :: "(CPU, 'a) exec \<Rightarrow> (Cpu_test, 'a) exec" where
  "on_cpu m = (\<lambda>t. case m (cpu_var t) of (r, c) \<Rightarrow> (r, t\<lparr>cpu_var := c\<rparr>))"

text \<open>A call that also writes on \<open>std::cout\<close>.\<close>

definition on_cpu_cout :: "(CPU \<times> string, 'a) exec \<Rightarrow> (Cpu_test, 'a) exec" where
  "on_cpu_cout m = (\<lambda>t. case m (cpu_var t, cout t) of (r, c, out) \<Rightarrow> (r, t\<lparr>cpu_var := c, cout := out\<rparr>))"

definition new_cpu :: "bytes \<Rightarrow> (Cpu_test, unit) exec" where
  "new_cpu fresh = (\<lambda>t. case CPU_new fresh of Inl e \<Rightarrow> (Inl e, t) | Inr c \<Rightarrow> (Inr (), t\<lparr>cpu_var := c\<rparr>))"

definition expect_reg :: "RegisterType \<Rightarrow> 32 word \<Rightarrow> string \<Rightarrow> (Cpu_test, unit) exec" where
  "expect_reg r v error =
     bindE (on_cpu (on_state (regs_get r SIZE_LONG))) (\<lambda>return_data. TEST_TRUE (return_data = v) error)"

definition test_cpu_step :: "bytes \<Rightarrow> (nat \<Rightarrow> string) \<Rightarrow> (Cpu_test, unit) exec" where
  "test_cpu_step fresh error = seqE [
     TEST_NAME ''CPU step'',
     new_cpu fresh,
     TEST_LABEL ''moveq, moveq, addl'',
     on_cpu (on_state (mem_set 0x1000 SIZE_WORD 0x7064)),
     on_cpu (on_state (mem_set 0x1002 SIZE_WORD 0x7264)),
     on_cpu (on_state (mem_set 0x1004 SIZE_WORD 0xD280)),
     on_cpu (on_state (regs_set REG_PC SIZE_LONG 0x1000)),
     on_cpu CPU_step,
     expect_reg REG_D0 100 (error 25),
     on_cpu CPU_step,
     expect_reg REG_D1 100 (error 29),
     on_cpu CPU_step,
     expect_reg REG_D1 200 (error 33)]"

lemma new_cpu_state:
  obtains c where "new_cpu fresh t = (Inr (), t\<lparr>cpu_var := c\<rparr>)" and "CPU_new fresh = Inr c"
  by (rule CPU_new_ok [of fresh]) (auto simp: new_cpu_def)

lemma on_cpu_apply [simp]: "m (cpu_var t) = (r, c) \<Longrightarrow> on_cpu m t = (r, t\<lparr>cpu_var := c\<rparr>)"
  by (simp add: on_cpu_def)

lemma on_state_run [simp]: "m (state c) = (r, s) \<Longrightarrow> on_state m c = (r, c\<lparr>state := s\<rparr>)"
  by (simp add: on_state_def)

lemma expect_reg_passes [simp]:
  "rval (state (cpu_var t)) r = v \<Longrightarrow> general_reg r \<Longrightarrow> expect_reg r v error t = (Inr (), t\<lparr>cout := cout t @ verdict (test_name t) (test_label t) True\<rparr>)"
  by (simp add: expect_reg_def)

lemma decoder_ok_state [simp]: "decoder_ok (c\<lparr>state := s\<rparr>) \<longleftrightarrow> decoder_ok c"
  by (simp add: decoder_ok_def)

lemma step_apply:
  "decoder_ok c \<Longrightarrow> CPU_step c = (case BaseMemory_get (memory (state c)) (ucast (pc_of (state c))) SIZE_WORD of
     Inl e \<Rightarrow> (Inl e, c) | Inr w \<Rightarrow> on_state (execute (decode_spec (ucast w))) c)"
  by (rule CPU_step_eq)

lemma three_opcodes:
  "decode_spec 0x7064 = I_Moveq (Moveq_new 0x7064)" "decode_spec 0x7264 = I_Moveq (Moveq_new 0x7264)"
  "decode_spec 0xD280 = I_Add (Add_new 0xD280)"
  by code_simp+

theorem cpu_step_test_passes: "fst (test_cpu_step fresh error t) = Inr ()"
proof -
  obtain c where c: "decoder_ok c" "full (memory (state c))" "new_cpu fresh u = (Inr (), u\<lparr>cpu_var := c\<rparr>)" for u
    by (rule CPU_new_ok [of fresh]) (simp add: new_cpu_def)
  show ?thesis
    using c(1) full_size [OF c(2)]
    by (simp add: test_cpu_step_def c(3) step_apply three_opcodes unit_simps Moveq_new_def Moveq_execute_def Add_new_def Add_execute_def)
qed

text \<open>
  The unit tests of the repository hold of the code: the 25 test programs of single
  instructions, addressing modes and disassembly (72 scopes) pass when their states are given a
  memory, with any contents; as they are written they construct CPUState with a null pointer and
  have undefined behaviour. The tests of the memory and of CPU::step pass as they are written.
\<close>

theorem repository_tests_pass:
  "list_all (\<lambda>m. test_ok (m (supplied fresh) error)) unit_tests \<and>
   list_all (\<lambda>m. fst (m (\<lambda>_. None) error s) = Inl Undefined_behaviour) unit_tests \<and>
   fst (test_memory fresh_memory length_name range_name what error t) = Inr () \<and>
   fst (test_cpu_step fresh_cpu error u) = Inr ()"
  by (intro conjI unit_tests_pass unit_tests_undefined memory_test_passes cpu_step_test_passes)

section \<open>Programs\<close>

text \<open>
  What is common to the two programs: what is done before the loop, the loop that steps until the
  program counter is at an address, and what is done after it.
\<close>

definition test_loop :: "(Cpu_test, unit) exec \<Rightarrow> 32 word \<Rightarrow> (Cpu_test, unit) exec \<Rightarrow> Cpu_test \<Rightarrow> ((exn + unit) \<times> Cpu_test) option" where
  "test_loop before halt after t =
     (case before t of
        (Inl e, t) \<Rightarrow> Some (Inl e, t)
      | (Inr _, t) \<Rightarrow>
         (case run_until halt (cpu_var t) of
            None \<Rightarrow> None
          | Some (Inl e, c) \<Rightarrow> Some (Inl e, t\<lparr>cpu_var := c\<rparr>)
          | Some (Inr _, c) \<Rightarrow> Some (after (t\<lparr>cpu_var := c\<rparr>))))"

definition test_fibonacci ::
    "ElfConsts \<Rightarrow> (string \<Rightarrow> ElfFile option) \<Rightarrow> bytes \<Rightarrow> (nat \<Rightarrow> string) \<Rightarrow> Cpu_test \<Rightarrow> ((exn + unit) \<times> Cpu_test) option" where
  "test_fibonacci k reader fresh error = test_loop
     (seqE [
       TEST_NAME ''Program fibonacci'',
       TEST_LABEL ''fibonacci'',
       new_cpu fresh,
       bindE (on_cpu_cout (load_elf k reader ''../../test/binary/fibonacci.elf'')) (\<lambda>_. returnE ())])
     0x10058
     (bindE (on_cpu (on_state (mem_get 0x4000 SIZE_LONG))) (\<lambda>data. TEST_TRUE (data = 6765) (error 21)))"

fun check_order :: "nat list \<Rightarrow> 32 word \<Rightarrow> string \<Rightarrow> (Cpu_test, unit) exec" where
  "check_order [] last_data error = returnE ()"
| "check_order (i # is) last_data error =
     bindE (on_cpu (on_state (mem_get (0x3000 + of_nat i * size_w SIZE_LONG) SIZE_LONG))) (\<lambda>data.
     bindE (TEST_TRUE (last_data \<le> data) error) (\<lambda>_.
     check_order is data error))"

definition test_bubblesort ::
    "ElfConsts \<Rightarrow> (string \<Rightarrow> ElfFile option) \<Rightarrow> bytes \<Rightarrow> (nat \<Rightarrow> string) \<Rightarrow> Cpu_test \<Rightarrow> ((exn + unit) \<times> Cpu_test) option" where
  "test_bubblesort k reader fresh error = test_loop
     (seqE [
       TEST_NAME ''Program bubblesort'',
       TEST_LABEL ''bubblesort'',
       new_cpu fresh,
       bindE (on_cpu_cout (load_elf k reader ''../../test/binary/bubblesort.elf'')) (\<lambda>_. returnE ())])
     0x100C4
     (check_order [0..<30] 0 (error 23))"

lemma test_loop_runs:
  assumes "before t = (Inr (), u)" and "run_until halt (cpu_var u) = Some (Inr (), e)" and "after (u\<lparr>cpu_var := e\<rparr>) = (Inr (), v)"
  shows "test_loop before halt after t = Some (Inr (), v)"
  using assms by (simp add: test_loop_def)

lemma verdict_pass: "verdict name label True = ''Test['' @ name @ '']: '' @ label @ '' > PASS'' @ endl"
  by (simp add: verdict_def)

text \<open>
  C5. The test program test_fibonacci.cpp passes: from a new machine, with any contents of fresh
  memory, main loads fibonacci.elf, its loop calls CPU::step until the program counter is 0x10058
  and ends without an exception, the assertion that the long word at 0x4000 is 6765 holds, and
  std::cout receives the seven lines in which load_elf lists the sections of the file, given to
  the character, and then one line ending in PASS. The run is several hundred thousand
  instructions of compiled code; it is not evaluated but follows from rules for the instruction
  forms.
\<close>

theorem test_fibonacci_passes:
  "\<exists>t'. test_fibonacci elf_std (\<lambda>_. Some (fib_elf other)) fresh error t = Some (Inr (), t') \<and>
     cout t' = cout t @ fib_listing @ ''Test[Program fibonacci]: fibonacci > PASS'' @ endl \<and>
     BaseMemory_get (memory (state (cpu_var t'))) 0x4000 SIZE_LONG = Inr 6765"
proof -
  obtain c d e where c: "CPU_new fresh = Inr c"
    and d: "load_elf elf_std (\<lambda>_. Some (fib_elf other)) ''../../test/binary/fibonacci.elf'' (c, cout t) = (Inr True, d, cout t @ fib_listing)"
    and e: "run_until 0x10058 d = Some (Inr (), e)" "BaseMemory_get (memory (state e)) 0x4000 SIZE_LONG = Inr 6765"
    using fibonacci_test by blast
  let ?t = "t\<lparr>test_name := ''Program fibonacci'', test_label := ''fibonacci'', cout := cout t @ fib_listing, cpu_var := e\<rparr>"
  have "test_fibonacci elf_std (\<lambda>_. Some (fib_elf other)) fresh error t = Some (Inr (), ?t\<lparr>cout := cout t @ fib_listing @ verdict ''Program fibonacci'' ''fibonacci'' True\<rparr>)"
    unfolding test_fibonacci_def
    by (rule test_loop_runs [where u = "?t\<lparr>cpu_var := d\<rparr>" and e = e])
      (use c d e in \<open>simp_all add: new_cpu_def on_cpu_def on_cpu_cout_def on_state_def mem_get_apply bindE_apply returnE_def\<close>)
  then show ?thesis using e(2) by (simp add: verdict_pass)
qed

lemma check_order_passes:
  assumes "\<forall>k<length ys. BaseMemory_get m (ucast (of_nat (0x3000 + 4 * k) :: 32 word)) SIZE_LONG = Inr (ys ! k)" and "sorted ys"
    and "i + n = length ys" and "memory (state (cpu_var t)) = m" and "n \<noteq> 0 \<Longrightarrow> low \<le> ys ! i"
  shows "check_order [i..<i + n] low error t =
    (Inr (), t\<lparr>cout := cout t @ concat (replicate n (verdict (test_name t) (test_label t) True))\<rparr>)"
  using assms(3-5)
proof (induction n arbitrary: i t low)
  case (Suc n)
  let ?t = "t\<lparr>cout := cout t @ verdict (test_name t) (test_label t) True\<rparr>"
  have "(0x3000 + of_nat i * size_w SIZE_LONG :: 32 word) = of_nat (0x3000 + 4 * i)" by (simp add: size_w_def)
  then have get: "mem_get (0x3000 + of_nat i * size_w SIZE_LONG) SIZE_LONG (state (cpu_var t)) = (Inr (ys ! i), state (cpu_var t))"
    using assms(1) Suc.prems by (simp only: mem_get_apply)
  have "ys ! i \<le> ys ! Suc i" if "n \<noteq> 0"
    using assms(2) Suc.prems(1) that by (intro sorted_nth_mono) simp_all
  then have "check_order [Suc i..<Suc i + n] (ys ! i) error ?t =
      (Inr (), ?t\<lparr>cout := cout ?t @ concat (replicate n (verdict (test_name ?t) (test_label ?t) True))\<rparr>)"
    by (intro Suc.IH) (use Suc.prems in simp_all)
  moreover have "[i..<i + Suc n] = i # [Suc i..<Suc i + n]" by (simp add: upt_conv_Cons)
  ultimately show ?case using Suc.prems(3) get by (simp del: upt_Suc)
qed (simp add: returnE_def)

text \<open>
  C7. The test program test_bubblesort.cpp passes: from a new machine, with any contents of fresh
  memory, main loads bubblesort.elf, its loop calls CPU::step until the program counter is 0x100C4
  and ends without an exception, all thirty assertions that the data at 0x3000 is in order hold,
  std::cout receives the seven lines in which load_elf lists the sections of the file, given to
  the character, and then thirty lines ending in PASS, and the data is a permutation of the
  numbers in the file.
\<close>

theorem test_bubblesort_passes:
  "\<exists>t' ys. test_bubblesort elf_std (\<lambda>_. Some (bubble_elf other)) fresh error t = Some (Inr (), t') \<and>
     cout t' = cout t @ bubble_listing @ concat (replicate 30 (''Test[Program bubblesort]: bubblesort > PASS'' @ endl)) \<and>
     map (\<lambda>k. BaseMemory_get (memory (state (cpu_var t'))) (ucast (of_nat (0x3000 + 4 * k) :: 32 word)) SIZE_LONG) [0..<30] = map Inr ys \<and>
     sorted ys \<and> mset ys = mset bubble_numbers"
proof -
  obtain c d e ys where c: "CPU_new fresh = Inr c"
    and d: "load_elf elf_std (\<lambda>_. Some (bubble_elf other)) ''../../test/binary/bubblesort.elf'' (c, cout t) = (Inr True, d, cout t @ bubble_listing)"
    and e: "run_until 0x100C4 d = Some (Inr (), e)"
    and ys: "\<forall>k<30. BaseMemory_get (memory (state e)) (ucast (of_nat (0x3000 + 4 * k) :: 32 word)) SIZE_LONG = Inr (ys ! k)"
      "sorted ys" "mset ys = mset bubble_numbers"
    using bubblesort_test by metis
  have n: "length ys = 30" using mset_eq_length [OF ys(3)] by (simp add: bubble_numbers_def)
  let ?t = "t\<lparr>test_name := ''Program bubblesort'', test_label := ''bubblesort'', cout := cout t @ bubble_listing, cpu_var := e\<rparr>"
  let ?u = "?t\<lparr>cout := cout t @ bubble_listing @ concat (replicate 30 (verdict ''Program bubblesort'' ''bubblesort'' True))\<rparr>"
  have "check_order [0..<30] 0 (error 23) ?t = (Inr (), ?u)"
    using check_order_passes [of ys "memory (state e)" 0 30 ?t 0 "error 23"] ys n by simp
  then have "test_bubblesort elf_std (\<lambda>_. Some (bubble_elf other)) fresh error t = Some (Inr (), ?u)"
    unfolding test_bubblesort_def
    by (intro test_loop_runs [where u = "?t\<lparr>cpu_var := d\<rparr>" and e = e])
      (use c d e in \<open>simp_all add: new_cpu_def on_cpu_def on_cpu_cout_def bindE_apply returnE_def\<close>)
  moreover have "map (\<lambda>k. BaseMemory_get (memory (state e)) (ucast (of_nat (0x3000 + 4 * k) :: 32 word)) SIZE_LONG) [0..<30] = map Inr ys"
    using ys(1) n by (intro nth_equalityI) simp_all
  ultimately show ?thesis
    using ys by (intro exI [where x = ?u] exI [where x = ys]) (simp add: verdict_pass)
qed

end
