(* ===== verification/Debug_Print.thy ===== *)
theory Debug_Print
  imports Cpu_View Disassembler
begin

text \<open>
  \<open>CPUState::debugPrint\<close> (\<open>src/cpu_state.cpp\<close>): the text it writes, with what it uses of \<open>printf\<close>.
\<close>

section \<open>Numbers\<close>

text \<open>\<open>%08X\<close> of a 32-bit number is eight digits; \<open>%zu\<close> is used for numbers below ten, \<open>%d\<close> for a \<open>bool\<close>.\<close>

definition hex_upper :: "nat \<Rightarrow> char" where
  "hex_upper d = ''0123456789ABCDEF'' ! d"

definition printf_08X :: "32 word \<Rightarrow> string" where
  "printf_08X w = map (\<lambda>k. hex_upper (unat (drop_bit (4 * k) w AND 0xF))) (rev [0..<8])"

definition printf_zu :: "nat \<Rightarrow> string" where
  "printf_zu i = [''0123456789'' ! i]"

definition printf_d :: "bool \<Rightarrow> string" where
  "printf_d b = (if b then ''1'' else ''0'')"

section \<open>The text\<close>

definition newline :: string where
  "newline = [CHR 0x0A]"

fun concatE :: "('s, string) exec list \<Rightarrow> ('s, string) exec" where
  "concatE [] = returnE []"
| "concatE (m # ms) = bindE m (\<lambda>x. bindE (concatE ms) (\<lambda>y. returnE (x @ y)))"

definition reg_line :: "string \<Rightarrow> RegisterType \<Rightarrow> (CPUState, string) exec" where
  "reg_line name r = bindE (regs_get r SIZE_LONG) (\<lambda>v. returnE (name @ '': 0x'' @ printf_08X v @ newline))"

definition flag_line :: "string \<Rightarrow> StatusRegisterFlag \<Rightarrow> (CPUState, string) exec" where
  "flag_line name f = bindE (flag_get f) (\<lambda>b. returnE (name @ '': '' @ printf_d b @ newline))"

definition debugPrint :: "(CPUState, string) exec" where
  "debugPrint = concatE (
     [returnE (''CPU state:'' @ newline)] @
     map (\<lambda>i. reg_line (''D'' @ printf_zu i) (reg_of_nat i)) [0..<8] @
     map (\<lambda>i. reg_line (''A'' @ printf_zu i) (reg_of_nat (i + 8))) [0..<8] @
     [reg_line ''USP'' REG_USP,
      reg_line ''PC'' REG_PC,
      flag_line ''E'' SR_FLAG_EXTEND,
      flag_line ''N'' SR_FLAG_NEGATIVE,
      flag_line ''Z'' SR_FLAG_ZERO,
      flag_line ''O'' SR_FLAG_OVERFLOW,
      flag_line ''C'' SR_FLAG_CARRY])"

section \<open>What it prints\<close>

lemma reg_line_apply: "reg_index r < 19 \<Longrightarrow> reg_line name r s = (Inr (name @ '': 0x'' @ printf_08X (rval s r) @ newline), s)"
  by (simp add: reg_line_def regs_get_rval bindE_apply)

lemma flag_line_apply: "flag_line name f s = (Inr (name @ '': '' @ printf_d (flag s f) @ newline), s)"
  by (simp add: flag_line_def)

lemma concatE_all:
  "list_all2 (\<lambda>m txt. m s = (Inr txt, s)) ms txts \<Longrightarrow> concatE ms s = (Inr (concat txts), s)"
  by (induction rule: list_all2_induct) (simp_all add: bindE_apply)

definition debug_lines :: "CPUState \<Rightarrow> string list" where
  "debug_lines s = [''CPU state:'' @ newline] @
     map (\<lambda>i. ''D'' @ printf_zu i @ '': 0x'' @ printf_08X (rval s (reg_of_nat i)) @ newline) [0..<8] @
     map (\<lambda>i. ''A'' @ printf_zu i @ '': 0x'' @ printf_08X (rval s (reg_of_nat (i + 8))) @ newline) [0..<8] @
     [''USP: 0x'' @ printf_08X (rval s REG_A7) @ newline, ''PC: 0x'' @ printf_08X (pc_of s) @ newline,
      ''E: '' @ printf_d (flag s SR_FLAG_EXTEND) @ newline, ''N: '' @ printf_d (flag s SR_FLAG_NEGATIVE) @ newline,
      ''Z: '' @ printf_d (flag s SR_FLAG_ZERO) @ newline, ''O: '' @ printf_d (flag s SR_FLAG_OVERFLOW) @ newline,
      ''C: '' @ printf_d (flag s SR_FLAG_CARRY) @ newline]"

text \<open>It never throws, leaves the state as it is, and the line \<open>USP\<close> shows the register A7 of the mode.\<close>

theorem debugPrint_prints: "debugPrint s = (Inr (concat (debug_lines s)), s)"
  unfolding debugPrint_def
  by (rule concatE_all)
    (auto simp: debug_lines_def reg_line_apply flag_line_apply list_all2_append list_all2_map1 list_all2_map2 reg_index_of_nat
      list_all2_same)

lemma printf_08X_exact: "printf_08X v = printf_08X w \<longleftrightarrow> v = w"
proof -
  have inj: "hex_upper a = hex_upper b \<longleftrightarrow> a = b" if "a < 16" "b < 16" for a b
  proof -
    have "distinct ''0123456789ABCDEF''" by simp
    from nth_eq_iff_index_eq [OF this, of a b] that show ?thesis by (simp add: hex_upper_def)
  qed
  have nib: "drop_bit (4 * k) u AND 0xF = take_bit 4 (drop_bit (4 * k) u)" for k and u :: "32 word"
    by (simp add: take_bit_eq_mask mask_eq_exp_minus_1)
  have small: "unat (take_bit 4 u) < 16" for u :: "32 word"
    using take_bit_nat_less_exp [of 4 "unat u"] by (simp add: unsigned_take_bit_eq)
  have "bit v n = bit w n" if "printf_08X v = printf_08X w" "n < 32" for n
  proof -
    have "take_bit 4 (drop_bit (4 * (n div 4)) v) = take_bit 4 (drop_bit (4 * (n div 4)) w)"
      using that by (auto simp: printf_08X_def nib inj small word_unat_eq_iff)
    then have "bit (take_bit 4 (drop_bit (4 * (n div 4)) v)) (n mod 4) = bit (take_bit 4 (drop_bit (4 * (n div 4)) w)) (n mod 4)"
      by simp
    then show ?thesis by (simp add: bit_simps)
  qed
  then show ?thesis by (auto intro: bit_word_eqI)
qed

end
