(* ===== verification/Full_Test.thy ===== *)
theory Full_Test
  imports Cpu Unit_Tests "HOL-Library.Product_Lexorder"
begin

text \<open>
  \<open>src/test/m68k_full_test/full_m68k_test.cpp\<close>: the harness that runs one instruction on a recorded
  state of a real processor and compares the outcome with the recorded one.  The JSON library is
  third-party code; a test is what the accessors make visible of it.  The text written to the log
  is left out.
\<close>

section \<open>A recorded test\<close>

record JsonState =
  jd :: "nat \<Rightarrow> 32 word"
  ja :: "nat \<Rightarrow> 32 word"
  jpc :: "32 word"
  jusp :: "32 word"
  jssp :: "32 word"
  jsr :: "32 word"
  prefetch :: "32 word list"
  ram :: "(32 word \<times> 8 word) list"

record JsonTest =
  test_name :: string
  initialJson :: JsonState
  finalJson :: JsonState

section \<open>Snapshots of memory\<close>

text \<open>A \<open>std::map\<close> from addresses to bytes is the list of its entries in the order of the keys.\<close>

type_synonym TRamSnapshot = "(32 word \<times> 8 word) list"

fun snapshot_set :: "TRamSnapshot \<Rightarrow> 32 word \<Rightarrow> 8 word \<Rightarrow> TRamSnapshot" where
  "snapshot_set [] k v = [(k, v)]"
| "snapshot_set ((k', v') # m) k v =
     (if k < k' then (k, v) # (k', v') # m
      else if k = k' then (k, v) # m
      else (k', v') # snapshot_set m k v)"

definition readRamSnapshot :: "(32 word \<times> 8 word) list \<Rightarrow> TRamSnapshot" where
  "readRamSnapshot rs = fold (\<lambda>(addr, value) res. if value \<noteq> 0 then snapshot_set res addr value else res) rs []"

definition getRamDiff :: "TRamSnapshot \<Rightarrow> TRamSnapshot \<Rightarrow> (32 word \<times> 8 word) list" where
  "getRamDiff ram0 ram1 =
     (let diff = filter (\<lambda>p. map_of ram0 (fst p) \<noteq> Some (snd p)) ram1;
          diff = diff @ map (\<lambda>p. (fst p, 0)) (filter (\<lambda>p. map_of ram1 (fst p) = None) ram0)
      in sort diff)"

section \<open>Registers\<close>

definition set_word :: "RegisterType \<Rightarrow> 32 word \<Rightarrow> Registers \<Rightarrow> Registers" where
  "set_word r v rs = rs\<lparr>reg_buffer := (reg_buffer rs)(r := v)\<rparr>"

definition readRegistersJson :: "Registers \<Rightarrow> JsonState \<Rightarrow> exn + Registers" where
  "readRegistersJson regs j =
     (let regs = fold (\<lambda>i. set_word (reg_of_nat i) (jd j i)) [0..<8] regs;
          regs = fold (\<lambda>i. set_word (reg_of_nat (8 + i)) (ja j i)) [0..<7] regs;
          regs = set_word REG_PC (jpc j) regs
      in case Registers_set_T regs REG_USP 4 (jusp j) of Inl e \<Rightarrow> Inl e | Inr regs \<Rightarrow>
         case Registers_set_T regs REG_SSP 4 (jssp j) of Inl e \<Rightarrow> Inl e | Inr regs \<Rightarrow>
         Registers_set_T regs REG_SR 4 (jsr j))"

definition to_string :: "nat \<Rightarrow> string" where
  "to_string i = [char_of (48 + i)]"

definition reg_differs :: "Registers \<Rightarrow> Registers \<Rightarrow> RegisterType \<Rightarrow> string \<Rightarrow> string list" where
  "reg_differs lhs rhs r text = (if reg_buffer lhs r \<noteq> reg_buffer rhs r then [text] else [])"

definition DumpDiff :: "Registers \<Rightarrow> Registers \<Rightarrow> string option" where
  "DumpDiff lhs rhs =
     (let diffs = concat (map (\<lambda>i. reg_differs lhs rhs (reg_of_nat i) (''D'' @ to_string i)) [0..<8])
            @ concat (map (\<lambda>i. reg_differs lhs rhs (reg_of_nat (8 + i)) (''A'' @ to_string i)) [0..<7])
            @ reg_differs lhs rhs REG_USP ''USP'' @ reg_differs lhs rhs REG_SSP ''SSP'' @ reg_differs lhs rhs REG_PC ''PC''
            @ (if (reg_buffer lhs REG_SR XOR reg_buffer rhs REG_SR) AND 0xF71F \<noteq> 0 then [''SR''] else [])
      in if diffs = [] then None else Some (concat (map (\<lambda>d. d @ '' '') diffs)))"

section \<open>The machine under test\<close>

record TestCpu =
  state :: CPUState
  decoder :: "Ins list"
  ramControl :: TRamSnapshot

definition TestCpu_new :: "(32 word \<Rightarrow> 32 word \<Rightarrow> bytes option) \<Rightarrow> exn + TestCpu" where
  "TestCpu_new alloc =
     map_sum id (\<lambda>m. \<lparr>state = \<lparr>memory = m, registers = Registers_new\<rparr>, decoder = InstructionDecoder_new, ramControl = []\<rparr>)
       (AlignedMemory_new alloc)"

definition on_test :: "(CPUState, 'a) exec \<Rightarrow> (TestCpu, 'a) exec" where
  "on_test m = (\<lambda>c. case m (state c) of (r, s) \<Rightarrow> (r, c\<lparr>state := s\<rparr>))"

definition set_byte :: "32 word \<Rightarrow> 8 word \<Rightarrow> (CPUState, unit) exec" where
  "set_byte addr v = (\<lambda>s. case IMemory_set_T (memory s) (ucast addr) 1 (ucast v) of
     Inl e \<Rightarrow> (Inl e, s) | Inr m \<Rightarrow> (Inr (), s\<lparr>memory := m\<rparr>))"

definition control_set :: "32 word \<Rightarrow> 8 word \<Rightarrow> (TestCpu, unit) exec" where
  "control_set addr v = modifyE (\<lambda>c. c\<lparr>ramControl := snapshot_set (ramControl c) addr v\<rparr>)"

definition fillRamByJson :: "32 word \<Rightarrow> 32 word list \<Rightarrow> (32 word \<times> 8 word) list \<Rightarrow> (TestCpu, unit) exec" where
  "fillRamByJson pc pf rs =
     bindE (modifyE (\<lambda>c. c\<lparr>ramControl := []\<rparr>)) (\<lambda>_.
     bindE (seqE (map (\<lambda>(addr, value).
              bindE (on_test (set_byte addr value)) (\<lambda>_. control_set addr value)) rs)) (\<lambda>_.
     bindE (whenE (length pf \<noteq> 2) (throwE Assertion_failed)) (\<lambda>_.
     let p0 = pf ! 0; p1 = pf ! 1 in
     on_test (seqE [set_byte (pc + 0) (ucast (drop_bit 8 p0)),
                    set_byte (pc + 1) (ucast (p0 mod 256)),
                    set_byte (pc + 2) (ucast (drop_bit 8 p1)),
                    set_byte (pc + 3) (ucast (p1 mod 256))]))))"

definition takeRamSnapshot :: "(TestCpu, TRamSnapshot) exec" where
  "takeRamSnapshot =
     bindE (getsE ramControl) (\<lambda>control.
     bindE (seqE (map (\<lambda>p. bindE (on_test (mem_get (fst p) SIZE_BYTE)) (\<lambda>x. control_set (fst p) (ucast x))) control)) (\<lambda>_.
     getsE ramControl))"

text \<open>\<open>std::string::contains\<close>.\<close>

fun contains :: "string \<Rightarrow> string \<Rightarrow> bool" where
  "contains [] p = (p = [])"
| "contains (c # cs) p = (take (length p) (c # cs) = p \<or> contains cs p)"

definition WorkOnTest :: "JsonTest \<Rightarrow> (TestCpu, bool) exec" where
  "WorkOnTest test =
     bindE (liftE (readRegistersJson Registers_new (initialJson test))) (\<lambda>initRegs.
     bindE (modifyE (\<lambda>c. c\<lparr>state := (state c)\<lparr>registers := initRegs\<rparr>\<rparr>)) (\<lambda>_.
     bindE (fillRamByJson (reg_buffer initRegs REG_PC) (prefetch (initialJson test)) (ram (initialJson test))) (\<lambda>_.
     bindE takeRamSnapshot (\<lambda>actualRam0.
     bindE (getsE (\<lambda>c. reg_buffer (registers (state c)) REG_PC)) (\<lambda>pc.
     bindE (on_test (mem_get pc SIZE_WORD)) (\<lambda>opcode.
     bindE (getsE (\<lambda>c. Decode (decoder c) (ucast opcode))) (\<lambda>curInst.
     bindE (on_test (execute curInst)) (\<lambda>_.
     bindE takeRamSnapshot (\<lambda>actualRam1.
     bindE (getsE (\<lambda>c. registers (state c))) (\<lambda>actualRegs.
     bindE (liftE (readRegistersJson Registers_new (finalJson test))) (\<lambda>expectedRegs.
     let expectedRam0 = readRamSnapshot (ram (initialJson test));
         expectedRam1 = readRamSnapshot (ram (finalJson test));
         regsDiff = DumpDiff expectedRegs actualRegs;
         actualDiff = getRamDiff actualRam0 actualRam1;
         expectDiff = getRamDiff expectedRam0 expectedRam1;
         ramDiffers = (actualDiff \<noteq> expectDiff);
         ramDiffers = (if contains (test_name test) ''CHK'' then False else ramDiffers) in
     returnE (\<not> (regsDiff \<noteq> None \<or> ramDiffers)))))))))))))"

text \<open>The counters \<open>passed\<close>, \<open>failed\<close>, \<open>ignored\<close> of \<open>WorkOnFile\<close>.\<close>

fun work_tests :: "JsonTest list \<Rightarrow> int \<times> int \<times> int \<Rightarrow> (TestCpu, int \<times> int \<times> int) exec" where
  "work_tests [] n = returnE n"
| "work_tests (test # file) (passed, failed, ignored) =
     bindE (WorkOnTest test) (\<lambda>ok.
     if ok then work_tests file (passed + 1, failed, ignored - 1)
     else work_tests file (passed, failed + 1, ignored - 1))"

definition WorkOnFile :: "JsonTest list \<Rightarrow> (TestCpu, bool) exec" where
  "WorkOnFile file =
     bindE (work_tests file (0, 0, int (length file))) (\<lambda>(passed, failed, ignored).
     returnE (passed = int (length file)))"

section \<open>Snapshots as finite maps\<close>

definition is_map :: "TRamSnapshot \<Rightarrow> bool" where
  "is_map m \<longleftrightarrow> sorted_wrt (<) (map fst m)"

lemma is_map_distinct: "is_map m \<Longrightarrow> distinct (map fst m)"
  by (simp add: is_map_def strict_sorted_iff)

lemma map_of_snapshot_set [simp]: "map_of (snapshot_set m k v) = (map_of m)(k \<mapsto> v)"
  by (induction m k v rule: snapshot_set.induct) auto

lemma keys_snapshot_set: "fst ` set (snapshot_set m k v) = insert k (fst ` set m)"
  by (induction m k v rule: snapshot_set.induct) auto

lemma is_map_set [simp]: "is_map m \<Longrightarrow> is_map (snapshot_set m k v)"
  unfolding is_map_def
proof (induction m k v rule: snapshot_set.induct)
  case (2 k' v' m k v)
  have "\<forall>x \<in> fst ` set (snapshot_set m k v). k' < x" if "\<not> k < k'" "k \<noteq> k'"
    using 2(2) that by (auto simp: keys_snapshot_set)
  with 2 show ?case by auto
qed simp

lemma is_map_Nil [simp]: "is_map []"
  by (simp add: is_map_def)

lemma entries: "is_map m \<Longrightarrow> (a, v) \<in> set m \<longleftrightarrow> map_of m a = Some v"
  by (simp add: is_map_distinct)

lemma fold_snapshot:
  "is_map m \<Longrightarrow> distinct (map fst rs) \<Longrightarrow>
   is_map (fold (\<lambda>(a, v) res. if v \<noteq> 0 then snapshot_set res a v else res) rs m) \<and>
   map_of (fold (\<lambda>(a, v) res. if v \<noteq> 0 then snapshot_set res a v else res) rs m) a =
     (case map_of rs a of None \<Rightarrow> map_of m a | Some v \<Rightarrow> if v \<noteq> 0 then Some v else map_of m a)"
proof (induction rs arbitrary: m)
  case (Cons p rs)
  obtain b w where p: "p = (b, w)" by (cases p)
  have "map_of rs b = None" using Cons.prems(2) by (simp add: p map_of_eq_None_iff)
  moreover have "is_map (if w \<noteq> 0 then snapshot_set m b w else m)" using Cons.prems(1) by simp
  ultimately show ?case
    using Cons.IH [of "if w \<noteq> 0 then snapshot_set m b w else m"] Cons.prems(2)
    by (cases "a = b") (auto simp: p split: option.split)
qed simp

lemma readRamSnapshot_map:
  assumes "distinct (map fst rs)"
  shows "is_map (readRamSnapshot rs)"
    and "map_of (readRamSnapshot rs) a = (case map_of rs a of None \<Rightarrow> None | Some v \<Rightarrow> if v \<noteq> 0 then Some v else None)"
  using fold_snapshot [OF is_map_Nil assms] by (auto simp: readRamSnapshot_def split: option.split)

text \<open>
  The difference of two snapshots is the sorted list of the addresses whose byte has changed, a
  missing entry standing for zero where it was present before.
\<close>

lemma set_getRamDiff:
  assumes "is_map ram0" and "is_map ram1"
  shows "set (getRamDiff ram0 ram1) =
    {(a, v). map_of ram1 a = Some v \<and> map_of ram0 a \<noteq> Some v} \<union>
    {(a, 0) | a. map_of ram1 a = None \<and> map_of ram0 a \<noteq> None}"
proof -
  have "(\<exists>v. (a, v) \<in> set ram0) \<longleftrightarrow> map_of ram0 a \<noteq> None" for a
    using assms(1) by (auto simp: entries)
  then show ?thesis
    using assms by (fastforce simp: getRamDiff_def Let_def entries image_iff)
qed

lemma distinct_getRamDiff:
  assumes "is_map ram0" and "is_map ram1"
  shows "distinct (getRamDiff ram0 ram1)"
proof -
  have d: "distinct (map fst ram0)" "distinct (map fst ram1)" using assms by (simp_all add: is_map_distinct)
  then have e: "distinct ram0" "distinct ram1" by (simp_all add: distinct_map)
  have i: "inj_on (\<lambda>p. (fst p, 0 :: 8 word)) {p \<in> set ram0. map_of ram1 (fst p) = None}"
    using d(1) by (auto simp: inj_on_def dest: eq_key_imp_eq_value)
  have "(a, v) \<notin> set ram1" if "map_of ram1 a = None" for a v
    using that by (auto simp: map_of_eq_None_iff image_iff)
  with i e show ?thesis by (auto simp: getRamDiff_def Let_def distinct_map)
qed

lemma getRamDiff_eq:
  assumes "is_map a0" "is_map a1" "is_map b0" "is_map b1"
  shows "getRamDiff a0 a1 = getRamDiff b0 b1 \<longleftrightarrow> set (getRamDiff a0 a1) = set (getRamDiff b0 b1)"
proof -
  have "sorted (getRamDiff x y)" for x y by (simp add: getRamDiff_def Let_def)
  then show ?thesis
    using assms by (metis distinct_getRamDiff sorted_distinct_set_unique)
qed

text \<open>Whether the recorded and the actual differences agree, when the snapshots start out alike.\<close>

lemma diffs_agree:
  assumes "is_map m0" "is_map m1" and "distinct (map fst rs)" "distinct (map fst rs')" and "fst ` set rs' = fst ` set rs"
    and "\<And>a. map_of m0 a = map_of rs a" and "\<And>a. map_of m1 a = None \<longleftrightarrow> map_of rs a = None"
  shows "getRamDiff m0 m1 = getRamDiff (readRamSnapshot rs) (readRamSnapshot rs') \<longleftrightarrow> (\<forall>a. map_of m1 a = map_of rs' a)"
proof -
  have dom: "map_of rs' a = None \<longleftrightarrow> map_of rs a = None" for a
    using assms(5) by (simp add: map_of_eq_None_iff)
  have actual: "set (getRamDiff m0 m1) = {(a, v). map_of m1 a = Some v \<and> map_of rs a \<noteq> Some v}"
    unfolding set_getRamDiff [OF assms(1,2)] by (auto simp: assms(6,7))
  have "set (getRamDiff (readRamSnapshot rs) (readRamSnapshot rs')) = {(a, v). map_of rs' a = Some v \<and> map_of rs a \<noteq> Some v}"
    unfolding set_getRamDiff [OF readRamSnapshot_map(1) [OF assms(3)] readRamSnapshot_map(1) [OF assms(4)]]
      readRamSnapshot_map(2) [OF assms(3)] readRamSnapshot_map(2) [OF assms(4)]
    apply (rule set_eqI)
    subgoal for x using dom [of "fst x"] by (cases x; cases "map_of rs' (fst x)"; cases "map_of rs (fst x)") auto
    done
  then have "getRamDiff m0 m1 = getRamDiff (readRamSnapshot rs) (readRamSnapshot rs') \<longleftrightarrow>
      {(a, v). map_of m1 a = Some v \<and> map_of rs a \<noteq> Some v} = {(a, v). map_of rs' a = Some v \<and> map_of rs a \<noteq> Some v}"
    unfolding getRamDiff_eq [OF assms(1,2) readRamSnapshot_map(1) [OF assms(3)] readRamSnapshot_map(1) [OF assms(4)]]
    by (simp only: actual)
  also have "\<dots> \<longleftrightarrow> (\<forall>a. map_of m1 a = map_of rs' a)"
  proof
    assume eq: "{(a, v). map_of m1 a = Some v \<and> map_of rs a \<noteq> Some v} = {(a, v). map_of rs' a = Some v \<and> map_of rs a \<noteq> Some v}"
    have iff: "map_of m1 a = Some v \<and> map_of rs a \<noteq> Some v \<longleftrightarrow> map_of rs' a = Some v \<and> map_of rs a \<noteq> Some v" for a v
      using eq by (auto simp: set_eq_iff)
    show "\<forall>a. map_of m1 a = map_of rs' a"
    proof
      fix a
      show "map_of m1 a = map_of rs' a"
      proof (cases "map_of rs a")
        case None
        then show ?thesis using assms(7) [of a] dom [of a] by simp
      next
        case (Some w)
        then obtain p q where "map_of m1 a = Some p" "map_of rs' a = Some q"
          using assms(7) [of a] dom [of a] by (cases "map_of m1 a"; cases "map_of rs' a") simp_all
        then show ?thesis using iff [of a p] iff [of a q] Some by auto
      qed
    qed
  qed simp
  finally show ?thesis .
qed

section \<open>What the steps of a test do\<close>

text \<open>The byte of memory at an address, and memory with a byte replaced.\<close>

definition byte_at :: "BaseMemory \<Rightarrow> 32 word \<Rightarrow> 8 word" where
  "byte_at m a = baseAddr m (phys (ucast a))"

definition put_byte :: "32 word \<times> 8 word \<Rightarrow> BaseMemory \<Rightarrow> BaseMemory" where
  "put_byte p m = m\<lparr>baseAddr := (baseAddr m)(phys (ucast (fst p)) := snd p)\<rparr>"

lemma memSize_put_byte [simp]: "memSize (put_byte p m) = memSize m"
  by (simp add: put_byte_def)

lemma memSize_put_bytes [simp]: "memSize (fold put_byte ps m) = memSize m"
  by (induction ps arbitrary: m) simp_all

lemma phys_fits: "\<not> 2 ^ 24 < phys a + 1"
  using phys_less [of a] by simp

lemma byte_back [simp]: "ucast (ucast v :: 32 word) = (v :: 8 word)"
  by (rule bit_word_eqI) (auto simp: bit_simps)

lemma set_byte_run:
  assumes "memSize (memory s) = MEMORY_SIZE"
  shows "set_byte a v s = (Inr (), s\<lparr>memory := put_byte (a, v) (memory s)\<rparr>)"
proof -
  have "ucast (MASK_8 (ucast v :: 32 word)) = v"
    by (rule bit_word_eqI) (auto simp: mask_eq_take_bit bit_simps)
  then show ?thesis
    using assms phys_fits [of "ucast a"]
    by (simp add: set_byte_def IMemory_set_T_def size_of_nat_def BaseMemory_set_eq MEMORY_SIZE_nat put_byte_def)
qed

lemma get_byte:
  assumes "memSize (memory s) = MEMORY_SIZE"
  shows "mem_get a SIZE_BYTE s = (Inr (ucast (byte_at (memory s) a)), s)"
  using assms phys_fits [of "ucast a"]
  by (simp add: mem_get_apply BaseMemory_get_eq MEMORY_SIZE_nat byte_at_def)

lemma phys_inj: "a < 2 ^ 24 \<Longrightarrow> b < 2 ^ 24 \<Longrightarrow> phys (ucast a) = phys (ucast b) \<longleftrightarrow> a = b" for a b :: "32 word"
  by (simp add: phys_mod unsigned_ucast_eq word_less_nat_alt take_bit_nat_eq_self word_unat_eq_iff)

lemma byte_at_put_bytes:
  assumes "a < 2 ^ 24" and "\<forall>p\<in>set ps. fst p < 2 ^ 24"
  shows "byte_at (fold put_byte ps m) a = (case map_of (rev ps) a of None \<Rightarrow> byte_at m a | Some v \<Rightarrow> v)"
  using assms(2)
proof (induction ps arbitrary: m)
  case (Cons p ps)
  have "byte_at (put_byte p m) a = (if fst p = a then snd p else byte_at m a)"
    using phys_inj [OF assms(1), of "fst p"] Cons.prems by (auto simp: byte_at_def put_byte_def)
  with Cons show ?case by (cases p) (auto simp: map_add_def split: option.split)
qed simp

lemma fill_loop:
  "memSize (memory (TestCpu.state c)) = MEMORY_SIZE \<Longrightarrow>
   seqE (map (\<lambda>(addr, value). bindE (on_test (set_byte addr value)) (\<lambda>_. control_set addr value)) rs) c =
   (Inr (), c\<lparr>TestCpu.state := (TestCpu.state c)\<lparr>memory := fold put_byte rs (memory (TestCpu.state c))\<rparr>,
      ramControl := fold (\<lambda>p m. snapshot_set m (fst p) (snd p)) rs (ramControl c)\<rparr>)"
  by (induction rs arbitrary: c) (auto simp: on_test_def set_byte_run control_set_def bindE_apply)

lemma snapshot_loop:
  "memSize (memory (TestCpu.state c)) = MEMORY_SIZE \<Longrightarrow>
   seqE (map (\<lambda>p. bindE (on_test (mem_get (fst p) SIZE_BYTE)) (\<lambda>x. control_set (fst p) (ucast x))) ps) c =
   (Inr (), c\<lparr>ramControl := fold (\<lambda>p m. snapshot_set m (fst p) (byte_at (memory (TestCpu.state c)) (fst p))) ps (ramControl c)\<rparr>)"
  by (induction ps arbitrary: c) (auto simp: on_test_def get_byte control_set_def bindE_apply)

lemma fold_control:
  "is_map m \<Longrightarrow> is_map (fold (\<lambda>p m. snapshot_set m (fst p) (f p)) ps m)"
  by (induction ps arbitrary: m) simp_all

lemma map_of_fold_bytes:
  "map_of (fold (\<lambda>p m. snapshot_set m (fst p) (f (fst p))) ps m) a =
   (if a \<in> fst ` set ps then Some (f a) else map_of m a)"
  by (induction ps arbitrary: m) auto

lemma map_of_fold_entries:
  "map_of (fold (\<lambda>p m. snapshot_set m (fst p) (snd p)) ps m) = map_of m ++ map_of (rev ps)"
  by (induction ps arbitrary: m) (auto simp: fun_eq_iff map_add_def split: option.split)

lemma takeRamSnapshot_run:
  assumes "memSize (memory (TestCpu.state c)) = MEMORY_SIZE" and "is_map (ramControl c)"
  obtains m where "takeRamSnapshot c = (Inr m, c\<lparr>ramControl := m\<rparr>)" and "is_map m"
    and "\<And>a. map_of m a = map_option (\<lambda>_. byte_at (memory (TestCpu.state c)) a) (map_of (ramControl c) a)"
proof
  let ?m = "fold (\<lambda>p m. snapshot_set m (fst p) (byte_at (memory (TestCpu.state c)) (fst p))) (ramControl c) (ramControl c)"
  show "takeRamSnapshot c = (Inr ?m, c\<lparr>ramControl := ?m\<rparr>)"
    by (simp add: takeRamSnapshot_def snapshot_loop [OF assms(1)])
  show "is_map ?m" using assms(2) by (rule fold_control)
  show "map_of ?m a = map_option (\<lambda>_. byte_at (memory (TestCpu.state c)) a) (map_of (ramControl c) a)" for a
    unfolding map_of_fold_bytes using map_of_eq_None_iff [of "ramControl c" a]
    by (cases "map_of (ramControl c) a") simp_all
qed

section \<open>The registers of a test\<close>

definition regs_of :: "JsonState \<Rightarrow> Registers" where
  "regs_of j = \<lparr>reg_buffer = (\<lambda>r.
     if reg_index r < 8 then jd j (reg_index r)
     else if reg_index r < 15 then ja j (reg_index r - 8)
     else if r = REG_USP then jusp j else if r = REG_SSP then jssp j else if r = REG_PC then jpc j
     else if r = REG_SR then take_bit 16 (jsr j) else 0)\<rparr>"

text \<open>The status register is read last, so the stack pointers of both modes arrive.\<close>

lemma readRegistersJson_regs: "readRegistersJson Registers_new j = Inr (regs_of j)"
proof -
  have idx: "[0..<8] = [0, 1, 2, 3, 4, 5, 6, 7]" "[0..<7] = [0, 1, 2, 3, 4, 5, 6 :: nat]"
    by (simp_all add: upt_rec)
  show ?thesis
    unfolding readRegistersJson_def idx Let_def Registers_set_T_def size_of_nat_def
    apply (simp add: Registers_set_eq set_word_def reg_of_nat_def reg_table_def Registers_new_def bank_def supervisor_def regs_of_def)
    apply (rule ext) subgoal for r by (cases r) simp_all done
qed

text \<open>The comparison of registers looks at all of them, and at the defined bits of the status register.\<close>

definition same_registers :: "Registers \<Rightarrow> Registers \<Rightarrow> bool" where
  "same_registers a b \<longleftrightarrow> (\<forall>r. reg_index r < 18 \<longrightarrow> reg_buffer a r = reg_buffer b r) \<and>
     (reg_buffer a REG_SR XOR reg_buffer b REG_SR) AND 0xF71F = 0"

lemma same_registers_all:
  "same_registers a b \<longleftrightarrow> list_all (\<lambda>r. reg_buffer a r = reg_buffer b r)
     [REG_D0, REG_D1, REG_D2, REG_D3, REG_D4, REG_D5, REG_D6, REG_D7,
      REG_A0, REG_A1, REG_A2, REG_A3, REG_A4, REG_A5, REG_A6, REG_A7, REG_SSP, REG_PC] \<and>
     (reg_buffer a REG_SR XOR reg_buffer b REG_SR) AND 0xF71F = 0"
proof -
  have "reg_index r < 18 \<longleftrightarrow> r \<in> set [REG_D0, REG_D1, REG_D2, REG_D3, REG_D4, REG_D5, REG_D6, REG_D7,
      REG_A0, REG_A1, REG_A2, REG_A3, REG_A4, REG_A5, REG_A6, REG_A7, REG_SSP, REG_PC]" for r
    by (cases r) simp_all
  then show ?thesis by (simp only: same_registers_def list_all_iff Ball_def)
qed

lemma DumpDiff_None: "DumpDiff a b = None \<longleftrightarrow> same_registers a b"
proof -
  have "[0..<8] = [0, 1, 2, 3, 4, 5, 6, 7]" "[0..<7] = [0, 1, 2, 3, 4, 5, 6 :: nat]"
    by (simp_all add: upt_rec)
  then show ?thesis
    by (simp add: DumpDiff_def same_registers_all reg_differs_def Let_def reg_of_nat_def reg_table_def)
qed

section \<open>The test_verdict\<close>

text \<open>
  The state a test starts in: the listed bytes and then the prefetched words are written over the
  memory as the last test left it.  A test is well formed when its lists name each address below
  16 MB once, before and after the instruction alike, and the prefetched words are those in memory
  where memory is listed.
\<close>

definition prefetch_bytes :: "JsonState \<Rightarrow> (32 word \<times> 8 word) list" where
  "prefetch_bytes j =
     [(jpc j, ucast (drop_bit 8 (prefetch j ! 0))), (jpc j + 1, ucast (prefetch j ! 0 mod 256)),
      (jpc j + 2, ucast (drop_bit 8 (prefetch j ! 1))), (jpc j + 3, ucast (prefetch j ! 1 mod 256))]"

definition loaded :: "TestCpu \<Rightarrow> JsonState \<Rightarrow> CPUState" where
  "loaded c j = \<lparr>memory = fold put_byte (ram j @ prefetch_bytes j) (memory (TestCpu.state c)), registers = regs_of j\<rparr>"

definition well_formed :: "JsonTest \<Rightarrow> bool" where
  "well_formed t \<longleftrightarrow> length (prefetch (initialJson t)) = 2 \<and>
     list_all (\<lambda>p. fst p < 2 ^ 24) (ram (initialJson t) @ prefetch_bytes (initialJson t)) \<and>
     distinct (map fst (ram (initialJson t))) \<and> distinct (map fst (ram (finalJson t))) \<and>
     set (map fst (ram (finalJson t))) = set (map fst (ram (initialJson t))) \<and>
     list_all (\<lambda>(a, v). map_of (ram (initialJson t)) a \<in> {None, Some v}) (prefetch_bytes (initialJson t))"

definition test_verdict :: "JsonTest \<Rightarrow> CPUState \<Rightarrow> bool" where
  "test_verdict t s \<longleftrightarrow> same_registers (regs_of (finalJson t)) (registers s) \<and>
     (contains (test_name t) ''CHK'' \<or> list_all (\<lambda>(a, v). byte_at (memory s) a = v) (ram (finalJson t)))"

lemma on_test_Inr: "m (TestCpu.state c) = (Inr x, s) \<Longrightarrow> on_test m c = (Inr x, c\<lparr>TestCpu.state := s\<rparr>)"
  by (simp add: on_test_def)

lemma fill_run:
  assumes "memSize (memory (TestCpu.state c)) = MEMORY_SIZE" and "length (prefetch j) = 2" and "registers (TestCpu.state c) = regs_of j"
  obtains m where "fillRamByJson (jpc j) (prefetch j) (ram j) c = (Inr (), c\<lparr>TestCpu.state := loaded c j, ramControl := m\<rparr>)"
    and "is_map m" and "map_of m = map_of (rev (ram j))"
proof
  let ?m = "fold (\<lambda>p m. snapshot_set m (fst p) (snd p)) (ram j) []"
  show "is_map ?m" by (rule fold_control) simp
  show "map_of ?m = map_of (rev (ram j))" by (simp add: map_of_fold_entries)
  have "fold put_byte (prefetch_bytes j) m = put_byte (jpc j + 3, ucast (prefetch j ! 1 mod 256)) (put_byte (jpc j + 2, ucast (drop_bit 8 (prefetch j ! 1)))
      (put_byte (jpc j + 1, ucast (prefetch j ! 0 mod 256)) (put_byte (jpc j, ucast (drop_bit 8 (prefetch j ! 0))) m)))" for m
    by (simp add: prefetch_bytes_def)
  then show "fillRamByJson (jpc j) (prefetch j) (ram j) c = (Inr (), c\<lparr>TestCpu.state := loaded c j, ramControl := ?m\<rparr>)"
    using assms
    by (simp add: fillRamByJson_def Let_def fill_loop loaded_def on_test_Inr set_byte_run)
qed

lemma map_of_rev: "distinct (map fst xs) \<Longrightarrow> map_of (rev xs) = map_of xs"
proof (induction xs)
  case (Cons p xs)
  then have "map_of xs (fst p) = None" by (simp add: map_of_eq_None_iff)
  with Cons show ?case by (cases p) (auto simp: fun_eq_iff map_add_def split: option.split)
qed simp

lemma loaded_byte:
  assumes "well_formed t" and "map_of (ram (initialJson t)) a = Some v"
  shows "byte_at (memory (loaded c (initialJson t))) a = v"
proof -
  let ?j = "initialJson t"
  have wf: "\<forall>p\<in>set (ram ?j @ prefetch_bytes ?j). fst p < 2 ^ 24" "distinct (map fst (ram ?j))"
    "\<forall>(a, v)\<in>set (prefetch_bytes ?j). map_of (ram ?j) a \<in> {None, Some v}"
    using assms(1) unfolding well_formed_def list_all_iff by blast+
  have "a < 2 ^ 24" using bspec [OF wf(1), of "(a, v)"] map_of_SomeD [OF assms(2)] by simp
  moreover have "map_of (rev (ram ?j)) a = Some v" using assms(2) wf(2) by (simp add: map_of_rev)
  moreover have "w = v" if "map_of (rev (prefetch_bytes ?j)) a = Some w" for w
    using map_of_SomeD [OF that] wf(3) assms(2) by auto
  ultimately show ?thesis
    using byte_at_put_bytes [OF _ wf(1)] by (auto simp: loaded_def map_add_def split: option.split)
qed

text \<open>Agreement of the differences is agreement of every listed byte.\<close>

lemma diffs_verdict:
  assumes "well_formed test" and "is_map m0" "is_map m1"
    and "\<And>a. map_of m0 a = map_of (ram (initialJson test)) a"
    and "\<And>a. map_of m1 a = map_option (\<lambda>_. byte_at mem a) (map_of m0 a)"
  shows "getRamDiff m0 m1 = getRamDiff (readRamSnapshot (ram (initialJson test))) (readRamSnapshot (ram (finalJson test))) \<longleftrightarrow>
    list_all (\<lambda>(a, v). byte_at mem a = v) (ram (finalJson test))"
proof -
  let ?i = "ram (initialJson test)" and ?f = "ram (finalJson test)"
  have wf: "distinct (map fst ?i)" "distinct (map fst ?f)" "fst ` set ?f = fst ` set ?i"
    using assms(1) unfolding well_formed_def by simp_all
  have "getRamDiff m0 m1 = getRamDiff (readRamSnapshot ?i) (readRamSnapshot ?f) \<longleftrightarrow> (\<forall>a. map_of m1 a = map_of ?f a)"
    by (rule diffs_agree [OF assms(2,3) wf(1,2,3) assms(4)]) (simp add: assms(4,5))
  also have "\<dots> \<longleftrightarrow> (\<forall>a v. map_of ?f a = Some v \<longrightarrow> byte_at mem a = v)"
  proof -
    have "map_of m1 a = map_of ?f a \<longleftrightarrow> (\<forall>v. map_of ?f a = Some v \<longrightarrow> byte_at mem a = v)" for a
    proof -
      have "map_of ?f a = None \<longleftrightarrow> map_of ?i a = None" using wf(3) by (simp add: map_of_eq_None_iff)
      then show ?thesis by (cases "map_of ?f a"; cases "map_of ?i a") (simp_all add: assms(4,5))
    qed
    then show ?thesis by simp
  qed
  also have "\<dots> \<longleftrightarrow> list_all (\<lambda>(a, v). byte_at mem a = v) ?f"
    using wf(2) by (auto simp: list_all_iff)
  finally show ?thesis .
qed

lemma bind_lift: "bindE (liftE (Inr x)) f = f x"
  by (simp add: fun_eq_iff)

lemma execute_memSize:
  assumes "execute (decode_spec opc) s = (r, t)"
  shows "memSize (memory t) = memSize (memory s)"
  using keepsD [OF bounds.execute_keeps [OF decode_regs_ok] assms] by (simp add: in_bounds_def)

text \<open>
  C10. The harness for recorded tests of a real processor decides what it is meant to decide. For
  a well-formed test, on a machine with its 16 MB of memory and a correct opcode table, WorkOnTest
  behaves as one CPU::step on the recorded initial state: it ends with the exception of the step,
  or returns true exactly when the defined registers and status bits equal the recorded ones and,
  unless the test is one of CHK, every recorded byte of memory has its recorded final value. The
  comparison of two sorted lists of differences, in which zero bytes are left out on one side
  only, comes to the same as comparing the bytes.
\<close>

theorem harness_verdict:
  assumes "memSize (memory (TestCpu.state c)) = MEMORY_SIZE" and "decoder c = generateOpcodeTable" and "well_formed test"
  shows "fst (WorkOnTest test c) =
    (case CPU_step \<lparr>CPU.state = loaded c (initialJson test), instruction_decoder = generateOpcodeTable\<rparr> of
       (Inl e, d) \<Rightarrow> Inl e
     | (Inr u, d) \<Rightarrow> Inr (test_verdict test (CPU.state d)))"
proof -
  let ?j = "initialJson test" and ?c = "c\<lparr>TestCpu.state := (TestCpu.state c)\<lparr>registers := regs_of (initialJson test)\<rparr>\<rparr>"
  define s where "s = loaded c ?j"
  have s: "loaded ?c ?j = s" by (simp add: loaded_def s_def)
  have size: "memSize (memory s) = MEMORY_SIZE" and pc: "reg_buffer (regs_of ?j) REG_PC = jpc ?j" and rs: "registers s = regs_of ?j"
    using assms(1) by (simp_all add: s_def loaded_def regs_of_def)
  obtain m where fill: "fillRamByJson (jpc ?j) (prefetch ?j) (ram ?j) ?c = (Inr (), ?c\<lparr>TestCpu.state := s, ramControl := m\<rparr>)"
    and m: "is_map m" "map_of m = map_of (rev (ram ?j))"
    using fill_run [of ?c ?j] assms s by (auto simp: well_formed_def)
  obtain m0 where snap0: "takeRamSnapshot (?c\<lparr>TestCpu.state := s, ramControl := m\<rparr>) = (Inr m0, ?c\<lparr>TestCpu.state := s, ramControl := m0\<rparr>)"
    and m0: "is_map m0" "\<And>a. map_of m0 a = map_option (\<lambda>_. byte_at (memory s) a) (map_of m a)"
    using takeRamSnapshot_run [of "?c\<lparr>TestCpu.state := s, ramControl := m\<rparr>"] size m(1) by auto
  have start: "map_of m0 a = map_of (ram ?j) a" for a
  proof -
    have "map_of (rev (ram ?j)) = map_of (ram ?j)" using assms(3) by (simp add: well_formed_def map_of_rev)
    then show ?thesis using loaded_byte [OF assms(3), of a _ c]
      by (cases "map_of (ram ?j) a") (simp_all add: m0(2) m(2) s_def)
  qed
  let ?cpu = "\<lparr>CPU.state = s, instruction_decoder = generateOpcodeTable\<rparr>"
  have d: "decoder_ok ?cpu" by (simp add: decoder_ok_def)
  have pcs: "pc_of s = jpc ?j" by (simp add: pc_of_def rs pc)
  have load: "WorkOnTest test c =
      bindE (on_test (mem_get (jpc ?j) SIZE_WORD)) (\<lambda>opcode.
      bindE (getsE (\<lambda>c. Decode (decoder c) (ucast opcode))) (\<lambda>curInst.
      bindE (on_test (execute curInst)) (\<lambda>_. bindE takeRamSnapshot (\<lambda>m1. bindE (getsE (\<lambda>c. registers (TestCpu.state c))) (\<lambda>regs.
      returnE (DumpDiff (regs_of (finalJson test)) regs = None \<and>
        \<not> (if contains (test_name test) ''CHK'' then False
           else getRamDiff m0 m1 \<noteq> getRamDiff (readRamSnapshot (ram ?j)) (readRamSnapshot (ram (finalJson test))))))))))
      (c\<lparr>TestCpu.state := s, ramControl := m0\<rparr>)"
    using fill snap0 by (simp add: WorkOnTest_def readRegistersJson_regs pc rs Let_def bind_lift returnE_def)
  show ?thesis
  proof (cases "BaseMemory_get (memory s) (ucast (jpc ?j)) SIZE_WORD")
    case (Inl e)
    then have "fst (WorkOnTest test c) = Inl e" and "CPU_step ?cpu = (Inl e, ?cpu)"
      by (simp_all add: load on_test_def mem_get_apply bindE_apply CPU_step_eq [OF d] pcs)
    then show ?thesis by (simp add: s_def)
  next
    case (Inr w)
    obtain r t where ex: "execute (decode_spec (ucast w)) s = (r, t)" by (cases "execute (decode_spec (ucast w)) s")
    have step: "CPU_step ?cpu = (r, ?cpu\<lparr>CPU.state := t\<rparr>)"
      using Inr by (simp add: CPU_step_eq [OF d] pcs on_state_apply ex)
    obtain m1 where snap1: "takeRamSnapshot (c\<lparr>TestCpu.state := t, ramControl := m0\<rparr>) = (Inr m1, c\<lparr>TestCpu.state := t, ramControl := m1\<rparr>)"
      and m1: "is_map m1" "\<And>a. map_of m1 a = map_option (\<lambda>_. byte_at (memory t) a) (map_of m0 a)"
      using takeRamSnapshot_run [of "c\<lparr>TestCpu.state := t, ramControl := m0\<rparr>"] execute_memSize [OF ex] size m0(1) by auto
    have swap: "c\<lparr>ramControl := m0, TestCpu.state := t\<rparr> = c\<lparr>TestCpu.state := t, ramControl := m0\<rparr>" by simp
    have "fst (WorkOnTest test c) = (case r of Inl e \<Rightarrow> Inl e | Inr _ \<Rightarrow> Inr (test_verdict test t))"
      using Inr ex snap1 [folded swap]
      by (simp add: load on_test_def mem_get_apply bindE_apply assms(2) Decode_spec test_verdict_def DumpDiff_None
          diffs_verdict [OF assms(3) m0(1) m1(1) start m1(2)] split: sum.split if_split)
    with step show ?thesis by (simp add: s_def split: sum.split)
  qed
qed

text \<open>The counters of a file of tests that runs to its end.\<close>

lemma work_tests_counts:
  "work_tests ts (p, f, i) c = (Inr (p', f', i'), d) \<Longrightarrow>
   p' + f' = p + f + int (length ts) \<and> i' = i - int (length ts) \<and> p \<le> p' \<and> f \<le> f'"
proof (induction ts arbitrary: p f i c)
  case (Cons test ts)
  then obtain ok c1 where "(if ok then work_tests ts (p + 1, f, i - 1) else work_tests ts (p, f + 1, i - 1)) c1 = (Inr (p', f', i'), d)"
    by (auto elim: bindE_InrE)
  then show ?case using Cons.IH [of "p + 1" f "i - 1" c1] Cons.IH [of p "f + 1" "i - 1" c1] by (auto split: if_splits)
qed simp

section \<open>A test\<close>

text \<open>\<open>add.l d1, d0\<close> as such a recording.\<close>

definition add_before :: JsonState where
  "add_before = \<lparr>jd = (\<lambda>i. if i = 0 then 1 else if i = 1 then 2 else 0), ja = (\<lambda>_. 0), jpc = 2, jusp = 0x40, jssp = 0,
     jsr = 0x1F, prefetch = [0xD081, 0x4E71], ram = [(2, 0xD0), (3, 0x81), (4, 0x4E), (5, 0x71)]\<rparr>"

definition add_test :: JsonTest where
  "add_test = \<lparr>test_name = ''ADD.l'', initialJson = add_before,
     finalJson = add_before\<lparr>jd := (\<lambda>i. if i = 0 then 3 else if i = 1 then 2 else 0), jpc := 4, jsr := 0\<rparr>\<rparr>"

definition demo_cpu :: TestCpu where
  "demo_cpu = \<lparr>state = \<lparr>memory = \<lparr>baseAddr = (\<lambda>_. 0), memSize = MEMORY_SIZE\<rparr>, registers = Registers_new\<rparr>,
     decoder = generateOpcodeTable, ramControl = []\<rparr>"

definition add_loaded :: CPUState where
  "add_loaded = \<lparr>memory = \<lparr>baseAddr = (\<lambda>k. if k < 6 then [0, 0, 0xD0, 0x81, 0x4E, 0x71] ! k else 0),
       memSize = MEMORY_SIZE\<rparr>,
     registers = \<lparr>reg_buffer = (\<lambda>r. case map_of [(REG_D0, 1), (REG_D1, 2), (REG_A7, 0x40), (REG_PC, 2), (REG_SR, 0x1F)] r of
       None \<Rightarrow> 0 | Some v \<Rightarrow> v)\<rparr>\<rparr>"

lemma add_loaded: "loaded demo_cpu (initialJson add_test) = add_loaded"
proof -
  have "regs_of add_before = registers add_loaded"
    unfolding regs_of_def add_loaded_def add_before_def
    by (simp, rule ext) (rename_tac r, case_tac r; simp)
  moreover have "fold put_byte (ram add_before @ prefetch_bytes add_before) \<lparr>baseAddr = (\<lambda>_. 0), memSize = MEMORY_SIZE\<rparr> = memory add_loaded"
    by (simp add: add_before_def add_loaded_def prefetch_bytes_def put_byte_def phys_mod fun_eq_iff nth_Cons')
  ultimately show ?thesis by (simp add: loaded_def demo_cpu_def add_test_def add_loaded_def)
qed

definition add_after :: CPUState where
  "add_after = fput (fput (fput (fput (fput (rput (rput add_loaded REG_D0 3) REG_PC 4) SR_FLAG_EXTEND False)
     SR_FLAG_NEGATIVE False) SR_FLAG_ZERO False) SR_FLAG_OVERFLOW False) SR_FLAG_CARRY False"

lemma add_test_runs: "execute (I_Add (Add_new 0xD081)) add_loaded = (Inr (), add_after)"
proof -
  have "rval add_loaded REG_D0 = 1" "rval add_loaded REG_D1 = 2" "pc_of add_loaded = 2"
    by (simp_all add: rval_def pc_of_def add_loaded_def bank_def)
  then show ?thesis by (simp add: unit_simps Add_new_def Add_execute_def add_after_def)
qed

lemma add_test_verdict: "test_verdict add_test add_after"
proof -
  have "same_registers (regs_of (finalJson add_test)) (registers add_after)"
    by (simp add: same_registers_all add_test_def add_before_def regs_of_def add_after_def fput_def rput_def
        Registers_set_flag_def Let_def flag_mask_def bank_def supervisor_def add_loaded_def)
  moreover have "list_all (\<lambda>(a, v). byte_at (memory add_after) a = v) (ram (finalJson add_test))"
    by (simp add: add_test_def add_before_def byte_at_def phys_mod add_after_def add_loaded_def)
  ultimately show ?thesis by (simp only: test_verdict_def simp_thms)
qed

theorem harness_verdict_witness: "fst (WorkOnTest add_test demo_cpu) = Inr True"
proof -
  let ?cpu = "\<lparr>CPU.state = add_loaded, instruction_decoder = generateOpcodeTable\<rparr>"
  have w: "well_formed add_test" by code_simp
  have f: "BaseMemory_get (memory add_loaded) (ucast (pc_of add_loaded)) SIZE_WORD = Inr 0xD081" by code_simp
  have d: "decoder_ok ?cpu" by (simp only: decoder_ok_def CPU.select_convs)
  have i: "decode_spec (ucast (0xD081 :: 32 word)) = I_Add (Add_new 0xD081)" by code_simp
  from CPU_step_eq [OF d] have st: "CPU_step ?cpu = (Inr (), \<lparr>CPU.state = add_after, instruction_decoder = generateOpcodeTable\<rparr>)"
    by (simp only: CPU.select_convs f i sum.case on_state_apply fst_conv snd_conv CPU.update_convs add_test_runs)
  have c: "memSize (memory (TestCpu.state demo_cpu)) = MEMORY_SIZE" "decoder demo_cpu = generateOpcodeTable"
    by (simp_all only: demo_cpu_def TestCpu.select_convs CPUState.select_convs BaseMemory.select_convs)
  from harness_verdict [OF c w] add_test_verdict show ?thesis
    by (simp only: add_loaded st prod.case sum.case CPU.select_convs)
qed

end
