(* ===== verification/Examples.thy ===== *)
theory Examples
  imports Cpu Ins_Test Ins_Errors Ins_Failures Ins_Control Call_Stack Ins_Shifts Ins_Data Ins_Text Ins_Transfer Ins_Effects Ins_Chains Program Fibonacci_Test Bubblesort_Test
begin

text \<open>
  Concrete machines and short programs on which the properties are applied: each theorem
  \<open>P_witness\<close> uses the property \<open>P\<close> at a state where its hypotheses hold, and evaluates what it
  says there.
\<close>

section \<open>Machines to run\<close>

definition ram :: "8 word list \<Rightarrow> BaseMemory" where
  "ram bs = \<lparr>baseAddr = (\<lambda>k. if k < length bs then bs ! k else 0), memSize = MEMORY_SIZE\<rparr>"

definition machine :: "8 word list \<Rightarrow> (RegisterType \<Rightarrow> 32 word) \<Rightarrow> CPUState" where
  "machine bs rs = \<lparr>memory = ram bs, registers = \<lparr>reg_buffer = rs\<rparr>\<rparr>"

definition regs :: "(RegisterType \<times> 32 word) list \<Rightarrow> RegisterType \<Rightarrow> 32 word" where
  "regs ps r = (case map_of ps r of None \<Rightarrow> 0 | Some v \<Rightarrow> v)"

definition cpu :: "CPUState \<Rightarrow> CPU" where
  "cpu s = \<lparr>state = s, instruction_decoder = generateOpcodeTable\<rparr>"

lemma decoder_ok_cpu: "decoder_ok (cpu s)"
  by (simp add: decoder_ok_def cpu_def)

lemma runs: "fst x = r \<Longrightarrow> x = (r, snd x)"
  by (cases x) simp

definition add_demo :: CPUState where
  "add_demo = machine [0xD0, 0x81] (regs [(REG_D0, 1), (REG_D1, 2)])"

definition trace_demo :: CPUState where
  "trace_demo = machine [0x2F, 0x00] (regs [(REG_SR, 0x2000), (REG_SSP, 0x2000), (REG_USP, 0x1000), (REG_D0, 1)])"

theorem step_fetch_decode_execute_witness:
  "CPU_step (cpu add_demo) = on_state (execute (decode_spec 0xD081)) (cpu add_demo) \<and>
   rval (snd (execute (decode_spec 0xD081) add_demo)) REG_D0 = 3"
proof -
  have "BaseMemory_get (memory add_demo) (ucast (pc_of add_demo)) SIZE_WORD = Inr 0xD081" by code_simp
  then have "CPU_step (cpu add_demo) = on_state (execute (decode_spec (ucast (0xD081 :: 32 word)))) (cpu add_demo)"
    using step_fetch_decode_execute [OF decoder_ok_cpu, of add_demo] by (simp add: cpu_def)
  moreover have "rval (snd (execute (decode_spec 0xD081) add_demo)) REG_D0 = 3" by code_simp
  ultimately show ?thesis by simp
qed

theorem machine_memory_safety_witness:
  "\<exists>d. reachable (cpu trace_demo) d \<and> memSize (memory (state d)) = MEMORY_SIZE \<and>
     baseAddr (memory (state d)) 0x1000000 = 0"
proof -
  let ?d = "snd (CPU_step (cpu trace_demo))"
  have r: "reachable (cpu trace_demo) ?d" by (rule reachable.step [OF reachable.start]) (rule prod.collapse [symmetric])
  from machine_memory_safety [OF r decoder_ok_cpu] have "memSize (memory (state ?d)) = MEMORY_SIZE"
    "baseAddr (memory (state ?d)) 0x1000000 = 0"
    by (simp_all add: cpu_def trace_demo_def machine_def ram_def MEMORY_SIZE_def)
  with r show ?thesis by blast
qed

theorem machine_privilege_safety_witness:
  "\<exists>d. reachable (cpu trace_demo) d \<and> supervisor (registers (state d)) \<and>
     reg_buffer (registers (state d)) REG_USP = 0x1000"
proof -
  let ?d = "snd (CPU_step (cpu trace_demo))"
  have r: "reachable (cpu trace_demo) ?d" by (rule reachable.step [OF reachable.start]) (rule prod.collapse [symmetric])
  have s: "supervisor (registers (state (cpu trace_demo)))" "reg_buffer (registers (state (cpu trace_demo))) REG_USP = 0x1000"
    by (simp_all add: cpu_def trace_demo_def machine_def regs_def supervisor_def)
  from machine_privilege_safety [OF r decoder_ok_cpu] s show ?thesis
    using r by (intro exI [of _ ?d]) simp
qed

theorem new_machine_witness:
  "\<exists>c. CPU_new (\<lambda>_. 7) = Inr c \<and> baseAddr (memory (state c)) 0x10 = 7"
proof -
  obtain c where "CPU_new (\<lambda>_. 7) = Inr c" "\<forall>k. k \<noteq> 0xFFFFFF \<longrightarrow> baseAddr (memory (state c)) k = 7"
    using new_machine [of "\<lambda>_. 7"] by auto
  then show ?thesis by simp
qed

definition elf_k :: ElfConsts where
  "elf_k = \<lparr>ELFCLASS32 = 1, ELFDATA2MSB = 2, ET_EXEC = 2, EM_68K = 4, PT_LOAD = 1, SHF_ALLOC = 2\<rparr>"

definition elf_demo :: ElfFile where
  "elf_demo = \<lparr>get_class = 1, get_encoding = 2, get_file_type = 2, get_machine = 4, get_entry = 0x100,
     sections = [\<lparr>get_name = ''.text'', get_type = 1, get_flags = 6, get_address = 0x100, get_offset = 0x34, get_size = 2,
                  get_link = 0, get_info = 0, get_addr_align = 2, get_data = Some (\<lambda>i. if i = 0 then 0x4E else 0x71)\<rparr>]\<rparr>"

theorem load_elf_image_witness:
  "\<exists>d. load_elf elf_k (\<lambda>_. Some elf_demo) ''prog'' (cpu add_demo, ''>'') =
      (Inr True, d, ''>.text           '' @ tab @ ''256'' @ tab @ ''2'' @ tab @ ''52'' @ tab @ ''2'' @ tab @ ''0'' @ tab @
         ''6'' @ tab @ ''0'' @ tab @ ''1'' @ endl) \<and>
     baseAddr (memory (state d)) 0x101 = 0x71 \<and> pc_of (state d) = 0x100"
proof -
  have "memSize (memory (state (cpu add_demo))) = MEMORY_SIZE"
    by (simp add: cpu_def add_demo_def machine_def ram_def)
  from load_elf_image [OF _ this, of "\<lambda>_. Some elf_demo" "''prog''" elf_demo elf_k "''>''"]
  obtain d where "load_elf elf_k (\<lambda>_. Some elf_demo) ''prog'' (cpu add_demo, ''>'') =
      (Inr True, d, ''>'' @ concat (map section_line (sections elf_demo)))"
    and "baseAddr (memory (state d)) =
      image (concat (map (section_writes elf_k) (sections elf_demo))) (baseAddr (memory (state (cpu add_demo))))"
    and "pc_of (state d) = ucast (get_entry elf_demo)"
    by (auto simp: elf_demo_def elf_k_def)
  moreover have "image (concat (map (section_writes elf_k) (sections elf_demo))) m 0x101 = 0x71" for m
    by (simp add: elf_demo_def elf_k_def section_writes_def upt_rec phys_mod)
  moreover have "concat (map section_line (sections elf_demo)) = ''.text           '' @ tab @ ''256'' @ tab @ ''2'' @ tab @
      ''52'' @ tab @ ''2'' @ tab @ ''0'' @ tab @ ''6'' @ tab @ ''0'' @ tab @ ''1'' @ endl"
    by (simp add: elf_demo_def section_line_def decimal.simps digit_def pad_numeral)
  ultimately show ?thesis by (auto simp: elf_demo_def)
qed

definition elf_null :: ElfFile where
  "elf_null = elf_demo\<lparr>sections := [(hd (sections elf_demo))\<lparr>get_data := None\<rparr>]\<rparr>"

theorem load_elf_errors_witness:
  "load_elf elf_k (\<lambda>_. None) ''none'' (cpu add_demo, ''>'') = (Inr False, cpu add_demo, ''>'') \<and>
   load_elf elf_k (\<lambda>_. Some elf_null) ''null'' (cpu add_demo, ''>'') =
     (Inl Undefined_behaviour, cpu add_demo, ''>'' @ section_line (hd (sections elf_demo)))"
proof -
  have m: "memSize (memory (state (cpu add_demo))) = MEMORY_SIZE"
    by (simp add: cpu_def add_demo_def machine_def ram_def)
  let ?sec = "(hd (sections elf_demo))\<lparr>get_data := None\<rparr>"
  have "accepted elf_k elf_null" "\<not> has_data elf_k ?sec" and line: "section_line ?sec = section_line (hd (sections elf_demo))"
    by (simp_all add: elf_null_def elf_demo_def elf_k_def accepted_def has_data_def section_writes_def section_line_def)
  moreover have "sections elf_null = [] @ ?sec # []" by (simp add: elf_null_def)
  ultimately have "\<exists>f before sec after. (\<lambda>_. Some elf_null) ''null'' = Some f \<and> accepted elf_k f \<and>
      sections f = before @ sec # after \<and> list_all (has_data elf_k) before \<and> \<not> has_data elf_k sec \<and>
      cpu add_demo = (cpu add_demo)\<lparr>state := poke (concat (map (section_writes elf_k) before)) (state (cpu add_demo))\<rparr> \<and>
      ''>'' @ section_line (hd (sections elf_demo)) = ''>'' @ concat (map section_line (before @ [sec]))"
    by (intro exI [where x = elf_null] exI [where x = "[]"] exI [where x = ?sec]) simp
  then show ?thesis
    using load_elf_errors [OF m, of elf_k "\<lambda>_. None" "''none''" "''>''" "cpu add_demo" "''>''"]
      load_elf_errors [OF m, of elf_k "\<lambda>_. Some elf_null" "''null''" "''>''"]
    by simp
qed

section \<open>Registers, memory, operands and conditions\<close>

theorem condition_after_compare_witness:
  "checkCondition COND_LESS_THAN (machine [] (regs [(REG_SR, 9)])) = (Inr True, machine [] (regs [(REG_SR, 9)]))"
proof -
  have "compare_flags SIZE_BYTE 1 2 (machine [] (regs [(REG_SR, 9)]))" by code_simp
  moreover have "compare_spec COND_LESS_THAN SIZE_BYTE 1 2" by code_simp
  ultimately show ?thesis using condition_after_compare [of SIZE_BYTE 1 2] by simp
qed

definition read_demo :: CPUState where
  "read_demo = machine [0x12, 0x34, 0x56, 0x78] (regs [(REG_A0, 2)])"

theorem getData_agrees_with_silent_witness:
  "fst (getDataSilent ADDR_MODE_INDIRECT_POSTINCREMENT REG_A0 SIZE_WORD read_demo) = Inr 0x5678 \<and>
   getData ADDR_MODE_INDIRECT_POSTINCREMENT REG_A0 SIZE_WORD read_demo =
     (Inr 0x5678, rput read_demo REG_A0 4)"
proof -
  let ?m = ADDR_MODE_INDIRECT_POSTINCREMENT
  have "fst (getData ?m REG_A0 SIZE_WORD read_demo) = Inr 0x5678" by code_simp
  note g = runs [OF this]
  have "rval read_demo REG_A0 = 2" by code_simp
  then have i: "inc_reg ?m REG_A0 SIZE_WORD (rput read_demo REG_PC (pc_of read_demo + ext_bytes ?m SIZE_WORD))
      = rput read_demo REG_A0 4" by (simp add: inc_step_def)
  from getData_agrees_with_silent [of REG_A0 ?m read_demo SIZE_WORD]
  have e: "fst (getData ?m REG_A0 SIZE_WORD read_demo) = fst (getDataSilent ?m REG_A0 SIZE_WORD read_demo)"
    and t: "\<And>v s'. getData ?m REG_A0 SIZE_WORD read_demo = (Inr v, s') \<Longrightarrow> s' = rput read_demo REG_A0 4"
    unfolding i by (simp_all del: getData.simps getDataSilent.simps)
  from g e t [OF g] show ?thesis by (metis fst_conv)
qed

theorem read_modify_write_same_cell_witness:
  "\<exists>t a. setData ADDR_MODE_INDIRECT_PREDECREMENT REG_A0 SIZE_WORD 0xABCD read_demo = (Inr (), t) \<and>
     BaseMemory_get (memory read_demo) a SIZE_WORD = Inr 0x1234 \<and>
     BaseMemory_get (memory t) a SIZE_WORD = Inr 0xABCD"
proof -
  have "fst (getDataSilent ADDR_MODE_INDIRECT_PREDECREMENT REG_A0 SIZE_WORD read_demo) = Inr 0x1234" by code_simp
  from runs [OF this] have 1: "getDataSilent ADDR_MODE_INDIRECT_PREDECREMENT REG_A0 SIZE_WORD read_demo = (Inr 0x1234, read_demo)"
    by (simp only: getDataSilent_state)
  have "fst (setData ADDR_MODE_INDIRECT_PREDECREMENT REG_A0 SIZE_WORD 0xABCD read_demo) = Inr ()" by code_simp
  note 2 = runs [OF this]
  from read_modify_write_same_cell [OF _ _ _ 1 2]
  obtain a where "BaseMemory_get (memory read_demo) a SIZE_WORD = Inr 0x1234"
    "BaseMemory_get (memory (snd (setData ADDR_MODE_INDIRECT_PREDECREMENT REG_A0 SIZE_WORD 0xABCD read_demo))) a SIZE_WORD
       = Inr (take_bit (bits_of SIZE_WORD) 0xABCD)"
    by (auto simp: IS_MEMORY_ALTERABLE_def)
  moreover have "take_bit (bits_of SIZE_WORD) 0xABCD = (0xABCD :: 32 word)" by code_simp
  ultimately show ?thesis using 2 by (intro exI conjI) simp_all
qed

theorem control_address_is_operand_address_witness:
  "\<exists>s'. getControlAddress ADDR_MODE_INDIRECT_DISPLACEMENT REG_A0 SIZE_LONG (machine [0, 6, 1, 2, 3, 4, 5, 6, 7] (regs [(REG_A0, 2)]))
       = (Inr 8, s') \<and>
     getData ADDR_MODE_INDIRECT_DISPLACEMENT REG_A0 SIZE_BYTE (machine [0, 6, 1, 2, 3, 4, 5, 6, 7] (regs [(REG_A0, 2)]))
       = mem_get 8 SIZE_BYTE s'"
proof -
  have "fst (getControlAddress ADDR_MODE_INDIRECT_DISPLACEMENT REG_A0 SIZE_LONG
      (machine [0, 6, 1, 2, 3, 4, 5, 6, 7] (regs [(REG_A0, 2)]))) = Inr 8" by code_simp
  note g = runs [OF this]
  from g control_address_is_operand_address [OF _ _ g] show ?thesis
    by (intro exI conjI) (auto simp: IS_CONTROL_ADDR_def simp del: getData.simps getControlAddress.simps)
qed

theorem stack_push_pop_witness:
  "\<exists>s' s''. stackPush SIZE_WORD 0x12345 (machine [] (regs [(REG_SR, 0x1F), (REG_USP, 0x1000)])) = (Inr (), s') \<and>
     rval s' REG_USP = 0xFFE \<and> stackPop SIZE_WORD s' = (Inr 0x2345, s'') \<and> reg_buffer (registers s'') = regs [(REG_SR, 0x1F), (REG_USP, 0x1000)]"
proof -
  let ?s = "machine [] (regs [(REG_SR, 0x1F), (REG_USP, 0x1000)])"
  have "fst (stackPush SIZE_WORD 0x12345 ?s) = Inr ()" by code_simp
  note p = runs [OF this]
  moreover have "take_bit (bits_of SIZE_WORD) 0x12345 = (0x2345 :: 32 word)" "rval ?s REG_USP - size_w SIZE_WORD = 0xFFE" by code_simp+
  moreover have "reg_buffer (registers ?s) = regs [(REG_SR, 0x1F), (REG_USP, 0x1000)]" by (simp add: machine_def)
  ultimately show ?thesis using stack_push_pop [OF p] by metis
qed

theorem operand_text_same_length_witness:
  "\<exists>str. effectiveAddress ADDR_MODE_IMMEDIATE REG_D0 SIZE_WORD read_demo = (Inr str, rput read_demo REG_PC 2)"
proof -
  have "fst (getData ADDR_MODE_IMMEDIATE REG_D0 SIZE_WORD read_demo) = Inr 0x1234" "pc_of read_demo = 0" by code_simp+
  note g = runs [OF this(1)] and pc = this(2)
  from operand_text_same_length [OF _ g] pc show ?thesis
    by (auto simp del: effectiveAddress.simps)
qed

theorem flags_independent_witness:
  "Registers_get_flag (Registers_set_flag Registers_new SR_FLAG_ZERO True) SR_FLAG_CARRY = False \<and>
   reg_buffer (Registers_set_flag Registers_new SR_FLAG_ZERO True) REG_D0 = 0"
proof -
  have "\<not> Registers_get_flag Registers_new SR_FLAG_CARRY" "reg_buffer Registers_new REG_D0 = 0" by code_simp+
  then show ?thesis using flags_independent [of Registers_new SR_FLAG_ZERO True SR_FLAG_CARRY] by simp
qed

theorem stack_pointer_banking_witness:
  "\<exists>rs'. Registers_set (Registers_set_flag Registers_new SR_FLAG_SUPERVISOR True) REG_A7 SIZE_WORD 0x12000 = Inr rs' \<and>
     reg_buffer rs' REG_USP = 0 \<and> Registers_get rs' REG_A7 SIZE_LONG = Inr 0x2000 \<and> stack_ptr rs' = REG_SSP"
proof -
  let ?rs = "Registers_set_flag Registers_new SR_FLAG_SUPERVISOR True"
  obtain rs' where r: "Registers_set ?rs REG_A7 SIZE_WORD 0x12000 = Inr rs'"
    by (simp add: Registers_set_eq)
  have s: "supervisor ?rs" "reg_buffer ?rs REG_USP = 0" "reg_buffer ?rs REG_SSP = 0" by code_simp+
  have low: "q = take_bit 16 v" if "\<forall>n. bit q n \<longleftrightarrow> n < 16 \<and> bit v n" for q v :: "32 word"
    using that by (intro bit_word_eqI) (simp add: bit_take_bit_iff)
  note b = stack_pointer_banking [OF r, simplified s if_True]
  from b s have "reg_buffer rs' REG_SSP = take_bit 16 0x12000" by (intro low) simp
  with b r s show ?thesis by (simp add: take_bit_eq_mod)
qed

section \<open>Decoded instructions\<close>

lemma decodes: "decode_spec opc = i \<Longrightarrow> Decode generateOpcodeTable opc = i"
  by (simp add: Decode_spec)

theorem alu_instructions_meet_spec_witness:
  "\<exists>A t. alu_spec (Decode generateOpcodeTable 0xD081) = Some A \<and>
     execute (Decode generateOpcodeTable 0xD081) add_demo = (Inr (), t) \<and> alu_meets A add_demo t"
proof -
  have d: "Decode generateOpcodeTable 0xD081 = I_Add (Add_new 0xD081)"
    by (rule decodes) code_simp
  obtain A where A: "alu_spec (I_Add (Add_new 0xD081)) = Some A" by simp
  have "fst (execute (I_Add (Add_new 0xD081)) add_demo) = Inr ()" by code_simp
  from alu_instructions_meet_spec [of "0xD081", unfolded d, OF A runs [OF this]] A runs [OF this]
  show ?thesis unfolding d by blast
qed

text \<open>\<open>cmpa.w d1, a0\<close> with a negative source.\<close>

definition cmpa_demo :: CPUState where
  "cmpa_demo = machine [0xB0, 0xC1] (regs [(REG_D1, 0xFFFF), (REG_A0, 5)])"

theorem effects_meet_spec_witness:
  "\<exists>E t. effect_spec (Decode generateOpcodeTable 0xB0C1) = Some E \<and>
     execute (Decode generateOpcodeTable 0xB0C1) cmpa_demo = (Inr (), t) \<and> effect_meets E cmpa_demo t \<and>
     \<not> flag t SR_FLAG_CARRY"
proof -
  have d: "Decode generateOpcodeTable 0xB0C1 = I_Cmpa (Cmpa_new 0xB0C1)"
    by (rule decodes) code_simp
  obtain E where E: "effect_spec (I_Cmpa (Cmpa_new 0xB0C1)) = Some E" by simp
  have "fst (execute (I_Cmpa (Cmpa_new 0xB0C1)) cmpa_demo) = Inr ()" by code_simp
  note r = runs [OF this]
  have "\<not> flag (snd (execute (I_Cmpa (Cmpa_new 0xB0C1)) cmpa_demo)) SR_FLAG_CARRY" by code_simp
  with effects_meet_spec [of "0xB0C1", unfolded d, OF E r] E r
  show ?thesis unfolding d by blast
qed

text \<open>A call with a displacement, and a return: \<open>jsr 6(a0)\<close>.\<close>

definition call_demo :: CPUState where
  "call_demo = machine [0x4E, 0xA8, 0, 6] (regs [(REG_A0, 0x100), (REG_USP, 0x1000)])"

theorem call_then_return_witness:
  "\<exists>t u. execute (Decode generateOpcodeTable 0x4EA8) call_demo = (Inr (), t) \<and> pc_of t = 0x106 \<and>
     execute (I_Rts (Rts_new 0x4E75)) t = (Inr (), u) \<and> pc_of u = 4"
proof -
  have d: "Decode generateOpcodeTable 0x4EA8 = I_Jsr (Jsr_new 0x4EA8)"
    by (rule decodes) code_simp
  have "fst (execute (I_Jsr (Jsr_new 0x4EA8)) call_demo) = Inr ()" by code_simp
  note r = runs [OF this]
  have "pc_of (snd (execute (I_Jsr (Jsr_new 0x4EA8)) call_demo)) = 0x106"
    "pc_of call_demo + 2 + ext_bytes (Jsr.dest_mode (Jsr_new 0x4EA8)) (Jsr.data_size (Jsr_new 0x4EA8)) = 4"
    by code_simp+
  with call_then_return [OF d r] r show ?thesis unfolding d resumed_def by metis
qed

text \<open>A step of a machine whose next instruction is known.\<close>

lemma state_cpu [simp]: "state (cpu s) = s"
  by (simp add: cpu_def)

lemma at_cpu:
  assumes "BaseMemory_get (memory s) (ucast (pc_of s)) SIZE_WORD = Inr w" and "decode_spec (ucast w) = i"
  shows "at_instruction (cpu s) i"
  using assms by (simp add: at_instruction_def cpu_def Decode_spec)

lemma step_cpu:
  assumes "at_instruction (cpu s) i" and "fst (execute i s) = r"
  shows "CPU_step (cpu s) = (r, cpu (snd (execute i s)))"
  using assms by (simp add: step_at on_state_apply) (simp add: cpu_def)

lemma Nop_untouched: "stack_untouched s (snd (execute (I_Nop j) s))"
  by (simp add: stack_untouched_def Nop_execute_def)

text \<open>A call with \<open>jsr 6(a0)\<close>, a NOP, and the return.\<close>

definition nest_demo :: CPUState where
  "nest_demo = machine [0x4E, 0xA8, 0, 6, 0, 0, 0x4E, 0x71, 0x4E, 0x75] (regs [(REG_USP, 0x20)])"

theorem calls_and_returns_nest_witness:
  "\<exists>d e. nested (cpu nest_demo) [] d [4] \<and> pc_of (state d) = 8 \<and> CPU_step d = (Inr (), e) \<and> pc_of (state e) = 4"
proof -
  let ?i = "Jsr_new 0x4EA8" let ?s1 = "snd (execute (I_Jsr ?i) nest_demo)"
  let ?s2 = "snd (execute (I_Nop (Nop_new 0x4E71)) ?s1)"
  have j: "at_instruction (cpu nest_demo) (I_Jsr ?i)" by (rule at_cpu [where w = "0x4EA8"]) code_simp+
  have n: "at_instruction (cpu ?s1) (I_Nop (Nop_new 0x4E71))" by (rule at_cpu [where w = "0x4E71"]) code_simp+
  have r: "at_instruction (cpu ?s2) (I_Rts (Rts_new 0x4E75))" by (rule at_cpu [where w = "0x4E75"]) code_simp+
  have "fst (execute (I_Jsr ?i) nest_demo) = Inr ()" and sp: "rval nest_demo REG_A7 = 0x20"
    and ret: "pc_of nest_demo + 2 + ext_bytes (Jsr.dest_mode ?i) (Jsr.data_size ?i) = 4" by code_simp+
  have "nested (cpu nest_demo) [] (cpu ?s1) [pc_of nest_demo + 2 + ext_bytes (Jsr.dest_mode ?i) (Jsr.data_size ?i)]"
    by (rule nested.jsr [OF nested.start j step_cpu [OF j \<open>fst (execute (I_Jsr ?i) nest_demo) = Inr ()\<close>], unfolded state_cpu])
      (simp add: sp_of_def sp)
  moreover have "reachable (cpu ?s1) (cpu ?s2)"
    by (rule reachable.step [OF reachable.start step_cpu [OF n refl]])
  moreover have "stack_untouched ?s1 ?s2" by (rule Nop_untouched)
  ultimately have run: "nested (cpu nest_demo) [] (cpu ?s2) [4]"
    unfolding ret using nested.local [of "cpu nest_demo" "[]" "cpu ?s1" _ "cpu ?s2"] unfolding state_cpu by blast
  have "return_stack (state (cpu nest_demo)) []"
    unfolding state_cpu return_stack_def sp_of_def sp by (simp add: full_def nest_demo_def machine_def ram_def)
  from calls_and_returns_nest [OF decoder_ok_cpu this run r]
  obtain e where "CPU_step (cpu ?s2) = (Inr (), e)"
    and "state e = rput (rput (state (cpu ?s2)) REG_A7 (rval (state (cpu ?s2)) REG_A7 + 4)) REG_PC 4" by blast
  moreover from this(2) have "pc_of (state e) = 4" by (simp only: pc_rput)
  moreover have "pc_of (state (cpu ?s2)) = 8" unfolding state_cpu by code_simp
  ultimately show ?thesis using run by blast
qed

text \<open>\<open>move.w (a1)+,(a0)\<close> with a destination outside the memory: the source register has been stepped.\<close>

definition fail_demo :: CPUState where
  "fail_demo = machine [0x30, 0x99] (regs [(REG_A0, 1), (REG_A1, 8), (REG_D0, 7), (REG_SR, 5)])"

theorem failed_step_effects_witness:
  "\<exists>d. CPU_step (cpu fail_demo) = (Inl Length_error, d) \<and> rval (state d) REG_A1 = 10 \<and>
     memory (state d) = memory fail_demo \<and> rval (state d) REG_D0 = 7 \<and> flag (state d) SR_FLAG_ZERO"
proof -
  let ?i = "I_Move (Move_new 0x3099)" let ?d = "cpu (snd (execute ?i fail_demo))"
  have i: "at_instruction (cpu fail_demo) ?i" by (rule at_cpu [where w = "0x3099"]) code_simp+
  have "fst (execute ?i fail_demo) = Inl Length_error" by code_simp
  from step_cpu [OF i this] have s: "CPU_step (cpu fail_demo) = (Inl Length_error, ?d)" .
  have "rval (snd (execute ?i fail_demo)) REG_A1 = 10" "rval fail_demo REG_D0 = 7" "flag fail_demo SR_FLAG_ZERO"
    by code_simp+
  moreover note failed_step_effects [OF decoder_ok_cpu s, of REG_D0]
  ultimately show ?thesis using s by (auto simp: cpu_def)
qed

text \<open>\<open>beq\<close> with a byte displacement of 16, taken; and \<open>bsr.w\<close>.\<close>

definition branch_demo :: CPUState where
  "branch_demo = machine [0x67, 0x10, 0, 0x20] (regs [(REG_SR, 4), (REG_USP, 0x1000)])"

theorem branch_taken_or_not_witness:
  "Bcc_execute (Bcc_new 0x67FC) branch_demo = (Inr (), rput branch_demo REG_PC (- 2))"
proof -
  have "fst (Bcc_execute (Bcc_new 0x67FC) branch_demo) = Inr ()" by code_simp
  note r = runs [OF this]
  have c: "Bcc.condition (Bcc_new 0x67FC) \<noteq> COND_FALSE" by code_simp
  have "fst (checkCondition (getCondition (drop_bit 8 0x67FC AND 0xF)) branch_demo) = Inr True"
    "pc_of branch_demo = 0" "ucast (0x67FC :: 16 word) = (0xFC :: 8 word)" "sint (0xFC :: 8 word) = - 4"
    by code_simp+
  with branch_taken_or_not [OF r c] r show ?thesis by simp
qed

theorem branch_text_is_target_witness:
  "\<exists>mnemonic u. Bcc_disassembly (Bcc_new 0x6710) branch_demo = (Inr (mnemonic @ '' $'' @ hex (18 :: 32 word)), u)"
proof -
  have "fst (Bcc_execute (Bcc_new 0x6710) branch_demo) = Inr ()" by code_simp
  note r = runs [OF this]
  have "Bcc.condition (Bcc_new 0x6710) \<noteq> COND_FALSE" by code_simp
  moreover have "fst (checkCondition (Bcc.condition (Bcc_new 0x6710)) branch_demo) = Inr True" by code_simp
  moreover have "pc_of (snd (Bcc_execute (Bcc_new 0x6710) branch_demo)) = 18" by code_simp
  ultimately show ?thesis using branch_text_is_target [OF r] by metis
qed

theorem subroutine_branch_return_witness:
  "\<exists>t u. Bcc_execute (Bcc_new 0x6100) branch_demo = (Inr (), t) \<and> pc_of t = 0x22 \<and>
     Rts_execute (Rts_new 0x4E75) t = (Inr (), u) \<and> pc_of u = 2"
proof -
  have "fst (Bcc_execute (Bcc_new 0x6100) branch_demo) = Inr ()" by code_simp
  note r = runs [OF this]
  have "Bcc.condition (Bcc_new 0x6100) = COND_FALSE" "pc_of (snd (Bcc_execute (Bcc_new 0x6100) branch_demo)) = 0x22"
    "pc_of branch_demo + 2 = 2" by code_simp+
  with subroutine_branch_return [OF r] r show ?thesis unfolding resumed_def by metis
qed

text \<open>\<open>link a6, #-8\<close>.\<close>

definition link_demo :: CPUState where
  "link_demo = machine [0x4E, 0x56, 0xFF, 0xF8] (regs [(REG_A6, 0x77), (REG_USP, 0x1000)])"

theorem link_then_unlk_witness:
  "\<exists>t u. execute (Decode generateOpcodeTable 0x4E56) link_demo = (Inr (), t) \<and> rval t REG_A7 = 0xFF4 \<and>
     execute (I_Unlk (Unlk_new 0x4E5E)) t = (Inr (), u) \<and> rval u REG_A6 = 0x77 \<and> rval u REG_A7 = 0x1000"
proof -
  have d: "Decode generateOpcodeTable 0x4E56 = I_Link (Link_new 0x4E56)"
    by (rule decodes) code_simp
  have "fst (execute (I_Link (Link_new 0x4E56)) link_demo) = Inr ()" by code_simp
  note r = runs [OF this]
  have "Link.addr_reg (Link_new 0x4E56) = REG_A6" "Unlk.addr_reg (Unlk_new 0x4E5E) = REG_A6"
    "rval link_demo REG_A6 = 0x77" "rval link_demo REG_A7 = 0x1000"
    "rval (snd (execute (I_Link (Link_new 0x4E56)) link_demo)) REG_A7 = 0xFF4"
    by code_simp+
  with link_then_unlk [OF d r, of "Unlk_new 0x4E5E"] r show ?thesis unfolding d by force
qed

theorem instruction_errors_witness:
  "fst (execute (Decode generateOpcodeTable 0x4AFC) branch_demo) = Inl Invalid_argument \<and>
   is_Illegal (Decode generateOpcodeTable 0x4AFC)"
proof -
  have d: "Decode generateOpcodeTable 0x4AFC = I_Illegal (Illegal_new 0x4AFC)"
    by (rule decodes) code_simp
  have e: "fst (execute (I_Illegal (Illegal_new 0x4AFC)) branch_demo) = Inl Invalid_argument" by code_simp
  from instruction_errors [of "0x4AFC", unfolded d, OF runs [OF e]] e show ?thesis unfolding d by blast
qed

text \<open>An arithmetic shift of the byte -75 to the right by 5: a negative number comes out as not negative.\<close>

definition asr_demo :: CPUState where
  "asr_demo = machine [0xE8, 0x20] (regs [(REG_D0, 0xB5)])"

theorem shift_condition_codes_witness:
  "\<exists>t. execute (Decode generateOpcodeTable 0xE820) asr_demo = (Inr (), t) \<and>
     ccr_of t = (True, False, False, False, True)"
proof -
  let ?i = "BitShift_new 0xE820"
  have d: "Decode generateOpcodeTable 0xE820 = I_BitShift ?i" by (rule decodes) code_simp
  have i: "BitShift.instruction_type ?i = AS" "shift_count ?i asr_demo + bits_of (BitShift.data_size ?i) \<le> 64"
    "shift_operand ?i asr_demo = Inr 0xB5" by code_simp+
  have "fst (execute (I_BitShift ?i) asr_demo) = Inr ()" by code_simp
  note r = runs [OF this]
  have "shift_ccr (direction_left ?i) (BitShift.data_size ?i) (unat (0xB5 :: 32 word)) (shift_count ?i asr_demo) =
    (True, False, False, False, True)" by code_simp
  moreover from i have "BitShift.instruction_type ?i \<in> {AS, LS}"
    "BitShift.instruction_type ?i = LS \<or> direction_left ?i \<or> shift_count ?i asr_demo + bits_of (BitShift.data_size ?i) \<le> 64" by simp_all
  note shift_condition_codes [OF d r this]
  ultimately show ?thesis using r i(3) unfolding d by force
qed
section \<open>Comparison, bits, multiplication and division\<close>

text \<open>\<open>cmp.b d1, d0\<close> with 1 in \<open>d1\<close> and -128 in \<open>d0\<close>.\<close>

definition cmp_demo :: CPUState where
  "cmp_demo = machine [0xB0, 0x01] (regs [(REG_D0, 0x80), (REG_D1, 1)])"

lemma cmp_demo_runs: "execute (Cmp_create 0xB001) cmp_demo = (Inr (), snd (execute (Cmp_create 0xB001) cmp_demo))"
  by (rule runs) code_simp


theorem compare_condition_exact_witness:
  "\<exists>t. execute (Cmp_create 0xB001) cmp_demo = (Inr (), t) \<and>
     checkCondition COND_LESS_THAN t \<noteq> (Inr (compare_spec COND_LESS_THAN SIZE_BYTE 0x80 1), t) \<and>
     checkCondition COND_LOWER_SAME t = (Inr (compare_spec COND_LOWER_SAME SIZE_BYTE 0x80 1), t)"
proof -
  let ?i = "Cmp_new 0xB001" let ?t = "snd (execute (Cmp_create 0xB001) cmp_demo)"
  have v: "ins_is_valid (Cmp_create 0xB001)" and z: "Cmp.data_size ?i = SIZE_BYTE" by code_simp+
  have d: "take_bit 8 (rval (rput cmp_demo REG_PC (pc_of cmp_demo + 2)) (Cmp.dest_reg ?i)) = 0x80" by code_simp
  have "fst (getData (Cmp.src_mode ?i) (Cmp.src_reg ?i) SIZE_BYTE (rput cmp_demo REG_PC (pc_of cmp_demo + 2))) = Inr 1"
    "Cmp.src_mode ?i = ADDR_MODE_DIRECT_DATA" by code_simp+
  then have g: "getData (Cmp.src_mode ?i) (Cmp.src_reg ?i) SIZE_BYTE (rput cmp_demo REG_PC (pc_of cmp_demo + 2)) =
      (Inr 1, rput cmp_demo REG_PC (pc_of cmp_demo + 2))"
    by (auto simp: regs_get_def)
  have e: "checkCondition cond ?t = (Inr (compare_spec cond SIZE_BYTE 0x80 1), ?t) \<longleftrightarrow> comes_out cond SIZE_BYTE 0x80 1" for cond
    using compare_condition_exact [OF v cmp_demo_runs] d by (auto simp: z g)
  have "\<not> comes_out COND_LESS_THAN SIZE_BYTE 0x80 1" "comes_out COND_LOWER_SAME SIZE_BYTE 0x80 1" by code_simp+
  then show ?thesis using e [of COND_LESS_THAN] e [of COND_LOWER_SAME] cmp_demo_runs by blast
qed

text \<open>\<open>bset d1, d0\<close>; \<open>muls d1, d0\<close>; \<open>divs d1, d0\<close>; \<open>divu d2, d0\<close>, a division by zero.\<close>

definition arith_demo :: CPUState where
  "arith_demo = machine [] (regs [(REG_D0, 100), (REG_D1, 0xFFF9)])"

lemma getData_d1: "getData ADDR_MODE_DIRECT_DATA REG_D1 SIZE_WORD (rput arith_demo REG_PC p) =
    (Inr 0xFFF9, rput arith_demo REG_PC p)"
proof -
  have "take_bit 16 (rval arith_demo REG_D1) = 0xFFF9" by code_simp
  then show ?thesis by (simp add: regs_get_rval)
qed

lemma set_bit_eq: "\<forall>j. bit q j = (if j = k then True else bit v j) \<Longrightarrow> k < 32 \<Longrightarrow> q = set_bit k v" for q v :: "32 word"
  by (rule bit_word_eqI) (auto simp: bit_set_bit_iff)

theorem bit_instruction_changes_one_bit_witness:
  "\<exists>t. execute (BitManip_create 0x03C0) arith_demo = (Inr (), t) \<and> rval t REG_D0 = 0x02000064 \<and>
     flag t SR_FLAG_ZERO"
proof -
  let ?s = "rput arith_demo REG_PC (pc_of arith_demo + 2)"
  have r: "execute (BitManip_create 0x03C0) arith_demo = (Inr (), snd (execute (BitManip_create 0x03C0) arith_demo))"
    by (rule runs) code_simp
  have f: "BitManip.src_mode (BitManip_new 0x03C0) = ADDR_MODE_DIRECT_DATA" "BitManip.src_reg (BitManip_new 0x03C0) = REG_D1"
    "BitManip.data_size (BitManip_new 0x03C0) = SIZE_LONG" "BitManip.dest_mode (BitManip_new 0x03C0) = ADDR_MODE_DIRECT_DATA"
    "BitManip.dest_reg (BitManip_new 0x03C0) = REG_D0" "BitManip.instruction_type (BitManip_new 0x03C0) = BSET"
    by code_simp+
  have d: "rval arith_demo REG_D0 = 100" "rval arith_demo REG_D1 = 0xFFF9" "\<not> bit (100 :: 32 word) 25" by code_simp+
  from bit_instruction_changes_one_bit [OF r] obtain q s2 where
    q: "\<forall>j. bit q j = (if j = 25 then True else bit (100 :: 32 word) j)"
    and s2: "setData ADDR_MODE_DIRECT_DATA REG_D0 SIZE_LONG q ?s = (Inr (), s2)"
    and t: "snd (execute (BitManip_create 0x03C0) arith_demo) = fput s2 SR_FLAG_ZERO True"
    unfolding f by (auto simp: d Let_def cong: if_cong)
  have "q = set_bit 25 100" using q set_bit_eq [of q 25 100] by simp
  also have "set_bit 25 (100 :: 32 word) = 0x02000064" by code_simp
  finally show ?thesis using r t s2 by auto
qed

theorem multiply_exact_witness:
  "\<exists>t. execute (Mul_create 0xC1C1) arith_demo = (Inr (), t) \<and> sint (rval t REG_D0) = -700"
proof -
  let ?s = "rput arith_demo REG_PC (pc_of arith_demo + 2)"
  have r: "execute (Mul_create 0xC1C1) arith_demo = (Inr (), snd (execute (Mul_create 0xC1C1) arith_demo))"
    by (rule runs) code_simp
  have f: "Mul.src_mode (Mul_new 0xC1C1) = ADDR_MODE_DIRECT_DATA" "Mul.src_reg (Mul_new 0xC1C1) = REG_D1"
    "Mul.dest_reg (Mul_new 0xC1C1) = REG_D0" "Mul.is_signed (Mul_new 0xC1C1)"
    by code_simp+
  have d: "rval arith_demo REG_D0 = 100" by code_simp
  have p: "sint (0xFFF9 :: 16 word) * sint (100 :: 16 word) = -700" by code_simp
  from multiply_exact [OF r] f have "sint (rval (snd (execute (Mul_create 0xC1C1) arith_demo)) REG_D0) =
      sint (0xFFF9 :: 16 word) * sint (100 :: 16 word)"
    by (auto simp: getData_d1 d Let_def simp del: getData.simps)
  with r p show ?thesis by auto
qed

theorem divide_exact_witness:
  "\<exists>t. execute (Div_create 0x81C1) arith_demo = (Inr (), t) \<and>
     division_result True 0xFFF9 100 (rval t REG_D0)"
proof -
  have r: "execute (Div_create 0x81C1) arith_demo = (Inr (), snd (execute (Div_create 0x81C1) arith_demo))"
    by (rule runs) code_simp
  have f: "Div.src_mode (Div_new 0x81C1) = ADDR_MODE_DIRECT_DATA" "Div.src_reg (Div_new 0x81C1) = REG_D1"
    "Div.dest_reg (Div_new 0x81C1) = REG_D0" "Div.is_signed (Div_new 0x81C1) = True"
    by code_simp+
  have d: "rval arith_demo REG_D0 = 100" by code_simp
  from divide_exact [OF r] f have "division_result True 0xFFF9 100 (rval (snd (execute (Div_create 0x81C1) arith_demo)) REG_D0)"
    by (auto simp: getData_d1 d Let_def simp del: getData.simps)
  with r show ?thesis by auto
qed

theorem divide_by_zero_undefined_witness:
  "fst (execute (Div_create 0x80C2) arith_demo) = Inl Undefined_behaviour"
proof -
  let ?s = "rput arith_demo REG_PC (pc_of arith_demo + 2)"
  have "fst (getData (Div.src_mode (Div_new 0x80C2)) (Div.src_reg (Div_new 0x80C2)) SIZE_WORD ?s) = Inr 0" by code_simp
  from divide_by_zero_undefined [OF runs [OF this]] show ?thesis by simp
qed

section \<open>Copies, addresses, text, a program\<close>

theorem text_follows_execution_witness:
  "\<exists>u. disassembly (Decode generateOpcodeTable 0xD081) add_demo = (Inr ''add.l d1, d0'', u) \<and> pc_of u = 2"
proof -
  have d: "Decode generateOpcodeTable 0xD081 = I_Add (Add_new 0xD081)"
    by (rule decodes) code_simp
  have "fst (execute (I_Add (Add_new 0xD081)) add_demo) = Inr ()" by code_simp
  from text_follows_execution [of "0xD081", unfolded d, OF _ runs [OF this]]
  obtain str u where "disassembly (I_Add (Add_new 0xD081)) add_demo = (Inr str, u)"
    and "pc_of u = pc_of (snd (execute (I_Add (Add_new 0xD081)) add_demo))"
    by auto
  moreover have "pc_of (snd (execute (I_Add (Add_new 0xD081)) add_demo)) = 2" by code_simp
  moreover have "fst (disassembly (I_Add (Add_new 0xD081)) add_demo) = Inr ''add.l d1, d0''" by code_simp
  ultimately show ?thesis unfolding d by auto
qed

text \<open>\<open>lsr.l #1, d0\<close>; \<open>movea.w d1, a0\<close>; \<open>lea 6(a0), a1\<close>.\<close>

theorem shift_result_discarded_witness:
  "\<exists>t. execute (BitShift_create 0xE288) arith_demo = (Inr (), t) \<and> rval t REG_D0 = 100"
proof -
  have "fst (execute (BitShift_create 0xE288) arith_demo) = Inr ()" by code_simp
  note r = runs [OF this]
  have "rval arith_demo REG_D0 = 100" by code_simp
  with shift_result_discarded [OF r] r show ?thesis by auto
qed

theorem move_copies_witness:
  "\<exists>t. execute (Decode generateOpcodeTable 0x3041) arith_demo = (Inr (), t) \<and> rval t REG_A0 = 0xFFFFFFF9"
proof -
  let ?i = "Move_new 0x3041"
  have d: "Decode generateOpcodeTable 0x3041 = I_Move ?i"
    by (rule decodes) code_simp
  have "fst (execute (I_Move ?i) arith_demo) = Inr ()" by code_simp
  note r = runs [OF this]
  have f: "Move.src_mode ?i = ADDR_MODE_DIRECT_DATA" "Move.src_reg ?i = REG_D1" "Move.data_size ?i = SIZE_WORD"
    "Move.dest_reg ?i = REG_A0" "is_movea ?i = True" by code_simp+
  have "word_of_int (sval SIZE_WORD (0xFFF9 :: 32 word)) = (0xFFFFFFF9 :: 32 word)" by code_simp
  with move_copies [OF d r] r show ?thesis unfolding d f
    by (auto simp: getData_d1 simp del: getData.simps)
qed

theorem address_instructions_witness:
  "\<exists>t. execute (Decode generateOpcodeTable 0x43E8) call_demo = (Inr (), t) \<and>
     address_used ADDR_MODE_INDIRECT_DISPLACEMENT REG_A0 call_demo (rval t REG_A1) \<and> pc_of t = 4"
proof -
  let ?i = "Lea_new 0x43E8"
  have d: "Decode generateOpcodeTable 0x43E8 = I_Lea ?i"
    by (rule decodes) code_simp
  have "fst (execute (I_Lea ?i) call_demo) = Inr ()" by code_simp
  note r = runs [OF this]
  have f: "Lea.src_mode ?i = ADDR_MODE_INDIRECT_DISPLACEMENT" "Lea.src_reg ?i = REG_A0" "Lea.addr_reg ?i = REG_A1"
    and p: "pc_of call_demo = 0" and g: "general_reg REG_A1" by code_simp+
  from address_instructions [of "0x43E8", unfolded d, OF r] show ?thesis using r unfolding d f
    by (auto simp: f p g)
qed

text \<open>\<open>add.w d0, d2\<close>; \<open>addx.w d1, d3\<close>: a sum of two 32-bit numbers in two words each.\<close>

definition chain_demo :: CPUState where
  "chain_demo = machine [] (regs [(REG_D0, 0xFFFF), (REG_D1, 7), (REG_D2, 2), (REG_D3, 0x1FFFF)])"

theorem multi_precision_add_witness:
  "\<exists>t. seqE (map execute [I_Add (Add_new 0xD440), I_Addx (Addx_new 0xD741)]) chain_demo = (Inr (), t) \<and>
     limb SIZE_WORD t REG_D2 + 0x10000 * limb SIZE_WORD t REG_D3 + 0x100000000 * of_bool (flag t SR_FLAG_EXTEND) = 0x100070001"
proof -
  have a: "adds SIZE_WORD REG_D0 REG_D2 (I_Add (Add_new 0xD440))" by code_simp
  have x: "list_all2 (adds_extended SIZE_WORD) [(REG_D1, REG_D3)] [I_Addx (Addx_new 0xD741)]" by code_simp
  have p: "apart_regs [(REG_D0, REG_D2), (REG_D1, REG_D3)]" by code_simp
  have l: "limb SIZE_WORD chain_demo REG_D0 = 0xFFFF" "limb SIZE_WORD chain_demo REG_D1 = 7"
    "limb SIZE_WORD chain_demo REG_D2 = 2" "limb SIZE_WORD chain_demo REG_D3 = 0xFFFF"
    by code_simp+
  from multi_precision_add [OF a x p, of chain_demo] show ?thesis by (auto simp: l)
qed
definition sum_demo :: CPUState where
  "sum_demo = machine [0xD0, 0x81, 0x53, 0x81, 0x66, 0xFA] (regs [(REG_D1, 100)])"

theorem sum_loop_runs_witness:
  "\<exists>d. steps 300 (cpu sum_demo) = (Inr (), d) \<and> rval (state d) REG_D0 = 5050 \<and> pc_of (state d) = 6"
proof -
  have m: "sum_loop (memory sum_demo) (pc_of sum_demo)" "rval sum_demo REG_D1 = 100" "rval sum_demo REG_D0 = 0"
    "pc_of sum_demo = 0"
    unfolding sum_loop_def by code_simp+
  have s: "(\<Sum>k \<le> (100 :: nat). k) = 5050" by code_simp
  have st: "state (cpu sum_demo) = sum_demo" by (simp add: cpu_def)
  from sum_loop_runs [OF decoder_ok_cpu, of sum_demo] show ?thesis
    unfolding st m s using m(1) by (auto simp: m s)
qed

text \<open>The routine of \<open>fibonacci.elf\<close>, called with 3.\<close>

definition fib_demo :: CPU where
  "fib_demo = cpu \<lparr>
     memory = \<lparr>baseAddr = (\<lambda>k. if 0x10000 \<le> k \<and> k < 0x1005A then fib_text ! (k - 0x10000) else if k = 0x20007 then 3 else 0),
       memSize = MEMORY_SIZE\<rparr>,
     registers = \<lparr>reg_buffer = regs [(REG_PC, 0x10000), (REG_USP, 0x20000)]\<rparr>\<rparr>"

theorem fibonacci_routine_witness:
  "\<exists>d. run_until 0 fib_demo = Some (Inr (), d) \<and> pc_of (state d) = 0 \<and> rval (state d) REG_D0 = 2"
proof -
  let ?m = "memory (state fib_demo)"
  have m: "full ?m" and code: "\<And>k. 0x10000 \<le> k \<Longrightarrow> k < 0x1005A \<Longrightarrow> baseAddr ?m k = fib_text ! (k - 0x10000)"
    by (simp_all add: fib_demo_def cpu_def full_def)
  have zero: "BaseMemory_get ?m (ucast (of_nat 0x20000 :: 32 word)) SIZE_LONG = Inr 0"
    and three: "BaseMemory_get ?m (ucast (of_nat (0x20000 + 4) :: 32 word)) SIZE_LONG = Inr (of_nat 3)"
    using full_size [OF m] phys_of_nat [of "0x20000"] phys_of_nat [of "0x20004"]
    by (simp_all add: BaseMemory_get_eq fib_demo_def cpu_def)
  have regs: "pc_of (state fib_demo) = 0x10000" "rval (state fib_demo) REG_A7 = of_nat 0x20000"
    by (simp_all add: fib_demo_def cpu_def pc_of_def rval_def bank_def supervisor_def regs_def)
  have fib: "fib 3 = 2" by (simp add: eval_nat_numeral)
  have ok: "decoder_ok fib_demo" "memSize ?m = MEMORY_SIZE" using m by (simp_all add: fib_demo_def decoder_ok_cpu full_def)
  show ?thesis
    using fibonacci_routine [OF ok(1) fib_text_loaded [OF m code] ok(2) regs _ _ _ zero three] fib by auto
qed

text \<open>The routine of \<open>bubblesort.elf\<close>, called with the array 5, -3 at \<open>0x3000\<close>.\<close>

definition sort_demo :: CPU where
  "sort_demo = cpu \<lparr>
     memory = \<lparr>baseAddr = (\<lambda>k. if 0x10000 \<le> k \<and> k < 0x100C6 then bubble_text ! (k - 0x10000)
         else if k = 0x20006 then 0x30 else if k = 0x2000B then 2
         else if k = 0x3003 then 5 else if k = 0x3007 then 0xFD else if 0x3004 \<le> k \<and> k < 0x3007 then 0xFF else 0),
       memSize = MEMORY_SIZE\<rparr>,
     registers = \<lparr>reg_buffer = regs [(REG_PC, 0x10000), (REG_USP, 0x20000)]\<rparr>\<rparr>"

theorem bubblesort_routine_witness:
  "\<exists>d ys. run_until 0 sort_demo = Some (Inr (), d) \<and> map sint ys = [- 3, 5] \<and>
     (\<forall>k<2. BaseMemory_get (memory (state d)) (ucast (of_nat (0x3000 + 4 * k) :: 32 word)) SIZE_LONG = Inr (ys ! k))"
proof -
  let ?m = "memory (state sort_demo)" let ?xs = "[5, - 3] :: 32 word list"
  have m: "full ?m" and code: "\<And>k. 0x10000 \<le> k \<Longrightarrow> k < 0x100C6 \<Longrightarrow> baseAddr ?m k = bubble_text ! (k - 0x10000)"
    by (simp_all add: sort_demo_def cpu_def full_def)
  have get: "BaseMemory_get ?m (ucast (of_nat 0x20000 :: 32 word)) SIZE_LONG = Inr 0"
    "BaseMemory_get ?m (ucast (of_nat (0x20000 + 4) :: 32 word)) SIZE_LONG = Inr (of_nat 0x3000)"
    "BaseMemory_get ?m (ucast (of_nat (0x20000 + 8) :: 32 word)) SIZE_LONG = Inr (of_nat (length ?xs))"
    using full_size [OF m] phys_of_nat [of "0x20000"] phys_of_nat [of "0x20004"] phys_of_nat [of "0x20008"]
    by (simp_all add: BaseMemory_get_eq sort_demo_def cpu_def)
  have table: "\<forall>k<length ?xs. BaseMemory_get ?m (ucast (of_nat (0x3000 + 4 * k) :: 32 word)) SIZE_LONG = Inr (?xs ! k)"
    using full_size [OF m] phys_of_nat [of "0x3000"] phys_of_nat [of "0x3004"]
    by (simp add: BaseMemory_get_eq sort_demo_def cpu_def less_Suc_eq)
  have small: "\<forall>x \<in> set ?xs. - (2 ^ 30) \<le> sint x \<and> sint x < 2 ^ 30" by simp
  have regs: "pc_of (state sort_demo) = 0x10000" "rval (state sort_demo) REG_A7 = of_nat 0x20000"
    by (simp_all add: sort_demo_def cpu_def pc_of_def rval_def bank_def supervisor_def regs_def)
  have ok: "decoder_ok sort_demo" "memSize ?m = MEMORY_SIZE" using m by (simp_all add: sort_demo_def decoder_ok_cpu full_def)
  have sorted: "sort (map sint ?xs) = [- 3, 5]" by simp
  have layout: "even (0x20000 :: nat)" "even (0x3000 :: nat)" "16 \<le> (0x20000 :: nat)" "(0x20000 :: nat) + 12 \<le> 2 ^ 24"
    "0x3000 + 4 * length ?xs \<le> 2 ^ 24" "0x3000 + 4 * length ?xs + 16 \<le> 0x20000 \<or> 0x20000 + 12 \<le> (0x3000 :: nat)"
    "0x3000 + 4 * length ?xs \<le> 0x10000 \<or> 0x100C6 \<le> (0x3000 :: nat)" "0x20000 + 12 \<le> (0x10000 :: nat) \<or> 0x100D6 \<le> (0x20000 :: nat)"
    and ret: "0 < (0x10000 :: 32 word) \<or> 0x100B0 \<le> (0 :: 32 word)" by simp_all
  from bubblesort_routine [OF ok(1) bubble_text_loaded [OF m code] ok(2) regs layout get table small ret]
  obtain d ys where "run_until 0 sort_demo = Some (Inr (), d)" and "map sint ys = sort (map sint ?xs)"
    and "\<forall>k<length ?xs. BaseMemory_get (memory (state d)) (ucast (of_nat (0x3000 + 4 * k) :: 32 word)) SIZE_LONG = Inr (ys ! k)"
    by blast
  then show ?thesis unfolding sorted by (intro exI [where x = d] exI [where x = ys]) simp
qed

end
