(* ===== verification/Spec2Isabelle.thy ===== *)
theory Spec2Isabelle
  imports Cpu Ins_Errors Ins_Failures Ins_Alu Ins_Effects Ins_Chains Ins_Control Call_Stack Ins_Data Ins_Test Ins_Transfer Ins_Shifts Ins_Text Program Program_Tests
    Debug_Print Full_Test Examples
begin

text \<open>
  A verification library for m68k-emu, a C++ library that emulates the Motorola 68000 processor.

  \<^bold>\<open>The program.\<close>  \<open>CPU\<close> (\<open>src/cpu.cpp\<close>) holds a memory, a \<open>CPUState\<close> and an \<open>InstructionDecoder\<close>.
  \<open>CPU::step\<close> reads the opcode at the program counter, asks the decoder for the instruction object
  of the opcode, and calls its virtual \<open>execute\<close> on the state.  The decoder fills its table of
  65536 objects once, from a table of masks (\<open>src/instruction_decoder.cpp\<close>).  There is one class
  per instruction (\<open>src/instructions/*.cpp\<close>): the constructor decodes the fields of the opcode
  and decides validity, \<open>execute\<close> changes the state, \<open>disassembly\<close> writes the text.  They work on
  the state through \<open>CPUState\<close> (\<open>src/cpu_state.cpp\<close>): the addressing modes, the stack and the
  branch conditions, over \<open>Registers\<close> (\<open>src/registers.cpp\<close>) and \<open>IMemory\<close> (\<open>src/memory.cpp\<close>).
\<close>

text \<open>
  \<^bold>\<open>How it is modelled.\<close>  A member function that may change its object and may throw is a function
  \<open>'s \<Rightarrow> (exn + 'a) \<times> 's\<close> (theory \<open>Prelude\<close>): the state is returned with an exception too, since
  the writes made before a throw stay.  The exceptions are those of the code, a failed assertion,
  and \<open>Undefined_behaviour\<close> for operations C++ gives no meaning (division by zero, shifts by 64 or
  more, overflow of \<open>int\<close>).  Integers are words of the width of their C++ type.

  \<^item> \<open>Defines\<close>: the enumerations (\<open>include/defines.hpp\<close>, \<open>include/registers.hpp\<close>).
  \<^item> \<open>Helpers\<close>: masks, shifts, flag tests (\<open>include/helpers.hpp\<close>), and what the flag tests mean for
    the unsigned and signed numbers (\<open>uval\<close>, \<open>sval\<close>) of an operand size.
  \<^item> \<open>Memory\<close>: the byte buffer, \<open>BaseMemory\<close> and the interface \<open>IMemory\<close> as the locale \<open>imemory\<close>.
  \<^item> \<open>Registers\<close>: the register file with the banked stack pointer, and the status register.
  \<^item> \<open>Instruction\<close>: the fields of an opcode (\<open>src/instructions/instruction.cpp\<close>).
  \<^item> \<open>Cpu_State\<close>: stack, addressing modes, conditions (\<open>src/cpu_state.cpp\<close>).
  \<^item> \<open>Disassembler\<close>: the text of operands (\<open>src/disassembler.cpp\<close>).
  \<^item> \<open>Ins_Common\<close>, \<open>Ins_Add\<close>, \<open>Ins_Sub\<close>, \<open>Ins_Logic\<close>, \<open>Ins_Compare\<close>, \<open>Ins_Move\<close>, \<open>Ins_MulDiv\<close>,
    \<open>Ins_Bits\<close>, \<open>Ins_Flow\<close>: the 40 instruction classes, for a class \<open>X\<close> the record \<open>X\<close> of its
    fields, \<open>X_new\<close> for its constructor, \<open>X_execute\<close> and \<open>X_disassembly\<close>.
  \<^item> \<open>Instructions\<close>: \<open>X_create\<close>, the class hierarchy as a datatype, the virtual calls.
  \<^item> \<open>Decoder\<close>: the table of masks, the loops that fill the opcode table, the lookup.
  \<^item> \<open>Cpu\<close>: the machine, its step, and \<open>load_elf\<close>, which loads the sections of a file and lists them on
    \<open>std::cout\<close>.
  \<^item> \<open>Debug_Print\<close>: the text of \<open>CPUState::debugPrint\<close>.
  \<^item> \<open>Test_Functions\<close>: the assertions of the tests (\<open>include/tests_functions.hpp\<close>);  \<open>Unit_Tests\<close> and
    \<open>Program_Tests\<close>: the test programs (\<open>test/test_*.cpp\<close>).  \<open>Full_Test\<close>: the harness that compares
    single instructions with recordings of a real processor (\<open>test/m68k_full_test\<close>).
\<close>

text \<open>
  \<^bold>\<open>What is proved.\<close>

  \<^item> A computation \<^emph>\<open>keeps\<close> a preorder between the state before and after (\<open>Prelude\<close>, locale
    \<open>frame\<close>; \<open>Cpu_Frame\<close>, locales \<open>read_frame\<close>, \<open>flag_frame\<close>, \<open>data_frame\<close>, \<open>cpu_frame\<close>).  All operations and all
    instructions keep every \<open>cpu_frame\<close> (\<open>Ins_Frames\<close>); interpretations in \<open>Cpu_Safety\<close> give memory
    safety and the separation of user and supervisor state, and \<open>Cpu\<close> lifts them to every
    reachable machine.
  \<^item> \<open>Cpu_View\<close> and \<open>Cpu_Modes\<close>: the operations as updates of what a program sees; the stack; the
    agreement of the four address computations with \<open>operand_address\<close>.
  \<^item> \<open>Cpu_Conditions\<close> and \<open>Ins_Test\<close>: conditions after comparisons as relations between numbers, and
    exactly when each of the sixteen comes out right after a CMP.
  \<^item> \<open>Ins_Alu\<close>: one abstract specification of read-modify-write instructions, met by 17 classes.
  \<^item> \<open>Ins_Effects\<close>: one of the instructions that test, compare or store a value, met by 8 classes.
  \<^item> \<open>Ins_Control\<close>, \<open>Ins_Data\<close>, \<open>Ins_Errors\<close>: calls, branches and stack frames; bits, products and
    quotients; what can be thrown.
  \<^item> \<open>Ins_Failures\<close> (locale \<open>failure_frame\<close>): the exceptional exit; a step that throws has written
    nothing but the program counter and address registers.
  \<^item> \<open>Call_Stack\<close>: over whole runs, calls and returns implement a stack of return addresses.
  \<^item> \<open>Ins_Transfer\<close>: copies and addresses.  \<open>Ins_Shifts\<close>: the condition codes of the arithmetic and
    logical shifts as numbers, and that the result of a shift is discarded.
  \<^item> \<open>Ins_Text\<close>: the text of an instruction covers the bytes its execution consumes, by simulation
    rules between the two computations.
  \<^item> \<open>Program\<close>: a loop in machine code runs to its end, through \<open>CPU::step\<close>.
  \<^item> \<open>Cells\<close>, \<open>Machine_Code\<close>, \<open>Code_Rules\<close>: long words in memory, running up to an address, and a rule
    for each instruction form that compiled code uses, on what a program sees of the state.
  \<^item> \<open>Ins_Chains\<close>: ADD followed by ADDX adds numbers of several words or bytes exactly.
  \<^item> \<open>Fibonacci\<close> (locale \<open>fib_routine\<close>: the routine called with an address to stop at),
    \<open>Fibonacci_Test\<close>: the compiled program \<open>test/binary/fibonacci.elf\<close> is correct for every argument.
  \<^item> \<open>Loop_Rules\<close>: triples of total correctness for code in memory, with a rule for counted loops;
    \<open>Bubble_Sort\<close>, the algorithm on lists; \<open>Bubblesort\<close> (locale \<open>bubble_routine\<close>) and \<open>Bubblesort_Test\<close>:
    the compiled program \<open>test/binary/bubblesort.elf\<close> sorts every array of small enough numbers.
  \<^item> \<open>Test_Programs\<close>: loading the two programs, whose listings are given to the character.  \<open>Unit_Tests\<close>, \<open>Program_Tests\<close>: the tests of the
    repository pass on the model, once the unit tests are given the memory they do not construct.
  \<^item> \<open>Full_Test\<close>: the verdict of the harness is the comparison of registers and of every listed byte
    after one step; snapshots as finite maps, and the difference of two of them as a set.
  \<^item> \<open>Decoder\<close>: the table is the first-match specification; every entry is well formed, class by class.
  \<^item> \<open>Cpu\<close>: the image, the output and the failures of \<open>load_elf\<close>.
  \<^item> \<open>Examples\<close>: each property with a hypothesis applied to a concrete machine.
\<close>

text \<open>
  \<^bold>\<open>Bounds.\<close>  Nothing is cut off by fuel: every loop of the code is a structural recursion or, for
  the loop over the opcodes, a function with a termination proof.  Only the loop of the test programs
  (\<open>run_until\<close>) need not end: it is a partial function, and that it ends is proved.  Addresses are 64-bit words
  (\<open>size_t\<close>), as on the hosts the library is built for.

  \<^bold>\<open>Assumptions.\<close>  The bit fields of the status register are laid out from the least significant
  bit; the operands of \<open><<\<close> on streams are evaluated from left to right (C++17; the build file asks
  for C++14, which leaves it open).  The ELF reader is a parameter of \<open>load_elf\<close>;
  \<open>std::cout\<close> is in its default format, in which unsigned numbers are decimal.
  The copy in \<open>CPU cpu = CPU()\<close> is elided, as compilers do (and must, from C++17 on).

  \<^bold>\<open>Not modelled.\<close>  Destructors and the platform wrappers around \<open>aligned_alloc\<close>; the third-party ELFIO; \<open>test_benchmark.cpp\<close>, which measures time;
  the log, the threads and the vendored JSON library of \<open>m68k_full_test\<close>, whose tests are records of what
  the JSON accessors return; the tools.
\<close>

end
